(* ===== verification/Prelude.thy ===== *)
theory Prelude
  imports Main "HOL-Library.Finite_Map" "HOL-Library.List_Lexorder" "HOL-Library.Char_ord"
begin

text \<open>
  What every component shares: Go maps as finite maps read in the order of their sorted keys,
  operations that pass a state along and may fail, and the lemma collections the component
  proofs use.

  A Go map is a value of \<open>'v gomap\<close>; iteration is over \<open>sorted_keys\<close>, as the source
  does (\<open>slices.Sorted(maps.Keys(m))\<close>) wherever the order matters. A Go function with effects
  and an error result is an \<open>op\<close>: it takes the state and returns the result or the error,
  and the state it leaves in either case.
\<close>

named_theorems op_simps \<open>evaluation rules of the operation combinators\<close>
named_theorems keeps_intros \<open>rules that an operation keeps a predicate of the state\<close>


section \<open>Go maps\<close>

type_synonym 'v gomap = "(string, 'v) fmap"

definition sorted_keys :: "'v gomap \<Rightarrow> string list" where
  "sorted_keys m = sorted_list_of_fset (fmdom m)"

definition has_key :: "'v gomap \<Rightarrow> string \<Rightarrow> bool" where
  "has_key m k = (case fmlookup m k of None \<Rightarrow> False | Some _ \<Rightarrow> True)"

definition get_str :: "string gomap \<Rightarrow> string \<Rightarrow> string" where
  "get_str m k = (case fmlookup m k of None \<Rightarrow> [] | Some v \<Rightarrow> v)"

definition map_from :: "string list \<Rightarrow> (string \<Rightarrow> 'v) \<Rightarrow> 'v gomap" where
  "map_from ks f = fmap_of_list (map (\<lambda>k. (k, f k)) ks)"

lemma set_sorted_keys [simp]: "set (sorted_keys m) = fmdom' m"
  by (simp add: sorted_keys_def fmdom'_alt_def)

lemma in_dom_iff [simp]: "k \<in> fmdom' m \<longleftrightarrow> has_key m k"
  by (auto simp: has_key_def fmdom'_notI fmdom'I split: option.splits)

lemma sorted_sorted_keys [simp]: "sorted (sorted_keys m)"
  by (simp add: sorted_keys_def sorted_list_of_fset.rep_eq)

lemma distinct_sorted_keys [simp]: "distinct (sorted_keys m)"
  by (simp add: sorted_keys_def sorted_list_of_fset.rep_eq)

lemma has_key_iff: "has_key m k \<longleftrightarrow> fmlookup m k \<noteq> None"
  by (simp add: has_key_def split: option.splits)

lemma has_key_Some [simp]: "fmlookup m k = Some v \<Longrightarrow> has_key m k"
  by (simp add: has_key_def)

lemma has_key_empty [simp]: "\<not> has_key fmempty k"
  by (simp add: has_key_def)

lemma has_key_upd [simp]: "has_key (fmupd a v m) k \<longleftrightarrow> k = a \<or> has_key m k"
  by (auto simp: has_key_def)

lemma has_key_drop [simp]: "has_key (fmdrop a m) k \<longleftrightarrow> k \<noteq> a \<and> has_key m k"
  by (auto simp: has_key_def)

lemma has_key_add [simp]: "has_key (m ++\<^sub>f n) k \<longleftrightarrow> has_key m k \<or> has_key n k"
  by (auto simp: has_key_iff fmdom_notI fmdomI split: if_splits)

lemma sorted_keys_empty [simp]: "sorted_keys fmempty = []"
  by (simp add: sorted_keys_def sorted_list_of_fset.rep_eq)

lemma map_of_map_pair: "map_of (map (\<lambda>k. (k, f k)) ks) k = (if k \<in> set ks then Some (f k) else None)"
  by (induction ks) auto

lemma lookup_map_from [simp]:
  "fmlookup (map_from ks f) k = (if k \<in> set ks then Some (f k) else None)"
  by (simp add: map_from_def fmlookup_of_list map_of_map_pair)

lemma has_key_map_from [simp]: "has_key (map_from ks f) k \<longleftrightarrow> k \<in> set ks"
  by (simp add: has_key_iff)

lemma sorted_keys_eqI:
  "(\<And>k. has_key m k = has_key n k) \<Longrightarrow> sorted_keys m = sorted_keys n"
  by (rule sorted_distinct_set_unique) auto


section \<open>Operations: a state, and a result or an error\<close>

type_synonym ('s, 'e, 'a) op = "'s \<Rightarrow> ('e + 'a) \<times> 's"

definition ret :: "'a \<Rightarrow> ('s, 'e, 'a) op" where
  "ret x = (\<lambda>s. (Inr x, s))"

definition fail :: "'e \<Rightarrow> ('s, 'e, 'a) op" where
  "fail e = (\<lambda>s. (Inl e, s))"

definition bindE :: "('s, 'e, 'a) op \<Rightarrow> ('a \<Rightarrow> ('s, 'e, 'b) op) \<Rightarrow> ('s, 'e, 'b) op" where
  "bindE m f = (\<lambda>s. case m s of (Inl e, s') \<Rightarrow> (Inl e, s') | (Inr x, s') \<Rightarrow> f x s')"

definition thenE :: "('s, 'e, unit) op \<Rightarrow> ('s, 'e, 'b) op \<Rightarrow> ('s, 'e, 'b) op" where
  "thenE m n = bindE m (\<lambda>_. n)"

definition attempt :: "('s, 'e, 'a) op \<Rightarrow> ('s, 'e, 'e + 'a) op" where
  "attempt m = (\<lambda>s. case m s of (r, s') \<Rightarrow> (Inr r, s'))"

definition on_error :: "('s, 'e, 'a) op \<Rightarrow> ('e \<Rightarrow> ('s, 'e, 'a) op) \<Rightarrow> ('s, 'e, 'a) op" where
  "on_error m h = (\<lambda>s. case m s of (Inl e, s') \<Rightarrow> h e s' | (Inr x, s') \<Rightarrow> (Inr x, s'))"

definition lift_result :: "'e + 'a \<Rightarrow> ('s, 'e, 'a) op" where
  "lift_result r = (\<lambda>s. (r, s))"

definition get_state :: "('s, 'e, 's) op" where
  "get_state = (\<lambda>s. (Inr s, s))"

definition modify :: "('s \<Rightarrow> 's) \<Rightarrow> ('s, 'e, unit) op" where
  "modify f = (\<lambda>s. (Inr (), f s))"

definition when_op :: "bool \<Rightarrow> ('s, 'e, unit) op \<Rightarrow> ('s, 'e, unit) op" where
  "when_op b m = (if b then m else ret ())"

fun for_each :: "'b list \<Rightarrow> ('b \<Rightarrow> ('s, 'e, unit) op) \<Rightarrow> ('s, 'e, unit) op" where
  "for_each [] f = ret ()"
| "for_each (x # xs) f = thenE (f x) (for_each xs f)"

fun fold_op :: "('b \<Rightarrow> 'a \<Rightarrow> ('s, 'e, 'a) op) \<Rightarrow> 'b list \<Rightarrow> 'a \<Rightarrow> ('s, 'e, 'a) op" where
  "fold_op f [] a = ret a"
| "fold_op f (x # xs) a = bindE (f x a) (fold_op f xs)"

lemmas op_defs = ret_def fail_def bindE_def thenE_def attempt_def on_error_def
  lift_result_def get_state_def modify_def when_op_def

lemma run_ret [op_simps]: "ret x s = (Inr x, s)"
  by (simp add: ret_def)

lemma run_fail [op_simps]: "fail e s = (Inl e, s)"
  by (simp add: fail_def)

lemma run_get [op_simps]: "get_state s = (Inr s, s)"
  by (simp add: get_state_def)

lemma run_modify [op_simps]: "modify f s = (Inr (), f s)"
  by (simp add: modify_def)

lemma run_lift [op_simps]: "lift_result r s = (r, s)"
  by (simp add: lift_result_def)

lemma run_bindE [op_simps]:
  "bindE m f s = (case m s of (Inl e, s') \<Rightarrow> (Inl e, s') | (Inr x, s') \<Rightarrow> f x s')"
  by (simp add: bindE_def)

lemma run_thenE [op_simps]:
  "thenE m n s = (case m s of (Inl e, s') \<Rightarrow> (Inl e, s') | (Inr _, s') \<Rightarrow> n s')"
  by (simp add: thenE_def bindE_def)

lemma run_attempt [op_simps]: "attempt m s = (Inr (fst (m s)), snd (m s))"
  by (simp add: attempt_def split: prod.splits)

lemma run_on_error [op_simps]:
  "on_error m h s = (case m s of (Inl e, s') \<Rightarrow> h e s' | (Inr x, s') \<Rightarrow> (Inr x, s'))"
  by (simp add: on_error_def)

lemma run_when [op_simps]: "when_op b m s = (if b then m s else (Inr (), s))"
  by (simp add: when_op_def ret_def)


subsection \<open>Operations that keep a predicate of the state\<close>

definition keeps :: "('s \<Rightarrow> bool) \<Rightarrow> ('s, 'e, 'a) op \<Rightarrow> bool" where
  "keeps I m \<longleftrightarrow> (\<forall>s. I s \<longrightarrow> I (snd (m s)))"

lemma keepsI: "(\<And>s. I s \<Longrightarrow> I (snd (m s))) \<Longrightarrow> keeps I m"
  by (simp add: keeps_def)

lemma keepsD: "keeps I m \<Longrightarrow> I s \<Longrightarrow> I (snd (m s))"
  by (simp add: keeps_def)

lemma keeps_ret [keeps_intros]: "keeps I (ret x)"
  by (simp add: keeps_def ret_def)

lemma keeps_fail [keeps_intros]: "keeps I (fail e)"
  by (simp add: keeps_def fail_def)

lemma keeps_lift [keeps_intros]: "keeps I (lift_result r)"
  by (simp add: keeps_def lift_result_def)

lemma keeps_get [keeps_intros]: "keeps I get_state"
  by (simp add: keeps_def get_state_def)

lemma keeps_bindE [keeps_intros]:
  "keeps I m \<Longrightarrow> (\<And>x. keeps I (f x)) \<Longrightarrow> keeps I (bindE m f)"
  by (fastforce simp: keeps_def bindE_def split: prod.splits sum.splits)

lemma keeps_thenE [keeps_intros]: "keeps I m \<Longrightarrow> keeps I n \<Longrightarrow> keeps I (thenE m n)"
  by (simp add: thenE_def keeps_bindE)

lemma keeps_attempt [keeps_intros]: "keeps I m \<Longrightarrow> keeps I (attempt m)"
  by (simp add: keeps_def run_attempt)

lemma keeps_on_error [keeps_intros]:
  "keeps I m \<Longrightarrow> (\<And>e. keeps I (h e)) \<Longrightarrow> keeps I (on_error m h)"
  by (fastforce simp: keeps_def on_error_def split: prod.splits sum.splits)

lemma keeps_when [keeps_intros]: "(b \<Longrightarrow> keeps I m) \<Longrightarrow> keeps I (when_op b m)"
  by (simp add: keeps_ret when_op_def)

lemma keeps_if [keeps_intros]:
  "(b \<Longrightarrow> keeps I m) \<Longrightarrow> (\<not> b \<Longrightarrow> keeps I n) \<Longrightarrow> keeps I (if b then m else n)"
  by simp

lemma keeps_case_sum [keeps_intros]:
  "(\<And>e. r = Inl e \<Longrightarrow> keeps I (f e)) \<Longrightarrow> (\<And>x. r = Inr x \<Longrightarrow> keeps I (g x)) \<Longrightarrow>
   keeps I (case r of Inl e \<Rightarrow> f e | Inr x \<Rightarrow> g x)"
  by (cases r) simp_all

lemma keeps_case_option [keeps_intros]:
  "(r = None \<Longrightarrow> keeps I n) \<Longrightarrow> (\<And>x. r = Some x \<Longrightarrow> keeps I (g x)) \<Longrightarrow>
   keeps I (case r of None \<Rightarrow> n | Some x \<Rightarrow> g x)"
  by (cases r) simp_all

lemma keeps_case_prod [keeps_intros]:
  "(\<And>x y. p = (x, y) \<Longrightarrow> keeps I (f x y)) \<Longrightarrow> keeps I (case p of (x, y) \<Rightarrow> f x y)"
  by (cases p) simp

lemma keeps_for_each [keeps_intros]:
  "(\<And>x. x \<in> set xs \<Longrightarrow> keeps I (f x)) \<Longrightarrow> keeps I (for_each xs f)"
  by (induction xs) (auto intro: keeps_intros)

lemma keeps_fold_op [keeps_intros]:
  "(\<And>x a. x \<in> set xs \<Longrightarrow> keeps I (f x a)) \<Longrightarrow> keeps I (fold_op f xs a)"
  by (induction xs arbitrary: a) (auto intro: keeps_intros)


section \<open>Results without a state\<close>

definition bindR :: "'e + 'a \<Rightarrow> ('a \<Rightarrow> 'e + 'b) \<Rightarrow> 'e + 'b" where
  "bindR r f = (case r of Inl e \<Rightarrow> Inl e | Inr x \<Rightarrow> f x)"

fun map_result :: "('a \<Rightarrow> 'e + 'b) \<Rightarrow> 'a list \<Rightarrow> 'e + 'b list" where
  "map_result f [] = Inr []"
| "map_result f (x # xs) = bindR (f x) (\<lambda>y. bindR (map_result f xs) (\<lambda>ys. Inr (y # ys)))"

lemma bindR_simps [simp]: "bindR (Inl e) f = Inl e" "bindR (Inr x) f = f x"
  by (simp_all add: bindR_def)

lemma bindR_Inr_iff: "bindR r f = Inr y \<longleftrightarrow> (\<exists>x. r = Inr x \<and> f x = Inr y)"
  by (cases r) simp_all

lemma map_result_Inr:
  "map_result f xs = Inr ys \<Longrightarrow> length ys = length xs \<and> (\<forall>i<length xs. f (xs ! i) = Inr (ys ! i))"
proof (induction xs arbitrary: ys)
  case (Cons x xs)
  then obtain y zs where "f x = Inr y" "map_result f xs = Inr zs" "ys = y # zs"
    by (auto simp: bindR_Inr_iff)
  with Cons.IH show ?case by (auto simp: nth_Cons split: nat.splits)
qed simp


section \<open>Lists\<close>

lemma sorted_strict_eqI:
  fixes xs ys :: "'a::linorder list"
  assumes "sorted xs" "sorted ys" "distinct xs" "distinct ys" "set xs = set ys"
  shows "xs = ys"
  using assms by (rule_tac sorted_distinct_set_unique)

fun dedup_from :: "'a set \<Rightarrow> 'a list \<Rightarrow> 'a list" where
  "dedup_from seen [] = []"
| "dedup_from seen (x # xs) =
     (if x \<in> seen then dedup_from seen xs else x # dedup_from (insert x seen) xs)"

lemma set_dedup_from: "set (dedup_from seen xs) = set xs - seen"
  by (induction xs arbitrary: seen) auto

lemma distinct_dedup_from: "distinct (dedup_from seen xs)"
  by (induction xs arbitrary: seen) (auto simp: set_dedup_from)

fun enum_from :: "nat \<Rightarrow> 'a list \<Rightarrow> (nat \<times> 'a) list" where
  "enum_from n [] = []"
| "enum_from n (x # xs) = (n, x) # enum_from (Suc n) xs"

lemma enum_from_in:
  "(i, x) \<in> set (enum_from n xs) \<longleftrightarrow> n \<le> i \<and> i < n + length xs \<and> x = xs ! (i - n)"
proof (induction xs arbitrary: n)
  case Nil
  then show ?case by simp
next
  case (Cons y ys)
  then show ?case
    by (cases "i = n") (auto simp: nth_Cons' not_less_eq_eq Suc_le_eq)
qed

end
