(* ===== verification/Go_Strings.thy ===== *)
theory Go_Strings
  imports Prelude
begin

text \<open>
  The parts of Go's \<open>strings\<close>, \<open>strconv\<close>, \<open>unicode\<close> and \<open>fmt\<close> the program uses. A Go
  string is a list of bytes, here a \<open>char list\<close>; runes are decoded from it by \<open>decode_rune\<close>,
  which follows Go's treatment of ill-formed UTF-8 (U+FFFD, one byte consumed).
\<close>


section \<open>Searching, cutting, splitting, joining\<close>

definition has_prefix :: "string \<Rightarrow> string \<Rightarrow> bool" where
  "has_prefix s p \<longleftrightarrow> take (length p) s = p"

lemma has_prefix_code [code]:
  "has_prefix s [] = True" "has_prefix [] (c # p) = False"
  "has_prefix (x # s) (c # p) = (if x = c then has_prefix s p else False)"
  by (auto simp: has_prefix_def)

fun contains_str :: "string \<Rightarrow> string \<Rightarrow> bool" where
  "contains_str [] p \<longleftrightarrow> p = []"
| "contains_str (c # s) p \<longleftrightarrow> has_prefix (c # s) p \<or> contains_str s p"

definition contains_char :: "string \<Rightarrow> char \<Rightarrow> bool" where
  "contains_char s c \<longleftrightarrow> List.member s c"

definition trim_prefix :: "string \<Rightarrow> string \<Rightarrow> string" where
  "trim_prefix s p = (if has_prefix s p then drop (length p) s else s)"

text \<open>\<open>strings.Cut\<close> with a separator of one byte: before, after, found.\<close>

fun cut_at :: "char \<Rightarrow> string \<Rightarrow> string \<times> string \<times> bool" where
  "cut_at c [] = ([], [], False)"
| "cut_at c (x # xs) =
     (if x = c then ([], xs, True)
      else case cut_at c xs of (b, a, f) \<Rightarrow> (x # b, a, f))"

text \<open>\<open>strings.Split\<close> with a separator of one byte.\<close>

fun split_on :: "char \<Rightarrow> string \<Rightarrow> string list" where
  "split_on c [] = [[]]"
| "split_on c (x # xs) =
     (if x = c then [] # split_on c xs
      else case split_on c xs of [] \<Rightarrow> [[x]] | y # ys \<Rightarrow> (x # y) # ys)"

fun join :: "string \<Rightarrow> string list \<Rightarrow> string" where
  "join sep [] = []"
| "join sep [x] = x"
| "join sep (x # y # zs) = x @ sep @ join sep (y # zs)"

definition trim_right_char :: "char \<Rightarrow> string \<Rightarrow> string" where
  "trim_right_char c s = rev (dropWhile (\<lambda>x. x = c) (rev s))"

definition trim_char :: "char \<Rightarrow> string \<Rightarrow> string" where
  "trim_char c s = trim_right_char c (dropWhile (\<lambda>x. x = c) s)"

fun replace_char :: "char \<Rightarrow> string \<Rightarrow> string \<Rightarrow> string" where
  "replace_char c r [] = []"
| "replace_char c r (x # xs) = (if x = c then r else [x]) @ replace_char c r xs"

lemma contains_char_iff [simp]: "contains_char s c \<longleftrightarrow> c \<in> set s"
  by (simp add: contains_char_def)

lemma has_prefix_Nil [simp]: "has_prefix s []"
  by (simp add: has_prefix_def)

lemma has_prefix_append [simp]: "has_prefix (p @ s) p"
  by (simp add: has_prefix_def)

lemma has_prefix_iff: "has_prefix s p \<longleftrightarrow> (\<exists>t. s = p @ t)"
  by (metis append_take_drop_id has_prefix_append has_prefix_def)

lemma split_on_not_Nil [simp]: "split_on c s \<noteq> []"
  by (induction s) (auto split: list.splits)

lemma split_on_no_sep: "c \<notin> set s \<Longrightarrow> split_on c s = [s]"
  by (induction s) auto

lemma split_on_append: "c \<notin> set x \<Longrightarrow> split_on c (x @ c # s) = x # split_on c s"
  by (induction x) auto

lemma split_on_join:
  "xs \<noteq> [] \<Longrightarrow> (\<And>x. x \<in> set xs \<Longrightarrow> c \<notin> set x) \<Longrightarrow> split_on c (join [c] xs) = xs"
proof (induction "[c]" xs rule: join.induct)
  case (3 x y zs)
  then show ?case by (simp add: split_on_append)
qed (simp_all add: split_on_no_sep)

lemma join_Cons_hd: "join sep ((x # y) # ys) = x # join sep (y # ys)"
  by (cases ys) simp_all

lemma join_split_on: "join [c] (split_on c s) = s"
proof (induction s)
  case (Cons x s)
  then show ?case
    by (cases "split_on c s") (simp_all add: join_Cons_hd)
qed simp

lemma split_on_parts: "x \<in> set (split_on c s) \<Longrightarrow> c \<notin> set x"
proof (induction s arbitrary: x)
  case (Cons a s)
  then show ?case
    by (cases "split_on c s") (auto split: if_splits list.splits)
qed auto

lemma set_join: "set (join sep xs) \<subseteq> set sep \<union> \<Union> (set ` set xs)"
  by (induction sep xs rule: join.induct) auto

lemma set_join_mem: "x \<in> set xs \<Longrightarrow> set x \<subseteq> set (join sep xs)"
  by (induction sep xs rule: join.induct) auto

lemma split_on_chars: "x \<in> set (split_on c s) \<Longrightarrow> set x \<subseteq> set s"
  using set_join_mem [of x "split_on c s" "[c]"] by (simp add: join_split_on)

lemma cut_at_append: "c \<notin> set x \<Longrightarrow> cut_at c (x @ c # s) = (x, s, True)"
  by (induction x) auto

lemma cut_at_none: "c \<notin> set s \<Longrightarrow> cut_at c s = (s, [], False)"
  by (induction s) auto

lemma cut_at_found: "cut_at c s = (b, a, True) \<Longrightarrow> s = b @ c # a \<and> c \<notin> set b"
proof (induction s arbitrary: b)
  case (Cons x s)
  obtain b' a' f' where "cut_at c s = (b', a', f')" by (cases "cut_at c s") auto
  with Cons show ?case by (cases "x = c") auto
qed simp

lemma set_trim_right_char: "set (trim_right_char c s) \<subseteq> set s"
proof
  fix x assume "x \<in> set (trim_right_char c s)"
  then have "x \<in> set (dropWhile (\<lambda>x. x = c) (rev s))" by (simp add: trim_right_char_def)
  then have "x \<in> set (rev s)" by (rule set_dropWhileD)
  then show "x \<in> set s" by simp
qed

lemma trim_right_char_last: "trim_right_char c s \<noteq> [] \<Longrightarrow> last (trim_right_char c s) \<noteq> c"
  by (metis (mono_tags, lifting) hd_dropWhile last_rev rev_is_Nil_conv trim_right_char_def)

lemma trim_right_char_prefix: "\<exists>t. s = trim_right_char c s @ t \<and> set t \<subseteq> {c}"
proof -
  have "s = rev (dropWhile (\<lambda>x. x = c) (rev s)) @ rev (takeWhile (\<lambda>x. x = c) (rev s))"
    by (metis rev_append rev_rev_ident takeWhile_dropWhile_id)
  moreover have "set (rev (takeWhile (\<lambda>x. x = c) (rev s))) \<subseteq> {c}"
    by (auto dest: set_takeWhileD)
  ultimately show ?thesis unfolding trim_right_char_def by blast
qed

lemma length_trim_right_char: "length (trim_right_char c s) \<le> length s"
  by (metis add_leD1 le_refl length_append trim_right_char_prefix)

lemma trim_right_char_hd:
  assumes "s \<noteq> []" "hd s \<noteq> c"
  shows "trim_right_char c s \<noteq> []" "hd (trim_right_char c s) = hd s"
proof -
  obtain t where s: "s = trim_right_char c s @ t" "set t \<subseteq> {c}" using trim_right_char_prefix by blast
  have "trim_right_char c s = [] \<Longrightarrow> hd s \<in> set t" using s assms(1) by (metis append_Nil hd_in_set)
  then show ne: "trim_right_char c s \<noteq> []" using s(2) assms(2) by blast
  show "hd (trim_right_char c s) = hd s" using s(1) ne by (metis hd_append2)
qed

lemma trim_right_char_append:
  assumes "trim_right_char c t \<noteq> []"
  shows "trim_right_char c (a @ t) = a @ trim_right_char c t"
proof -
  obtain x where "x \<in> set (rev t)" "x \<noteq> c"
    using assms by (auto simp: trim_right_char_def dropWhile_eq_Nil_conv)
  then have "dropWhile (\<lambda>x. x = c) (rev t @ rev a) = dropWhile (\<lambda>x. x = c) (rev t) @ rev a"
    by (rule dropWhile_append1)
  then show ?thesis by (simp add: trim_right_char_def)
qed

lemma set_trim_char: "set (trim_char c s) \<subseteq> set s"
  unfolding trim_char_def using set_trim_right_char by (blast dest: set_dropWhileD)


section \<open>Runes\<close>

abbreviation byte :: "char \<Rightarrow> nat" where
  "byte c \<equiv> of_char c"

definition is_cont :: "nat \<Rightarrow> bool" where
  "is_cont b \<longleftrightarrow> 128 \<le> b \<and> b \<le> 191"

definition rune_error :: nat where
  "rune_error = 65533"

text \<open>
  \<open>utf8.DecodeRuneInString\<close> on a non-empty string: the rune and its width. The accepted range
  of the second byte depends on the first, which rules out overlong forms and surrogates.
\<close>

definition second_ok :: "nat \<Rightarrow> nat \<Rightarrow> bool" where
  "second_ok a b \<longleftrightarrow>
     (if a = 224 then 160 \<le> b \<and> b \<le> 191
      else if a = 237 then 128 \<le> b \<and> b \<le> 159
      else if a = 240 then 144 \<le> b \<and> b \<le> 191
      else if a = 244 then 128 \<le> b \<and> b \<le> 143
      else is_cont b)"

definition decode_rune :: "nat list \<Rightarrow> nat \<times> nat" where
  "decode_rune bs =
     (case bs of
        [] \<Rightarrow> (rune_error, 0)
      | a # r \<Rightarrow>
          (if a < 128 then (a, 1)
           else if 194 \<le> a \<and> a \<le> 223 then
             (case r of b # _ \<Rightarrow>
                if is_cont b then ((a - 192) * 64 + (b - 128), 2) else (rune_error, 1)
              | _ \<Rightarrow> (rune_error, 1))
           else if 224 \<le> a \<and> a \<le> 239 then
             (case r of b # c # _ \<Rightarrow>
                if second_ok a b \<and> is_cont c
                then ((a - 224) * 4096 + (b - 128) * 64 + (c - 128), 3) else (rune_error, 1)
              | _ \<Rightarrow> (rune_error, 1))
           else if 240 \<le> a \<and> a \<le> 244 then
             (case r of b # c # d # _ \<Rightarrow>
                if second_ok a b \<and> is_cont c \<and> is_cont d
                then ((a - 240) * 262144 + (b - 128) * 4096 + (c - 128) * 64 + (d - 128), 4)
                else (rune_error, 1)
              | _ \<Rightarrow> (rune_error, 1))
           else (rune_error, 1)))"

lemma decode_rune_width: "bs \<noteq> [] \<Longrightarrow> 0 < snd (decode_rune bs)"
  by (auto simp: decode_rune_def split: list.splits)

text \<open>A string as the runes Go's \<open>range\<close> visits, each with the bytes it was decoded from.\<close>

function runes :: "string \<Rightarrow> (nat \<times> string) list" where
  "runes s =
     (if s = [] then []
      else let (r, w) = decode_rune (map byte s) in (r, take w s) # runes (drop w s))"
  by pat_completeness auto
termination
proof (relation "measure length")
  fix s :: string and x r w
  assume "s \<noteq> []" and "x = decode_rune (map byte s)" and "(r, w) = x"
  then have "0 < w"
    using decode_rune_width [of "map byte s"] by (metis list.map_disc_iff snd_conv)
  with \<open>s \<noteq> []\<close> show "(drop w s, s) \<in> measure length" by simp
qed simp

declare runes.simps [simp del]

definition is_control_rune :: "nat \<Rightarrow> bool" where
  "is_control_rune r \<longleftrightarrow> r < 32 \<or> (127 \<le> r \<and> r < 160)"

definition is_space_rune :: "nat \<Rightarrow> bool" where
  "is_space_rune r \<longleftrightarrow>
     List.member [9, 10, 11, 12, 13, 32, 133, 160, 5760, 8232, 8233, 8239, 8287, 12288] r
     \<or> (8192 \<le> r \<and> r \<le> 8202)"

text \<open>\<open>strings.TrimSpace\<close>, \<open>strings.Fields\<close>.\<close>

definition trim_space :: "string \<Rightarrow> string" where
  "trim_space s =
     concat (map snd (rev (dropWhile (\<lambda>(r, _). is_space_rune r)
       (rev (dropWhile (\<lambda>(r, _). is_space_rune r) (runes s))))))"

fun fields_of :: "string \<Rightarrow> (nat \<times> string) list \<Rightarrow> string list" where
  "fields_of acc [] = (if acc = [] then [] else [acc])"
| "fields_of acc ((r, b) # rs) =
     (if is_space_rune r then (if acc = [] then fields_of [] rs else acc # fields_of [] rs)
      else fields_of (acc @ b) rs)"

definition str_fields :: "string \<Rightarrow> string list" where
  "str_fields s = fields_of [] (runes s)"


text \<open>On ASCII text the runes are the bytes.\<close>

lemma runes_ascii: "list_all (\<lambda>c. byte c < 128) s \<Longrightarrow> runes s = map (\<lambda>c. (byte c, [c])) s"
proof (induction s)
  case (Cons c s)
  then have "decode_rune (map byte (c # s)) = (byte c, 1)" by (simp add: decode_rune_def)
  with Cons show ?case by (simp add: runes.simps [of "c # s"])
qed (simp add: runes.simps)

text \<open>Words of printable ASCII set apart by single spaces are the fields of the text.\<close>

definition ascii_word :: "string \<Rightarrow> bool" where
  "ascii_word s \<longleftrightarrow> s \<noteq> [] \<and> list_all (\<lambda>c. 33 \<le> byte c \<and> byte c < 127) s"

lemma fields_of_word:
  "list_all (\<lambda>c. 33 \<le> byte c \<and> byte c < 127) w \<Longrightarrow>
   fields_of acc (map (\<lambda>c. (byte c, [c])) w @ rs) = fields_of (acc @ w) rs"
  by (induction w arbitrary: acc) (auto simp: is_space_rune_def)

lemma fields_of_words:
  "list_all ascii_word ws \<Longrightarrow>
   fields_of [] (map (\<lambda>c. (byte c, [c])) (join '' '' ws)) = ws"
proof (induction ws rule: induct_list012)
  case (2 w)
  then show ?case using fields_of_word [of w "[]" "[]"] by (simp add: ascii_word_def)
next
  case (3 x y zs)
  then have "fields_of [] (map (\<lambda>c. (byte c, [c])) x @ (32, '' '') # map (\<lambda>c. (byte c, [c])) (join '' '' (y # zs)))
      = x # y # zs"
    by (subst fields_of_word) (simp_all add: ascii_word_def is_space_rune_def)
  then show ?case by simp
qed simp

lemma join_words_ascii: "list_all ascii_word ws \<Longrightarrow> list_all (\<lambda>c. byte c < 128) (join '' '' ws)"
  by (induction ws rule: induct_list012) (auto simp: ascii_word_def list_all_iff)

lemma str_fields_words: "list_all ascii_word ws \<Longrightarrow> str_fields (join '' '' ws) = ws"
  using fields_of_words join_words_ascii by (simp add: str_fields_def runes_ascii)

section \<open>Numbers\<close>

definition digit_char :: "nat \<Rightarrow> char" where
  "digit_char n = char_of (48 + n)"

definition is_digit :: "char \<Rightarrow> bool" where
  "is_digit c \<longleftrightarrow> 48 \<le> byte c \<and> byte c \<le> 57"

definition digit_val :: "char \<Rightarrow> nat" where
  "digit_val c = byte c - 48"

fun dec :: "nat \<Rightarrow> string" where
  "dec n = (if n < 10 then [digit_char n] else dec (n div 10) @ [digit_char (n mod 10)])"

declare dec.simps [simp del]

definition itoa :: "int \<Rightarrow> string" where
  "itoa n = (if n < 0 then CHR ''-'' # dec (nat (- n)) else dec (nat n))"

definition digits_value :: "string \<Rightarrow> nat" where
  "digits_value s = foldl (\<lambda>n c. 10 * n + digit_val c) 0 s"

text \<open>\<open>strconv.ParseUint\<close> in base 10; \<open>bits\<close> is the width it must fit.\<close>

definition parse_uint :: "nat \<Rightarrow> string \<Rightarrow> nat option" where
  "parse_uint bits s =
     (if s \<noteq> [] \<and> list_all is_digit s \<and> digits_value s < 2 ^ bits
      then Some (digits_value s) else None)"

text \<open>\<open>strconv.Atoi\<close> and \<open>strconv.ParseInt(s, 10, 64)\<close>: an optional sign, then digits, in 64 bits.\<close>

definition parse_int :: "string \<Rightarrow> int option" where
  "parse_int s =
     (let (neg, ds) = (case s of
          [] \<Rightarrow> (False, [])
        | c # r \<Rightarrow> if c = CHR ''-'' then (True, r)
                   else if c = CHR ''+'' then (False, r) else (False, s))
      in if ds = [] \<or> \<not> list_all is_digit ds then None
         else let v = int (digits_value ds) in
           if neg then (if v \<le> 2 ^ 63 then Some (- v) else None)
           else (if v < 2 ^ 63 then Some v else None))"

lemma byte_digit_char: "n < 10 \<Longrightarrow> byte (digit_char n) = 48 + n"
  by (simp add: digit_char_def)

lemma digit_char_digit: "n < 10 \<Longrightarrow> is_digit (digit_char n)"
  by (simp add: is_digit_def byte_digit_char)

lemma digit_val_char: "n < 10 \<Longrightarrow> digit_val (digit_char n) = n"
  by (simp add: digit_val_def byte_digit_char)

lemma dec_digits: "list_all is_digit (dec n)"
proof (induction n rule: dec.induct)
  case (1 n)
  then show ?case by (subst dec.simps) (auto simp: digit_char_digit)
qed

lemma dec_not_Nil [simp]: "dec n \<noteq> []"
  by (subst dec.simps) simp

lemma digits_value_dec [simp]: "digits_value (dec n) = n"
proof (induction n rule: dec.induct)
  case (1 n)
  show ?case
  proof (cases "n < 10")
    case True
    then show ?thesis by (subst dec.simps) (simp add: digits_value_def digit_val_char)
  next
    case False
    then have "foldl (\<lambda>n c. 10 * n + digit_val c) 0 (dec (n div 10)) = n div 10"
      using 1 by (simp add: digits_value_def)
    with False show ?thesis
      by (subst dec.simps) (simp add: digits_value_def digit_val_char)
  qed
qed

lemma is_digit_not:
  "\<not> is_digit (CHR ''-'')" "\<not> is_digit (CHR ''+'')" "\<not> is_digit (CHR '','')"
  "\<not> is_digit (CHR ''/'')" "\<not> is_digit (CHR ''.'')" "\<not> is_digit (CHR '' '')"
  by (simp_all add: is_digit_def)

lemma parse_int_itoa: "- (2 ^ 63) \<le> n \<Longrightarrow> n < 2 ^ 63 \<Longrightarrow> parse_int (itoa n) = Some n"
proof (cases "n < 0")
  case True
  moreover assume "- (2 ^ 63) \<le> n"
  ultimately show ?thesis
    by (simp add: parse_int_def itoa_def dec_digits)
next
  case False
  moreover assume "n < 2 ^ 63"
  moreover obtain c r where cr: "dec (nat n) = c # r"
    by (cases "dec (nat n)") auto
  moreover have "is_digit c" and "list_all is_digit (c # r)"
    using dec_digits [of "nat n"] cr by simp_all
  moreover have "digits_value (c # r) = nat n"
    using digits_value_dec [of "nat n"] cr by simp
  ultimately show ?thesis
    using is_digit_not by (auto simp: parse_int_def itoa_def Let_def)
qed


section \<open>Case folding and display\<close>

text \<open>
  \<open>strings.ToLower\<close>, as far as its result is looked at: ASCII letters are folded, the two
  non-ASCII runes whose lower case is ASCII (U+0130 to \<open>i\<close>, U+212A to \<open>k\<close>) become that letter, and
  every other rune keeps its bytes, standing for some rune outside ASCII.
\<close>

definition lower_rune :: "nat \<times> string \<Rightarrow> nat \<times> string" where
  "lower_rune p =
     (case p of (r, b) \<Rightarrow>
        if 65 \<le> r \<and> r \<le> 90 then (r + 32, [char_of (r + 32)])
        else if r = 304 then (105, ''i'')
        else if r = 8490 then (107, ''k'')
        else (r, b))"

definition lower_runes :: "string \<Rightarrow> (nat \<times> string) list" where
  "lower_runes s = map lower_rune (runes s)"

definition to_lower :: "string \<Rightarrow> string" where
  "to_lower s = concat (map snd (lower_runes s))"

definition hex_digit :: "nat \<Rightarrow> char" where
  "hex_digit n = (if n < 10 then char_of (48 + n) else char_of (87 + n))"

text \<open>
  \<open>%q\<close>: exact on ASCII; runes from U+00A0 up are shown as they are, which is what Go does with a
  printable one. Only messages are made with it, and nothing branches on their text.
\<close>

definition quote_char :: "char \<Rightarrow> string" where
  "quote_char c =
     (if c = CHR 0x22 then [CHR 0x5C, CHR 0x22]
      else if c = CHR 0x5C then [CHR 0x5C, CHR 0x5C]
      else if c = CHR 0x0A then [CHR 0x5C, CHR ''n'']
      else if c = CHR 0x09 then [CHR 0x5C, CHR ''t'']
      else if c = CHR 0x0D then [CHR 0x5C, CHR ''r'']
      else if c = CHR 0x07 then [CHR 0x5C, CHR ''a'']
      else if c = CHR 0x08 then [CHR 0x5C, CHR ''b'']
      else if c = CHR 0x0C then [CHR 0x5C, CHR ''f'']
      else if c = CHR 0x0B then [CHR 0x5C, CHR ''v'']
      else if byte c < 32 \<or> byte c = 127
        then [CHR 0x5C, CHR ''x'', hex_digit (byte c div 16), hex_digit (byte c mod 16)]
      else [c])"

definition quote :: "string \<Rightarrow> string" where
  "quote s = CHR 0x22 # concat (map quote_char s) @ [CHR 0x22]"

text \<open>\<open>%q\<close> of a control rune.\<close>

definition quote_control :: "nat \<Rightarrow> string" where
  "quote_control r =
     CHR 0x27 # (if r < 128 then quote_char (char_of r)
       else [CHR 0x5C, CHR ''u'', CHR ''0'', CHR ''0'', hex_digit (r div 16), hex_digit (r mod 16)])
     @ [CHR 0x27]"

lemma ascii_word_itoa: "ascii_word (itoa n)"
proof -
  have "list_all (\<lambda>c. 33 \<le> byte c \<and> byte c < 127) (dec m)" for m
    using dec_digits [of m] by (auto simp: list_all_iff is_digit_def)
  then show ?thesis by (simp add: ascii_word_def itoa_def)
qed

lemma word_no_newline: "ascii_word w \<Longrightarrow> CHR 0x0A \<notin> set w"
  by (auto simp: ascii_word_def list_all_iff)

end
