(* ===== verification/Go_Path.thy ===== *)
theory Go_Path
  imports Go_Strings
begin

text \<open>
  Go's \<open>path/filepath\<close> on Unix, as the program uses it: \<open>Clean\<close>, \<open>IsAbs\<close>, \<open>Join\<close> and
  \<open>Dir\<close>. A cleaned absolute path is \<open>root_path\<close> of its elements, which is what the lemmas
  about the upward search and about clashing mount points rest on.
\<close>

definition slash :: char where
  "slash = CHR ''/''"

definition is_abs :: "string \<Rightarrow> bool" where
  "is_abs p \<longleftrightarrow> (case p of [] \<Rightarrow> False | c # _ \<Rightarrow> c = slash)"

text \<open>One element of the path against the stack of the elements kept so far (innermost first).\<close>

definition clean_step :: "bool \<Rightarrow> string list \<Rightarrow> string \<Rightarrow> string list" where
  "clean_step rooted stack e =
     (if e = [] \<or> e = ''.'' then stack
      else if e = ''..'' then
        (case stack of
           [] \<Rightarrow> if rooted then [] else [''..'']
         | t # ts \<Rightarrow> if t = ''..'' then ''..'' # stack else ts)
      else e # stack)"

definition clean_elems :: "bool \<Rightarrow> string \<Rightarrow> string list" where
  "clean_elems rooted p = rev (foldl (clean_step rooted) [] (split_on slash p))"

definition root_path :: "string list \<Rightarrow> string" where
  "root_path es = slash # join [slash] es"

definition clean :: "string \<Rightarrow> string" where
  "clean p =
     (if p = [] then ''.''
      else if is_abs p then root_path (clean_elems True p)
      else case clean_elems False p of [] \<Rightarrow> ''.'' | es \<Rightarrow> join [slash] es)"

definition path_join :: "string \<Rightarrow> string \<Rightarrow> string" where
  "path_join a b =
     (if a \<noteq> [] then clean (a @ [slash] @ b)
      else if b \<noteq> [] then clean b else [])"

definition path_dir :: "string \<Rightarrow> string" where
  "path_dir p = clean (rev (dropWhile (\<lambda>c. c \<noteq> slash) (rev p)))"

definition normal_elem :: "string \<Rightarrow> bool" where
  "normal_elem e \<longleftrightarrow> e \<noteq> [] \<and> e \<noteq> ''.'' \<and> e \<noteq> ''..'' \<and> slash \<notin> set e"

lemma is_abs_Cons [simp]: "is_abs (c # s) \<longleftrightarrow> c = slash"
  by (simp add: is_abs_def)

lemma is_abs_Nil [simp]: "\<not> is_abs []"
  by (simp add: is_abs_def)

lemma is_abs_root_path [simp]: "is_abs (root_path es)"
  by (simp add: root_path_def)

lemma clean_step_normal:
  "\<forall>e\<in>set stack. normal_elem e \<Longrightarrow> slash \<notin> set e \<Longrightarrow>
   \<forall>x\<in>set (clean_step True stack e). normal_elem x"
  by (cases stack) (auto simp: clean_step_def normal_elem_def)

lemma foldl_clean_normal:
  "\<forall>e\<in>set stack. normal_elem e \<Longrightarrow> \<forall>e\<in>set es. slash \<notin> set e \<Longrightarrow>
   \<forall>x\<in>set (foldl (clean_step True) stack es). normal_elem x"
proof (induction es arbitrary: stack)
  case (Cons e es)
  then show ?case using clean_step_normal [of stack e] by simp
qed simp

lemma clean_elems_normal: "e \<in> set (clean_elems True p) \<Longrightarrow> normal_elem e"
  using foldl_clean_normal [of "[]" "split_on slash p"] split_on_parts
  by (fastforce simp: clean_elems_def)

lemma foldl_clean_id:
  "\<forall>e\<in>set es. normal_elem e \<Longrightarrow> foldl (clean_step True) stack es = rev es @ stack"
  by (induction es arbitrary: stack) (auto simp: clean_step_def normal_elem_def)

lemma split_on_Cons_sep: "split_on c (c # s) = [] # split_on c s"
  by simp

lemma clean_elems_root_path:
  assumes "\<forall>e\<in>set es. normal_elem e"
  shows "clean_elems True (root_path es) = es"
proof (cases "es = []")
  case True
  then show ?thesis by (simp add: clean_elems_def root_path_def clean_step_def)
next
  case False
  with assms have "split_on slash (join [slash] es) = es"
    by (intro split_on_join) (auto simp: normal_elem_def)
  with assms show ?thesis
    by (simp add: clean_elems_def root_path_def clean_step_def foldl_clean_id)
qed

lemma clean_root_path: "\<forall>e\<in>set es. normal_elem e \<Longrightarrow> clean (root_path es) = root_path es"
  using clean_elems_root_path [of es] by (simp add: clean_def root_path_def)

lemma clean_abs: "is_abs p \<Longrightarrow> \<exists>es. clean p = root_path es \<and> (\<forall>e\<in>set es. normal_elem e)"
  using clean_elems_normal by (fastforce simp: clean_def)

lemma is_abs_clean [simp]: "is_abs p \<Longrightarrow> is_abs (clean p)"
  by (cases p) (simp_all add: clean_def)

lemma clean_clean_abs: "is_abs p \<Longrightarrow> clean (clean p) = clean p"
  using clean_abs [of p] by (auto simp: clean_root_path)

lemma root_path_inj:
  assumes "\<forall>e\<in>set xs. normal_elem e" "\<forall>e\<in>set ys. normal_elem e" "root_path xs = root_path ys"
  shows "xs = ys"
  using clean_elems_root_path [OF assms(1)] clean_elems_root_path [OF assms(2)] assms(3) by metis

lemma join_snoc: "xs \<noteq> [] \<Longrightarrow> join sep (xs @ [x]) = join sep xs @ sep @ x"
proof (induction sep xs rule: join.induct)
  case (3 sep x y zs)
  then show ?case by simp
qed simp_all

lemma clean_elems_slash:
  assumes "\<forall>e\<in>set es. normal_elem e"
  shows "clean_elems True (root_path es @ [slash]) = es"
proof (cases "es = []")
  case True
  then show ?thesis by (simp add: clean_elems_def root_path_def clean_step_def)
next
  case False
  have "slash \<notin> set x" if "x \<in> set (es @ [[]])" for x
    using that assms by (cases "x = []") (simp_all add: normal_elem_def)
  moreover have "es @ [[]] \<noteq> []" by blast
  ultimately have "split_on slash (join [slash] (es @ [[]])) = es @ [[]]"
    by (intro split_on_join)
  then have "split_on slash (join [slash] es @ [slash]) = es @ [[]]"
    by (simp only: join_snoc [OF False] append_Nil2)
  then have "split_on slash (root_path es @ [slash]) = [] # es @ [[]]"
    by (simp add: root_path_def)
  with assms show ?thesis
    by (simp add: clean_elems_def clean_step_def foldl_clean_id)
qed

lemma dropWhile_rev_suffix:
  assumes "slash \<notin> set x"
  shows "rev (dropWhile (\<lambda>c. c \<noteq> slash) (rev (s @ slash # x))) = s @ [slash]"
proof -
  have "\<forall>c\<in>set (rev x). c \<noteq> slash" using assms by auto
  then have "dropWhile (\<lambda>c. c \<noteq> slash) (rev x @ slash # rev s) = slash # rev s"
    by (subst dropWhile_append2) auto
  then show ?thesis by simp
qed

text \<open>The parent of a cleaned absolute path drops its last element; the root is its own parent.\<close>

lemma path_dir_root_path:
  assumes "\<forall>e\<in>set es. normal_elem e"
  shows "path_dir (root_path es) = root_path (butlast es)"
proof (cases es rule: rev_cases)
  case Nil
  then show ?thesis
    by (simp add: path_dir_def root_path_def clean_def clean_elems_def clean_step_def)
next
  case (snoc xs x)
  have x: "slash \<notin> set x" and xs: "\<forall>e\<in>set xs. normal_elem e"
    using assms snoc by (auto simp: normal_elem_def)
  show ?thesis
  proof (cases "xs = []")
    case True
    with snoc have "root_path es = [] @ slash # x" by (simp add: root_path_def)
    then show ?thesis
      using x True snoc dropWhile_rev_suffix [of x "[]"]
      by (simp add: path_dir_def clean_def clean_elems_def clean_step_def root_path_def)
  next
    case False
    with snoc have "root_path es = root_path xs @ slash # x"
      by (simp add: root_path_def join_snoc)
    then have "path_dir (root_path es) = clean (root_path xs @ [slash])"
      using dropWhile_rev_suffix [OF x, of "root_path xs"] by (simp only: path_dir_def)
    also have "\<dots> = root_path (clean_elems True (root_path xs @ [slash]))"
      by (simp add: clean_def root_path_def)
    also have "\<dots> = root_path xs"
      using xs by (simp only: clean_elems_slash)
    finally show ?thesis using snoc by simp
  qed
qed

lemma is_abs_path_join: "is_abs r \<Longrightarrow> is_abs (path_join r p)"
  by (cases r) (simp_all add: path_join_def clean_def)

end
