(* ===== verification/Go_Time.thy ===== *)
theory Go_Time
  imports Go_Strings
begin

text \<open>
  What the program uses of Go's \<open>time.Time\<close>: a wall-clock reading in a fixed zone, as the daemon's
  JSON carries it, its text in \<open>time.RFC3339Nano\<close>, the reading of such a text back, and the order
  of two instants. \<open>parse_time\<close> follows \<open>time.Parse\<close> for that layout, its leniencies included: an
  hour of one digit, a comma before the fraction, digits past the ninth ignored.
\<close>

record go_time =
  tm_year :: nat
  tm_month :: nat
  tm_day :: nat
  tm_hour :: nat
  tm_min :: nat
  tm_sec :: nat
  tm_nano :: nat
  tm_offset :: int

text \<open>\<open>tm_offset\<close> is the zone's distance from UTC in minutes.\<close>

definition leap_year :: "nat \<Rightarrow> bool" where
  "leap_year y \<longleftrightarrow> y mod 4 = 0 \<and> (y mod 100 \<noteq> 0 \<or> y mod 400 = 0)"

definition days_in_month :: "nat \<Rightarrow> nat \<Rightarrow> nat" where
  "days_in_month y m =
     (if m = 2 then (if leap_year y then 29 else 28)
      else if List.member [4, 6, 9, 11] m then 30 else 31)"

definition valid_time :: "go_time \<Rightarrow> bool" where
  "valid_time t \<longleftrightarrow>
     tm_year t \<le> 9999 \<and> 1 \<le> tm_month t \<and> tm_month t \<le> 12
     \<and> 1 \<le> tm_day t \<and> tm_day t \<le> days_in_month (tm_year t) (tm_month t)
     \<and> tm_hour t < 24 \<and> tm_min t < 60 \<and> tm_sec t < 60 \<and> tm_nano t < 1000000000
     \<and> - (24 * 60) < tm_offset t \<and> tm_offset t < 24 * 60"

text \<open>Days from 1 March of year 0 to the given date, and the instant in nanoseconds.\<close>

definition day_number :: "nat \<Rightarrow> nat \<Rightarrow> nat \<Rightarrow> int" where
  "day_number y m d =
     (let y' = (if m \<le> 2 then int y - 1 else int y);
          m' = (if m \<le> 2 then m + 9 else m - 3)
      in 365 * y' + y' div 4 - y' div 100 + y' div 400 + (153 * int m' + 2) div 5 + int d - 1)"

definition instant :: "go_time \<Rightarrow> int" where
  "instant t =
     ((((day_number (tm_year t) (tm_month t) (tm_day t) * 24 + int (tm_hour t)) * 60
        + int (tm_min t) - tm_offset t) * 60 + int (tm_sec t)) * 1000000000) + int (tm_nano t)"

definition time_after :: "go_time \<Rightarrow> go_time \<Rightarrow> bool" where
  "time_after t u \<longleftrightarrow> instant u < instant t"

definition zero_time :: go_time where
  "zero_time = \<lparr>tm_year = 1, tm_month = 1, tm_day = 1, tm_hour = 0, tm_min = 0, tm_sec = 0,
     tm_nano = 0, tm_offset = 0\<rparr>"


section \<open>Text\<close>

fun digits :: "nat \<Rightarrow> nat \<Rightarrow> string" where
  "digits 0 n = []"
| "digits (Suc k) n = digits k (n div 10) @ [digit_char (n mod 10)]"

definition nano_text :: "nat \<Rightarrow> string" where
  "nano_text n =
     (let s = trim_right_char (CHR ''0'') (digits 9 n) in if s = [] then [] else CHR ''.'' # s)"

definition offset_text :: "int \<Rightarrow> string" where
  "offset_text z =
     (if z = 0 then ''Z''
      else (if z < 0 then CHR ''-'' else CHR ''+'')
           # digits 2 (nat \<bar>z\<bar> div 60) @ CHR '':'' # digits 2 (nat \<bar>z\<bar> mod 60))"

definition format_time :: "go_time \<Rightarrow> string" where
  "format_time t =
     digits 4 (tm_year t) @ CHR ''-'' # digits 2 (tm_month t) @ CHR ''-'' # digits 2 (tm_day t)
     @ CHR ''T'' # digits 2 (tm_hour t) @ CHR '':'' # digits 2 (tm_min t) @ CHR '':'' #
     digits 2 (tm_sec t) @ nano_text (tm_nano t) @ offset_text (tm_offset t)"

text \<open>Readers take a prefix of the text and give the rest back.\<close>

definition read_digits :: "nat \<Rightarrow> string \<Rightarrow> (nat \<times> string) option" where
  "read_digits k s =
     (if length s < k \<or> \<not> list_all is_digit (take k s) then None
      else Some (digits_value (take k s), drop k s))"

definition read_char :: "char \<Rightarrow> string \<Rightarrow> string option" where
  "read_char c s = (case s of x # r \<Rightarrow> if x = c then Some r else None | [] \<Rightarrow> None)"

definition read_hour :: "string \<Rightarrow> (nat \<times> string) option" where
  "read_hour s =
     (case read_digits 2 s of
        Some r \<Rightarrow> Some r
      | None \<Rightarrow> read_digits 1 s)"

definition read_nano :: "string \<Rightarrow> nat \<times> string" where
  "read_nano s =
     (case s of
        c # r \<Rightarrow>
          (let ds = takeWhile is_digit r
           in if (c = CHR ''.'' \<or> c = CHR '','') \<and> ds \<noteq> []
              then (digits_value (take 9 (ds @ replicate 9 (CHR ''0''))), dropWhile is_digit r)
              else (0, s))
      | [] \<Rightarrow> (0, s))"

definition read_offset :: "string \<Rightarrow> (int \<times> string) option" where
  "read_offset s =
     (case s of
        [] \<Rightarrow> None
      | c # r \<Rightarrow>
          if c = CHR ''Z'' then Some (0, r)
          else if c = CHR ''+'' \<or> c = CHR ''-'' then
            Option.bind (read_digits 2 r) (\<lambda>(h, r).
            Option.bind (read_char (CHR '':'') r) (\<lambda>r.
            Option.bind (read_digits 2 r) (\<lambda>(m, r).
              if 24 < h \<or> 60 < m then None
              else Some ((if c = CHR ''-'' then -1 else 1) * int (h * 60 + m), r))))
          else None)"

definition parse_time :: "string \<Rightarrow> go_time option" where
  "parse_time s =
     Option.bind (read_digits 4 s) (\<lambda>(y, s).
     Option.bind (read_char (CHR ''-'') s) (\<lambda>s.
     Option.bind (read_digits 2 s) (\<lambda>(mo, s).
     Option.bind (read_char (CHR ''-'') s) (\<lambda>s.
     Option.bind (read_digits 2 s) (\<lambda>(d, s).
     Option.bind (read_char (CHR ''T'') s) (\<lambda>s.
     Option.bind (read_hour s) (\<lambda>(h, s).
     Option.bind (read_char (CHR '':'') s) (\<lambda>s.
     Option.bind (read_digits 2 s) (\<lambda>(mi, s).
     Option.bind (read_char (CHR '':'') s) (\<lambda>s.
     Option.bind (read_digits 2 s) (\<lambda>(sec, s).
     (case read_nano s of (ns, s) \<Rightarrow>
     Option.bind (read_offset s) (\<lambda>(z, s).
       if s \<noteq> [] \<or> mo < 1 \<or> 12 < mo \<or> d < 1 \<or> days_in_month y mo < d
          \<or> 24 \<le> h \<or> 60 \<le> mi \<or> 60 \<le> sec then None
       else Some \<lparr>tm_year = y, tm_month = mo, tm_day = d, tm_hour = h, tm_min = mi,
                  tm_sec = sec, tm_nano = ns, tm_offset = z\<rparr>)))))))))))))"


section \<open>Reading back what was written\<close>

lemma length_digits [simp]: "length (digits k n) = k"
  by (induction k arbitrary: n) simp_all

lemma digits_all: "list_all is_digit (digits k n)"
  by (induction k arbitrary: n) (simp_all add: digit_char_digit)

lemma digits_value_snoc: "digits_value (s @ [c]) = digits_value s * 10 + digit_val c"
  by (simp add: digits_value_def)

lemma digits_value_digits: "n < 10 ^ k \<Longrightarrow> digits_value (digits k n) = n"
proof (induction k arbitrary: n)
  case 0
  then show ?case by (simp add: digits_value_def)
next
  case (Suc k)
  then have "n div 10 < 10 ^ k" by (simp add: less_mult_imp_div_less mult.commute)
  with Suc.IH show ?case by (simp add: digits_value_snoc digit_val_char)
qed

lemma read_digits_digits: "n < 10 ^ k \<Longrightarrow> read_digits k (digits k n @ r) = Some (n, r)"
  by (simp add: read_digits_def digits_all digits_value_digits)

lemma read_char_Cons [simp]: "read_char c (c # r) = Some r"
  by (simp add: read_char_def)

lemma digits_value_nano:
  assumes "n < 1000000000"
  shows "read_nano (nano_text n @ offset_text z) = (n, offset_text z)"
proof -
  define s where "s = trim_right_char (CHR ''0'') (digits 9 n)"
  obtain u where d: "digits 9 n = s @ u" and u: "set u \<subseteq> {CHR ''0''}"
    using trim_right_char_prefix [of "digits 9 n" "CHR ''0''"] s_def by blast
  have u': "u = replicate (length u) (CHR ''0'')"
    using u by (metis replicate_length_same singletonD subsetD)
  have len: "length s + length u = 9" using d by (metis length_append length_digits)
  have ds: "list_all is_digit s" using digits_all [of 9 n] d by simp
  have z: "takeWhile is_digit (offset_text z) = []" "dropWhile is_digit (offset_text z) = offset_text z"
    by (auto simp: offset_text_def is_digit_def)
  have dot: "offset_text z \<noteq> [] \<and> hd (offset_text z) \<noteq> CHR ''.'' \<and> hd (offset_text z) \<noteq> CHR '',''"
    by (auto simp: offset_text_def)
  show ?thesis
  proof (cases "s = []")
    case True
    then have "u = replicate 9 (CHR ''0'')" using len u' by simp
    then have "digits_value (digits 9 n) = 0"
      unfolding d True by (simp add: digits_value_def digit_val_def eval_nat_numeral)
    then have "n = 0" using digits_value_digits [of n 9] assms by simp
    then show ?thesis using dot True s_def
      by (auto simp: nano_text_def Let_def read_nano_def split: list.splits)
  next
    case False
    have tw: "takeWhile is_digit (s @ offset_text z) = s" "dropWhile is_digit (s @ offset_text z) = offset_text z"
      using ds z by (auto simp: list_all_iff takeWhile_append dropWhile_append)
    have "take 9 (s @ replicate 9 (CHR ''0'')) = s @ u"
      using len u' by (simp add: min_def) (metis add_diff_cancel_left')
    then have "digits_value (take 9 (s @ replicate 9 (CHR ''0''))) = n"
      using digits_value_digits [of n 9] assms d by simp
    then show ?thesis using False tw unfolding nano_text_def s_def [symmetric] read_nano_def Let_def
      by simp
  qed
qed

lemma read_offset_text:
  assumes "- (24 * 60) < z" "z < 24 * 60"
  shows "read_offset (offset_text z) = Some (z, [])"
proof (cases "z = 0")
  case False
  let ?n = "nat \<bar>z\<bar>"
  have "?n < 1440" using assms by linarith
  then have h: "?n div 60 < 24" "?n mod 60 < 60" by auto
  have "read_digits 2 (digits 2 (?n div 60) @ CHR '':'' # digits 2 (?n mod 60))
      = Some (?n div 60, CHR '':'' # digits 2 (?n mod 60))"
    using h(1) by (intro read_digits_digits) simp
  moreover have "read_digits 2 (digits 2 (?n mod 60)) = Some (?n mod 60, [])"
    using h(2) read_digits_digits [of "?n mod 60" 2 "[]"] by simp
  moreover have "int (?n div 60 * 60 + ?n mod 60) = \<bar>z\<bar>" by simp
  moreover have "\<not> 60 < nat (- z) mod 60" "\<not> 60 < nat z mod 60"
    by (simp_all add: not_less less_imp_le)
  ultimately show ?thesis using h False
    by (simp add: offset_text_def read_offset_def)
qed (simp add: offset_text_def read_offset_def)

lemma days_in_month_le: "days_in_month y m \<le> 31"
  by (simp add: days_in_month_def)

lemma parse_format_time:
  assumes "valid_time t"
  shows "parse_time (format_time t) = Some t"
proof -
  note v = assms [unfolded valid_time_def]
  have y: "read_digits 4 (digits 4 (tm_year t) @ r) = Some (tm_year t, r)" for r
    using v by (intro read_digits_digits) simp
  have d2: "n < 100 \<Longrightarrow> read_digits 2 (digits 2 n @ r) = Some (n, r)" for n r
    by (intro read_digits_digits) simp
  have lt: "tm_month t < 100" "tm_day t < 100" "tm_hour t < 100" "tm_min t < 100" "tm_sec t < 100"
    using v days_in_month_le [of "tm_year t" "tm_month t"] by linarith+
  have n: "read_nano (nano_text (tm_nano t) @ offset_text (tm_offset t)) = (tm_nano t, offset_text (tm_offset t))"
    using v by (intro digits_value_nano) simp
  have z: "read_offset (offset_text (tm_offset t)) = Some (tm_offset t, [])"
    using v by (intro read_offset_text) simp_all
  have h: "read_hour (digits 2 (tm_hour t) @ r) = Some (tm_hour t, r)" for r
    by (simp add: read_hour_def d2 lt(3))
  show ?thesis
    using v by (simp add: parse_time_def format_time_def y d2 lt h n z)
qed

end
