(* ===== verification/Errors.thy ===== *)
theory Errors
  imports Go_Strings
begin

text \<open>
  Go errors as values. \<open>Errorf f as\<close> is \<open>fmt.Errorf(f, as...)\<close>: the format string of the source and
  its arguments, where \<open>W e\<close> stands under a \<open>%w\<close> (wrapped, seen by \<open>errors.Is\<close> and
  \<open>errors.As\<close>) and \<open>V e\<close> under a \<open>%v\<close> (shown only). The package-level error variables are
  \<open>Sentinel\<close>; an error of the operating system or of a library is \<open>Foreign\<close> with its text.
\<close>

datatype sentinel =
    ErrInstanceNotFound | ErrInstanceExists | ErrSnapshotExists | ErrChanged
  | ErrOutcomeUnknown | ErrPoolNotFound | ErrNetworkNotReady
  | ErrProjectNotFound | ErrAborted | ErrNoAnswer | ErrVersionFormat
  | ErrCanceled

fun sentinel_text :: "sentinel \<Rightarrow> string" where
  "sentinel_text ErrInstanceNotFound = ''instance not found''"
| "sentinel_text ErrInstanceExists = ''instance already exists''"
| "sentinel_text ErrSnapshotExists = ''snapshot already exists''"
| "sentinel_text ErrChanged = ''the instance changed while idev was working on it''"
| "sentinel_text ErrOutcomeUnknown = ''the daemon may carry it out anyway''"
| "sentinel_text ErrPoolNotFound = ''storage pool not found''"
| "sentinel_text ErrNetworkNotReady = ''network address not assigned''"
| "sentinel_text ErrProjectNotFound = ''project root not found''"
| "sentinel_text ErrAborted = ''aborted''"
| "sentinel_text ErrNoAnswer = ''no answer on standard input; pass --force to proceed without asking''"
| "sentinel_text ErrVersionFormat = ''expected MAJOR[.MINOR[.PATCH]]''"
| "sentinel_text ErrCanceled = ''context canceled''"

text \<open>One thing validation found: where, and what.\<close>

record problem =
  pb_path :: string
  pb_message :: string

datatype err =
    Sentinel sentinel
  | Errorf string "arg list"
  | ValidationError "problem list"
  | ExitCodeError int
  | ExitError string string int string
  | Foreign string
and arg = S string | N int | W err | V err

fun errors_is :: "err \<Rightarrow> sentinel \<Rightarrow> bool"
  and arg_is :: "arg \<Rightarrow> sentinel \<Rightarrow> bool" where
  "errors_is (Sentinel t) s = (t = s)"
| "errors_is (Errorf f as) s = list_ex (\<lambda>a. arg_is a s) as"
| "errors_is (ValidationError ps) s = False"
| "errors_is (ExitCodeError n) s = False"
| "errors_is (ExitError l c n o') s = False"
| "errors_is (Foreign t) s = False"
| "arg_is (W e) s = errors_is e s"
| "arg_is (S x) s = False"
| "arg_is (N n) s = False"
| "arg_is (V e) s = False"

text \<open>
  \<open>errors.As\<close> for the runner's \<open>ExitError\<close> and for the exit code of the command line: the
  candidates in the order the chain is searched, the first being the answer.
\<close>

fun exit_errors :: "err \<Rightarrow> int list"
  and arg_exit_errors :: "arg \<Rightarrow> int list" where
  "exit_errors (ExitError l c n o') = [n]"
| "exit_errors (Errorf f as) = concat (map arg_exit_errors as)"
| "exit_errors (Sentinel t) = []"
| "exit_errors (ValidationError ps) = []"
| "exit_errors (ExitCodeError n) = []"
| "exit_errors (Foreign t) = []"
| "arg_exit_errors (W e) = exit_errors e"
| "arg_exit_errors (S x) = []"
| "arg_exit_errors (N n) = []"
| "arg_exit_errors (V e) = []"

fun exit_codes :: "err \<Rightarrow> int list"
  and arg_exit_codes :: "arg \<Rightarrow> int list" where
  "exit_codes (ExitCodeError n) = [n]"
| "exit_codes (Errorf f as) = concat (map arg_exit_codes as)"
| "exit_codes (Sentinel t) = []"
| "exit_codes (ValidationError ps) = []"
| "exit_codes (ExitError l c n o') = []"
| "exit_codes (Foreign t) = []"
| "arg_exit_codes (W e) = exit_codes e"
| "arg_exit_codes (S x) = []"
| "arg_exit_codes (N n) = []"
| "arg_exit_codes (V e) = []"

text \<open>\<open>fmt.Sprintf\<close> for the verbs \<open>%s\<close>, \<open>%v\<close>, \<open>%w\<close>, \<open>%d\<close> and \<open>%q\<close>, over rendered arguments.\<close>

fun sprintf :: "string \<Rightarrow> string list \<Rightarrow> string" where
  "sprintf [] as = []"
| "sprintf [c] as = [c]"
| "sprintf (c # v # r) as =
     (if c = CHR ''%'' then
        (case as of
           [] \<Rightarrow> c # v # sprintf r []
         | a # as' \<Rightarrow> (if v = CHR ''q'' then quote a else a) @ sprintf r as')
      else c # sprintf (v # r) as)"

fun problem_line :: "problem \<Rightarrow> string" where
  "problem_line p =
     CHR 0x0A # ''  - '' @ (if pb_path p \<noteq> [] then pb_path p @ '': '' else []) @ pb_message p"

fun err_text :: "err \<Rightarrow> string"
  and arg_text :: "arg \<Rightarrow> string" where
  "err_text (Sentinel s) = sentinel_text s"
| "err_text (Errorf f as) = sprintf f (map arg_text as)"
| "err_text (ValidationError ps) = ''invalid configuration:'' @ concat (map problem_line ps)"
| "err_text (ExitCodeError n) = ''exited with code '' @ itoa n"
| "err_text (ExitError l c n o') =
     (if l \<noteq> [] then l @ '': '' else []) @ ''command failed: '' @ c
     @ '' (exit code '' @ itoa n @ '')''
     @ (if trim_space o' \<noteq> [] then CHR 0x0A # trim_space o' else [])"
| "err_text (Foreign t) = t"
| "arg_text (S x) = x"
| "arg_text (N n) = itoa n"
| "arg_text (W e) = err_text e"
| "arg_text (V e) = err_text e"

text \<open>Wrapping keeps what \<open>errors.Is\<close> finds; showing an error with \<open>%v\<close> hides it.\<close>

lemma errors_is_wrap: "W e \<in> set as \<Longrightarrow> errors_is e s \<Longrightarrow> errors_is (Errorf f as) s"
  by (auto simp: list_ex_iff intro!: bexI [of _ "W e"])

end
