(* ===== verification/Steps.thy ===== *)
theory Steps
  imports Errors
begin

text \<open>
  Models \<open>internal/config/step.go\<close>: bootstrap and provision steps, and how they are read from the
  document. A JSON value is what \<open>encoding/json\<close> decodes with \<open>UseNumber\<close>: a number is its text.
  Object keys are matched exactly; the schema, checked before, admits no other spelling.
\<close>

datatype json =
    JNull | JBool bool | JNum string | JStr string
  | JArr "json list" | JObj "(string, json) fmap"

record run_step =
  rs_script :: string
  rs_shell :: string
  rs_cwd :: string
  rs_user :: string
  rs_env :: "string gomap"

record ansible_step =
  an_playbook :: string
  an_vars :: string
  an_inventory :: string
  an_tags :: "string list"
  an_skip_tags :: "string list"
  an_extra_args :: "string list"

record galaxy_step =
  gx_requirements :: string
  gx_extra_args :: "string list"

record step =
  st_name :: string
  st_run :: "run_step option"
  st_ansible :: "ansible_step option"
  st_galaxy :: "galaxy_step option"

definition default_shell :: string where
  "default_shell = ''/bin/sh''"

definition run_shell_or_default :: "run_step \<Rightarrow> string" where
  "run_shell_or_default r = (if rs_shell r = [] then default_shell else rs_shell r)"

definition step_kind :: "step \<Rightarrow> string" where
  "step_kind s =
     (if st_run s \<noteq> None then ''run''
      else if st_ansible s \<noteq> None then ''ansible''
      else if st_galaxy s \<noteq> None then ''galaxy''
      else [])"

definition display_name :: "step \<Rightarrow> nat \<Rightarrow> string" where
  "display_name s index = (if st_name s \<noteq> [] then st_name s else ''step '' @ dec index)"

text \<open>What \<open>json.Unmarshal\<close> does with a field of a Go type, the zero value when it is absent.\<close>

definition type_error :: "string \<Rightarrow> err" where
  "type_error what = Foreign (''json: cannot unmarshal value into Go value of type '' @ what)"

definition field :: "(string, json) fmap \<Rightarrow> string \<Rightarrow> json" where
  "field m k = (case fmlookup m k of None \<Rightarrow> JNull | Some v \<Rightarrow> v)"

fun as_string :: "json \<Rightarrow> err + string" where
  "as_string JNull = Inr []"
| "as_string (JStr s) = Inr s"
| "as_string _ = Inl (type_error ''string'')"

fun as_string_ptr :: "json \<Rightarrow> err + string option" where
  "as_string_ptr JNull = Inr None"
| "as_string_ptr (JStr s) = Inr (Some s)"
| "as_string_ptr _ = Inl (type_error ''string'')"

fun as_bool :: "json \<Rightarrow> err + bool" where
  "as_bool JNull = Inr False"
| "as_bool (JBool b) = Inr b"
| "as_bool _ = Inl (type_error ''bool'')"

fun as_int :: "json \<Rightarrow> err + int" where
  "as_int JNull = Inr 0"
| "as_int (JNum t) = (case parse_int t of None \<Rightarrow> Inl (type_error ''int'') | Some n \<Rightarrow> Inr n)"
| "as_int _ = Inl (type_error ''int'')"

fun as_strings :: "json \<Rightarrow> err + string list" where
  "as_strings JNull = Inr []"
| "as_strings (JArr xs) = map_result as_string xs"
| "as_strings _ = Inl (type_error ''[]string'')"

fun as_object :: "json \<Rightarrow> err + (string, json) fmap" where
  "as_object JNull = Inr fmempty"
| "as_object (JObj m) = Inr m"
| "as_object _ = Inl (type_error ''object'')"

fun is_json_object :: "json \<Rightarrow> bool" where
  "is_json_object (JObj m) = True"
| "is_json_object _ = False"

text \<open>\<open>scalarString\<close> and \<open>StringMap.UnmarshalJSON\<close>.\<close>

fun scalar_string :: "json \<Rightarrow> err + string" where
  "scalar_string (JStr t) = Inr t"
| "scalar_string (JNum t) = Inr t"
| "scalar_string (JBool b) = Inr (if b then ''true'' else ''false'')"
| "scalar_string _ = Inl (Errorf ''expected string, number or boolean'' [])"

definition unmarshal_string_map :: "json \<Rightarrow> err + string gomap" where
  "unmarshal_string_map j =
     bindR (as_object j) (\<lambda>m.
     bindR (map_result (\<lambda>k. case scalar_string (field m k) of
                Inl e \<Rightarrow> Inl (Errorf ''%s: %w'' [S k, W e])
              | Inr s \<Rightarrow> Inr (k, s)) (sorted_keys m)) (\<lambda>kvs.
     Inr (fmap_of_list kvs)))"

definition unmarshal_ansible :: "json \<Rightarrow> err + ansible_step option" where
  "unmarshal_ansible j =
     (case j of JNull \<Rightarrow> Inr None
      | _ \<Rightarrow>
        bindR (as_object j) (\<lambda>m.
        bindR (as_string (field m ''playbook'')) (\<lambda>playbook.
        bindR (as_string (field m ''vars'')) (\<lambda>vars.
        bindR (as_string (field m ''inventory'')) (\<lambda>inventory.
        bindR (as_strings (field m ''tags'')) (\<lambda>tags.
        bindR (as_strings (field m ''skip_tags'')) (\<lambda>skip_tags.
        bindR (as_strings (field m ''extra_args'')) (\<lambda>extra.
          Inr (Some \<lparr>an_playbook = playbook, an_vars = vars, an_inventory = inventory,
            an_tags = tags, an_skip_tags = skip_tags, an_extra_args = extra\<rparr>)))))))))"

definition unmarshal_galaxy :: "json \<Rightarrow> err + galaxy_step option" where
  "unmarshal_galaxy j =
     (case j of JNull \<Rightarrow> Inr None
      | _ \<Rightarrow>
        bindR (as_object j) (\<lambda>m.
        bindR (as_string (field m ''requirements'')) (\<lambda>requirements.
        bindR (as_strings (field m ''extra_args'')) (\<lambda>extra.
          Inr (Some \<lparr>gx_requirements = requirements, gx_extra_args = extra\<rparr>)))))"

definition empty_step :: "string \<Rightarrow> step" where
  "empty_step name = \<lparr>st_name = name, st_run = None, st_ansible = None, st_galaxy = None\<rparr>"

text \<open>
  \<open>Step.UnmarshalJSON\<close>. When the kind is not exactly one the step is left without a kind, and
  validation reports it with its position.
\<close>

definition unmarshal_step :: "json \<Rightarrow> err + step" where
  "unmarshal_step j =
     bindR (as_object j) (\<lambda>m.
     bindR (as_string (field m ''name'')) (\<lambda>name.
     bindR (as_string_ptr (field m ''run'')) (\<lambda>run.
     bindR (as_string (field m ''shell'')) (\<lambda>shell.
     bindR (as_string (field m ''cwd'')) (\<lambda>cwd.
     bindR (as_string (field m ''user'')) (\<lambda>user.
     bindR (unmarshal_string_map (field m ''env'')) (\<lambda>env.
     bindR (unmarshal_ansible (field m ''ansible'')) (\<lambda>ansible.
     bindR (unmarshal_galaxy (field m ''galaxy'')) (\<lambda>galaxy.
       let kinds = length (filter id [run \<noteq> None, ansible \<noteq> None, galaxy \<noteq> None]) in
       if kinds \<noteq> 1 then Inr (empty_step name)
       else Inr (case run of
           Some script \<Rightarrow> (empty_step name)\<lparr>st_run := Some \<lparr>rs_script = script, rs_shell = shell,
             rs_cwd = cwd, rs_user = user, rs_env = env\<rparr>\<rparr>
         | None \<Rightarrow> (case ansible of
             Some a \<Rightarrow> (empty_step name)\<lparr>st_ansible := Some a\<rparr>
           | None \<Rightarrow> (empty_step name)\<lparr>st_galaxy := galaxy\<rparr>)))))))))))"

definition step_kinds_set :: "step \<Rightarrow> nat" where
  "step_kinds_set s =
     length (filter id [st_run s \<noteq> None, st_ansible s \<noteq> None, st_galaxy s \<noteq> None])"

text \<open>A decoded step never has two kinds, so the order of the tests on it decides nothing.\<close>

lemma unmarshal_step_one_kind: "unmarshal_step j = Inr s \<Longrightarrow> step_kinds_set s \<le> 1"
  by (auto simp: unmarshal_step_def bindR_Inr_iff step_kinds_set_def empty_step_def Let_def
      split: if_splits option.splits)

lemma step_kind_empty_iff: "step_kind s = [] \<longleftrightarrow> step_kinds_set s = 0"
  by (simp add: step_kind_def step_kinds_set_def)

end
