(* ===== verification/Config.thy ===== *)
theory Config
  imports Steps Go_Path
begin

text \<open>
  Models \<open>internal/config/config.go\<close>: the declaration \<open>dev.yml\<close> as the program holds it, and the
  questions asked of it with their defaults filled in. A pointer field is an \<open>option\<close>, a string
  type with named values (\<open>IDMapMode\<close>, \<open>Scope\<close>) is a string, since a file can hold any text there
  until validation has looked at it.
\<close>

definition default_workspace_source :: string where "default_workspace_source = ''.''"
definition default_workspace_target :: string where "default_workspace_target = ''/workspace''"
definition default_profile :: string where "default_profile = ''default''"
definition default_storage_pool :: string where "default_storage_pool = ''default''"
definition reserved_config_prefix :: string where "reserved_config_prefix = ''user.incus-dev.''"
definition workspace_device_name :: string where "workspace_device_name = ''workspace''"
definition main_mount_name :: string where "main_mount_name = ''main''"
definition schema_version :: int where "schema_version = 1"
definition runtime_version :: string where "runtime_version = ''1.2''"

lemmas config_consts = default_workspace_source_def default_workspace_target_def
  default_profile_def default_storage_pool_def reserved_config_prefix_def
  workspace_device_name_def main_mount_name_def

type_synonym idmap_mode = string

definition IDMapAuto :: idmap_mode where "IDMapAuto = ''auto''"
definition IDMapRaw :: idmap_mode where "IDMapRaw = ''raw''"
definition IDMapShift :: idmap_mode where "IDMapShift = ''shift''"
definition IDMapNone :: idmap_mode where "IDMapNone = ''none''"

lemmas idmap_consts = IDMapAuto_def IDMapRaw_def IDMapShift_def IDMapNone_def

definition idmap_modes :: "idmap_mode list" where
  "idmap_modes = [IDMapAuto, IDMapRaw, IDMapShift, IDMapNone]"

definition ScopeName :: string where "ScopeName = ''name''"
definition ScopePath :: string where "ScopePath = ''path''"
definition ScopeBranch :: string where "ScopeBranch = ''branch''"

lemmas scope_consts = ScopeName_def ScopePath_def ScopeBranch_def


section \<open>The declaration\<close>

record runtime_decl =
  rt_version :: string

record project_decl =
  pj_name :: string
  pj_scope :: string

record instance_decl =
  in_image :: string
  in_profiles :: "string list option"
  in_config :: "string gomap"
  in_devices :: "string gomap gomap"

record volume =
  vo_path :: string
  vo_pool :: string
  vo_size :: string

record secret =
  se_env :: string
  se_file :: string
  se_optional :: bool

record shell_decl =
  sh_user :: string
  sh_command :: string
  sh_cwd :: string

record incus_decl =
  ic_project :: string

record mount =
  mo_source :: string
  mo_target :: string
  mo_readonly :: bool

record owner =
  ow_uid :: int
  ow_gid :: "int option"

record resolved_owner =
  ro_uid :: int
  ro_gid :: int

record workspace =
  ws_idmap :: idmap_mode
  ws_owner :: "owner option"
  ws_mounts :: "mount gomap"
  ws_map_form :: bool

record workspace_mount =
  wm_source :: string
  wm_target :: string
  wm_readonly :: bool
  wm_idmap :: idmap_mode
  wm_owner :: resolved_owner

record config =
  cf_schema :: int
  cf_runtime :: "runtime_decl option"
  cf_project :: project_decl
  cf_instance :: instance_decl
  cf_workspace :: "workspace option"
  cf_bootstrap :: "step list option"
  cf_provision :: "step list"
  cf_shell :: "shell_decl option"
  cf_incus :: "incus_decl option"
  cf_volumes :: "volume gomap"
  cf_secrets :: "secret gomap"
  cf_root :: string


section \<open>Defaults\<close>

definition scope_or_default :: "project_decl \<Rightarrow> string" where
  "scope_or_default p = (if pj_scope p = [] then ScopePath else pj_scope p)"

definition pool_or_default :: "volume \<Rightarrow> string" where
  "pool_or_default v = (if vo_pool v = [] then default_storage_pool else vo_pool v)"

definition secret_source :: "secret \<Rightarrow> string" where
  "secret_source s =
     (if se_env s \<noteq> [] then ''environment variable '' @ se_env s else ''file '' @ se_file s)"

definition workspace_or_default :: "config \<Rightarrow> workspace_mount" where
  "workspace_or_default c =
     (let ws = \<lparr>wm_source = default_workspace_source, wm_target = default_workspace_target,
                wm_readonly = False, wm_idmap = IDMapAuto,
                wm_owner = \<lparr>ro_uid = 0, ro_gid = 0\<rparr>\<rparr>
      in case cf_workspace c of
           None \<Rightarrow> ws
         | Some w \<Rightarrow>
           (let ws1 = (if ws_idmap w \<noteq> [] then ws\<lparr>wm_idmap := ws_idmap w\<rparr> else ws);
                ws2 = (case ws_owner w of
                    None \<Rightarrow> ws1
                  | Some ow \<Rightarrow> ws1\<lparr>wm_owner := \<lparr>ro_uid = ow_uid ow,
                      ro_gid = (case ow_gid ow of None \<Rightarrow> ow_uid ow | Some g \<Rightarrow> g)\<rparr>\<rparr>)
            in case fmlookup (ws_mounts w) main_mount_name of
                 None \<Rightarrow> ws2
               | Some m \<Rightarrow>
                 (let ws3 = (if mo_source m \<noteq> [] then ws2\<lparr>wm_source := mo_source m\<rparr> else ws2);
                      ws4 = (if mo_target m \<noteq> [] then ws3\<lparr>wm_target := mo_target m\<rparr> else ws3)
                  in ws4\<lparr>wm_readonly := mo_readonly m\<rparr>)))"

definition shell_or_default :: "config \<Rightarrow> shell_decl" where
  "shell_or_default c =
     (let sh = \<lparr>sh_user = [], sh_command = default_shell,
                sh_cwd = wm_target (workspace_or_default c)\<rparr>
      in case cf_shell c of
           None \<Rightarrow> sh
         | Some d \<Rightarrow>
           (let sh1 = (if sh_user d \<noteq> [] then sh\<lparr>sh_user := sh_user d\<rparr> else sh);
                sh2 = (if sh_command d \<noteq> [] then sh1\<lparr>sh_command := sh_command d\<rparr> else sh1)
            in (if sh_cwd d \<noteq> [] then sh2\<lparr>sh_cwd := sh_cwd d\<rparr> else sh2)))"

definition incus_project :: "config \<Rightarrow> string" where
  "incus_project c = (case cf_incus c of None \<Rightarrow> [] | Some i \<Rightarrow> ic_project i)"

definition mounts :: "config \<Rightarrow> mount gomap" where
  "mounts c =
     (let main = workspace_or_default c;
          m = \<lparr>mo_source = wm_source main, mo_target = wm_target main,
               mo_readonly = wm_readonly main\<rparr>
      in case cf_workspace c of
           None \<Rightarrow> fmupd main_mount_name m fmempty
         | Some w \<Rightarrow>
             fmupd main_mount_name m (fmfilter (\<lambda>n. n \<noteq> main_mount_name) (ws_mounts w)))"

definition mount_device_name :: "string \<Rightarrow> string" where
  "mount_device_name entry =
     (if entry = main_mount_name then workspace_device_name else entry)"

definition resolve_path :: "config \<Rightarrow> string \<Rightarrow> string" where
  "resolve_path c p =
     (if p = [] then cf_root c else if is_abs p then p else path_join (cf_root c) p)"

definition workspace_source_path :: "config \<Rightarrow> string" where
  "workspace_source_path c = resolve_path c (wm_source (workspace_or_default c))"

definition profile_names :: "config \<Rightarrow> string list" where
  "profile_names c =
     (case in_profiles (cf_instance c) of None \<Rightarrow> [default_profile] | Some ps \<Rightarrow> ps)"

definition has_ansible_step :: "config \<Rightarrow> bool" where
  "has_ansible_step c \<longleftrightarrow> list_ex (\<lambda>s. st_ansible s \<noteq> None) (cf_provision c)"


text \<open>A declaration with nothing but a project name and an image.\<close>

definition plain_config :: "string \<Rightarrow> string \<Rightarrow> string \<Rightarrow> config" where
  "plain_config name img root =
     \<lparr>cf_schema = schema_version, cf_runtime = None,
      cf_project = \<lparr>pj_name = name, pj_scope = ScopeName\<rparr>,
      cf_instance = \<lparr>in_image = img, in_profiles = None, in_config = fmempty, in_devices = fmempty\<rparr>,
      cf_workspace = None, cf_bootstrap = None, cf_provision = [], cf_shell = None, cf_incus = None,
      cf_volumes = fmempty, cf_secrets = fmempty, cf_root = root\<rparr>"


section \<open>Facts\<close>

lemma has_key_mounts:
  "has_key (mounts c) n \<longleftrightarrow>
     n = main_mount_name \<or> (\<exists>w. cf_workspace c = Some w \<and> has_key (ws_mounts w) n)"
  by (auto simp: mounts_def Let_def has_key_iff split: option.splits)

text \<open>The project's own tree is always mounted, whatever else the section declares.\<close>

lemma mounts_main:
  "fmlookup (mounts c) main_mount_name =
     Some \<lparr>mo_source = wm_source (workspace_or_default c),
           mo_target = wm_target (workspace_or_default c),
           mo_readonly = wm_readonly (workspace_or_default c)\<rparr>"
  by (simp add: mounts_def Let_def split: option.splits)

lemma mounts_other:
  "n \<noteq> main_mount_name \<Longrightarrow>
   fmlookup (mounts c) n = (case cf_workspace c of None \<Rightarrow> None | Some w \<Rightarrow> fmlookup (ws_mounts w) n)"
  by (simp add: mounts_def Let_def split: option.splits)

lemma workspace_defaults_nonempty:
  "wm_source (workspace_or_default c) \<noteq> []" "wm_target (workspace_or_default c) \<noteq> []"
  "wm_idmap (workspace_or_default c) \<noteq> []"
  by (auto simp: workspace_or_default_def Let_def config_consts idmap_consts split: option.splits)

lemma shell_command_nonempty: "sh_command (shell_or_default c) \<noteq> []"
  by (auto simp: shell_or_default_def default_shell_def Let_def split: option.splits)

lemma resolve_path_abs: "is_abs (cf_root c) \<Longrightarrow> is_abs (resolve_path c p)"
  by (simp add: resolve_path_def is_abs_path_join)

lemma mount_device_name_inj:
  assumes "mount_device_name a = mount_device_name b"
    and "a \<noteq> workspace_device_name" "b \<noteq> workspace_device_name"
  shows "a = b"
  using assms by (auto simp: mount_device_name_def split: if_splits)

end
