(* ===== verification/Workspace_Section.thy ===== *)
theory Workspace_Section
  imports Config
begin

text \<open>
  Models \<open>internal/config/workspace.go\<close>: the workspace section is written as one mount or as a map
  of them, and leaves this file in one form. What the decoder cannot use it leaves out; validation
  reports it.
\<close>

definition idmap_key :: string where "idmap_key = ''idmap''"
definition owner_key :: string where "owner_key = ''owner''"

text \<open>\<open>hasMountEntry\<close>: any value but the owner is an object, which tells the map form.\<close>

definition has_mount_entry :: "(string, json) fmap \<Rightarrow> bool" where
  "has_mount_entry raw \<longleftrightarrow>
     list_ex (\<lambda>name. name \<noteq> owner_key \<and> is_json_object (field raw name)) (sorted_keys raw)"

definition unmarshal_owner :: "(string, json) fmap \<Rightarrow> err + owner" where
  "unmarshal_owner m =
     bindR (as_int (field m ''uid'')) (\<lambda>uid.
       case field m ''gid'' of
         JNull \<Rightarrow> Inr \<lparr>ow_uid = uid, ow_gid = None\<rparr>
       | g \<Rightarrow> bindR (as_int g) (\<lambda>gid. Inr \<lparr>ow_uid = uid, ow_gid = Some gid\<rparr>))"

definition read_owner :: "(string, json) fmap \<Rightarrow> err + owner option" where
  "read_owner raw =
     (case fmlookup raw owner_key of
        Some (JObj m) \<Rightarrow> (case unmarshal_owner m of
            Inl e \<Rightarrow> Inl (Errorf ''workspace.owner: %w'' [W e])
          | Inr ow \<Rightarrow> Inr (Some ow))
      | _ \<Rightarrow> Inr None)"

definition unmarshal_mount :: "(string, json) fmap \<Rightarrow> err + mount" where
  "unmarshal_mount m =
     bindR (as_string (field m ''source'')) (\<lambda>source.
     bindR (as_string (field m ''target'')) (\<lambda>target.
     bindR (as_bool (field m ''readonly'')) (\<lambda>readonly.
       Inr \<lparr>mo_source = source, mo_target = target, mo_readonly = readonly\<rparr>)))"

definition unmarshal_single :: "owner option \<Rightarrow> (string, json) fmap \<Rightarrow> err + workspace" where
  "unmarshal_single ow m =
     (case bindR (unmarshal_mount m) (\<lambda>mt.
           bindR (as_string (field m idmap_key)) (\<lambda>idmap. Inr (mt, idmap))) of
        Inl e \<Rightarrow> Inl (Errorf ''workspace: %w'' [W e])
      | Inr (mt, idmap) \<Rightarrow>
          Inr \<lparr>ws_idmap = idmap, ws_owner = ow,
               ws_mounts = fmupd main_mount_name mt fmempty, ws_map_form = False\<rparr>)"

text \<open>
  One entry of the map form. A wrong \<open>idmap\<close> is left out here, like an entry that is not a mount.
\<close>

definition add_entry :: "(string, json) fmap \<Rightarrow> string \<Rightarrow> workspace \<Rightarrow> err + workspace" where
  "add_entry raw name w =
     (let value = field raw name in
      if name = idmap_key then
        Inr (case value of JStr s \<Rightarrow> w\<lparr>ws_idmap := s\<rparr> | _ \<Rightarrow> w)
      else if name = owner_key then Inr w
      else case value of
          JObj m \<Rightarrow> (case unmarshal_mount m of
              Inl e \<Rightarrow> Inl (Errorf ''workspace.%s: %w'' [S name, W e])
            | Inr mt \<Rightarrow> Inr (w\<lparr>ws_mounts := fmupd name mt (ws_mounts w)\<rparr>))
        | _ \<Rightarrow> Inr w)"

fun add_entries :: "(string, json) fmap \<Rightarrow> string list \<Rightarrow> workspace \<Rightarrow> err + workspace" where
  "add_entries raw [] w = Inr w"
| "add_entries raw (n # ns) w = bindR (add_entry raw n w) (add_entries raw ns)"

definition unmarshal_map :: "owner option \<Rightarrow> (string, json) fmap \<Rightarrow> err + workspace" where
  "unmarshal_map ow raw =
     add_entries raw (sorted_keys raw)
       \<lparr>ws_idmap = [], ws_owner = ow, ws_mounts = fmempty, ws_map_form = True\<rparr>"

definition unmarshal_workspace :: "json \<Rightarrow> err + workspace" where
  "unmarshal_workspace j =
     (case as_object j of
        Inl e \<Rightarrow> Inl (Errorf ''workspace: %w'' [W e])
      | Inr raw \<Rightarrow>
          bindR (read_owner raw) (\<lambda>ow.
            if \<not> has_mount_entry raw then unmarshal_single ow raw
            else unmarshal_map ow raw))"

text \<open>\<open>Workspace.mount\<close>, on a section that may be absent.\<close>

definition workspace_mount_of :: "workspace option \<Rightarrow> string \<Rightarrow> mount option" where
  "workspace_mount_of w name =
     (case w of None \<Rightarrow> None | Some s \<Rightarrow> fmlookup (ws_mounts s) name)"

lemma has_mount_entry_iff:
  "has_mount_entry raw \<longleftrightarrow> (\<exists>n m. n \<noteq> owner_key \<and> fmlookup raw n = Some (JObj m))"
proof -
  have "is_json_object j \<longleftrightarrow> (\<exists>m. j = JObj m)" for j by (cases j) simp_all
  then show ?thesis
    by (fastforce simp: has_mount_entry_def list_ex_iff field_def has_key_iff split: option.splits)
qed

lemma add_entry_frame:
  "add_entry raw n w = Inr w' \<Longrightarrow> ws_owner w' = ws_owner w \<and> ws_map_form w' = ws_map_form w"
  by (auto simp: add_entry_def Let_def split: if_splits json.splits sum.splits)

lemma add_entry_mounts:
  assumes "add_entry raw n w = Inr w'"
  shows "has_key (ws_mounts w') k \<longleftrightarrow>
    has_key (ws_mounts w) k \<or>
    (k = n \<and> n \<noteq> idmap_key \<and> n \<noteq> owner_key \<and> is_json_object (field raw n))"
  using assms by (auto simp: add_entry_def Let_def split: if_splits json.splits sum.splits)

lemma add_entries_mounts:
  "add_entries raw ns w = Inr w' \<Longrightarrow>
   has_key (ws_mounts w') k \<longleftrightarrow>
     has_key (ws_mounts w) k \<or>
     (k \<in> set ns \<and> k \<noteq> idmap_key \<and> k \<noteq> owner_key \<and> is_json_object (field raw k))"
proof (induction ns arbitrary: w)
  case (Cons n ns)
  then obtain w1 where w1: "add_entry raw n w = Inr w1" and r: "add_entries raw ns w1 = Inr w'"
    by (auto simp: bindR_Inr_iff)
  from Cons.IH [OF r] add_entry_mounts [OF w1] show ?case by auto
qed simp

lemma add_entries_frame:
  "add_entries raw ns w = Inr w' \<Longrightarrow> ws_owner w' = ws_owner w \<and> ws_map_form w' = ws_map_form w"
proof (induction ns arbitrary: w)
  case (Cons n ns)
  then show ?case by (auto simp: bindR_Inr_iff dest!: add_entry_frame)
qed simp

lemma unmarshal_single_Inr:
  assumes "unmarshal_single ow m = Inr w"
  shows "\<exists>mt. ws_mounts w = fmupd main_mount_name mt fmempty \<and> ws_owner w = ow \<and> \<not> ws_map_form w"
  using assms by (auto simp: unmarshal_single_def simp del: bindR_Inr_iff split: sum.splits prod.splits)

text \<open>
  The form the decoder chose is the form of the document, and in the map form the mounts are
  exactly the object entries other than the section's own keys.
\<close>

lemma unmarshal_workspace_form:
  "unmarshal_workspace (JObj raw) = Inr w \<Longrightarrow> ws_map_form w = has_mount_entry raw"
  by (auto simp: unmarshal_workspace_def bindR_Inr_iff unmarshal_map_def
      dest!: add_entries_frame unmarshal_single_Inr split: if_splits)

lemma unmarshal_workspace_map_mounts:
  assumes "unmarshal_workspace (JObj raw) = Inr w" "has_mount_entry raw"
  shows "has_key (ws_mounts w) k \<longleftrightarrow>
    has_key raw k \<and> k \<noteq> idmap_key \<and> k \<noteq> owner_key \<and> is_json_object (field raw k)"
  using assms
  by (auto simp: unmarshal_workspace_def bindR_Inr_iff unmarshal_map_def dest!: add_entries_mounts)

lemma unmarshal_workspace_single_mounts:
  assumes "unmarshal_workspace (JObj raw) = Inr w" "\<not> has_mount_entry raw"
  shows "has_key (ws_mounts w) k \<longleftrightarrow> k = main_mount_name"
  using assms
  by (auto simp: unmarshal_workspace_def bindR_Inr_iff dest!: unmarshal_single_Inr)

end
