(* ===== verification/Validate.thy ===== *)
theory Validate
  imports Workspace_Section
begin

text \<open>
  Models \<open>internal/config/validate.go\<close>: every check of a configuration that already passed the
  schema. Each check returns the problems it found, in the order the source reports them; the file
  system is the parameter \<open>stat\<close> (\<open>os.Stat\<close>).
\<close>

record file_info =
  fi_dir :: bool
  fi_regular :: bool

type_synonym stat_fun = "string \<Rightarrow> err + file_info"

definition problem_at :: "string \<Rightarrow> string \<Rightarrow> string list \<Rightarrow> problem" where
  "problem_at path fmt args = \<lparr>pb_path = path, pb_message = sprintf fmt args\<rparr>"

definition dash :: string where "dash = ''-''"
definition list_separator :: char where "list_separator = CHR '',''"
definition reserved_env_prefix :: string where "reserved_env_prefix = ''IDEV_''"

definition index_path :: "string \<Rightarrow> nat \<Rightarrow> string" where
  "index_path kind i = kind @ ''['' @ dec i @ '']''"


section \<open>The runtime version\<close>

definition parse_version :: "string \<Rightarrow> err + int \<times> int" where
  "parse_version v =
     (let parts = split_on (CHR ''.'') v in
      if length parts > 3 then Inl (Sentinel ErrVersionFormat)
      else
        bindR (map_result (\<lambda>part.
            case parse_int part of
              None \<Rightarrow> Inl (Sentinel ErrVersionFormat)
            | Some n \<Rightarrow> if n < 0 \<or> has_prefix part ''+'' then Inl (Sentinel ErrVersionFormat)
                        else Inr n) parts)
          (\<lambda>nums. Inr (nums ! 0, if length nums > 1 then nums ! 1 else 0)))"

definition runtime_compatible :: "string \<Rightarrow> string \<Rightarrow> err + bool \<times> bool" where
  "runtime_compatible required current =
     (case parse_version required of
        Inl e \<Rightarrow> Inl (Errorf ''invalid version %q: %w'' [S required, W e])
      | Inr (r_major, r_minor) \<Rightarrow>
          bindR (parse_version current) (\<lambda>(c_major, c_minor).
            let older = r_major < c_major \<or> (r_major = c_major \<and> r_minor < c_minor) in
            if r_major \<noteq> c_major then Inr (False, older)
            else Inr (r_minor \<le> c_minor, older)))"

definition validate_runtime :: "config \<Rightarrow> problem list" where
  "validate_runtime c =
     (case cf_runtime c of
        None \<Rightarrow> []
      | Some rt \<Rightarrow>
          if rt_version rt = [] then []
          else (case runtime_compatible (rt_version rt) runtime_version of
              Inl e \<Rightarrow> [problem_at ''runtime.version'' ''%v'' [err_text e]]
            | Inr (ok, older) \<Rightarrow>
                if \<not> ok \<and> older then
                  [problem_at ''runtime.version''
                    (''%s is older than this idev, which provides %s; ''
                     @ ''raise the pin, or keep using the idev it was written for'')
                    [rt_version rt, runtime_version]]
                else if \<not> ok then
                  [problem_at ''runtime.version''
                    ''%s needs a newer idev than this one, which provides %s''
                    [rt_version rt, runtime_version]]
                else []))"


section \<open>Volumes, secrets, shell\<close>

definition validate_volumes :: "config \<Rightarrow> problem list" where
  "validate_volumes c = concat (map (\<lambda>name.
     case fmlookup (cf_volumes c) name of None \<Rightarrow> [] | Some vol \<Rightarrow>
       let path = ''volumes.'' @ name in
         (if \<not> is_abs (vo_path vol) then
            [problem_at (path @ ''.path'') ''must be an absolute path in the container, got %q''
              [vo_path vol]] else [])
         @ (if name = workspace_device_name then
            [problem_at path ''%q is reserved for the workspace mount'' [workspace_device_name]]
            else [])
         @ (if contains_char name list_separator \<or> contains_char name slash then
            [problem_at path ''name must not contain %q or %q'' [[list_separator], [slash]]]
            else [])
         @ (if has_key (in_devices (cf_instance c)) name then
            [problem_at path ''conflicts with instance.devices.%s'' [name]] else [])
         @ (case workspace_mount_of (cf_workspace c) name of None \<Rightarrow> [] | Some _ \<Rightarrow>
            [problem_at path (''conflicts with workspace.%s: one instance cannot have ''
               @ ''two devices of that name'') [name]]))
     (sorted_keys (cf_volumes c)))"

definition validate_secrets :: "config \<Rightarrow> problem list" where
  "validate_secrets c = concat (map (\<lambda>name.
     case fmlookup (cf_secrets c) name of None \<Rightarrow> [] | Some secret \<Rightarrow>
       let path = ''secrets.'' @ name in
         (if se_env secret \<noteq> [] \<and> se_file secret \<noteq> [] then
            [problem_at path ''env and file are mutually exclusive; specify only one'' []]
          else if se_env secret = [] \<and> se_file secret = [] then
            [problem_at path ''must specify either env or file'' []]
          else [])
         @ (if has_prefix name reserved_env_prefix then
            [problem_at path ''%s* is reserved for idev'' [reserved_env_prefix]] else []))
     (sorted_keys (cf_secrets c)))"

definition validate_shell :: "config \<Rightarrow> problem list" where
  "validate_shell c =
     (case cf_shell c of
        None \<Rightarrow> []
      | Some sh \<Rightarrow>
          concat (map (\<lambda>(f, value).
            if has_prefix value dash
            then [problem_at (''shell.'' @ f) ''must not start with %q'' [dash]] else [])
            [(''user'', sh_user sh), (''command'', sh_command sh)])
          @ (if sh_cwd sh \<noteq> [] \<and> \<not> is_abs (sh_cwd sh) then
              [problem_at ''shell.cwd'' ''must be an absolute path in the container, got %q''
                [sh_cwd sh]] else []))"


section \<open>Steps\<close>

definition check_ansible_tags :: "string \<Rightarrow> ansible_step \<Rightarrow> problem list" where
  "check_ansible_tags path s = concat (map (\<lambda>(f, tags).
     concat (map (\<lambda>(i, tag).
       let place = path @ ''.'' @ index_path f i in
         (if has_prefix tag dash then
            [problem_at place ''must not start with %q'' [dash]] else [])
         @ (if contains_char tag (CHR '','') then
            [problem_at place ''must not contain %q, which separates tags'' ['','']] else []))
       (enum_from 0 tags)))
     [(''tags'', an_tags s), (''skip_tags'', an_skip_tags s)])"

definition first_control :: "string \<Rightarrow> nat option" where
  "first_control s = List.find is_control_rune (map fst (runes s))"

definition check_run_values :: "string \<Rightarrow> nat \<Rightarrow> run_step \<Rightarrow> problem list" where
  "check_run_values kind i r =
     concat (map (\<lambda>(f, value).
       if has_prefix value dash
       then [problem_at (index_path kind i @ ''.'' @ f) ''must not start with %q'' [dash]] else [])
       [(''user'', rs_user r), (''shell'', rs_shell r)])
     @ concat (map (\<lambda>k.
       if contains_char k (CHR ''='')
       then [problem_at (index_path kind i @ ''.env.'' @ k) ''name must not contain %q'' [''='']]
       else []) (sorted_keys (rs_env r)))
     @ (if rs_cwd r \<noteq> [] \<and> \<not> is_abs (rs_cwd r) then
         [problem_at (index_path kind i @ ''.cwd'')
           ''must be an absolute path in the container, got %q'' [rs_cwd r]] else [])"

definition check_step_values :: "string \<Rightarrow> step list \<Rightarrow> problem list" where
  "check_step_values kind steps = concat (map (\<lambda>(i, s).
     (case first_control (st_name s) of None \<Rightarrow> [] | Some found \<Rightarrow>
        [problem_at (index_path kind i @ ''.name'')
          ''must not contain a control character (found %s)'' [quote_control found]])
     @ (case st_ansible s of None \<Rightarrow> [] | Some a \<Rightarrow>
          check_ansible_tags (index_path kind i @ ''.ansible'') a)
     @ (case st_run s of None \<Rightarrow> [] | Some r \<Rightarrow> check_run_values kind i r))
     (enum_from 0 steps))"

definition validate_step_values :: "config \<Rightarrow> problem list" where
  "validate_step_values c =
     (case cf_bootstrap c of None \<Rightarrow> [] | Some b \<Rightarrow> check_step_values ''bootstrap'' b)
     @ check_step_values ''provision'' (cf_provision c)"

definition run_only_fields :: "string list" where
  "run_only_fields = [''cwd'', ''env'', ''shell'', ''user'']"

definition step_kind_names :: "string list" where
  "step_kind_names = [''run'', ''ansible'', ''galaxy'']"

definition check_step_shape :: "string \<Rightarrow> bool \<Rightarrow> nat \<Rightarrow> json \<Rightarrow> problem list" where
  "check_step_shape key allow_ansible i item =
     (case item of
        JObj m \<Rightarrow>
          (let path = index_path key i;
               kinds = filter (has_key m) step_kind_names;
               extra = filter (has_key m) run_only_fields in
            (if length kinds > 1 then
               [problem_at path ''%s are mutually exclusive; specify only one''
                 [join '' and '' kinds]]
             else if length kinds = 0 then
               [problem_at path ''must specify one of: %s'' [join '', '' step_kind_names]]
             else [])
            @ (if \<not> has_key m ''run'' \<and> length kinds > 0 then
                 (if \<not> allow_ansible then
                    [problem_at path ''only run steps are allowed in %s'' [key]] else [])
                 @ (if length extra > 0 then
                    [problem_at path ''%s can only be used with run steps'' [join '', '' extra]]
                    else [])
               else []))
      | _ \<Rightarrow> [])"

definition validate_steps :: "(string, json) fmap \<Rightarrow> string \<Rightarrow> bool \<Rightarrow> problem list" where
  "validate_steps raw key allow_ansible =
     (case fmlookup raw key of
        Some (JArr items) \<Rightarrow>
          concat (map (\<lambda>(i, item). check_step_shape key allow_ansible i item) (enum_from 0 items))
      | _ \<Rightarrow> [])"


section \<open>The instance\<close>

definition check_key_shape :: "string \<Rightarrow> string \<Rightarrow> problem list" where
  "check_key_shape path key =
     (if has_prefix key dash then [problem_at path ''key must not start with %q'' [dash]] else [])
     @ (if contains_char key (CHR ''='') then
         [problem_at path ''key must not contain %q'' [''='']] else [])
     @ (if contains_char key list_separator then
         [problem_at path ''key must not contain %q'' [[list_separator]]] else [])"

definition is_alnum :: "char \<Rightarrow> bool" where
  "is_alnum c \<longleftrightarrow> is_digit c \<or> (65 \<le> byte c \<and> byte c \<le> 90) \<or> (97 \<le> byte c \<and> byte c \<le> 122)"

text \<open>\<open>^[A-Za-z0-9][A-Za-z0-9._-]*$\<close>\<close>

definition is_profile_name :: "string \<Rightarrow> bool" where
  "is_profile_name s \<longleftrightarrow>
     (case s of [] \<Rightarrow> False
      | c # r \<Rightarrow> is_alnum c \<and>
          list_all (\<lambda>x. is_alnum x \<or> x = CHR ''.'' \<or> x = CHR ''_'' \<or> x = CHR ''-'') r)"

definition is_volume_source :: "string gomap \<Rightarrow> bool" where
  "is_volume_source dev \<longleftrightarrow> get_str dev ''type'' = ''disk'' \<and> get_str dev ''pool'' \<noteq> []"

definition has_root_disk :: "string gomap gomap \<Rightarrow> bool" where
  "has_root_disk devices \<longleftrightarrow> list_ex (\<lambda>name.
     case fmlookup devices name of None \<Rightarrow> False | Some dev \<Rightarrow>
       get_str dev ''type'' = ''disk'' \<and> get_str dev ''path'' = ''/'' \<and> get_str dev ''pool'' \<noteq> [])
     (sorted_keys devices)"

definition validate_profiles :: "instance_decl \<Rightarrow> problem list" where
  "validate_profiles inst =
     (case in_profiles inst of None \<Rightarrow> [] | Some ps \<Rightarrow>
        concat (map (\<lambda>(i, name).
          if \<not> is_profile_name name
          then [problem_at (index_path ''instance.profiles'' i) ''%q is not a valid profile name'' [name]]
          else []) (enum_from 0 ps)))"

definition validate_device_shapes :: "instance_decl \<Rightarrow> problem list" where
  "validate_device_shapes inst = concat (map (\<lambda>name.
     case fmlookup (in_devices inst) name of None \<Rightarrow> [] | Some dev \<Rightarrow>
       (if has_prefix name dash then
          [problem_at (''instance.devices.'' @ name) ''device name must not start with %q'' [dash]]
        else [])
       @ (if contains_char name list_separator then
          [problem_at (''instance.devices.'' @ name) ''device name must not contain %q''
            [[list_separator]]] else [])
       @ concat (map (\<lambda>k. check_key_shape (''instance.devices.'' @ name @ ''.'' @ k) k)
          (sorted_keys dev)))
     (sorted_keys (in_devices inst)))"

definition validate_instance :: "config \<Rightarrow> problem list" where
  "validate_instance c =
     (let inst = cf_instance c in
       (if has_prefix (in_image inst) dash then
          [problem_at ''instance.image'' ''must not start with %q'' [dash]] else [])
       @ validate_profiles inst
       @ concat (map (\<lambda>k. check_key_shape (''instance.config.'' @ k) k)
           (sorted_keys (in_config inst)))
       @ validate_device_shapes inst
       @ (if in_profiles inst = Some [] \<and> \<not> has_root_disk (in_devices inst) then
           [problem_at ''instance.devices''
             (''a root disk device is required because instance.profiles is empty; ''
              @ ''declare one (type: disk, path: /, pool: <storage pool>) or use a profile that provides it'')
             []] else [])
       @ concat (map (\<lambda>k.
           if has_prefix k reserved_config_prefix
           then [problem_at (''instance.config.'' @ k) ''%s* is reserved for idev''
                  [reserved_config_prefix]] else []) (sorted_keys (in_config inst)))
       @ (if has_key (in_devices inst) workspace_device_name then
           [problem_at (''instance.devices.'' @ workspace_device_name)
             ''%q is reserved for the workspace mount; use the workspace section instead''
             [workspace_device_name]] else []))"


section \<open>The workspace\<close>

definition max_device_name_length :: nat where "max_device_name_length = 63"

definition root_is_not_a_mount_target :: string where
  "root_is_not_a_mount_target =
     ''must not be '' @ quote ''/'' @ '': the container''
     @ [CHR 0x27] @ ''s root comes from the image or a profile, and a mount cannot replace it''"

definition is_container_root :: "string \<Rightarrow> bool" where
  "is_container_root path \<longleftrightarrow> clean path = ''/''"

definition mount_path :: "config \<Rightarrow> string \<Rightarrow> string \<Rightarrow> string" where
  "mount_path c name fld =
     (case cf_workspace c of
        Some w \<Rightarrow> if ws_map_form w then ''workspace.'' @ name @ ''.'' @ fld else ''workspace.'' @ fld
      | None \<Rightarrow> ''workspace.'' @ fld)"

definition validate_owner :: "config \<Rightarrow> problem list" where
  "validate_owner c =
     (case cf_workspace c of
        None \<Rightarrow> []
      | Some w \<Rightarrow> (case ws_owner w of
          None \<Rightarrow> []
        | Some _ \<Rightarrow>
            (let ow = wm_owner (workspace_or_default c); mode = wm_idmap (workspace_or_default c) in
              (if ro_uid ow < 0 then
                 [problem_at ''workspace.owner.uid'' ''must not be negative, got %d'' [itoa (ro_uid ow)]]
               else [])
              @ (if ro_gid ow < 0 then
                 [problem_at ''workspace.owner.gid'' ''must not be negative, got %d'' [itoa (ro_gid ow)]]
               else [])
              @ (if mode = IDMapShift then
                 [problem_at ''workspace.owner''
                   (''cannot be used with idmap: shift, which maps ''
                    @ ''a container id onto the host id of the same number and has no ''
                    @ ''target to choose. Use idmap: raw'') []]
               else if mode = IDMapNone then
                 [problem_at ''workspace.owner''
                   ''cannot be used with idmap: none, which maps nothing. Use idmap: raw'' []]
               else []))))"

definition validate_mount_name :: "config \<Rightarrow> string \<Rightarrow> problem list" where
  "validate_mount_name c name =
     (let path = ''workspace.'' @ name in
       (if name = workspace_device_name then
          [problem_at path (''%q is the device name %q produces; declare the project''
             @ [CHR 0x27] @ ''s own tree as %q instead'')
             [workspace_device_name, main_mount_name, main_mount_name]]
        else if has_prefix name dash then
          [problem_at path ''device name must not start with %q'' [dash]]
        else if contains_char name list_separator then
          [problem_at path ''device name must not contain %q'' [[list_separator]]]
        else if length name > max_device_name_length then
          [problem_at path ''device name must be at most %d characters, got %d''
            [dec max_device_name_length, dec (length name)]]
        else [])
       @ (if has_key (in_devices (cf_instance c)) name then
          [problem_at path (''conflicts with instance.devices.%s: one instance cannot ''
             @ ''have two devices of that name'') [name]] else []))"

definition validate_mount :: "config \<Rightarrow> string \<Rightarrow> mount \<Rightarrow> problem list" where
  "validate_mount c name m =
     (let target = mount_path c name ''target'' in
       (if mo_target m = [] then
          [problem_at target (''is required: a mount other than %q has no default container path'')
            [main_mount_name]]
        else if \<not> is_abs (mo_target m) then
          [problem_at target ''must be an absolute path in the container, got %q'' [mo_target m]]
        else if is_container_root (mo_target m) then
          [problem_at target ''%s'' [root_is_not_a_mount_target]]
        else [])
       @ (if name = main_mount_name then [] else validate_mount_name c name))"

definition validate_workspace :: "config \<Rightarrow> problem list" where
  "validate_workspace c =
     (let mode = wm_idmap (workspace_or_default c) in
       if \<not> List.member idmap_modes mode then
         [problem_at ''workspace.idmap'' ''must be one of %s, got %q'' [join '', '' idmap_modes, mode]]
       else [])
     @ validate_owner c
     @ concat (map (\<lambda>name.
         case fmlookup (mounts c) name of None \<Rightarrow> [] | Some m \<Rightarrow> validate_mount c name m)
         (sorted_keys (mounts c)))"


section \<open>One container path, one disk\<close>

text \<open>
  \<open>validateMountPaths\<close>: the state is what has claimed each cleaned container path, and the
  problems so far.
\<close>

type_synonym claims = "string gomap \<times> problem list"

definition claim :: "string \<Rightarrow> string \<Rightarrow> claims \<Rightarrow> claims" where
  "claim fld path cp =
     (case cp of (claimed, ps) \<Rightarrow>
        if path = [] \<or> \<not> is_abs path then (claimed, ps)
        else (case fmlookup claimed (clean path) of
            Some first \<Rightarrow> (claimed, ps @ [problem_at fld
              (''container path %s is already used by %s; ''
               @ ''Incus refuses an instance with two disks on one path'') [clean path, first]])
          | None \<Rightarrow> (fmupd (clean path) fld claimed, ps)))"

definition claim_mount :: "config \<Rightarrow> string \<Rightarrow> claims \<Rightarrow> claims" where
  "claim_mount c name cp =
     (case fmlookup (mounts c) name of None \<Rightarrow> cp | Some m \<Rightarrow>
        claim (mount_path c name ''target'') (mo_target m) cp)"

definition claim_volume :: "config \<Rightarrow> string \<Rightarrow> claims \<Rightarrow> claims" where
  "claim_volume c name cp =
     (case fmlookup (cf_volumes c) name of None \<Rightarrow> cp | Some v \<Rightarrow>
        if is_abs (vo_path v) \<and> is_container_root (vo_path v) then
          (fst cp, snd cp @ [problem_at (''volumes.'' @ name @ ''.path'') ''%s''
            [root_is_not_a_mount_target]])
        else claim (''volumes.'' @ name @ ''.path'') (vo_path v) cp)"

definition claim_device :: "config \<Rightarrow> string \<Rightarrow> claims \<Rightarrow> claims" where
  "claim_device c name cp =
     (case fmlookup (in_devices (cf_instance c)) name of None \<Rightarrow> cp | Some dev \<Rightarrow>
        if get_str dev ''type'' = ''disk''
        then claim (''instance.devices.'' @ name @ ''.path'') (get_str dev ''path'') cp
        else cp)"

definition validate_mount_paths :: "config \<Rightarrow> problem list" where
  "validate_mount_paths c =
     snd (fold (claim_device c) (sorted_keys (in_devices (cf_instance c)))
         (fold (claim_volume c) (sorted_keys (cf_volumes c))
         (fold (claim_mount c) (sorted_keys (mounts c)) (fmempty, []))))"


section \<open>Paths on the host\<close>

definition check_step_paths :: "stat_fun \<Rightarrow> config \<Rightarrow> string \<Rightarrow> step list \<Rightarrow> problem list" where
  "check_step_paths stat c key steps = concat (map (\<lambda>(i, s).
     (case st_galaxy s of None \<Rightarrow> [] | Some g \<Rightarrow>
        (case stat (resolve_path c (gx_requirements g)) of
           Inl e \<Rightarrow> [problem_at (index_path key i @ ''.galaxy.requirements'') ''%v'' [err_text e]]
         | Inr _ \<Rightarrow> []))
     @ (case st_ansible s of None \<Rightarrow> [] | Some a \<Rightarrow>
        concat (map (\<lambda>(fld, value).
          if value = [] then []
          else (case stat (resolve_path c value) of
              Inl e \<Rightarrow> [problem_at (index_path key i @ ''.ansible.'' @ fld) ''%v'' [err_text e]]
            | Inr _ \<Rightarrow> []))
          [(''playbook'', an_playbook a), (''vars'', an_vars a), (''inventory'', an_inventory a)])))
     (enum_from 0 steps))"

definition validate_paths :: "stat_fun \<Rightarrow> config \<Rightarrow> problem list" where
  "validate_paths stat c =
     concat (map (\<lambda>name.
       case fmlookup (mounts c) name of None \<Rightarrow> [] | Some m \<Rightarrow>
         let src = resolve_path c (mo_source m); path = mount_path c name ''source'' in
         (case stat src of
            Inl e \<Rightarrow> [problem_at path ''%v'' [err_text e]]
          | Inr info \<Rightarrow> if \<not> fi_dir info then [problem_at path ''%s is not a directory'' [src]] else []))
       (sorted_keys (mounts c)))
     @ concat (map (\<lambda>name.
       case fmlookup (in_devices (cf_instance c)) name of None \<Rightarrow> [] | Some dev \<Rightarrow>
         let source = get_str dev ''source'' in
         if source = [] \<or> is_abs source then []
         else if is_volume_source dev then []
         else (case stat (resolve_path c source) of
             Inl e \<Rightarrow> [problem_at (''instance.devices.'' @ name @ ''.source'') ''%v'' [err_text e]]
           | Inr _ \<Rightarrow> []))
       (sorted_keys (in_devices (cf_instance c))))
     @ (case cf_bootstrap c of None \<Rightarrow> [] | Some b \<Rightarrow> check_step_paths stat c ''bootstrap'' b)
     @ check_step_paths stat c ''provision'' (cf_provision c)"


section \<open>The shape of the workspace section\<close>

definition single_form_fields :: "string list" where
  "single_form_fields = [''idmap'', ''owner'', ''readonly'', ''source'', ''target'']"

definition mount_fields :: "string list" where
  "mount_fields = [''readonly'', ''source'', ''target'']"

definition owner_fields :: "string list" where
  "owner_fields = [''gid'', ''uid'']"

definition validate_owner_shape :: "json \<Rightarrow> problem list" where
  "validate_owner_shape j =
     (case j of
        JObj entry \<Rightarrow> concat (map (\<lambda>f.
          if \<not> List.member owner_fields f
          then [problem_at (''workspace.owner.'' @ f) ''unknown field; owner takes %s''
                 [join '', '' owner_fields]] else []) (sorted_keys entry))
      | _ \<Rightarrow> [problem_at ''workspace.owner'' ''must be a mapping of uid and gid'' []])"

definition section_map_form :: "(string, json) fmap \<Rightarrow> bool" where
  "section_map_form raw \<longleftrightarrow>
     list_ex (\<lambda>name. is_json_object (field raw name) \<and> name \<noteq> owner_key) (sorted_keys raw)"

definition check_entry_shape :: "bool \<Rightarrow> string \<Rightarrow> json \<Rightarrow> problem list" where
  "check_entry_shape map_form name value =
     (if name = owner_key then validate_owner_shape value
      else if \<not> map_form then
        (if \<not> List.member single_form_fields name then
           [problem_at (''workspace.'' @ name) ''unknown field; the one-mount form takes %s''
             [join '', '' single_form_fields]] else [])
      else (case value of
          JObj entry \<Rightarrow> concat (map (\<lambda>f.
            if f = idmap_key then
              [problem_at (''workspace.'' @ name @ ''.'' @ idmap_key)
                (''belongs to the instance, not to a mount: raw.idmap is one ''
                 @ ''config key and cannot differ per disk. Write it as workspace.idmap'') []]
            else if \<not> List.member mount_fields f then
              [problem_at (''workspace.'' @ name @ ''.'' @ f) ''unknown field; a mount takes %s''
                [join '', '' mount_fields]]
            else []) (sorted_keys entry))
        | _ \<Rightarrow> if name = idmap_key then []
               else [problem_at (''workspace.'' @ name)
                 (''belongs to a mount, and workspace declares several here; move it into one of them'')
                 []]))"

definition validate_workspace_shape :: "(string, json) fmap \<Rightarrow> problem list" where
  "validate_workspace_shape raw =
     (case fmlookup raw ''workspace'' of
        Some (JObj sec) \<Rightarrow> concat (map (\<lambda>name.
            check_entry_shape (section_map_form sec) name (field sec name)) (sorted_keys sec))
      | _ \<Rightarrow> [])"


section \<open>All of it\<close>

definition validate_semantics :: "stat_fun \<Rightarrow> config \<Rightarrow> (string, json) fmap \<Rightarrow> problem list" where
  "validate_semantics stat c raw =
     validate_runtime c
     @ validate_steps raw ''bootstrap'' False
     @ validate_steps raw ''provision'' True
     @ validate_instance c
     @ validate_shell c
     @ validate_volumes c
     @ validate_secrets c
     @ validate_step_values c
     @ validate_workspace_shape raw
     @ validate_workspace c
     @ validate_mount_paths c
     @ (if cf_root c \<noteq> [] then validate_paths stat c else [])"

end
