(* ===== verification/Parse.thy ===== *)
theory Parse
  imports Validate
begin

text \<open>
  Models \<open>internal/config/parse.go\<close>: from the bytes of \<open>dev.yml\<close> to a checked configuration. The
  YAML parser and the JSON Schema validator are libraries: parameters of the definitions
  (\<open>yaml_lib\<close>), where \<open>yl_documents\<close> says for each document of the stream whether it has content
  (\<open>None\<close> when the stream does not parse), \<open>yl_json\<close> converts the first document strictly, and
  \<open>yl_schema\<close> validates it, giving the validator's tree of errors.
\<close>

datatype schema_error = SchemaError bool "string list" string "schema_error list"
  \<comment> \<open>whether the kind is \<open>PropertyNames\<close>, the instance location, the localized text, the causes\<close>

record yaml_lib =
  yl_documents :: "string \<Rightarrow> bool list option"
  yl_json :: "string \<Rightarrow> err + json"
  yl_schema :: "json \<Rightarrow> schema_error option"


section \<open>Problems the schema finds\<close>

fun replace_pair :: "char \<Rightarrow> char \<Rightarrow> string \<Rightarrow> string \<Rightarrow> string" where
  "replace_pair a b r [] = []"
| "replace_pair a b r [x] = [x]"
| "replace_pair a b r (x # y # s) =
     (if x = a \<and> y = b then r @ replace_pair a b r s else x # replace_pair a b r (y # s))"

text \<open>One token of a JSON Pointer, appended to what was rendered so far.\<close>

definition add_token :: "string \<Rightarrow> string \<Rightarrow> string" where
  "add_token acc tok0 =
     (let tok = replace_pair (CHR ''~'') (CHR ''0'') ''~''
            (replace_pair (CHR ''~'') (CHR ''1'') ''/'' tok0) in
      if parse_int tok \<noteq> None then acc @ ''['' @ tok @ '']''
      else (if acc \<noteq> [] then acc @ ''.'' else acc) @ tok)"

definition pointer_to_path :: "string \<Rightarrow> string" where
  "pointer_to_path ptr0 =
     (let ptr = trim_prefix ptr0 ''/'' in
      if ptr = [] then ''(root)'' else foldl add_token [] (split_on slash ptr))"

fun collect_leaf_problems :: "bool \<Rightarrow> schema_error \<Rightarrow> problem list" where
  "collect_leaf_problems about_a_key (SchemaError names loc msg causes) =
     (if causes = [] then
        [\<lparr>pb_path = (if about_a_key \<or> names then ''(a key name)''
                    else pointer_to_path (slash # join [slash] loc)),
          pb_message = msg\<rparr>]
      else concat (map (collect_leaf_problems (about_a_key \<or> names)) causes))"

definition explain_retired_field :: "problem \<Rightarrow> problem" where
  "explain_retired_field p =
     (if pb_path p = ''instance''
         \<and> pb_message p = ''additional properties '' @ [CHR 0x27] @ ''type'' @ [CHR 0x27] @ '' not allowed''
      then \<lparr>pb_path = ''instance.type'',
             pb_message = ''idev manages containers only, so this is no longer accepted; remove the line''\<rparr>
      else p)"

definition validate_schema :: "yaml_lib \<Rightarrow> json \<Rightarrow> problem list" where
  "validate_schema lib doc =
     (case yl_schema lib doc of
        None \<Rightarrow> []
      | Some e \<Rightarrow> map explain_retired_field (sort_key pb_path (collect_leaf_problems False e)))"


section \<open>Decoding the document\<close>

definition optional :: "json \<Rightarrow> (json \<Rightarrow> err + 'a) \<Rightarrow> err + 'a option" where
  "optional j f = (case j of JNull \<Rightarrow> Inr None | _ \<Rightarrow> bindR (f j) (\<lambda>x. Inr (Some x)))"

definition decode_map :: "(json \<Rightarrow> err + 'a) \<Rightarrow> json \<Rightarrow> err + 'a gomap" where
  "decode_map f j =
     bindR (as_object j) (\<lambda>m.
     bindR (map_result (\<lambda>k. bindR (f (field m k)) (\<lambda>x. Inr (k, x))) (sorted_keys m)) (\<lambda>kvs.
       Inr (fmap_of_list kvs)))"

fun decode_list :: "(json \<Rightarrow> err + 'a) \<Rightarrow> json \<Rightarrow> err + 'a list" where
  "decode_list f JNull = Inr []"
| "decode_list f (JArr xs) = map_result f xs"
| "decode_list f _ = Inl (type_error ''slice'')"

definition decode_runtime :: "json \<Rightarrow> err + runtime_decl" where
  "decode_runtime j = bindR (as_object j) (\<lambda>m.
     bindR (as_string (field m ''version'')) (\<lambda>v. Inr \<lparr>rt_version = v\<rparr>))"

definition decode_project :: "json \<Rightarrow> err + project_decl" where
  "decode_project j = bindR (as_object j) (\<lambda>m.
     bindR (as_string (field m ''name'')) (\<lambda>name.
     bindR (as_string (field m ''scope'')) (\<lambda>scope.
       Inr \<lparr>pj_name = name, pj_scope = scope\<rparr>)))"

definition decode_instance :: "json \<Rightarrow> err + instance_decl" where
  "decode_instance j = bindR (as_object j) (\<lambda>m.
     bindR (as_string (field m ''image'')) (\<lambda>image.
     bindR (optional (field m ''profiles'') as_strings) (\<lambda>profiles.
     bindR (unmarshal_string_map (field m ''config'')) (\<lambda>cfg.
     bindR (decode_map unmarshal_string_map (field m ''devices'')) (\<lambda>devices.
       Inr \<lparr>in_image = image, in_profiles = profiles, in_config = cfg, in_devices = devices\<rparr>)))))"

definition decode_volume :: "json \<Rightarrow> err + volume" where
  "decode_volume j = bindR (as_object j) (\<lambda>m.
     bindR (as_string (field m ''path'')) (\<lambda>path.
     bindR (as_string (field m ''pool'')) (\<lambda>pool.
     bindR (as_string (field m ''size'')) (\<lambda>size.
       Inr \<lparr>vo_path = path, vo_pool = pool, vo_size = size\<rparr>))))"

definition decode_secret :: "json \<Rightarrow> err + secret" where
  "decode_secret j = bindR (as_object j) (\<lambda>m.
     bindR (as_string (field m ''env'')) (\<lambda>env.
     bindR (as_string (field m ''file'')) (\<lambda>file.
     bindR (as_bool (field m ''optional'')) (\<lambda>opt.
       Inr \<lparr>se_env = env, se_file = file, se_optional = opt\<rparr>))))"

definition decode_shell :: "json \<Rightarrow> err + shell_decl" where
  "decode_shell j = bindR (as_object j) (\<lambda>m.
     bindR (as_string (field m ''user'')) (\<lambda>user.
     bindR (as_string (field m ''command'')) (\<lambda>command.
     bindR (as_string (field m ''cwd'')) (\<lambda>cwd.
       Inr \<lparr>sh_user = user, sh_command = command, sh_cwd = cwd\<rparr>))))"

definition decode_incus :: "json \<Rightarrow> err + incus_decl" where
  "decode_incus j = bindR (as_object j) (\<lambda>m.
     bindR (as_string (field m ''project'')) (\<lambda>p. Inr \<lparr>ic_project = p\<rparr>))"

definition decode_config :: "string \<Rightarrow> json \<Rightarrow> err + config" where
  "decode_config root j =
     bindR (as_object j) (\<lambda>m.
     bindR (as_int (field m ''schema'')) (\<lambda>schema.
     bindR (optional (field m ''runtime'') decode_runtime) (\<lambda>runtime.
     bindR (decode_project (field m ''project'')) (\<lambda>project.
     bindR (decode_instance (field m ''instance'')) (\<lambda>inst.
     bindR (optional (field m ''workspace'') unmarshal_workspace) (\<lambda>workspace.
     bindR (optional (field m ''bootstrap'') (decode_list unmarshal_step)) (\<lambda>bootstrap.
     bindR (decode_list unmarshal_step (field m ''provision'')) (\<lambda>provision.
     bindR (optional (field m ''shell'') decode_shell) (\<lambda>shell.
     bindR (optional (field m ''incus'') decode_incus) (\<lambda>incus.
     bindR (decode_map decode_volume (field m ''volumes'')) (\<lambda>volumes.
     bindR (decode_map decode_secret (field m ''secrets'')) (\<lambda>secrets.
       Inr \<lparr>cf_schema = schema, cf_runtime = runtime, cf_project = project,
            cf_instance = inst, cf_workspace = workspace, cf_bootstrap = bootstrap,
            cf_provision = provision, cf_shell = shell, cf_incus = incus,
            cf_volumes = volumes, cf_secrets = secrets, cf_root = root\<rparr>))))))))))))"


section \<open>Parse and Load\<close>

definition document_count :: "yaml_lib \<Rightarrow> string \<Rightarrow> nat option" where
  "document_count lib data =
     (case yl_documents lib data of None \<Rightarrow> None | Some ds \<Rightarrow> Some (length (filter id ds)))"

definition check_one_document :: "yaml_lib \<Rightarrow> string \<Rightarrow> err + unit" where
  "check_one_document lib data =
     (case document_count lib data of
        Some n \<Rightarrow> if n > 1 then
            Inl (Errorf (''parse yaml: dev.yml holds more than one YAML document; ''
              @ ''everything after the '' @ [CHR 0x27] @ ''---'' @ [CHR 0x27] @ '' would be ignored, so put it in one document'') [])
          else Inr ()
      | None \<Rightarrow> Inr ())"

definition check_schema_version :: "(string, json) fmap \<Rightarrow> err + unit" where
  "check_schema_version raw =
     (case fmlookup raw ''schema'' of
        None \<Rightarrow> Inl (ValidationError [problem_at ''schema''
            ''required field is missing (supported: %d)'' [itoa schema_version]])
      | Some (JNum n) \<Rightarrow>
          if parse_int n = Some schema_version then Inr ()
          else Inl (ValidationError [problem_at ''schema''
            ''unsupported schema version %s (supported: %d)'' [n, itoa schema_version]])
      | Some _ \<Rightarrow> Inl (ValidationError [problem_at ''schema''
            ''must be the integer %d'' [itoa schema_version]]))"

definition parse :: "yaml_lib \<Rightarrow> stat_fun \<Rightarrow> string \<Rightarrow> string \<Rightarrow> err + config" where
  "parse lib stat root data =
     bindR (check_one_document lib data) (\<lambda>_.
     case yl_json lib data of
       Inl e \<Rightarrow> Inl (Errorf ''parse yaml: %w'' [W e])
     | Inr (JObj raw) \<Rightarrow>
         bindR (check_schema_version raw) (\<lambda>_.
         let ps = validate_schema lib (JObj raw) in
         if ps \<noteq> [] then Inl (ValidationError ps)
         else (case decode_config root (JObj raw) of
             Inl e \<Rightarrow> Inl (Errorf ''decode configuration: %w'' [W e])
           | Inr c \<Rightarrow>
               (let ps = validate_semantics stat c raw in
                if ps \<noteq> [] then Inl (ValidationError ps) else Inr c)))
     | Inr _ \<Rightarrow> Inl (Errorf ''parse yaml: document must be a mapping'' []))"

definition load ::
    "yaml_lib \<Rightarrow> stat_fun \<Rightarrow> (string \<Rightarrow> err + string) \<Rightarrow> string \<Rightarrow> err + config" where
  "load lib stat read_file config_path =
     (case stat config_path of
        Inl e \<Rightarrow> Inl (Errorf ''read the configuration: %w'' [W e])
      | Inr info \<Rightarrow>
          if \<not> fi_regular info then Inl (Errorf ''read %s: not a regular file'' [S config_path])
          else (case read_file config_path of
              Inl e \<Rightarrow> Inl (Errorf ''read the configuration: %w'' [W e])
            | Inr data \<Rightarrow>
                (case parse lib stat (path_dir (path_dir config_path)) data of
                   Inl e \<Rightarrow> Inl (Errorf ''%s: %w'' [S config_path, W e])
                 | Inr c \<Rightarrow> Inr c)))"


section \<open>Facts\<close>

text \<open>What a successful parse has established, for the components that run on its result.\<close>

lemma parse_Inr:
  assumes "parse lib stat root data = Inr c"
  shows "\<exists>raw. yl_json lib data = Inr (JObj raw) \<and> decode_config root (JObj raw) = Inr c
    \<and> validate_schema lib (JObj raw) = [] \<and> validate_semantics stat c raw = []"
  using assms
  by (auto simp: parse_def bindR_Inr_iff Let_def split: sum.splits json.splits if_splits)

lemma decode_config_root: "decode_config root j = Inr c \<Longrightarrow> cf_root c = root"
  by (auto simp: decode_config_def bindR_Inr_iff)

lemma collect_leaf_problems_not_Nil: "collect_leaf_problems k e \<noteq> []"
proof (induction k e rule: collect_leaf_problems.induct)
  case (1 k names loc msg causes)
  then show ?case by (cases causes) auto
qed

text \<open>A document the schema refuses is never let through.\<close>

lemma validate_schema_Nil_iff: "validate_schema lib doc = [] \<longleftrightarrow> yl_schema lib doc = None"
proof (cases "yl_schema lib doc")
  case (Some e)
  have "length (sort_key pb_path (collect_leaf_problems False e)) \<noteq> 0"
    using collect_leaf_problems_not_Nil [of False e] by simp
  with Some show ?thesis
    by (simp only: validate_schema_def option.case length_0_conv map_is_Nil_conv) simp
qed (simp add: validate_schema_def)

end
