(* ===== verification/Sha256.thy ===== *)
theory Sha256
  imports Go_Strings "HOL-Library.Word"
begin

text \<open>
  SHA-256 (\<open>crypto/sha256\<close> of the standard library), which the instance names use for their short
  hashes: \<open>internal/incus/name.go\<close> takes the first four bytes of \<open>sha256.Sum256\<close> in hexadecimal.
  A message is a list of bytes as numbers below 256; words are 32 bits wide and wrap.
\<close>

unbundle bit_operations_syntax

type_synonym w32 = "32 word"

definition ror :: "nat \<Rightarrow> w32 \<Rightarrow> w32" where
  "ror n x = drop_bit n x OR push_bit (32 - n) x"

definition round_constants :: "w32 list" where
  "round_constants = [
     1116352408, 1899447441, 3049323471, 3921009573, 961987163, 1508970993, 2453635748, 2870763221,
     3624381080, 310598401, 607225278, 1426881987, 1925078388, 2162078206, 2614888103, 3248222580,
     3835390401, 4022224774, 264347078, 604807628, 770255983, 1249150122, 1555081692, 1996064986,
     2554220882, 2821834349, 2952996808, 3210313671, 3336571891, 3584528711, 113926993, 338241895,
     666307205, 773529912, 1294757372, 1396182291, 1695183700, 1986661051, 2177026350, 2456956037,
     2730485921, 2820302411, 3259730800, 3345764771, 3516065817, 3600352804, 4094571909, 275423344,
     430227734, 506948616, 659060556, 883997877, 958139571, 1322822218, 1537002063, 1747873779,
     1955562222, 2024104815, 2227730452, 2361852424, 2428436474, 2756734187, 3204031479, 3329325298]"

definition initial_digest :: "w32 list" where
  "initial_digest = [1779033703, 3144134277, 1013904242, 2773480762,
                     1359893119, 2600822924, 528734635, 1541459225]"

fun be_bytes :: "nat \<Rightarrow> nat \<Rightarrow> nat list" where
  "be_bytes 0 n = []"
| "be_bytes (Suc k) n = be_bytes k (n div 256) @ [n mod 256]"

fun be_words :: "nat list \<Rightarrow> w32 list" where
  "be_words (a # b # c # d # r) =
     ((push_bit 24 (of_nat a) OR push_bit 16 (of_nat b)) OR push_bit 8 (of_nat c) OR of_nat d)
     # be_words r"
| "be_words r = []"

definition word_bytes :: "w32 \<Rightarrow> nat list" where
  "word_bytes w = map (\<lambda>k. unat (drop_bit k w AND 0xff)) [24, 16, 8, 0]"

definition pad_message :: "nat list \<Rightarrow> nat list" where
  "pad_message bs =
     bs @ [0x80] @ replicate ((119 - length bs mod 64) mod 64) 0 @ be_bytes 8 (8 * length bs)"

text \<open>The message schedule, held latest first; the first sixteen words are the block itself.\<close>

definition sigma0 :: "w32 \<Rightarrow> w32" where
  "sigma0 x = (ror 7 x XOR ror 18 x) XOR drop_bit 3 x"

definition sigma1 :: "w32 \<Rightarrow> w32" where
  "sigma1 x = (ror 17 x XOR ror 19 x) XOR drop_bit 10 x"

fun schedule :: "nat \<Rightarrow> w32 list \<Rightarrow> w32 list" where
  "schedule 0 ws = rev ws"
| "schedule (Suc k) ws =
     schedule k ((sigma1 (ws ! 1) + ws ! 6 + sigma0 (ws ! 14) + ws ! 15) # ws)"

fun sha_round :: "w32 list \<Rightarrow> w32 \<times> w32 \<Rightarrow> w32 list" where
  "sha_round [a, b, c, d, e, f, g, h] (k, w) =
     (let t1 = h + ((ror 6 e XOR ror 11 e) XOR ror 25 e) + ((e AND f) XOR (NOT e AND g)) + k + w;
          t2 = ((ror 2 a XOR ror 13 a) XOR ror 22 a)
               + (((a AND b) XOR (a AND c)) XOR (b AND c))
      in [t1 + t2, a, b, c, d + t1, e, f, g])"
| "sha_round st kw = st"

definition compress :: "w32 list \<Rightarrow> w32 list \<Rightarrow> w32 list" where
  "compress st block =
     map2 (+) st (foldl sha_round st (zip round_constants (schedule 48 (rev block))))"

fun blocks_of :: "nat \<Rightarrow> w32 list \<Rightarrow> w32 list list" where
  "blocks_of 0 ws = []"
| "blocks_of (Suc n) ws = take 16 ws # blocks_of n (drop 16 ws)"

definition sha256 :: "nat list \<Rightarrow> nat list" where
  "sha256 bs =
     (let ws = be_words (pad_message bs)
      in concat (map word_bytes
           (foldl compress initial_digest (blocks_of (length ws div 16) ws))))"

definition hex_encode :: "nat list \<Rightarrow> string" where
  "hex_encode bs = concat (map (\<lambda>b. [hex_digit (b div 16), hex_digit (b mod 16)]) bs)"

lemma length_word_bytes [simp]: "length (word_bytes w) = 4"
  by (simp add: word_bytes_def)

lemma byte_of_word: "unat (w AND 0xff :: w32) < 256"
proof -
  have "w AND 0xff \<le> 0xff" by (rule word_and_le1)
  then have "unat (w AND 0xff) \<le> unat (0xff :: w32)" by (simp only: word_le_nat_alt)
  then show ?thesis by simp
qed

lemma set_word_bytes: "set (word_bytes w) \<subseteq> {..<256}"
  by (auto simp: word_bytes_def byte_of_word)

lemma length_sha_round: "length st = 8 \<Longrightarrow> length (sha_round st kw) = 8"
  by (cases "(st, kw)" rule: sha_round.cases) (simp_all add: Let_def)

lemma length_sha_rounds: "length st = 8 \<Longrightarrow> length (foldl sha_round st kws) = 8"
  by (induction kws arbitrary: st) (simp_all add: length_sha_round)

lemma length_compress: "length st = 8 \<Longrightarrow> length (compress st b) = 8"
  by (simp add: compress_def length_sha_rounds)

lemma length_compressed: "length st = 8 \<Longrightarrow> length (foldl compress st bs) = 8"
  by (induction bs arbitrary: st) (simp_all add: length_compress)

text \<open>A digest is always 32 bytes.\<close>

lemma length_sha256: "length (sha256 bs) = 32"
proof -
  have "length (concat (map word_bytes ws)) = 4 * length ws" for ws :: "w32 list"
    by (induction ws) simp_all
  then show ?thesis
    by (simp add: sha256_def Let_def length_compressed initial_digest_def)
qed

lemma set_sha256: "set (sha256 bs) \<subseteq> {..<256}"
  using set_word_bytes by (fastforce simp: sha256_def Let_def)

lemma length_hex_encode: "length (hex_encode bs) = 2 * length bs"
  by (induction bs) (simp_all add: hex_encode_def)

end
