(* ===== verification/Runner.thy ===== *)
theory Runner
  imports Prelude Errors
begin

text \<open>
  Models \<open>internal/runner\<close>: the command value with its redaction marks, the argument list that
  keeps the marks in step with the arguments (\<open>args.go\<close>), the display string, the decision
  \<open>Exec.Run\<close> takes once a process has ended (\<open>runner.go\<close>), and the recording runner of
  \<open>runnertest/fake.go\<close>. Starting and waiting for the process is the operating system's; how it
  ended is an argument.
\<close>

record command =
  cm_label :: string
  cm_name :: string
  cm_args :: "string list"
  cm_dir :: string
  cm_env :: "string list"
  cm_stdin :: "string option"
  cm_stdout :: bool
  cm_stderr :: bool
  cm_interactive :: bool
  cm_redact :: "nat list"

definition new_command :: "string \<Rightarrow> command" where
  "new_command n = \<lparr>cm_label = [], cm_name = n, cm_args = [], cm_dir = [], cm_env = [],
     cm_stdin = None, cm_stdout = False, cm_stderr = False, cm_interactive = False, cm_redact = []\<rparr>"

record run_result =
  rr_code :: int
  rr_stdout :: string
  rr_stderr :: string


section \<open>Display\<close>

definition redacted :: "command \<Rightarrow> nat \<Rightarrow> string \<Rightarrow> string" where
  "redacted c i arg = (if List.member (cm_redact c) i then ''***'' else arg)"

definition count_char :: "char \<Rightarrow> string \<Rightarrow> nat" where
  "count_char c s = length (filter (\<lambda>x. x = c) s)"

definition collapse :: "string \<Rightarrow> string" where
  "collapse arg =
     (case cut_at (CHR 0x0A) arg of
        (first, rest, found) \<Rightarrow>
          (let rest = trim_right_char (CHR 0x0A) rest
           in if \<not> found \<or> rest = [] then first
              else first @ '' ... (+'' @ dec (count_char (CHR 0x0A) rest + 1) @ '' lines)''))"

definition display_arg :: "string \<Rightarrow> string" where
  "display_arg a =
     (if list_ex (\<lambda>c. c = CHR '' '' \<or> c = CHR 0x09 \<or> c = CHR 0x22 \<or> c = CHR 0x27) a
      then quote a else a)"

definition cmd_string :: "command \<Rightarrow> string" where
  "cmd_string c =
     join '' '' (cm_name c #
       map (\<lambda>(i, a). display_arg (collapse (redacted c i a))) (enum_from 0 (cm_args c)))"


section \<open>Argument lists\<close>

record arg_list =
  al_args :: "string list"
  al_redact :: "nat list"

definition args_of :: "string list \<Rightarrow> arg_list" where
  "args_of vs = \<lparr>al_args = vs, al_redact = []\<rparr>"

definition al_add :: "string list \<Rightarrow> arg_list \<Rightarrow> arg_list" where
  "al_add vs a = a\<lparr>al_args := al_args a @ vs\<rparr>"

fun al_add_secret :: "string list \<Rightarrow> arg_list \<Rightarrow> arg_list" where
  "al_add_secret [] a = a"
| "al_add_secret (v # vs) a =
     al_add_secret vs (a\<lparr>al_redact := al_redact a @ [length (al_args a)],
                         al_args := al_args a @ [v]\<rparr>)"

definition al_apply :: "arg_list \<Rightarrow> command \<Rightarrow> command" where
  "al_apply a c = c\<lparr>cm_args := al_args a, cm_redact := al_redact a\<rparr>"


section \<open>Running\<close>

text \<open>
  What \<open>os.ProcessState\<close> tells: the exit code, negative when there is none, and the signal that
  ended the process, if one did. No state at all means it never ran.
\<close>

record process_state =
  ps_code :: int
  ps_signal :: "int option"

definition exit_code :: "process_state option \<Rightarrow> int" where
  "exit_code st =
     (case st of
        None \<Rightarrow> -1
      | Some p \<Rightarrow>
          if 0 \<le> ps_code p then ps_code p
          else (case ps_signal p of Some g \<Rightarrow> 128 + g | None \<Rightarrow> 1))"

text \<open>How \<open>exec.Cmd.Run\<close> returned: without error, cut short waiting for output, with the
  process failing, or unable to run it at all.\<close>

datatype run_end = Finished | WaitDelayExpired | ProcessFailed | NotRun string

text \<open>The error and, error or not, the result; \<open>ctx\<close> is the error of the context, if it has one.\<close>

definition exec_run ::
  "err option \<Rightarrow> run_end \<Rightarrow> process_state option \<Rightarrow> string \<Rightarrow> string \<Rightarrow> command
   \<Rightarrow> err option \<times> run_result" where
  "exec_run ctx end st out errs c =
     (let res = \<lparr>rr_code = exit_code st, rr_stdout = (if cm_stdout c then [] else out),
                 rr_stderr = (if cm_stderr c then [] else errs)\<rparr>
      in if end = Finished then (None, res)
         else if end = WaitDelayExpired \<and> rr_code res = 0 \<and> ctx = None then (None, res)
         else (case ctx of
             Some e \<Rightarrow>
               (Some (if cm_label c = [] then e else Errorf ''%s: %w'' [S (cm_label c), W e]), res)
           | None \<Rightarrow>
             (case end of
                ProcessFailed \<Rightarrow>
                  (Some (ExitError (cm_label c) (cmd_string c) (rr_code res)
                    (if \<not> cm_stderr c then rr_stderr res else [])), res)
              | _ \<Rightarrow>
                  (let e = Foreign (case end of NotRun t \<Rightarrow> t
                                     | _ \<Rightarrow> ''exec: WaitDelay expired before I/O complete'')
                   in (Some (if cm_label c \<noteq> []
                         then Errorf ''%s: run %s: %w'' [S (cm_label c), S (cmd_string c), W e]
                         else Errorf ''run %s: %w'' [S (cmd_string c), W e]), res)))))"


section \<open>The recording runner\<close>

text \<open>
  Go visits the maps of configured answers in no particular order, so they are association lists
  standing for the order taken. Text streamed to a writer of the caller is kept in
  \<open>fr_streamed\<close>.
\<close>

record fake_runner =
  fr_handler :: "(command \<Rightarrow> (err + run_result)) option"
  fr_stdout :: "(string \<times> string) list"
  fr_err :: "(string \<times> err) list"
  fr_calls :: "command list"
  fr_stdins :: "string list"
  fr_streamed :: "string list"

definition empty_result :: run_result where
  "empty_result = \<lparr>rr_code = 0, rr_stdout = [], rr_stderr = []\<rparr>"

definition fake_run :: "command \<Rightarrow> (fake_runner, err, run_result) op" where
  "fake_run c = (\<lambda>f.
     let f1 = f\<lparr>fr_calls := fr_calls f @ [c],
                fr_stdins := fr_stdins f @ [case cm_stdin c of None \<Rightarrow> [] | Some s \<Rightarrow> s]\<rparr>
     in case fr_handler f of
          Some h \<Rightarrow> (h c, f1)
        | None \<Rightarrow>
          (case filter (\<lambda>p. has_prefix (cmd_string c) (fst p)) (fr_err f) of
             (p, e) # _ \<Rightarrow> (Inl e, f1)
           | [] \<Rightarrow>
             (case filter (\<lambda>p. has_prefix (cmd_string c) (fst p)) (fr_stdout f) of
                (p, out) # _ \<Rightarrow>
                  (if cm_stdout c
                   then (Inr empty_result, f1\<lparr>fr_streamed := fr_streamed f1 @ [out]\<rparr>)
                   else (Inr (empty_result\<lparr>rr_stdout := out\<rparr>), f1))
              | [] \<Rightarrow> (Inr empty_result, f1))))"

definition argv_string :: "command \<Rightarrow> string" where
  "argv_string c = join '' '' (cm_name c # cm_args c)"

definition fake_commands :: "fake_runner \<Rightarrow> string list" where
  "fake_commands f = map cmd_string (fr_calls f)"

definition fake_argvs :: "fake_runner \<Rightarrow> string list" where
  "fake_argvs f = map argv_string (fr_calls f)"

definition fake_last_argv :: "fake_runner \<Rightarrow> string" where
  "fake_last_argv f = (if fr_calls f = [] then [] else argv_string (last (fr_calls f)))"

definition fake_last_command :: "fake_runner \<Rightarrow> string" where
  "fake_last_command f = (if fr_calls f = [] then [] else cmd_string (last (fr_calls f)))"

definition fake_last_stdin :: "fake_runner \<Rightarrow> string" where
  "fake_last_stdin f = (if fr_stdins f = [] then [] else last (fr_stdins f))"


section \<open>Facts\<close>

lemma al_add_secret_eq:
  "al_args (al_add_secret vs a) = al_args a @ vs"
  "al_redact (al_add_secret vs a)
   = al_redact a @ [length (al_args a)..<length (al_args a) + length vs]"
  by (induction vs arbitrary: a) (simp_all add: upt_rec)

lemma length_enum_from [simp]: "length (enum_from n xs) = length xs"
  by (induction xs arbitrary: n) simp_all

lemma nth_enum_from [simp]: "i < length xs \<Longrightarrow> enum_from n xs ! i = (n + i, xs ! i)"
  by (induction xs arbitrary: n i) (auto simp: nth_Cons split: nat.splits)

text \<open>The display string does not depend on the redacted arguments.\<close>

lemma cmd_string_cong:
  assumes "cm_name c = cm_name d" "cm_redact c = cm_redact d"
    and "length (cm_args c) = length (cm_args d)"
    and "\<And>i. i < length (cm_args c) \<Longrightarrow> i \<notin> set (cm_redact c) \<Longrightarrow> cm_args c ! i = cm_args d ! i"
  shows "cmd_string c = cmd_string d"
proof -
  have "map (\<lambda>(i, a). display_arg (collapse (redacted c i a))) (enum_from 0 (cm_args c))
      = map (\<lambda>(i, a). display_arg (collapse (redacted d i a))) (enum_from 0 (cm_args d))"
    using assms by (intro nth_equalityI) (auto simp: redacted_def)
  then show ?thesis using assms(1) by (simp add: cmd_string_def)
qed

lemma cut_at_parts: "cut_at c s = (b, a, f) \<Longrightarrow> c \<notin> set b"
  by (induction c s arbitrary: b rule: cut_at.induct) (auto split: prod.splits if_splits)

lemma no_newline_dec: "CHR 0x0A \<notin> set (dec n)"
proof
  assume "CHR 0x0A \<in> set (dec n)"
  with dec_digits [of n] have "is_digit (CHR 0x0A)" by (auto simp: list_all_iff)
  then show False by (simp add: is_digit_def)
qed

text \<open>A collapsed argument is one line.\<close>

lemma collapse_one_line: "CHR 0x0A \<notin> set (collapse s)"
proof -
  obtain b a f where eq: "cut_at (CHR 0x0A) s = (b, a, f)" by (cases "cut_at (CHR 0x0A) s") simp
  then have "CHR 0x0A \<notin> set b" by (rule cut_at_parts)
  then show ?thesis using no_newline_dec by (simp add: collapse_def eq Let_def)
qed

lemma collapse_id: "CHR 0x0A \<notin> set s \<Longrightarrow> collapse s = s"
  by (simp add: collapse_def cut_at_none)

lemma exec_run_cong:
  assumes "cmd_string c = cmd_string d" "cm_label c = cm_label d"
    "cm_stdout c = cm_stdout d" "cm_stderr c = cm_stderr d"
  shows "exec_run ctx e st out errs c = exec_run ctx e st out errs d"
  unfolding exec_run_def assms ..

text \<open>The calls a caller makes on an argument list, and two sequences of calls that differ in
  the secret values only.\<close>

datatype al_call = Add "string list" | AddSecret "string list"

fun al_run :: "al_call list \<Rightarrow> arg_list \<Rightarrow> arg_list" where
  "al_run [] a = a"
| "al_run (Add vs # cs) a = al_run cs (al_add vs a)"
| "al_run (AddSecret vs # cs) a = al_run cs (al_add_secret vs a)"

fun same_but_secrets :: "al_call list \<Rightarrow> al_call list \<Rightarrow> bool" where
  "same_but_secrets [] [] = True"
| "same_but_secrets (Add vs # cs) (Add ws # ds) = (vs = ws \<and> same_but_secrets cs ds)"
| "same_but_secrets (AddSecret vs # cs) (AddSecret ws # ds) =
     (length vs = length ws \<and> same_but_secrets cs ds)"
| "same_but_secrets _ _ = False"

definition shows_same :: "arg_list \<Rightarrow> arg_list \<Rightarrow> bool" where
  "shows_same a b \<longleftrightarrow>
     al_redact a = al_redact b \<and> length (al_args a) = length (al_args b)
     \<and> (\<forall>i<length (al_args a). i \<notin> set (al_redact a) \<longrightarrow> al_args a ! i = al_args b ! i)"

lemma shows_same_add: "shows_same a b \<Longrightarrow> shows_same (al_add vs a) (al_add vs b)"
  by (auto simp: shows_same_def al_add_def nth_append)

lemma shows_same_add_secret:
  "shows_same a b \<Longrightarrow> length vs = length ws \<Longrightarrow> shows_same (al_add_secret vs a) (al_add_secret ws b)"
  by (auto simp: shows_same_def al_add_secret_eq nth_append)

lemma shows_same_run:
  "same_but_secrets cs ds \<Longrightarrow> shows_same a b \<Longrightarrow> shows_same (al_run cs a) (al_run ds b)"
  by (induction cs ds arbitrary: a b rule: same_but_secrets.induct)
    (auto simp: shows_same_add shows_same_add_secret)

lemma shows_same_string:
  "shows_same a b \<Longrightarrow> cmd_string (al_apply a c) = cmd_string (al_apply b c)"
  by (rule cmd_string_cong) (simp_all add: shows_same_def al_apply_def)


section \<open>Properties\<close>

text \<open>C25: a secret argument never reaches what is shown: commands whose argument lists were built
  by the same calls but for the values passed to \<open>AddSecret\<close> have the same display string and,
  run to the same end, give the same error and the same result.\<close>

theorem secrets_not_shown:
  assumes "same_but_secrets cs ds"
  shows "cmd_string (al_apply (al_run cs (args_of [])) c) = cmd_string (al_apply (al_run ds (args_of [])) c)
    \<and> exec_run ctx e st out errs (al_apply (al_run cs (args_of [])) c)
        = exec_run ctx e st out errs (al_apply (al_run ds (args_of [])) c)"
proof -
  have "shows_same (al_run cs (args_of [])) (al_run ds (args_of []))"
    using assms by (rule shows_same_run) (simp add: shows_same_def)
  then have "cmd_string (al_apply (al_run cs (args_of [])) c)
    = cmd_string (al_apply (al_run ds (args_of [])) c)" by (rule shows_same_string)
  then show ?thesis by (intro conjI exec_run_cong) (simp_all add: al_apply_def)
qed

lemma secrets_not_shown_witness:
  "cmd_string (al_apply (al_run [Add [''-e''], AddSecret [''TOKEN=a'']] (args_of [])) (new_command ''incus''))
   = cmd_string (al_apply (al_run [Add [''-e''], AddSecret [''TOKEN=b'']] (args_of [])) (new_command ''incus''))"
  using secrets_not_shown [of "[Add [''-e''], AddSecret [''TOKEN=a'']]"
      "[Add [''-e''], AddSecret [''TOKEN=b'']]" "new_command ''incus''"] by simp

end
