(* ===== verification/Naming.thy ===== *)
theory Naming
  imports Config Runner Sha256
begin

text \<open>
  Models \<open>internal/incus/name.go\<close>, which turns a project name and a suffix into an instance name
  Incus accepts, and \<open>internal/cli/naming.go\<close>, which picks the suffix from \<open>project.scope\<close>.
\<close>

definition instance_name_prefix :: string where "instance_name_prefix = ''dev-''"
definition max_instance_name_length :: nat where "max_instance_name_length = 63"
definition max_suffix_length :: nat where "max_suffix_length = 32"

definition short_hash :: "string \<Rightarrow> string" where
  "short_hash s = hex_encode (take 4 (sha256 (map byte s)))"

definition name_rune :: "nat \<Rightarrow> bool" where
  "name_rune r \<longleftrightarrow> (97 \<le> r \<and> r \<le> 122) \<or> (48 \<le> r \<and> r \<le> 57)"

fun normalize_from :: "string \<Rightarrow> bool \<Rightarrow> nat list \<Rightarrow> string" where
  "normalize_from sb prev_dash [] = sb"
| "normalize_from sb prev_dash (r # rs) =
     (if name_rune r then normalize_from (sb @ [char_of r]) False rs
      else if \<not> prev_dash \<and> sb \<noteq> [] then normalize_from (sb @ ''-'') True rs
      else normalize_from sb prev_dash rs)"

definition normalize :: "string \<Rightarrow> string" where
  "normalize name = trim_char (CHR ''-'') (normalize_from [] False (map fst (lower_runes name)))"

definition truncate_to :: "string \<Rightarrow> nat \<Rightarrow> string" where
  "truncate_to name n = (if n < length name then take n name else name)"

definition instance_name :: "string \<Rightarrow> string" where
  "instance_name p =
     (let name = (if normalize p = [] then instance_name_prefix @ short_hash p
                  else instance_name_prefix @ normalize p)
      in trim_right_char (CHR ''-'') (truncate_to name max_instance_name_length))"

definition suffix_tail :: "string \<Rightarrow> string" where
  "suffix_tail suffix =
     (let tail = normalize suffix
      in if tail = [] \<or> max_suffix_length < length tail then short_hash suffix else tail)"

definition instance_name_with_suffix :: "string \<Rightarrow> string \<Rightarrow> string" where
  "instance_name_with_suffix p suffix =
     (if suffix = [] then instance_name p
      else let tail = suffix_tail suffix;
               head = (if normalize p = [] then short_hash p else normalize p);
               head = truncate_to head
                 (max_instance_name_length - length instance_name_prefix - 1 - length tail)
           in instance_name_prefix @ trim_right_char (CHR ''-'') head @ ''-'' @ tail)"


section \<open>The suffix of \<open>project.scope\<close>\<close>

text \<open>The branch function is absent, or is asked once and answers with a name or an error.\<close>

definition instance_name_for ::
  "config \<Rightarrow> ('s, err, string) op option \<Rightarrow> ('s, err, string) op" where
  "instance_name_for c branch =
     (if scope_or_default (cf_project c) = ScopePath then
        ret (instance_name_with_suffix (pj_name (cf_project c)) (short_hash (cf_root c)))
      else if scope_or_default (cf_project c) = ScopeBranch then
        (case branch of
           None \<Rightarrow> fail (Errorf ''project.scope: branch requires git'' [])
         | Some b \<Rightarrow>
             bindE
               (on_error b (\<lambda>e. fail
                 (Errorf ''project.scope: branch requires the current git branch: %w'' [W e])))
               (\<lambda>name. ret (instance_name_with_suffix (pj_name (cf_project c)) name)))
      else ret (instance_name (pj_name (cf_project c))))"

definition git_queries :: "string \<Rightarrow> string list list" where
  "git_queries root =
     [[''-C'', root, ''symbolic-ref'', ''--short'', ''HEAD''],
      [''-C'', root, ''rev-parse'', ''--short'', ''HEAD'']]"

fun git_branch_from ::
  "(command \<Rightarrow> ('s, err, run_result) op) \<Rightarrow> string \<Rightarrow> err option \<Rightarrow> string list list
   \<Rightarrow> ('s, err, string) op" where
  "git_branch_from run root why [] =
     fail (case why of
         Some e \<Rightarrow> Errorf ''could not determine the git branch of %s: %w'' [S root, W e]
       | None \<Rightarrow> Errorf ''could not determine the git branch of %s'' [S root])"
| "git_branch_from run root why (args # rest) =
     bindE (attempt (run ((new_command ''git'')\<lparr>cm_args := args\<rparr>)))
       (\<lambda>r. case r of
           Inl e \<Rightarrow> git_branch_from run root (if why = None then Some e else why) rest
         | Inr res \<Rightarrow>
             (if trim_space (rr_stdout res) \<noteq> [] then ret (trim_space (rr_stdout res))
              else git_branch_from run root why rest))"

definition git_branch ::
  "(command \<Rightarrow> ('s, err, run_result) op) \<Rightarrow> string \<Rightarrow> ('s, err, string) op" where
  "git_branch run root = git_branch_from run root None (git_queries root)"


section \<open>Facts\<close>

definition name_char :: "char \<Rightarrow> bool" where
  "name_char c \<longleftrightarrow> name_rune (byte c)"

text \<open>What Incus accepts: at most 63 letters, digits and hyphens, the first a letter and the last
  not a hyphen.\<close>

definition valid_name :: "string \<Rightarrow> bool" where
  "valid_name s \<longleftrightarrow>
     s \<noteq> [] \<and> length s \<le> 63 \<and> list_all (\<lambda>c. name_char c \<or> c = CHR ''-'') s
     \<and> (97 \<le> byte (hd s) \<and> byte (hd s) \<le> 122) \<and> last s \<noteq> CHR ''-''"

subsection \<open>Normal names\<close>

abbreviation name_chars :: "string \<Rightarrow> bool" where
  "name_chars s \<equiv> list_all (\<lambda>c. name_char c \<or> c = CHR ''-'') s"

lemma name_char_of: "name_rune r \<Longrightarrow> name_char (char_of r)"
  by (auto simp: name_char_def name_rune_def)

lemma not_name_char_dash: "name_char c \<Longrightarrow> c \<noteq> CHR ''-''"
  by (auto simp: name_char_def name_rune_def)

lemma normalize_from_shape:
  assumes "name_chars sb" "sb \<noteq> [] \<Longrightarrow> name_char (hd sb)"
  shows "name_chars (normalize_from sb b rs)
    \<and> (normalize_from sb b rs \<noteq> [] \<longrightarrow> name_char (hd (normalize_from sb b rs)))"
  using assms
proof (induction sb b rs rule: normalize_from.induct)
  case (2 sb b r rs)
  have step: "name_chars (sb @ [c]) \<and> name_char (hd (sb @ [c]))"
    if "name_char c \<or> (c = CHR ''-'' \<and> sb \<noteq> [])" for c
    using that "2.prems" by (cases sb) auto
  show ?case
    using "2.IH" "2.prems" step name_char_of by (simp del: hd_append2)
qed simp

lemma normalize_shape:
  "name_chars (normalize s)"
  "normalize s \<noteq> [] \<Longrightarrow> name_char (hd (normalize s))"
  "normalize s \<noteq> [] \<Longrightarrow> last (normalize s) \<noteq> CHR ''-''"
proof -
  let ?n = "normalize_from [] False (map fst (lower_runes s))"
  have n: "name_chars ?n" "?n \<noteq> [] \<Longrightarrow> name_char (hd ?n)"
    using normalize_from_shape [of "[]" False] by auto
  then show "name_chars (normalize s)"
    using set_trim_char unfolding normalize_def list_all_iff by blast
  have id: "dropWhile (\<lambda>c. c = CHR ''-'') ?n = ?n"
    using n(2) by (cases ?n) (auto dest: not_name_char_dash)
  have eq: "normalize s = trim_right_char (CHR ''-'') ?n"
    unfolding normalize_def trim_char_def id ..
  show "normalize s \<noteq> [] \<Longrightarrow> last (normalize s) \<noteq> CHR ''-''"
    unfolding eq by (rule trim_right_char_last)
  assume ne: "normalize s \<noteq> []"
  then have "?n \<noteq> []" by (metis eq length_trim_right_char le_zero_eq length_0_conv)
  with n(2) show "name_char (hd (normalize s))"
    unfolding eq by (metis not_name_char_dash trim_right_char_hd(2))
qed

lemma name_char_hex: "n < 16 \<Longrightarrow> name_char (hex_digit n)"
  by (auto simp: hex_digit_def name_char_def name_rune_def)

lemma short_hash_shape:
  "length (short_hash s) = 8" "list_all name_char (short_hash s)"
proof -
  show "length (short_hash s) = 8"
    by (simp add: short_hash_def length_hex_encode length_sha256)
  have "set (take 4 (sha256 (map byte s))) \<subseteq> {..<256}"
    using set_sha256 set_take_subset by fast
  then show "list_all name_char (short_hash s)"
    by (auto simp: short_hash_def hex_encode_def list_all_iff intro!: name_char_hex)
qed

lemma last_name_char: "list_all name_char s \<Longrightarrow> s \<noteq> [] \<Longrightarrow> last s \<noteq> CHR ''-''"
  using not_name_char_dash by (metis last_in_set list_all_iff)

lemma short_hash_nonempty: "short_hash s \<noteq> []"
  using short_hash_shape(1) [of s] by auto

lemma name_chars_short_hash: "name_chars (short_hash s)"
  using short_hash_shape(2) by (auto simp: list_all_iff)

text \<open>The part a name starts with after its prefix, before it is shortened: never empty, and
  beginning with a letter or a digit.\<close>

lemma head_shape:
  assumes "h = (if normalize p = [] then short_hash p else normalize p)"
  shows "h \<noteq> []" "name_chars h" "hd h \<noteq> CHR ''-''"
proof -
  show ne: "h \<noteq> []" and "name_chars h"
    using assms short_hash_nonempty name_chars_short_hash normalize_shape(1) by auto
  have "name_char (hd h)"
    using assms ne normalize_shape(2) short_hash_shape(2) [of p] short_hash_nonempty [of p]
    by (cases "short_hash p") auto
  then show "hd h \<noteq> CHR ''-''" by (rule not_name_char_dash)
qed

lemma suffix_tail_shape:
  "suffix_tail s \<noteq> []" "name_chars (suffix_tail s)" "last (suffix_tail s) \<noteq> CHR ''-''"
  "length (suffix_tail s) \<le> 32"
  using short_hash_shape [of s] name_chars_short_hash [of s] normalize_shape [of s]
    last_name_char [of "short_hash s"] short_hash_nonempty [of s]
  by (auto simp: suffix_tail_def Let_def max_suffix_length_def)

lemma name_chars_trim_right_char: "name_chars s \<Longrightarrow> name_chars (trim_right_char c s)"
  using set_trim_right_char unfolding list_all_iff by blast

lemma truncate_to_shape:
  "length (truncate_to s n) \<le> n" "name_chars s \<Longrightarrow> name_chars (truncate_to s n)"
  "0 < n \<Longrightarrow> s \<noteq> [] \<Longrightarrow> truncate_to s n \<noteq> [] \<and> hd (truncate_to s n) = hd s"
  by (auto simp: truncate_to_def list_all_iff dest: in_set_takeD)

lemma name_chars_prefix: "name_chars instance_name_prefix"
  by (simp add: instance_name_prefix_def name_char_def name_rune_def)

lemma valid_nameI:
  assumes "length t \<le> 59" "name_chars t" "t \<noteq> []" "last t \<noteq> CHR ''-''"
  shows "valid_name (instance_name_prefix @ t)"
  using assms name_chars_prefix by (simp add: valid_name_def) (simp add: instance_name_prefix_def)

lemma truncate_append:
  "length a \<le> n \<Longrightarrow> truncate_to (a @ t) n = a @ truncate_to t (n - length a)"
  by (auto simp: truncate_to_def)

lemma instance_name_form:
  obtains t where "instance_name p = instance_name_prefix @ t" "t \<noteq> []" "length t \<le> 59"
    "name_chars t" "last t \<noteq> CHR ''-''"
proof -
  define h where "h = (if normalize p = [] then short_hash p else normalize p)"
  note hs = head_shape [OF h_def]
  define t where "t = trim_right_char (CHR ''-'') (truncate_to h 59)"
  have th: "truncate_to h 59 \<noteq> []" "hd (truncate_to h 59) \<noteq> CHR ''-''"
    using truncate_to_shape(3) [of 59 h] hs by auto
  then have ne: "t \<noteq> []" unfolding t_def by (rule trim_right_char_hd)
  have "instance_name p = trim_right_char (CHR ''-'') (truncate_to (instance_name_prefix @ h) 63)"
    by (simp add: instance_name_def h_def max_instance_name_length_def)
  also have "truncate_to (instance_name_prefix @ h) 63 = instance_name_prefix @ truncate_to h 59"
    by (subst truncate_append) (simp_all add: instance_name_prefix_def)
  also have "trim_right_char (CHR ''-'') \<dots> = instance_name_prefix @ t"
    using ne unfolding t_def by (rule trim_right_char_append)
  finally have "instance_name p = instance_name_prefix @ t" .
  moreover have "length t \<le> 59"
    using length_trim_right_char truncate_to_shape(1) le_trans unfolding t_def by blast
  moreover have "name_chars t"
    unfolding t_def using hs(2) by (intro name_chars_trim_right_char truncate_to_shape(2))
  moreover have "last t \<noteq> CHR ''-''" using trim_right_char_last ne unfolding t_def by blast
  ultimately show ?thesis using ne that by blast
qed

lemma suffixed_form:
  assumes "s \<noteq> []"
  obtains h where "instance_name_with_suffix p s = instance_name_prefix @ h @ ''-'' @ suffix_tail s"
    "h \<noteq> []" "name_chars h" "length h + length (suffix_tail s) \<le> 58"
proof -
  define h0 where "h0 = (if normalize p = [] then short_hash p else normalize p)"
  note hs = head_shape [OF h0_def]
  let ?n = "58 - length (suffix_tail s)"
  define h where "h = trim_right_char (CHR ''-'') (truncate_to h0 ?n)"
  have n: "0 < ?n" using suffix_tail_shape(4) [of s] by linarith
  have "truncate_to h0 ?n \<noteq> []" "hd (truncate_to h0 ?n) \<noteq> CHR ''-''"
    using truncate_to_shape(3) [OF n] hs by auto
  then have "h \<noteq> []" unfolding h_def by (rule trim_right_char_hd)
  moreover have "instance_name_with_suffix p s = instance_name_prefix @ h @ ''-'' @ suffix_tail s"
    using assms unfolding instance_name_with_suffix_def Let_def h_def h0_def
    by (simp add: max_instance_name_length_def instance_name_prefix_def)
  moreover have "length h \<le> ?n"
    using length_trim_right_char truncate_to_shape(1) le_trans unfolding h_def by blast
  then have "length h + length (suffix_tail s) \<le> 58" using n by linarith
  moreover have "name_chars h"
    unfolding h_def using hs(2) by (intro name_chars_trim_right_char truncate_to_shape(2))
  ultimately show ?thesis using that by blast
qed

lemma normalize_from_name: "list_all name_rune rs \<Longrightarrow> normalize_from sb b rs = sb @ map char_of rs"
  by (induction sb b rs rule: normalize_from.induct) auto

lemma lower_rune_name: "name_char c \<Longrightarrow> lower_rune (byte c, [c]) = (byte c, [c])"
  by (auto simp: lower_rune_def name_char_def name_rune_def)

lemma normalize_name:
  assumes "list_all name_char s" "s \<noteq> []"
  shows "normalize s = s"
proof -
  have "list_all (\<lambda>c. byte c < 128) s"
    using assms(1) by (auto simp: list_all_iff name_char_def name_rune_def)
  then have "map fst (lower_runes s) = map byte s"
    using assms(1) by (auto simp: lower_runes_def runes_ascii list_all_iff lower_rune_name)
  then have n: "normalize_from [] False (map fst (lower_runes s)) = s"
    using assms(1) by (subst normalize_from_name) (auto simp: list_all_iff name_char_def o_def)
  have "hd s \<noteq> CHR ''-''" using assms by (cases s) (auto dest: not_name_char_dash)
  then have "dropWhile (\<lambda>c. c = CHR ''-'') s = s" using assms(2) by (cases s) auto
  moreover have "trim_right_char (CHR ''-'') s = s"
    using last_name_char [OF assms] assms(2)
    by (cases s rule: rev_cases) (simp_all add: trim_right_char_def)
  ultimately show ?thesis unfolding normalize_def n trim_char_def by simp
qed

lemma suffix_tail_short_hash: "suffix_tail (short_hash r) = short_hash r"
  using short_hash_shape [of r] short_hash_nonempty [of r]
  by (simp add: suffix_tail_def Let_def normalize_name max_suffix_length_def)


section \<open>Properties\<close>


text \<open>The suffix is what survives: the name of a checkout ends in the hash of its root, the
  project name being shortened to make room for it, so two checkouts share an instance only if
  their hashes agree, whatever the two projects are called.\<close>

theorem instance_name_keeps_suffix:
  "\<exists>h. instance_name_with_suffix p (short_hash root) = ''dev-'' @ h @ ''-'' @ short_hash root
       \<and> h \<noteq> [] \<and> length (short_hash root) = 8"
  using suffixed_form [OF short_hash_nonempty, of p root] short_hash_shape(1)
  by (metis suffix_tail_short_hash instance_name_prefix_def)

end
