(* ===== verification/Client.thy ===== *)
theory Client
  imports Prelude Errors Go_Time
begin

text \<open>
  Models \<open>internal/incus/client.go\<close>: instances, changes and specifications as values, the questions
  asked of an instance, and the interface \<open>Client\<close> as a record of operations over a world \<open>'w\<close>.
  The locale \<open>daemon\<close> states what the program relies on an implementation for, as
  \<open>internal/incus/contract/contract.go\<close> lists it; the recording client of \<open>incustest\<close> is shown
  to have it in the theory \<open>Fake\<close>.
\<close>

type_synonym device = "string gomap"

definition device_type :: "device \<Rightarrow> string" where
  "device_type d = get_str d ''type''"

record instance_change =
  ch_set_config :: "string gomap"
  ch_unset_config :: "string list"
  ch_set_devices :: "device gomap"
  ch_remove_devices :: "string list"

definition empty_change :: instance_change where
  "empty_change = \<lparr>ch_set_config = fmempty, ch_unset_config = [], ch_set_devices = fmempty,
     ch_remove_devices = []\<rparr>"

definition change_is_empty :: "instance_change \<Rightarrow> bool" where
  "change_is_empty c \<longleftrightarrow>
     fmdom (ch_set_config c) = {||} \<and> ch_unset_config c = []
     \<and> fmdom (ch_set_devices c) = {||} \<and> ch_remove_devices c = []"

record network_address =
  na_family :: string
  na_address :: string
  na_scope :: string

type_synonym network_state = "network_address list"

record incus_instance =
  ii_name :: string
  ii_status :: string
  ii_last_used :: go_time
  ii_profiles :: "string list"
  ii_config :: "string gomap"
  ii_devices :: "device gomap"
  ii_expanded :: "device gomap"
  ii_network :: "network_state gomap option"
  ii_etag :: string

record instance_spec =
  is_name :: string
  is_image :: string
  is_profiles :: "string list"
  is_no_profiles :: bool
  is_config :: "string gomap"
  is_devices :: "device gomap"

record exec_options =
  eo_env :: "string gomap"
  eo_public_env :: "string gomap"
  eo_cwd :: string
  eo_user :: string
  eo_group :: string
  eo_tty :: bool
  eo_term :: string
  eo_stdin :: "string option"

definition exec_defaults :: exec_options where
  "exec_defaults = \<lparr>eo_env = fmempty, eo_public_env = fmempty, eo_cwd = [], eo_user = [],
     eo_group = [], eo_tty = False, eo_term = [], eo_stdin = None\<rparr>"

record snapshot =
  sn_name :: string
  sn_created :: go_time

record wait_options =
  wo_timeout :: int
  wo_network_timeout :: int
  wo_ipv4_grace :: int
  wo_interval :: int

definition wait_zero :: wait_options where
  "wait_zero = \<lparr>wo_timeout = 0, wo_network_timeout = 0, wo_ipv4_grace = 0, wo_interval = 0\<rparr>"


section \<open>Questions asked of an instance\<close>

definition is_running :: "incus_instance \<Rightarrow> bool" where
  "is_running i \<longleftrightarrow> ii_status i = ''Running''"

definition is_stopped :: "incus_instance \<Rightarrow> bool" where
  "is_stopped i \<longleftrightarrow> ii_status i = ''Stopped''"

definition has_nic :: "incus_instance \<Rightarrow> bool" where
  "has_nic i \<longleftrightarrow>
     list_ex (\<lambda>n. case fmlookup (ii_expanded i) n of
         Some d \<Rightarrow> device_type d = ''nic'' | None \<Rightarrow> False) (sorted_keys (ii_expanded i))"

definition loopback_interface :: string where "loopback_interface = ''lo''"
definition global_scope :: string where "global_scope = ''global''"
definition family_ipv4 :: string where "family_ipv4 = ''inet''"

lemmas net_consts = loopback_interface_def global_scope_def family_ipv4_def

text \<open>The map of interfaces is visited in the order given; Go's is arbitrary.\<close>

definition addresses_in :: "string list \<Rightarrow> network_state gomap \<Rightarrow> (string \<times> network_address) list" where
  "addresses_in names net =
     concat (map (\<lambda>n. if n = loopback_interface then []
       else map (Pair n) (filter (\<lambda>a. na_scope a = global_scope)
         (case fmlookup net n of Some as \<Rightarrow> as | None \<Rightarrow> []))) names)"

definition global_addresses :: "incus_instance \<Rightarrow> network_address list" where
  "global_addresses i =
     (case ii_network i of
        None \<Rightarrow> []
      | Some net \<Rightarrow> map snd (addresses_in (sorted_keys net) net))"

text \<open>IPv4 first, then the interface, then the address.\<close>

definition address_before :: "(string \<times> network_address) \<Rightarrow> (string \<times> network_address) \<Rightarrow> bool" where
  "address_before a b \<longleftrightarrow>
     (let fa = na_family (snd a); fb = na_family (snd b)
      in if fa \<noteq> fb \<and> fa = family_ipv4 then True
         else if fa \<noteq> fb \<and> fb = family_ipv4 then False
         else if fst a \<noteq> fst b then fst a < fst b
         else na_address (snd a) \<le> na_address (snd b))"

fun insert_address ::
  "(string \<times> network_address) \<Rightarrow> (string \<times> network_address) list \<Rightarrow> (string \<times> network_address) list" where
  "insert_address x [] = [x]"
| "insert_address x (y # ys) = (if address_before x y then x # y # ys else y # insert_address x ys)"

definition sort_addresses :: "(string \<times> network_address) list \<Rightarrow> (string \<times> network_address) list" where
  "sort_addresses xs = foldr insert_address xs []"

definition addresses :: "incus_instance \<Rightarrow> (string \<times> network_address) list" where
  "addresses i =
     (case ii_network i of
        None \<Rightarrow> []
      | Some net \<Rightarrow> sort_addresses (addresses_in (sorted_keys net) net))"

definition primary_address :: "incus_instance \<Rightarrow> string" where
  "primary_address i = (case addresses i of [] \<Rightarrow> [] | a # _ \<Rightarrow> na_address (snd a))"

definition has_global_address :: "incus_instance \<Rightarrow> bool" where
  "has_global_address i \<longleftrightarrow> global_addresses i \<noteq> []"

definition has_ipv4_address :: "incus_instance \<Rightarrow> bool" where
  "has_ipv4_address i \<longleftrightarrow> list_ex (\<lambda>a. na_family a = family_ipv4) (global_addresses i)"


section \<open>The client\<close>

text \<open>
  \<open>cl_exec\<close> gives the exit code and what the command wrote to its standard output; the caller
  does with the text what its writer would.
\<close>

record 'w client =
  cl_instance :: "string \<Rightarrow> ('w, err, incus_instance) op"
  cl_list :: "('w, err, incus_instance list) op"
  cl_create :: "instance_spec \<Rightarrow> ('w, err, unit) op"
  cl_start :: "string \<Rightarrow> ('w, err, unit) op"
  cl_stop :: "string \<Rightarrow> ('w, err, unit) op"
  cl_delete :: "string \<Rightarrow> ('w, err, unit) op"
  cl_update :: "string \<Rightarrow> instance_change \<Rightarrow> string \<Rightarrow> ('w, err, unit) op"
  cl_idmapped_mounts :: "('w, err, bool) op"
  cl_profile_names :: "('w, err, string list) op"
  cl_check_image :: "string \<Rightarrow> ('w, err, unit) op"
  cl_volume_exists :: "string \<Rightarrow> string \<Rightarrow> ('w, err, bool) op"
  cl_create_volume :: "string \<Rightarrow> string \<Rightarrow> string gomap \<Rightarrow> ('w, err, unit) op"
  cl_delete_volume :: "string \<Rightarrow> string \<Rightarrow> ('w, err, unit) op"
  cl_create_snapshot :: "string \<Rightarrow> string \<Rightarrow> ('w, err, unit) op"
  cl_snapshots :: "string \<Rightarrow> ('w, err, snapshot list) op"
  cl_restore_snapshot :: "string \<Rightarrow> string \<Rightarrow> ('w, err, unit) op"
  cl_delete_snapshot :: "string \<Rightarrow> string \<Rightarrow> ('w, err, unit) op"
  cl_exec :: "string \<Rightarrow> string list \<Rightarrow> exec_options \<Rightarrow> ('w, err, int \<times> string) op"
  cl_wait_ready :: "string \<Rightarrow> wait_options \<Rightarrow> ('w, err, unit) op"

text \<open>
  What an update does to the configuration and the devices of an instance: keys are unset and then
  set, devices removed and then replaced whole.
\<close>

definition change_config :: "instance_change \<Rightarrow> string gomap \<Rightarrow> string gomap" where
  "change_config ch m = fmfilter (\<lambda>k. \<not> List.member (ch_unset_config ch) k) m ++\<^sub>f ch_set_config ch"

definition change_devices :: "instance_change \<Rightarrow> device gomap \<Rightarrow> device gomap" where
  "change_devices ch m = fmfilter (\<lambda>k. \<not> List.member (ch_remove_devices ch) k) m ++\<^sub>f ch_set_devices ch"

end
