(* ===== verification/Daemon.thy ===== *)
theory Daemon
  imports Client
begin

text \<open>
  The interface between the command line and Incus: what the program relies on every
  \<open>incus.Client\<close> for, as the checks of \<open>internal/incus/contract/contract.go\<close> list it. A client is
  seen through two views of its world: the instance under each name, as \<open>Instance\<close> would return it
  (its etag included), and the set of storage volumes, named \<open>pool/name\<close>. The locale is about a
  daemon nobody else is writing to between two calls; what another writer can do is seen in
  \<open>update_stale\<close>, which holds whatever reading the caller works from.
\<close>

definition ref_of :: "string \<Rightarrow> string \<Rightarrow> string" where
  "ref_of pool name = pool @ ''/'' @ name"

text \<open>An operation leaves every instance and every volume as it was; an operation touches the
  instance \<open>n\<close> only.\<close>

definition reads_only ::
  "('w \<Rightarrow> string \<Rightarrow> 'i option) \<Rightarrow> ('w \<Rightarrow> string set) \<Rightarrow> ('w, err, 'a) op \<Rightarrow> bool" where
  "reads_only iv vv m \<longleftrightarrow> (\<forall>a b. keeps (\<lambda>w. iv w = a \<and> vv w = b) m)"

definition only_instance ::
  "('w \<Rightarrow> string \<Rightarrow> 'i option) \<Rightarrow> ('w \<Rightarrow> string set) \<Rightarrow> string
   \<Rightarrow> ('w, err, 'a) op \<Rightarrow> bool" where
  "only_instance iv vv n m \<longleftrightarrow> (\<forall>a b. keeps (\<lambda>w. (\<forall>k. k \<noteq> n \<longrightarrow> iv w k = a k) \<and> vv w = b) m)"

text \<open>A daemon may keep configuration keys of its own on an instance; \<open>own\<close> says which those are. Two
  configurations with the same settings agree on all the others.\<close>

definition same_settings :: "(string \<Rightarrow> bool) \<Rightarrow> string gomap \<Rightarrow> string gomap \<Rightarrow> bool" where
  "same_settings own a b \<longleftrightarrow> (\<forall>k. \<not> own k \<longrightarrow> fmlookup a k = fmlookup b k)"

lemma same_settings_refl [simp]: "same_settings own a a"
  by (simp add: same_settings_def)

lemma same_settings_trans: "same_settings own a b \<Longrightarrow> same_settings own b d \<Longrightarrow> same_settings own a d"
  by (simp add: same_settings_def)

lemma same_settings_none [simp]: "same_settings (\<lambda>_. False) a b \<longleftrightarrow> a = b"
  by (auto simp: same_settings_def intro: fmap_ext)

locale daemon =
  fixes c :: "'w client"
    and iv :: "'w \<Rightarrow> string \<Rightarrow> incus_instance option"
    and vv :: "'w \<Rightarrow> string set"
    and own :: "string \<Rightarrow> bool"
  assumes instance_reads: "reads_only iv vv (cl_instance c n)"
    and list_reads: "reads_only iv vv (cl_list c)"
    and idmapped_mounts_reads: "reads_only iv vv (cl_idmapped_mounts c)"
    and profile_names_reads: "reads_only iv vv (cl_profile_names c)"
    and check_image_reads: "reads_only iv vv (cl_check_image c r)"
    and volume_exists_reads: "reads_only iv vv (cl_volume_exists c p v)"
    and create_snapshot_reads: "reads_only iv vv (cl_create_snapshot c n t)"
    and snapshots_reads: "reads_only iv vv (cl_snapshots c n)"
    and delete_snapshot_reads: "reads_only iv vv (cl_delete_snapshot c n t)"
    and exec_reads: "reads_only iv vv (cl_exec c n argv opt)"
    and wait_ready_reads: "reads_only iv vv (cl_wait_ready c n wo)"
    and create_frame: "only_instance iv vv (is_name s) (cl_create c s)"
    and start_frame: "only_instance iv vv n (cl_start c n)"
    and stop_frame: "only_instance iv vv n (cl_stop c n)"
    and delete_frame: "only_instance iv vv n (cl_delete c n)"
    and update_frame: "only_instance iv vv n (cl_update c n ch et)"
    and restore_frame: "only_instance iv vv n (cl_restore_snapshot c n t)"
    and create_volume_frame: "iv (snd (cl_create_volume c p v cfg w)) = iv w"
    and create_volume_adds:
      "vv w \<subseteq> vv (snd (cl_create_volume c p v cfg w))
       \<and> vv (snd (cl_create_volume c p v cfg w)) \<subseteq> insert (ref_of p v) (vv w)"
    and delete_volume_frame: "iv (snd (cl_delete_volume c p v w)) = iv w"
    and delete_volume_removes:
      "vv w - {ref_of p v} \<subseteq> vv (snd (cl_delete_volume c p v w))
       \<and> vv (snd (cl_delete_volume c p v w)) \<subseteq> vv w"
    and instance_ok: "cl_instance c n w = (Inr i, w') \<Longrightarrow> iv w n = Some i"
    and volume_exists_ok: "cl_volume_exists c p v w = (Inr b, w') \<Longrightarrow> b = (ref_of p v \<in> vv w)"
    and create_volume_ok:
      "cl_create_volume c p v cfg w = (Inr u, w') \<Longrightarrow> ref_of p v \<notin> vv w \<and> ref_of p v \<in> vv w'"
    and delete_volume_ok:
      "cl_delete_volume c p v w = (Inr u, w') \<Longrightarrow> ref_of p v \<in> vv w \<and> ref_of p v \<notin> vv w'"
    and create_ok:
      "cl_create c s w = (Inr u, w') \<Longrightarrow>
       iv w (is_name s) = None \<and> (\<exists>i. iv w' (is_name s) = Some i \<and> is_stopped i
         \<and> same_settings own (ii_config i) (is_config s) \<and> ii_devices i = is_devices s)"
    and create_refused:
      "iv w (is_name s) = Some i \<Longrightarrow>
       (\<exists>e. fst (cl_create c s w) = Inl e) \<and> iv (snd (cl_create c s w)) = iv w"
    and start_running:
      "cl_start c n w = (Inr u, w') \<Longrightarrow> \<exists>j. iv w' n = Some j \<and> is_running j"
    and start_ok:
      "iv w n = Some i \<Longrightarrow>
       \<exists>j. iv (snd (cl_start c n w)) n = Some j
         \<and> same_settings own (ii_config j) (ii_config i) \<and> ii_devices j = ii_devices i"
    and stop_ok:
      "iv w n = Some i \<Longrightarrow>
       \<exists>j. iv (snd (cl_stop c n w)) n = Some j
         \<and> same_settings own (ii_config j) (ii_config i) \<and> ii_devices j = ii_devices i"
    and delete_ok: "cl_delete c n w = (Inr u, w') \<Longrightarrow> iv w' n = None"
    and delete_refused:
      "cl_delete c n w = (Inl e, w') \<Longrightarrow> \<not> errors_is e ErrOutcomeUnknown \<Longrightarrow> iv w n = Some i \<Longrightarrow>
       \<exists>j. iv w' n = Some j \<and> same_settings own (ii_config j) (ii_config i) \<and> ii_devices j = ii_devices i"
    and update_empty: "change_is_empty ch \<Longrightarrow> iv (snd (cl_update c n ch et w)) = iv w"
    and update_ok:
      "cl_update c n ch et w = (Inr u, w') \<Longrightarrow> \<not> change_is_empty ch \<Longrightarrow>
       \<exists>i j. iv w n = Some i \<and> iv w' n = Some j \<and> (et = [] \<or> et = ii_etag i)
         \<and> same_settings own (ii_config j) (change_config ch (ii_config i))
         \<and> ii_devices j = change_devices ch (ii_devices i)"
    and update_stale:
      "\<not> change_is_empty ch \<Longrightarrow> iv w n = Some i \<Longrightarrow> et \<noteq> [] \<Longrightarrow> et \<noteq> ii_etag i \<Longrightarrow>
       (\<exists>e. fst (cl_update c n ch et w) = Inl e) \<and> iv (snd (cl_update c n ch et w)) = iv w"
begin

lemmas client_reads = instance_reads list_reads idmapped_mounts_reads profile_names_reads
  check_image_reads volume_exists_reads exec_reads wait_ready_reads

text \<open>What is read is what is there; reading twice gives the same.\<close>

lemma read_view:
  assumes "reads_only iv vv m"
  shows "iv (snd (m w)) = iv w" "vv (snd (m w)) = vv w"
  using assms unfolding reads_only_def keeps_def by blast+

lemma only_view:
  assumes "only_instance iv vv n m"
  shows "k \<noteq> n \<Longrightarrow> iv (snd (m w)) k = iv w k" "vv (snd (m w)) = vv w"
  using assms unfolding only_instance_def keeps_def by (blast, metis)

lemma instance_view_after: "cl_instance c n w = (Inr i, w') \<Longrightarrow> iv w' n = Some i"
  using instance_ok read_view(1) [OF instance_reads] by (metis snd_conv)

text \<open>A reading taken now is fresh: an update judged against it is not refused as stale, and what
  it writes is read back.\<close>

lemma update_round_trip:
  assumes "cl_update c n ch et w = (Inr u, w')" "\<not> change_is_empty ch"
    and "cl_instance c n w' = (Inr j, w'')"
  shows "\<exists>i. iv w n = Some i \<and> same_settings own (ii_config j) (change_config ch (ii_config i))
    \<and> ii_devices j = change_devices ch (ii_devices i)"
  using update_ok [OF assms(1,2)] instance_ok [OF assms(3)] by auto

end

lemma reads_onlyI: "(\<And>a b. keeps (\<lambda>w. iv w = a \<and> vv w = b) m) \<Longrightarrow> reads_only iv vv m"
  by (simp add: reads_only_def)

lemma only_instanceI:
  "(\<And>a b. keeps (\<lambda>w. (\<forall>k. k \<noteq> n \<longrightarrow> iv w k = a k) \<and> vv w = b) m) \<Longrightarrow> only_instance iv vv n m"
  by (simp add: only_instance_def)

end
