(* ===== verification/Fake.thy ===== *)
theory Fake
  imports Daemon
begin

text \<open>
  Models \<open>internal/incus/incustest/fake.go\<close>, the client that needs no daemon: instances, volumes,
  pools, snapshots and versions in memory, every call recorded, and faults injected by a prefix
  table (\<open>FailOn\<close>) or by a function of the calls so far (\<open>Hook\<close>). It is the model of the daemon
  the properties of the command line are proved on, through the locale of the theory \<open>Daemon\<close>.

  Go visits \<open>FailOn\<close> in no particular order, so it is an association list standing for the order
  taken. \<open>Hook\<close> and \<open>ExecFunc\<close> may keep state of their own in Go; here they see the history.
\<close>

record fake =
  fk_instances :: "incus_instance gomap"
  fk_profiles :: "string list"
  fk_snapshots :: "snapshot list gomap"
  fk_volumes :: "bool gomap"
  fk_snapshot_config :: "string gomap gomap"
  fk_pools :: "string list option"
  fk_images :: "string list option"
  fk_exec_func :: "(string list list \<Rightarrow> string \<Rightarrow> string list \<Rightarrow> exec_options \<Rightarrow> err + int \<times> string) option"
  fk_fail_ready :: bool
  fk_network_not_ready :: bool
  fk_fail_on :: "(string \<times> err) list"
  fk_hook :: "(string list \<Rightarrow> err option) option"
  fk_versions :: "nat gomap"
  fk_calls :: "string list"
  fk_users :: "string gomap"
  fk_no_idmapped_mounts :: bool
  fk_execs :: "string list list"
  fk_ctx :: "err option"

text \<open>\<open>fk_ctx\<close> is the error of the context passed to the calls, once it is done.\<close>

definition new_fake :: fake where
  "new_fake = \<lparr>fk_instances = fmempty, fk_profiles = [''default''], fk_snapshots = fmempty,
     fk_volumes = fmempty, fk_snapshot_config = fmempty, fk_pools = Some [''default''],
     fk_images = None, fk_exec_func = None, fk_fail_ready = False, fk_network_not_ready = False,
     fk_fail_on = [], fk_hook = None, fk_versions = fmempty, fk_calls = [],
     fk_users = fmap_of_list [(''developer'', ''developer:x:1001:1001::/home/developer:/bin/sh''),
       (''root'', ''root:x:0:0::/root:/bin/sh'')],
     fk_no_idmapped_mounts = False, fk_execs = [], fk_ctx = None\<rparr>"

definition add_instance :: "incus_instance \<Rightarrow> fake \<Rightarrow> fake" where
  "add_instance i f = f\<lparr>fk_instances := fmupd (ii_name i) i (fk_instances f)\<rparr>"

text \<open>\<open>%v\<close> of a list of strings.\<close>

definition list_text :: "string list \<Rightarrow> string" where
  "list_text xs = CHR ''['' # join '' '' xs @ '']''"

definition bool_text :: "bool \<Rightarrow> string" where
  "bool_text b = (if b then ''true'' else ''false'')"

definition sorted_pairs :: "string gomap \<Rightarrow> string list" where
  "sorted_pairs m = map (\<lambda>k. k @ ''='' @ get_str m k) (sorted_keys m)"

definition fk_record :: "string \<Rightarrow> (fake, err, unit) op" where
  "fk_record call = (\<lambda>f.
     let f1 = f\<lparr>fk_calls := fk_calls f @ [call]\<rparr>
     in case filter (\<lambda>p. has_prefix call (fst p)) (fk_fail_on f) of
          (p, e) # _ \<Rightarrow> (Inl e, f1)
        | [] \<Rightarrow>
          (case fk_hook f of
             None \<Rightarrow> (Inr (), f1)
           | Some h \<Rightarrow> (case h (fk_calls f1) of None \<Rightarrow> (Inr (), f1) | Some e \<Rightarrow> (Inl e, f1))))"

definition fk_called :: "string \<Rightarrow> fake \<Rightarrow> bool" where
  "fk_called prefix f \<longleftrightarrow> list_ex (\<lambda>c. has_prefix c prefix) (fk_calls f)"

definition etag_of :: "fake \<Rightarrow> string \<Rightarrow> string" where
  "etag_of f n = CHR ''v'' # dec (case fmlookup (fk_versions f) n of None \<Rightarrow> 0 | Some v \<Rightarrow> v)"

definition bump_etag :: "string \<Rightarrow> fake \<Rightarrow> fake" where
  "bump_etag n f = f\<lparr>fk_versions :=
     fmupd n ((case fmlookup (fk_versions f) n of None \<Rightarrow> 0 | Some v \<Rightarrow> v) + 1) (fk_versions f)\<rparr>"

definition fk_touch :: "string \<Rightarrow> fake \<Rightarrow> fake" where
  "fk_touch n f = bump_etag n f"

definition not_found :: "string \<Rightarrow> err" where
  "not_found n = Errorf ''%w: %s'' [W (Sentinel ErrInstanceNotFound), S n]"

definition fk_lookup :: "string \<Rightarrow> (fake, err, incus_instance) op" where
  "fk_lookup n = (\<lambda>f. case fmlookup (fk_instances f) n of
       None \<Rightarrow> (Inl (not_found n), f) | Some i \<Rightarrow> (Inr i, f))"

definition set_instance :: "string \<Rightarrow> incus_instance \<Rightarrow> (fake, err, unit) op" where
  "set_instance n i = modify (\<lambda>f. bump_etag n (f\<lparr>fk_instances := fmupd n i (fk_instances f)\<rparr>))"


section \<open>Instances\<close>

definition fk_instance :: "string \<Rightarrow> (fake, err, incus_instance) op" where
  "fk_instance n =
     thenE (fk_record (''instance '' @ n))
       (bindE (fk_lookup n) (\<lambda>i. \<lambda>f. (Inr (i\<lparr>ii_etag := etag_of f n\<rparr>), f)))"

definition listed :: "incus_instance \<Rightarrow> incus_instance" where
  "listed i = \<lparr>ii_name = ii_name i, ii_status = ii_status i, ii_last_used = zero_time,
     ii_profiles = [], ii_config = ii_config i, ii_devices = fmempty, ii_expanded = fmempty,
     ii_network = None, ii_etag = []\<rparr>"

definition fk_list :: "(fake, err, incus_instance list) op" where
  "fk_list =
     thenE (fk_record ''instances'')
       (\<lambda>f. (Inr (map (\<lambda>n. listed (the (fmlookup (fk_instances f) n)))
                    (sorted_keys (fk_instances f))), f))"

definition created :: "instance_spec \<Rightarrow> incus_instance" where
  "created s = \<lparr>ii_name = is_name s, ii_status = ''Stopped'', ii_last_used = zero_time,
     ii_profiles = (if is_no_profiles s then [] else is_profiles s), ii_config = is_config s,
     ii_devices = is_devices s, ii_expanded = fmempty, ii_network = None, ii_etag = []\<rparr>"

definition fk_create :: "instance_spec \<Rightarrow> (fake, err, unit) op" where
  "fk_create s =
     thenE (fk_record (''create '' @ is_name s @ '' image='' @ is_image s @ '' profiles=''
         @ list_text (is_profiles s) @ '' noprofiles='' @ bool_text (is_no_profiles s)
         @ '' config='' @ list_text (sorted_pairs (is_config s))
         @ '' devices='' @ list_text (sorted_keys (is_devices s))))
       (bindE get_state (\<lambda>f.
          if has_key (fk_instances f) (is_name s)
          then fail (Errorf ''instance %s: %w'' [S (is_name s), W (Sentinel ErrInstanceExists)])
          else set_instance (is_name s) (created s)))"

definition fk_start :: "string \<Rightarrow> (fake, err, unit) op" where
  "fk_start n =
     thenE (fk_record (''start '' @ n))
       (bindE (fk_lookup n) (\<lambda>i. set_instance n (i\<lparr>ii_status := ''Running''\<rparr>)))"

definition fk_stop :: "string \<Rightarrow> (fake, err, unit) op" where
  "fk_stop n =
     thenE (fk_record (''stop '' @ n))
       (bindE (fk_lookup n) (\<lambda>i. set_instance n (i\<lparr>ii_status := ''Stopped''\<rparr>)))"

definition fk_delete :: "string \<Rightarrow> (fake, err, unit) op" where
  "fk_delete n =
     thenE (fk_record (''delete '' @ n))
       (bindE (fk_lookup n) (\<lambda>i.
        bindE get_state (\<lambda>f.
          case fk_ctx f of
            Some e \<Rightarrow>
              if \<not> is_stopped i then fail (Errorf ''stop instance %s: %w'' [S n, W e])
              else fail (Errorf ''delete instance %s: %w: %w''
                          [S n, W e, W (Sentinel ErrOutcomeUnknown)])
          | None \<Rightarrow> modify (\<lambda>f. f\<lparr>fk_instances := fmdrop n (fk_instances f)\<rparr>))))"

definition fk_update :: "string \<Rightarrow> instance_change \<Rightarrow> string \<Rightarrow> (fake, err, unit) op" where
  "fk_update n ch etag =
     (if change_is_empty ch then ret ()
      else
        thenE (when_op (ch_unset_config ch \<noteq> [])
          (fk_record (''unset '' @ n @ '' '' @ list_text (ch_unset_config ch))))
        (thenE (when_op (fmdom (ch_set_config ch) \<noteq> {||})
          (fk_record (''config '' @ n @ '' '' @ list_text (sorted_pairs (ch_set_config ch)))))
        (thenE (when_op (ch_remove_devices ch \<noteq> [])
          (fk_record (''removedevices '' @ n @ '' '' @ list_text (ch_remove_devices ch))))
        (thenE (when_op (fmdom (ch_set_devices ch) \<noteq> {||})
          (fk_record (''devices '' @ n @ '' '' @ list_text (sorted_keys (ch_set_devices ch)))))
        (bindE (fk_lookup n) (\<lambda>i.
         bindE get_state (\<lambda>f.
           if etag \<noteq> [] \<and> etag \<noteq> etag_of f n
           then fail (Errorf ''update instance %s: %w'' [S n, W (Sentinel ErrChanged)])
           else set_instance n (i\<lparr>ii_config := change_config ch (ii_config i),
                                 ii_devices := change_devices ch (ii_devices i)\<rparr>))))))))"


section \<open>The host\<close>

definition fk_idmapped_mounts :: "(fake, err, bool) op" where
  "fk_idmapped_mounts =
     thenE (fk_record ''idmapped mounts'') (\<lambda>f. (Inr (\<not> fk_no_idmapped_mounts f), f))"

definition fk_profile_names :: "(fake, err, string list) op" where
  "fk_profile_names =
     bindE get_state (\<lambda>f.
       thenE (fk_record (''profiles '' @ list_text (fk_profiles f))) (ret (fk_profiles f)))"

definition fk_check_image :: "string \<Rightarrow> (fake, err, unit) op" where
  "fk_check_image r =
     thenE (fk_record (''image check '' @ r))
       (bindE get_state (\<lambda>f.
          case fk_images f of
            None \<Rightarrow> ret ()
          | Some is \<Rightarrow> if List.member is r then ret ()
              else fail (Errorf ''image %s: not found'' [S r])))"


section \<open>Volumes\<close>

definition has_pool :: "fake \<Rightarrow> string \<Rightarrow> bool" where
  "has_pool f p = (case fk_pools f of None \<Rightarrow> True | Some ps \<Rightarrow> List.member ps p)"

definition volume_at :: "fake \<Rightarrow> string \<Rightarrow> bool" where
  "volume_at f r = (fmlookup (fk_volumes f) r = Some True)"

definition no_pool :: "string \<Rightarrow> err" where
  "no_pool p = Errorf ''storage pool %s: %w'' [S p, W (Sentinel ErrPoolNotFound)]"

definition fk_volume_exists :: "string \<Rightarrow> string \<Rightarrow> (fake, err, bool) op" where
  "fk_volume_exists p n =
     thenE (fk_record (''volume exists '' @ p @ '' '' @ n))
       (bindE get_state (\<lambda>f.
          if \<not> has_pool f p then fail (no_pool p) else ret (volume_at f (p @ ''/'' @ n))))"

definition fk_create_volume :: "string \<Rightarrow> string \<Rightarrow> string gomap \<Rightarrow> (fake, err, unit) op" where
  "fk_create_volume p n cfg =
     thenE (fk_record (''volume create '' @ p @ '' '' @ n @ '' '' @ list_text (sorted_pairs cfg)))
       (bindE get_state (\<lambda>f.
          if \<not> has_pool f p then fail (no_pool p)
          else if volume_at f (p @ ''/'' @ n)
            then fail (Errorf ''storage volume %q already exists on pool %q'' [S n, S p])
          else modify (\<lambda>f. f\<lparr>fk_volumes := fmupd (p @ ''/'' @ n) True (fk_volumes f)\<rparr>)))"

definition fk_delete_volume :: "string \<Rightarrow> string \<Rightarrow> (fake, err, unit) op" where
  "fk_delete_volume p n =
     thenE (fk_record (''volume delete '' @ p @ '' '' @ n))
       (bindE get_state (\<lambda>f.
          if \<not> volume_at f (p @ ''/'' @ n)
          then fail (Errorf ''storage volume %q not found on pool %q'' [S n, S p])
          else modify (\<lambda>f. f\<lparr>fk_volumes := fmdrop (p @ ''/'' @ n) (fk_volumes f)\<rparr>)))"


section \<open>Snapshots\<close>

definition snapshots_of :: "fake \<Rightarrow> string \<Rightarrow> snapshot list" where
  "snapshots_of f i = (case fmlookup (fk_snapshots f) i of None \<Rightarrow> [] | Some s \<Rightarrow> s)"

definition fk_create_snapshot :: "string \<Rightarrow> string \<Rightarrow> (fake, err, unit) op" where
  "fk_create_snapshot i s =
     thenE (fk_record (''snapshot create '' @ i @ '' '' @ s))
       (bindE get_state (\<lambda>f.
          if list_ex (\<lambda>c. List.member [CHR ''/'', CHR '' '', CHR 0x09, CHR 0x0A] c) s
          then fail (Errorf ''invalid snapshot name %q'' [S s])
          else if list_ex (\<lambda>t. sn_name t = s) (snapshots_of f i)
          then fail (Errorf ''%s already has a snapshot named %q: %w''
                       [S i, S s, W (Sentinel ErrSnapshotExists)])
          else modify (\<lambda>f. f\<lparr>
            fk_snapshots := fmupd i (snapshots_of f i @ [\<lparr>sn_name = s, sn_created = zero_time\<rparr>])
              (fk_snapshots f),
            fk_snapshot_config := (case fmlookup (fk_instances f) i of
                None \<Rightarrow> fk_snapshot_config f
              | Some x \<Rightarrow> fmupd (i @ ''/'' @ s) (ii_config x) (fk_snapshot_config f))\<rparr>)))"

definition fk_list_snapshots :: "string \<Rightarrow> (fake, err, snapshot list) op" where
  "fk_list_snapshots i =
     thenE (fk_record (''snapshot list '' @ i)) (\<lambda>f. (Inr (snapshots_of f i), f))"

definition fk_restore_snapshot :: "string \<Rightarrow> string \<Rightarrow> (fake, err, unit) op" where
  "fk_restore_snapshot i s =
     thenE (fk_record (''snapshot restore '' @ i @ '' '' @ s))
       (bindE get_state (\<lambda>f.
          if \<not> list_ex (\<lambda>t. sn_name t = s) (snapshots_of f i)
          then fail (Errorf ''%s has no snapshot named %q'' [S i, S s])
          else modify (\<lambda>f. bump_etag i
            (case (fmlookup (fk_snapshot_config f) (i @ ''/'' @ s), fmlookup (fk_instances f) i) of
               (Some cfg, Some x) \<Rightarrow>
                 f\<lparr>fk_instances := fmupd i (x\<lparr>ii_config := cfg\<rparr>) (fk_instances f)\<rparr>
             | _ \<Rightarrow> f))))"

definition fk_delete_snapshot :: "string \<Rightarrow> string \<Rightarrow> (fake, err, unit) op" where
  "fk_delete_snapshot i s =
     thenE (fk_record (''snapshot delete '' @ i @ '' '' @ s))
       (bindE get_state (\<lambda>f.
          let kept = filter (\<lambda>t. sn_name t \<noteq> s) (snapshots_of f i)
          in if length kept = length (snapshots_of f i)
             then fail (Errorf ''snapshot %s of %s not found'' [S s, S i])
             else modify (\<lambda>f. f\<lparr>fk_snapshots := fmupd i kept (fk_snapshots f)\<rparr>)))"


section \<open>Running commands\<close>

definition getent_answer :: "fake \<Rightarrow> string list \<Rightarrow> int \<times> string" where
  "getent_answer f argv =
     (case argv of
        [a, b, u] \<Rightarrow>
          if a = ''getent'' \<and> b = ''passwd'' then
            (case fmlookup (fk_users f) u of
               None \<Rightarrow> (2, [])
             | Some entry \<Rightarrow> (0, entry @ [CHR 0x0A]))
          else (0, [])
      | _ \<Rightarrow> (0, []))"

definition fk_exec :: "string \<Rightarrow> string list \<Rightarrow> exec_options \<Rightarrow> (fake, err, int \<times> string) op" where
  "fk_exec n argv opt =
     thenE (fk_record (''exec '' @ n @ '' '' @ join '' '' argv))
       (bindE (fk_lookup n) (\<lambda>i.
          if \<not> is_running i then fail (Errorf ''instance %s is not running'' [S n])
          else thenE (modify (\<lambda>f. f\<lparr>fk_execs := fk_execs f @ [argv]\<rparr>))
            (bindE get_state (\<lambda>f.
               case fk_exec_func f of
                 Some h \<Rightarrow> lift_result (h (fk_execs f) n argv opt)
               | None \<Rightarrow> ret (getent_answer f argv)))))"

definition fk_wait_ready :: "string \<Rightarrow> wait_options \<Rightarrow> (fake, err, unit) op" where
  "fk_wait_ready n opt =
     thenE (fk_record (''waitready '' @ n))
       (bindE get_state (\<lambda>f.
          if fk_fail_ready f then fail (Errorf ''instance %s did not become ready'' [S n])
          else if fk_network_not_ready f
            then fail (Errorf ''%w: instance %s'' [W (Sentinel ErrNetworkNotReady), S n])
          else ret ()))"

definition fake_client :: "fake client" where
  "fake_client = \<lparr>cl_instance = fk_instance, cl_list = fk_list, cl_create = fk_create,
     cl_start = fk_start, cl_stop = fk_stop, cl_delete = fk_delete, cl_update = fk_update,
     cl_idmapped_mounts = fk_idmapped_mounts, cl_profile_names = fk_profile_names,
     cl_check_image = fk_check_image, cl_volume_exists = fk_volume_exists,
     cl_create_volume = fk_create_volume, cl_delete_volume = fk_delete_volume,
     cl_create_snapshot = fk_create_snapshot, cl_snapshots = fk_list_snapshots,
     cl_restore_snapshot = fk_restore_snapshot, cl_delete_snapshot = fk_delete_snapshot,
     cl_exec = fk_exec, cl_wait_ready = fk_wait_ready\<rparr>"


section \<open>What a reader sees\<close>

definition instance_view :: "fake \<Rightarrow> string \<Rightarrow> incus_instance option" where
  "instance_view f n = map_option (\<lambda>i. i\<lparr>ii_etag := etag_of f n\<rparr>) (fmlookup (fk_instances f) n)"

definition volume_view :: "fake \<Rightarrow> string set" where
  "volume_view f = {r. volume_at f r}"


section \<open>The in-memory client is a daemon\<close>

lemma view_calls [simp]:
  "instance_view (f\<lparr>fk_calls := x\<rparr>) = instance_view f" "volume_view (f\<lparr>fk_calls := x\<rparr>) = volume_view f"
  "instance_view (f\<lparr>fk_execs := y\<rparr>) = instance_view f" "volume_view (f\<lparr>fk_execs := y\<rparr>) = volume_view f"
  by (auto simp: instance_view_def volume_view_def volume_at_def etag_of_def fun_eq_iff)

lemma view_snapshots [simp]:
  "instance_view (f\<lparr>fk_snapshots := x\<rparr>) = instance_view f"
  "volume_view (f\<lparr>fk_snapshots := x\<rparr>) = volume_view f"
  "instance_view (f\<lparr>fk_snapshots := x, fk_snapshot_config := y\<rparr>) = instance_view f"
  "volume_view (f\<lparr>fk_snapshots := x, fk_snapshot_config := y\<rparr>) = volume_view f"
  by (auto simp: instance_view_def volume_view_def volume_at_def etag_of_def fun_eq_iff)

lemma view_volumes [simp]: "instance_view (f\<lparr>fk_volumes := x\<rparr>) = instance_view f"
  by (auto simp: instance_view_def etag_of_def fun_eq_iff)

lemma fk_record_state: "snd (fk_record call f) = f\<lparr>fk_calls := fk_calls f @ [call]\<rparr>"
  by (simp add: fk_record_def Let_def split: list.splits option.splits prod.splits)

lemma fk_record_view [simp]:
  "instance_view (snd (fk_record call f)) = instance_view f"
  "volume_view (snd (fk_record call f)) = volume_view f"
  "fk_versions (snd (fk_record call f)) = fk_versions f"
  "fk_instances (snd (fk_record call f)) = fk_instances f"
  "fk_ctx (snd (fk_record call f)) = fk_ctx f"
  by (simp_all add: fk_record_state)

text \<open>Recording a call keeps whatever does not look at the calls.\<close>

lemma keeps_record_view:
  "keeps (\<lambda>w. instance_view w = a \<and> volume_view w = b) (fk_record call)"
  "keeps (\<lambda>w. (\<forall>k. k \<noteq> n \<longrightarrow> instance_view w k = d k) \<and> volume_view w = b) (fk_record call)"
  by (simp_all add: keeps_def)

lemma keeps_lookup: "keeps I (fk_lookup n)"
  by (simp add: keeps_def fk_lookup_def split: option.splits)

lemma keeps_observe: "keeps I (\<lambda>f. (g f, f))"
  by (simp add: keeps_def)

lemma bump_view:
  "k \<noteq> n \<Longrightarrow> instance_view (bump_etag n f) k = instance_view f k"
  "volume_view (bump_etag n f) = volume_view f"
  by (auto simp: instance_view_def bump_etag_def etag_of_def volume_view_def volume_at_def)

lemma keeps_set_instance:
  "keeps (\<lambda>w. (\<forall>k. k \<noteq> n \<longrightarrow> instance_view w k = d k) \<and> volume_view w = b) (set_instance n i)"
proof -
  have "instance_view (f\<lparr>fk_instances := fmupd n i (fk_instances f)\<rparr>) k = instance_view f k"
    if "k \<noteq> n" for f k
    using that by (simp add: instance_view_def etag_of_def)
  moreover have "volume_view (f\<lparr>fk_instances := x\<rparr>) = volume_view f" for f x
    by (simp add: volume_view_def volume_at_def)
  ultimately show ?thesis by (simp add: keeps_def set_instance_def modify_def bump_view)
qed

lemma keeps_drop_instance:
  "keeps (\<lambda>w. (\<forall>k. k \<noteq> n \<longrightarrow> instance_view w k = d k) \<and> volume_view w = b)
     (modify (\<lambda>f. f\<lparr>fk_instances := fmdrop n (fk_instances f)\<rparr>))"
  by (simp add: keeps_def modify_def instance_view_def etag_of_def volume_view_def volume_at_def)

lemma keeps_modify: "(\<And>f. I f \<Longrightarrow> I (g f)) \<Longrightarrow> keeps I (modify g)"
  by (simp add: keeps_def modify_def)

lemmas fake_keeps = keeps_intros keeps_record_view keeps_lookup keeps_observe keeps_set_instance
  keeps_drop_instance

lemma fake_reads:
  "reads_only instance_view volume_view (fk_instance n)"
  "reads_only instance_view volume_view fk_list"
  "reads_only instance_view volume_view fk_idmapped_mounts"
  "reads_only instance_view volume_view fk_profile_names"
  "reads_only instance_view volume_view (fk_check_image r)"
  "reads_only instance_view volume_view (fk_volume_exists p v)"
  "reads_only instance_view volume_view (fk_list_snapshots n)"
  "reads_only instance_view volume_view (fk_exec n argv opt)"
  "reads_only instance_view volume_view (fk_wait_ready n wo)"
  "reads_only instance_view volume_view (fk_create_snapshot n t)"
  "reads_only instance_view volume_view (fk_delete_snapshot n t)"
  unfolding fk_instance_def fk_list_def fk_idmapped_mounts_def fk_profile_names_def
    fk_check_image_def fk_volume_exists_def fk_list_snapshots_def fk_exec_def fk_wait_ready_def
    fk_create_snapshot_def fk_delete_snapshot_def Let_def
  by (rule reads_onlyI, intro fake_keeps keeps_modify; simp)+

lemma fake_frames:
  "only_instance instance_view volume_view (is_name s) (fk_create s)"
  "only_instance instance_view volume_view n (fk_start n)"
  "only_instance instance_view volume_view n (fk_stop n)"
  "only_instance instance_view volume_view n (fk_delete n)"
  "only_instance instance_view volume_view n (fk_update n ch et)"
  unfolding fk_create_def fk_start_def fk_stop_def fk_delete_def fk_update_def
  by (rule only_instanceI, intro fake_keeps)+

lemma fake_restore_frame: "only_instance instance_view volume_view n (fk_restore_snapshot n t)"
proof -
  have "volume_view (f\<lparr>fk_instances := x\<rparr>) = volume_view f" for f x
    by (simp add: volume_view_def volume_at_def)
  moreover have "instance_view (f\<lparr>fk_instances := fmupd n x (fk_instances f)\<rparr>) k = instance_view f k"
    if "k \<noteq> n" for f x k using that by (simp add: instance_view_def etag_of_def)
  ultimately show ?thesis
    unfolding fk_restore_snapshot_def
    by (intro only_instanceI fake_keeps keeps_modify) (simp add: bump_view split: option.splits)
qed

text \<open>Running an operation that starts with a recorded call.\<close>

lemma run_record:
  "thenE (fk_record call) m f
   = (case fst (fk_record call f) of
        Inl e \<Rightarrow> (Inl e, f\<lparr>fk_calls := fk_calls f @ [call]\<rparr>)
      | Inr _ \<Rightarrow> m (f\<lparr>fk_calls := fk_calls f @ [call]\<rparr>))"
  using fk_record_state [of call f] by (cases "fk_record call f") (simp add: run_thenE split: sum.splits)

lemmas fake_runs = run_record run_bindE run_get run_modify run_ret run_fail run_lift run_when

lemma etag_calls [simp]: "etag_of (f\<lparr>fk_calls := x\<rparr>) n = etag_of f n"
  by (simp add: etag_of_def)

lemma volume_at_calls [simp]: "volume_at (f\<lparr>fk_calls := x\<rparr>) r = volume_at f r"
  by (simp add: volume_at_def)

lemma view_set_instance:
  "instance_view (snd (set_instance n i f)) n = Some (i\<lparr>ii_etag := etag_of (bump_etag n f) n\<rparr>)"
  by (simp add: set_instance_def modify_def instance_view_def bump_etag_def etag_of_def)

lemma set_instance_result:
  "set_instance n i f = (r, f') \<Longrightarrow> \<exists>e. instance_view f' n = Some (i\<lparr>ii_etag := e\<rparr>)"
  using view_set_instance [of n i f] by (metis snd_conv)

lemma fake_instance_ok: "fk_instance n f = (Inr i, f') \<Longrightarrow> instance_view f n = Some i"
  by (auto simp: fk_instance_def run_record run_bindE fk_lookup_def instance_view_def
      split: sum.splits option.splits)

lemma fake_volume_exists_ok:
  "fk_volume_exists p v f = (Inr b, f') \<Longrightarrow> b = (ref_of p v \<in> volume_view f)"
  by (auto simp: fk_volume_exists_def fake_runs ref_of_def volume_view_def
      split: sum.splits if_splits)

lemma fake_create_volume:
  "instance_view (snd (fk_create_volume p v cfg f)) = instance_view f"
  "volume_view f \<subseteq> volume_view (snd (fk_create_volume p v cfg f))
   \<and> volume_view (snd (fk_create_volume p v cfg f)) \<subseteq> insert (ref_of p v) (volume_view f)"
  "fk_create_volume p v cfg f = (Inr u, f') \<Longrightarrow>
   ref_of p v \<notin> volume_view f \<and> ref_of p v \<in> volume_view f'"
  by (auto simp: fk_create_volume_def fake_runs ref_of_def volume_view_def volume_at_def
      split: sum.splits if_splits)

lemma fake_delete_volume:
  "instance_view (snd (fk_delete_volume p v f)) = instance_view f"
  "volume_view f - {ref_of p v} \<subseteq> volume_view (snd (fk_delete_volume p v f))
   \<and> volume_view (snd (fk_delete_volume p v f)) \<subseteq> volume_view f"
  "fk_delete_volume p v f = (Inr u, f') \<Longrightarrow>
   ref_of p v \<in> volume_view f \<and> ref_of p v \<notin> volume_view f'"
  by (auto simp: fk_delete_volume_def fake_runs ref_of_def volume_view_def volume_at_def
      split: sum.splits if_splits)

lemma fake_create_ok:
  assumes "fk_create s f = (Inr u, f')"
  shows "instance_view f (is_name s) = None \<and> (\<exists>i. instance_view f' (is_name s) = Some i \<and> is_stopped i
         \<and> ii_config i = is_config s \<and> ii_devices i = is_devices s)"
proof -
  have "\<not> has_key (fk_instances f) (is_name s)"
    and "\<exists>e. instance_view f' (is_name s) = Some ((created s)\<lparr>ii_etag := e\<rparr>)"
    using assms by (auto simp: fk_create_def fake_runs split: sum.splits if_splits dest!: set_instance_result)
  then show ?thesis by (auto simp: instance_view_def has_key_iff created_def is_stopped_def)
qed

lemma fake_set_status:
  assumes "instance_view f n = Some i"
    and "m = thenE (fk_record call) (bindE (fk_lookup n) (\<lambda>i. set_instance n (i\<lparr>ii_status := s\<rparr>)))"
  shows "\<exists>j. instance_view (snd (m f)) n = Some j \<and> ii_config j = ii_config i \<and> ii_devices j = ii_devices i"
proof -
  obtain x where x: "fmlookup (fk_instances f) n = Some x" "i = x\<lparr>ii_etag := etag_of f n\<rparr>"
    using assms(1) by (auto simp: instance_view_def)
  show ?thesis
  proof (cases "fst (fk_record call f)")
    case (Inl e)
    then show ?thesis using assms by (simp add: run_record)
  next
    case (Inr y)
    then have "m f = set_instance n (x\<lparr>ii_status := s\<rparr>) (f\<lparr>fk_calls := fk_calls f @ [call]\<rparr>)"
      using assms(2) x(1) by (simp add: run_record run_bindE fk_lookup_def)
    then show ?thesis using x(2) by (simp add: view_set_instance)
  qed
qed

lemma fake_create_refused:
  assumes "instance_view f (is_name s) = Some i"
  shows "(\<exists>e. fst (fk_create s f) = Inl e) \<and> instance_view (snd (fk_create s f)) = instance_view f"
  using assms by (auto simp: fk_create_def fake_runs instance_view_def has_key_iff etag_of_def fun_eq_iff
      split: sum.splits if_splits)

lemma fake_start_running:
  assumes "fk_start n f = (Inr u, f')"
  shows "\<exists>j. instance_view f' n = Some j \<and> is_running j"
  using assms
  by (auto simp: fk_start_def fake_runs fk_lookup_def split: sum.splits option.splits
      dest!: set_instance_result)
    (auto simp: is_running_def)

lemma fake_delete_ok: "fk_delete n f = (Inr u, f') \<Longrightarrow> instance_view f' n = None"
  by (auto simp: fk_delete_def fake_runs fk_lookup_def instance_view_def
      split: sum.splits if_splits option.splits)

lemma fake_delete_refused:
  "fk_delete n f = (Inl e, f') \<Longrightarrow> instance_view f' n = instance_view f n"
  by (auto simp: fk_delete_def fake_runs fk_lookup_def
      split: sum.splits if_splits option.splits)

text \<open>The calls an update records say nothing about the instance; what follows them decides.\<close>

definition same_daemon :: "fake \<Rightarrow> fake \<Rightarrow> bool" where
  "same_daemon f g \<longleftrightarrow>
     fk_instances g = fk_instances f \<and> fk_versions g = fk_versions f \<and> fk_volumes g = fk_volumes f"

lemma same_daemon_view:
  assumes "same_daemon f g"
  shows "instance_view g = instance_view f" "etag_of g n = etag_of f n" "fk_lookup n g = (fst (fk_lookup n f), g)"
  using assms by (auto simp: same_daemon_def instance_view_def etag_of_def fk_lookup_def fun_eq_iff
      split: option.splits)

lemma run_logged:
  assumes "thenE (when_op b (fk_record call)) m f = (r, f')"
  shows "(\<exists>e. r = Inl e \<and> same_daemon f f') \<or> (\<exists>g. same_daemon f g \<and> m g = (r, f'))"
proof (cases b)
  case True
  then show ?thesis using assms
    by (auto simp: when_op_def run_record same_daemon_def split: sum.splits)
next
  case False
  then show ?thesis using assms by (auto simp: run_thenE run_when same_daemon_def)
qed

lemma same_daemon_trans: "same_daemon f g \<Longrightarrow> same_daemon g h \<Longrightarrow> same_daemon f h"
  by (simp add: same_daemon_def)

lemma run_logged_from:
  assumes "thenE (when_op b (fk_record call)) m g = (r, f')" "same_daemon f g"
    and "\<And>h. same_daemon f h \<Longrightarrow> m h = (r, f') \<Longrightarrow> P" "\<And>e. r = Inl e \<Longrightarrow> same_daemon f f' \<Longrightarrow> P"
  shows P
  using run_logged [OF assms(1)] assms(2-) same_daemon_trans by blast

lemma fk_update_cases:
  assumes "fk_update n ch et f = (r, f')" "\<not> change_is_empty ch"
  obtains (refused) e where "r = Inl e" "same_daemon f f'"
  | (applied) i g where "r = Inr ()" "same_daemon f g" "fmlookup (fk_instances f) n = Some i"
      "et = [] \<or> et = etag_of f n"
      "f' = snd (set_instance n (i\<lparr>ii_config := change_config ch (ii_config i),
                                 ii_devices := change_devices ch (ii_devices i)\<rparr>) g)"
proof -
  have fin: thesis
    if g: "same_daemon f g"
      and m: "bindE (fk_lookup n) (\<lambda>i. bindE get_state (\<lambda>f.
           if et \<noteq> [] \<and> et \<noteq> etag_of f n
           then fail (Errorf ''update instance %s: %w'' [S n, W (Sentinel ErrChanged)])
           else set_instance n (i\<lparr>ii_config := change_config ch (ii_config i),
                                 ii_devices := change_devices ch (ii_devices i)\<rparr>))) g = (r, f')"
    for g
  proof (cases "fmlookup (fk_instances f) n")
    case None
    then have "fk_lookup n g = (Inl (not_found n), g)"
      using g by (simp add: fk_lookup_def same_daemon_def)
    then have "r = Inl (not_found n)" "f' = g" using m by (auto simp: run_bindE)
    then show ?thesis using refused g by blast
  next
    case (Some i)
    then have l: "fk_lookup n g = (Inr i, g)" using g by (simp add: fk_lookup_def same_daemon_def)
    have s: "set_instance n j g = (Inr (), snd (set_instance n j g))" for j
      by (simp add: set_instance_def modify_def)
    show ?thesis
    proof (cases "et \<noteq> [] \<and> et \<noteq> etag_of g n")
      case True
      then have "\<exists>e. r = Inl e" "f' = g" using m l by (auto simp: run_bindE run_get run_fail)
      then show ?thesis using refused g by blast
    next
      case False
      then have "r = Inr ()" "f' = snd (set_instance n (i\<lparr>ii_config := change_config ch (ii_config i),
                                 ii_devices := change_devices ch (ii_devices i)\<rparr>) g)"
        using m l s [of "i\<lparr>ii_config := change_config ch (ii_config i),
          ii_devices := change_devices ch (ii_devices i)\<rparr>"] by (auto simp: run_bindE run_get)
      then show ?thesis using applied g Some False same_daemon_view(2) [OF g] by auto
    qed
  qed
  have "same_daemon f f" by (simp add: same_daemon_def)
  with assms(1) show ?thesis
    unfolding fk_update_def if_not_P [OF assms(2)]
    by (elim run_logged_from [where f = f]) ((rule fin refused; assumption) | assumption)+
qed

lemma fake_update_empty: "change_is_empty ch \<Longrightarrow> fk_update n ch et f = (Inr (), f)"
  by (simp add: fk_update_def run_ret)

lemma fake_update_ok:
  assumes "fk_update n ch et f = (Inr u, f')" "\<not> change_is_empty ch"
  shows "\<exists>i j. instance_view f n = Some i \<and> instance_view f' n = Some j \<and> (et = [] \<or> et = ii_etag i)
         \<and> ii_config j = change_config ch (ii_config i) \<and> ii_devices j = change_devices ch (ii_devices i)"
  using assms
proof (cases rule: fk_update_cases)
  case (applied i g)
  then have "instance_view f n = Some (i\<lparr>ii_etag := etag_of f n\<rparr>)" by (simp add: instance_view_def)
  with applied show ?thesis by (simp add: view_set_instance)
qed simp

lemma fake_update_stale:
  assumes "\<not> change_is_empty ch" "instance_view f n = Some i" "et \<noteq> []" "et \<noteq> ii_etag i"
  shows "(\<exists>e. fst (fk_update n ch et f) = Inl e) \<and> instance_view (snd (fk_update n ch et f)) = instance_view f"
proof -
  obtain r f' where m: "fk_update n ch et f = (r, f')" by (cases "fk_update n ch et f")
  have "ii_etag i = etag_of f n" using assms(2) by (auto simp: instance_view_def)
  with m assms show ?thesis by (cases rule: fk_update_cases) (auto simp: same_daemon_view m)
qed

lemma fake_client_sel [simp]:
  "cl_instance fake_client = fk_instance" "cl_list fake_client = fk_list"
  "cl_create fake_client = fk_create" "cl_start fake_client = fk_start"
  "cl_stop fake_client = fk_stop" "cl_delete fake_client = fk_delete"
  "cl_update fake_client = fk_update" "cl_idmapped_mounts fake_client = fk_idmapped_mounts"
  "cl_profile_names fake_client = fk_profile_names" "cl_check_image fake_client = fk_check_image"
  "cl_volume_exists fake_client = fk_volume_exists"
  "cl_create_volume fake_client = fk_create_volume"
  "cl_delete_volume fake_client = fk_delete_volume"
  "cl_create_snapshot fake_client = fk_create_snapshot"
  "cl_snapshots fake_client = fk_list_snapshots"
  "cl_restore_snapshot fake_client = fk_restore_snapshot"
  "cl_delete_snapshot fake_client = fk_delete_snapshot"
  "cl_exec fake_client = fk_exec" "cl_wait_ready fake_client = fk_wait_ready"
  by (simp_all add: fake_client_def)

lemmas fake_laws = fake_reads fake_frames fake_restore_frame fake_create_volume fake_delete_volume
  fake_delete_ok fake_update_stale fake_create_refused fake_start_running fake_instance_ok fake_volume_exists_ok fake_create_ok
  fake_delete_refused fake_update_ok fake_set_status [OF _ fk_start_def]
  fake_set_status [OF _ fk_stop_def]

interpretation fk: daemon fake_client instance_view volume_view "\<lambda>_. False"
  by (unfold_locales; unfold fake_client_sel)
    ((unfold same_settings_none)?; (fact fake_laws | rule fake_laws; assumption
      | simp add: fake_update_empty fake_delete_refused))+

end
