(* ===== verification/IdMap.thy ===== *)
theory IdMap
  imports Config Errors
begin

text \<open>
  Models the uid/gid mapping: the permission files (\<open>internal/cli/idmap.go\<close>), the strategy
  (\<open>internal/cli/idmap_mode.go\<close>) and the comparison of two \<open>raw.idmap\<close> values
  (\<open>internal/incus/config.go\<close>). \<open>int64\<close> arithmetic wraps as in Go.
\<close>

definition raw_idmap_key :: string where "raw_idmap_key = ''raw.idmap''"

definition restart_required_keys :: "string list" where
  "restart_required_keys = [raw_idmap_key, ''security.nesting'', ''security.privileged'']"

definition newline :: string where "newline = [CHR 0x0A]"


section \<open>Permission files\<close>

definition sub_uid_path :: string where "sub_uid_path = ''/etc/subuid''"
definition sub_gid_path :: string where "sub_gid_path = ''/etc/subgid''"

record sub_id_range =
  sr_owner :: string
  sr_start :: int
  sr_count :: int

text \<open>\<open>bufio.Scanner\<close>: the lines of the text without their line ends, up to one too long for its
  buffer.\<close>

definition scan_lines :: "string \<Rightarrow> string list" where
  "scan_lines s =
     (let ls = split_on (CHR 0x0A) s;
          ls = (if last ls = [] then butlast ls else ls);
          ls = takeWhile (\<lambda>l. length l < 65536) ls
      in map (\<lambda>l. if l \<noteq> [] \<and> last l = CHR 0x0D then butlast l else l) ls)"

definition parse_sub_line :: "string \<Rightarrow> sub_id_range list" where
  "parse_sub_line l =
     (let line = trim_space l
      in if line = [] \<or> has_prefix line ''#'' then []
         else case split_on (CHR '':'') line of
             [o', s, n] \<Rightarrow>
               (case (parse_int s, parse_int n) of
                  (Some start, Some count) \<Rightarrow>
                    [\<lparr>sr_owner = o', sr_start = start, sr_count = count\<rparr>]
                | _ \<Rightarrow> [])
           | _ \<Rightarrow> [])"

definition parse_sub_ids :: "string \<Rightarrow> sub_id_range list" where
  "parse_sub_ids text = concat (map parse_sub_line (scan_lines text))"

definition wrap64 :: "int \<Rightarrow> int" where
  "wrap64 n = (n + 2 ^ 63) mod 2 ^ 64 - 2 ^ 63"

definition allows_id :: "sub_id_range list \<Rightarrow> string \<Rightarrow> int \<Rightarrow> bool" where
  "allows_id ranges owner id' \<longleftrightarrow>
     list_ex (\<lambda>r. sr_owner r = owner \<and> sr_start r \<le> id' \<and> id' < wrap64 (sr_start r + sr_count r))
       ranges"

text \<open>\<open>files\<close> gives the text of a file, or nothing when it cannot be opened.\<close>

definition check_sub_id_allowed ::
  "(string \<Rightarrow> string option) \<Rightarrow> string \<Rightarrow> string \<Rightarrow> int \<Rightarrow> int \<Rightarrow> err option" where
  "check_sub_id_allowed files uid_path gid_path uid gid =
     (case files uid_path of
        None \<Rightarrow> None
      | Some us \<Rightarrow>
        (case files gid_path of
           None \<Rightarrow> None
         | Some gs \<Rightarrow>
           (let missing =
              (if allows_id (parse_sub_ids us) ''root'' uid then []
               else [sub_uid_path @ '': root:'' @ itoa uid @ '':1'']) @
              (if allows_id (parse_sub_ids gs) ''root'' gid then []
               else [sub_gid_path @ '': root:'' @ itoa gid @ '':1''])
            in if missing = [] then None
               else Some (Errorf
                 (''workspace idmap (raw.idmap) is not permitted on this host.'' @ newline @
                  ''Incus needs permission to map your uid/gid into the container.'' @ newline @ newline @
                  ''Add the following entries (no incus restart needed):'' @ newline @ ''  %s'' @ newline @ newline @
                  ''Alternatively set 'workspace: {idmap: none}' in dev.yml and handle'' @ newline @
                  ''ownership yourself (host files will not be writable from the container)'')
                 [S (join (newline @ ''  '') missing)]))))"

definition default_idmap_check :: "(string \<Rightarrow> string option) \<Rightarrow> int \<Rightarrow> int \<Rightarrow> err option" where
  "default_idmap_check files uid gid = check_sub_id_allowed files sub_uid_path sub_gid_path uid gid"


section \<open>The strategy\<close>

record idmap_plan =
  ip_mode :: idmap_mode
  ip_managed :: bool
  ip_uid :: int
  ip_gid :: int
  ip_owner :: resolved_owner
  ip_warning :: string

definition shift_enabled :: "idmap_plan \<Rightarrow> bool" where
  "shift_enabled p \<longleftrightarrow> ip_managed p \<and> ip_mode p = IDMapShift"

definition raw_idmap :: "idmap_plan \<Rightarrow> string" where
  "raw_idmap p =
     (if \<not> ip_managed p \<or> ip_mode p \<noteq> IDMapRaw then []
      else ''uid '' @ itoa (ip_uid p) @ '' '' @ itoa (ro_uid (ip_owner p)) @ newline
           @ ''gid '' @ itoa (ip_gid p) @ '' '' @ itoa (ro_gid (ip_owner p)))"

definition user_manages_idmap :: "config \<Rightarrow> bool" where
  "user_manages_idmap c = has_key (in_config (cf_instance c)) raw_idmap_key"

text \<open>\<open>shift_ok\<close> is absent, or is an operation that asks the daemon.\<close>

definition require_idmapped_mounts :: "('s, err, bool) op option \<Rightarrow> ('s, err, unit) op" where
  "require_idmapped_mounts shift_ok =
     (case shift_ok of
        None \<Rightarrow> ret ()
      | Some ask \<Rightarrow>
          bindE (on_error ask (\<lambda>e. fail
              (Errorf ''check whether this host can do idmapped mounts: %w'' [W e])))
            (\<lambda>ok. if ok then ret ()
               else fail (Errorf
                 (''workspace idmap (shift) needs idmapped mounts, which this kernel does not have.'' @ newline @
                  ''WSL is the usual place this comes up.'' @ newline @ newline @
                  ''Use 'workspace: {idmap: raw}' instead, which needs an entry in'' @ newline @
                  ''%s and %s, or 'workspace: {idmap: none}' and handle ownership yourself'')
                 [S sub_uid_path, S sub_gid_path])))"

definition neither_method_error :: "int \<Rightarrow> int \<Rightarrow> err \<Rightarrow> err" where
  "neither_method_error uid gid raw_err =
     Errorf
       (''this host supports neither way of mapping the workspace.'' @ newline @ newline @
        ''raw is not permitted: add 'root:%d:1' to %s and 'root:%d:1' to %s,'' @ newline @
        ''then run 'idev up' again (no incus restart needed).'' @ newline @ newline @
        ''shift is not available either: this kernel has no idmapped mounts,'' @ newline @
        ''which is usual on WSL.'' @ newline @ newline @
        ''Alternatively set 'workspace: {idmap: none}' and handle ownership yourself'' @ newline @
        ''(host files will not be writable from the container).'' @ newline @ newline @
        ''The raw check said: %w'')
       [N uid, S sub_uid_path, N gid, S sub_gid_path, W raw_err]"

definition fallback_warning :: "int \<Rightarrow> int \<Rightarrow> bool \<Rightarrow> string" where
  "fallback_warning uid gid owner_declared =
     (if owner_declared then newline @ ''        workspace.owner is not applied under shift.'' else [])
     @ ''workspace is mounted with shift (idmapped mount) because raw.idmap is not permitted on this host.'' @ newline
     @ ''        Files created inside the container will be owned by root on the host.'' @ newline
     @ ''        To have them owned by you, add 'root:'' @ itoa uid @ '':1' to '' @ sub_uid_path
     @ '' and 'root:'' @ itoa gid @ '':1' to '' @ sub_gid_path @ '','' @ newline
     @ ''        then run 'idev up' again.''"

definition resolve_idmap ::
  "config \<Rightarrow> int \<Rightarrow> int \<Rightarrow> (int \<Rightarrow> int \<Rightarrow> err option) \<Rightarrow> ('s, err, bool) op option
   \<Rightarrow> ('s, err, idmap_plan) op" where
  "resolve_idmap c uid gid check shift_ok =
     (let ws = workspace_or_default c;
          declared = wm_idmap ws;
          plan = \<lparr>ip_mode = [], ip_managed = False, ip_uid = uid, ip_gid = gid,
                  ip_owner = wm_owner ws, ip_warning = []\<rparr>
      in if user_manages_idmap c then
           ret (case cf_workspace c of
               None \<Rightarrow> plan
             | Some w \<Rightarrow>
                 if ws_idmap w \<noteq> []
                 then plan\<lparr>ip_warning := ''instance.config.'' @ raw_idmap_key
                        @ '' is set, so workspace.idmap: '' @ declared @ '' is ignored''\<rparr>
                 else plan)
         else
           let plan = plan\<lparr>ip_managed := True, ip_mode := declared\<rparr>
           in if declared = IDMapRaw then
                (case check uid gid of Some e \<Rightarrow> fail e | None \<Rightarrow> ret plan)
              else if declared = IDMapShift then
                thenE (require_idmapped_mounts shift_ok) (ret plan)
              else if declared = IDMapAuto then
                (case check uid gid of
                   Some raw_err \<Rightarrow>
                     thenE (on_error (require_idmapped_mounts shift_ok)
                         (\<lambda>_. fail (neither_method_error uid gid raw_err)))
                       (ret (plan\<lparr>ip_mode := IDMapShift,
                          ip_warning := fallback_warning uid gid
                            (case cf_workspace c of None \<Rightarrow> False | Some w \<Rightarrow> ws_owner w \<noteq> None)\<rparr>))
                 | None \<Rightarrow> ret (plan\<lparr>ip_mode := IDMapRaw\<rparr>))
              else ret plan)"


section \<open>Comparing mappings\<close>

definition idmap_line :: "string \<Rightarrow> string list" where
  "idmap_line line =
     (case str_fields line of
        [k, a, b] \<Rightarrow>
          if k = ''both'' then [''uid '' @ a @ '' '' @ b, ''gid '' @ a @ '' '' @ b]
          else [join '' '' [k, a, b]]
      | _ \<Rightarrow> if trim_space line \<noteq> [] then [trim_space line] else [])"

definition normalize_idmap :: "string \<Rightarrow> string" where
  "normalize_idmap value =
     join newline (sort (concat (map idmap_line (split_on (CHR 0x0A) value))))"

definition same_id_mapping :: "string \<Rightarrow> string \<Rightarrow> bool" where
  "same_id_mapping want have' \<longleftrightarrow> want = have' \<or> normalize_idmap want = normalize_idmap have'"

section \<open>Facts\<close>

lemma allows_id_exact:
  assumes "\<And>r. r \<in> set rs \<Longrightarrow> - (2 ^ 63) \<le> sr_start r + sr_count r \<and> sr_start r + sr_count r < 2 ^ 63"
  shows "allows_id rs owner n
    \<longleftrightarrow> (\<exists>r\<in>set rs. sr_owner r = owner \<and> sr_start r \<le> n \<and> n < sr_start r + sr_count r)"
proof -
  have "wrap64 (sr_start r + sr_count r) = sr_start r + sr_count r" if "r \<in> set rs" for r
    using assms [OF that] by (simp add: wrap64_def)
  then show ?thesis by (auto simp: allows_id_def list_ex_iff)
qed

lemma map_lines:
  "w \<noteq> [] \<Longrightarrow> list_all ascii_word w \<Longrightarrow> list_all ascii_word v \<Longrightarrow> v \<noteq> [] \<Longrightarrow>
   split_on (CHR 0x0A) (join '' '' w @ newline @ join '' '' v) = [join '' '' w, join '' '' v]"
proof -
  have n: "CHR 0x0A \<notin> set (join '' '' ws)" if "list_all ascii_word ws" for ws
    using that set_join [of "'' ''" ws] word_no_newline by (fastforce simp: list_all_iff)
  show "w \<noteq> [] \<Longrightarrow> list_all ascii_word w \<Longrightarrow> list_all ascii_word v \<Longrightarrow> v \<noteq> [] \<Longrightarrow> ?thesis"
    by (simp add: newline_def split_on_append split_on_no_sep n)
qed

lemma ascii_keywords: "ascii_word ''uid''" "ascii_word ''gid''" "ascii_word ''both''"
  by (simp_all add: ascii_word_def)

lemma idmap_line_words:
  assumes "ascii_word k" "ascii_word a" "ascii_word b"
  shows "idmap_line (join '' '' [k, a, b])
    = (if k = ''both'' then [join '' '' [''uid'', a, b], join '' '' [''gid'', a, b]]
       else [join '' '' [k, a, b]])"
proof -
  have "str_fields (join '' '' [k, a, b]) = [k, a, b]" using assms by (intro str_fields_words) simp
  then show ?thesis by (simp only: idmap_line_def list.case) simp
qed

lemma normalize_both:
  assumes "ascii_word a" "ascii_word b"
  shows "normalize_idmap (join '' '' [''both'', a, b])
    = normalize_idmap (join '' '' [''uid'', a, b] @ newline @ join '' '' [''gid'', a, b])"
proof -
  have one: "split_on (CHR 0x0A) (join '' '' [''both'', a, b]) = [join '' '' [''both'', a, b]]"
    using assms word_no_newline by (intro split_on_no_sep) auto
  have two: "split_on (CHR 0x0A) (join '' '' [''uid'', a, b] @ newline @ join '' '' [''gid'', a, b])
      = [join '' '' [''uid'', a, b], join '' '' [''gid'', a, b]]"
    using assms ascii_keywords by (intro map_lines) simp_all
  have "idmap_line (join '' '' [''both'', a, b]) = [join '' '' [''uid'', a, b], join '' '' [''gid'', a, b]]"
    "idmap_line (join '' '' [''uid'', a, b]) = [join '' '' [''uid'', a, b]]"
    "idmap_line (join '' '' [''gid'', a, b]) = [join '' '' [''gid'', a, b]]"
    using assms ascii_keywords by (simp_all only: idmap_line_words) simp_all
  then show ?thesis unfolding normalize_idmap_def one two
    by (simp only: list.map concat.simps append.simps)
qed

lemma run_resolve:
  assumes "resolve_idmap c uid gid check ask w = (Inr p, w')"
  shows "ip_managed p = (\<not> user_manages_idmap c)" "ip_uid p = uid" "ip_gid p = gid"
    "ip_owner p = wm_owner (workspace_or_default c)"
  using assms
  by (auto simp: resolve_idmap_def Let_def op_simps split: if_splits option.splits sum.splits prod.splits)

lemma require_ok:
  assumes "require_idmapped_mounts ask w = (Inr u, w')"
  shows "ask = None \<or> (\<exists>a. ask = Some a \<and> a w = (Inr True, w'))"
  using assms by (auto simp: require_idmapped_mounts_def op_simps split: option.splits sum.splits
      prod.splits if_splits)


section \<open>Properties\<close>

text \<open>C22: the strategy is one the host was found to allow. When idev manages the mapping, the plan
  is the declared mode, or what \<open>auto\<close> stands for; \<open>raw\<close> only when the permission check passed,
  \<open>shift\<close> only when the kernel was said to have idmapped mounts (or there is nothing to ask), and
  \<open>auto\<close> settles on \<open>shift\<close> only when \<open>raw\<close> was refused. With \<open>raw.idmap\<close> set by the user it
  manages nothing.\<close>

theorem resolve_idmap_allowed:
  assumes "resolve_idmap c uid gid check ask w = (Inr p, w')"
    and "wm_idmap (workspace_or_default c) \<in> set idmap_modes"
  shows "if user_manages_idmap c then \<not> ip_managed p \<and> raw_idmap p = [] \<and> \<not> shift_enabled p \<and> w' = w
    else ip_managed p
      \<and> ip_mode p \<in> {IDMapRaw, IDMapShift, IDMapNone}
      \<and> (wm_idmap (workspace_or_default c) \<noteq> IDMapAuto \<longrightarrow> ip_mode p = wm_idmap (workspace_or_default c))
      \<and> (ip_mode p = IDMapRaw \<longrightarrow> check uid gid = None \<and> w' = w)
      \<and> (ip_mode p = IDMapShift \<longrightarrow> ask = None \<or> (\<exists>a. ask = Some a \<and> a w = (Inr True, w')))
      \<and> (ip_mode p = IDMapShift \<and> wm_idmap (workspace_or_default c) = IDMapAuto \<longrightarrow> check uid gid \<noteq> None)"
proof (cases "user_manages_idmap c")
  case True
  then show ?thesis using assms
    by (auto simp: resolve_idmap_def Let_def op_simps raw_idmap_def shift_enabled_def
        split: if_splits option.splits)
next
  case False
  have modes: "IDMapRaw \<noteq> IDMapShift" "IDMapRaw \<noteq> IDMapAuto" "IDMapRaw \<noteq> IDMapNone"
    "IDMapShift \<noteq> IDMapAuto" "IDMapShift \<noteq> IDMapNone" "IDMapAuto \<noteq> IDMapNone"
    by (simp_all add: idmap_consts)
  from False assms modes show ?thesis
    by (auto simp: resolve_idmap_def Let_def op_simps idmap_modes_def
        split: if_splits option.splits sum.splits prod.splits dest!: require_ok)
qed

lemma resolve_idmap_allowed_witness:
  "\<exists>p w'. resolve_idmap (plain_config ''web'' ''images:debian/12'' ''/src'') 1000 1000 (\<lambda>_ _. None) None ()
     = (Inr p, w') \<and> ip_managed p \<and> ip_mode p = IDMapRaw"
proof -
  obtain p w' where run: "resolve_idmap (plain_config ''web'' ''images:debian/12'' ''/src'') 1000 1000
      (\<lambda>_ _. None) None () = (Inr p, w')" and m: "ip_mode p = IDMapRaw"
    by (simp add: resolve_idmap_def plain_config_def user_manages_idmap_def workspace_or_default_def
        Let_def op_simps idmap_consts)
  then show ?thesis using resolve_idmap_allowed [OF run]
    by (auto simp: plain_config_def user_manages_idmap_def workspace_or_default_def Let_def
        idmap_modes_def)
qed

text \<open>An instance whose mapping an older idev spelled \<open>both <id> <id>\<close> needs no restart for the
  two-line spelling: when the user's uid and gid agree, and the ids they are mapped onto, the value
  \<open>raw\<close> writes asks the kernel for the same mapping.\<close>

theorem both_is_uid_and_gid:
  assumes "ip_managed p" "ip_mode p = IDMapRaw"
    and "ip_uid p = u" "ip_gid p = u" "ip_owner p = \<lparr>ro_uid = g, ro_gid = g\<rparr>"
  shows "same_id_mapping (raw_idmap p) (''both '' @ itoa u @ '' '' @ itoa g)"
proof -
  have "raw_idmap p = join '' '' [''uid'', itoa u, itoa g] @ newline @ join '' '' [''gid'', itoa u, itoa g]"
    using assms by (simp add: raw_idmap_def)
  moreover have "''both '' @ itoa u @ '' '' @ itoa g = join '' '' [''both'', itoa u, itoa g]" by simp
  ultimately show ?thesis
    using normalize_both [OF ascii_word_itoa ascii_word_itoa, of u g]
    unfolding same_id_mapping_def by (intro disjI2) (simp only:)
qed

lemma both_is_uid_and_gid_witness:
  "same_id_mapping (raw_idmap \<lparr>ip_mode = IDMapRaw, ip_managed = True, ip_uid = 1000, ip_gid = 1000,
     ip_owner = \<lparr>ro_uid = 0, ro_gid = 0\<rparr>, ip_warning = []\<rparr>) (''both '' @ itoa 1000 @ '' '' @ itoa 0)"
  by (rule both_is_uid_and_gid) simp_all



text \<open>Past that bound the sum wraps to a negative number and the range allows nothing.\<close>

lemma allows_id_overflow:
  "\<not> allows_id [\<lparr>sr_owner = ''root'', sr_start = 1, sr_count = 2 ^ 63 - 1\<rparr>] ''root'' 1000"
  by (simp add: allows_id_def wrap64_def)

end
