(* ===== verification/Plan.thy ===== *)
theory Plan
  imports IdMap Client Validate "HOL-Library.Multiset"
begin

text \<open>
  Models \<open>internal/cli/plan.go\<close>, which turns the declaration into what an instance should hold: its
  configuration with idev's own records, its devices, what a previous run put there and the
  declaration has dropped, and the volumes idev answers for. \<open>settled\<close> and the change that
  \<open>reapplyInstance\<close> of \<open>internal/cli/app.go\<close> builds stand here too, being functions of the same
  values.
\<close>

definition managed_project_key :: string where
  "managed_project_key = reserved_config_prefix @ ''project''"
definition managed_root_key :: string where
  "managed_root_key = reserved_config_prefix @ ''root''"
definition managed_schema_key :: string where
  "managed_schema_key = reserved_config_prefix @ ''schema''"
definition managed_keys_key :: string where
  "managed_keys_key = reserved_config_prefix @ ''managed''"
definition managed_devices_key :: string where
  "managed_devices_key = reserved_config_prefix @ ''devices''"
definition managed_image_key :: string where
  "managed_image_key = reserved_config_prefix @ ''image''"
definition managed_restart_key :: string where
  "managed_restart_key = reserved_config_prefix @ ''restart-pending''"
definition managed_volumes_key :: string where
  "managed_volumes_key = reserved_config_prefix @ ''volumes''"

lemmas managed_keys = managed_project_key_def managed_root_key_def managed_schema_key_def
  managed_keys_key_def managed_devices_key_def managed_image_key_def managed_restart_key_def
  managed_volumes_key_def

definition split_list :: "string \<Rightarrow> string list" where
  "split_list v = (if v = [] then [] else split_on (CHR '','') v)"

abbreviation join_list :: "string list \<Rightarrow> string" where
  "join_list \<equiv> join '',''"


section \<open>Volumes\<close>

definition volume_name :: "string \<Rightarrow> string \<Rightarrow> string" where
  "volume_name inst key = inst @ ''-'' @ key"

definition declared_volumes :: "config \<Rightarrow> string \<Rightarrow> string list" where
  "declared_volumes c inst =
     map (\<lambda>key. (case fmlookup (cf_volumes c) key of
           None \<Rightarrow> default_storage_pool
         | Some v \<Rightarrow> pool_or_default v) @ ''/'' @ volume_name inst key)
       (sorted_keys (cf_volumes c))"

fun append_new :: "string list \<Rightarrow> string list \<Rightarrow> string list" where
  "append_new out [] = out"
| "append_new out (r # rs) =
     (if List.member out r then append_new out rs else append_new (out @ [r]) rs)"

definition known_volumes :: "string gomap \<Rightarrow> config \<Rightarrow> string \<Rightarrow> string list" where
  "known_volumes current c inst =
     sort (append_new (declared_volumes c inst) (split_list (get_str current managed_volumes_key)))"

definition undeclared_volumes :: "config \<Rightarrow> string \<Rightarrow> string list \<Rightarrow> string list" where
  "undeclared_volumes c inst recorded =
     filter (\<lambda>r. \<not> List.member (declared_volumes c inst) r) recorded"

definition split_volume :: "string \<Rightarrow> string \<times> string \<times> bool" where
  "split_volume ref =
     (case cut_at (CHR ''/'') ref of
        (pool, name, ok) \<Rightarrow> (pool, name, ok \<and> pool \<noteq> [] \<and> name \<noteq> []))"

definition max_volume_name_length :: nat where "max_volume_name_length = 64"

definition check_volume_names :: "config \<Rightarrow> string \<Rightarrow> err option" where
  "check_volume_names c inst =
     (case filter (\<lambda>key. max_volume_name_length < length (volume_name inst key))
        (sorted_keys (cf_volumes c)) of
        [] \<Rightarrow> None
      | key # _ \<Rightarrow> Some (Errorf
          (''volumes.%s: the volume would be named %s, which is %d characters; ''
            @ ''Incus takes at most %d, so shorten the key'')
          [S key, S (volume_name inst key), N (int (length (volume_name inst key))),
           N (int max_volume_name_length)]))"


section \<open>Devices\<close>

definition dev_is_volume :: "device \<Rightarrow> bool" where
  "dev_is_volume d \<longleftrightarrow> device_type d = ''disk'' \<and> get_str d ''pool'' \<noteq> []"

definition is_host_path_mount :: "device \<Rightarrow> bool" where
  "is_host_path_mount d \<longleftrightarrow>
     device_type d = ''disk'' \<and> get_str d ''source'' \<noteq> [] \<and> \<not> dev_is_volume d"

definition apply_shift :: "device \<Rightarrow> idmap_plan \<Rightarrow> device" where
  "apply_shift d plan =
     (if \<not> ip_managed plan \<or> has_key d ''shift'' \<or> \<not> is_host_path_mount d then d
      else fmupd ''shift'' (if shift_enabled plan then ''true'' else ''false'') d)"

definition managed_device_names :: "config \<Rightarrow> string list" where
  "managed_device_names c =
     sort (map mount_device_name (sorted_keys (mounts c))
           @ sorted_keys (in_devices (cf_instance c)) @ sorted_keys (cf_volumes c))"

definition declared_device :: "config \<Rightarrow> idmap_plan \<Rightarrow> device \<Rightarrow> device" where
  "declared_device c plan d =
     apply_shift
       (if get_str d ''source'' \<noteq> [] \<and> \<not> dev_is_volume d
        then fmupd ''source'' (resolve_path c (get_str d ''source'')) d else d)
       plan"

definition volume_device :: "string \<Rightarrow> string \<Rightarrow> volume \<Rightarrow> device" where
  "volume_device inst key v =
     fmap_of_list [(''type'', ''disk''), (''pool'', pool_or_default v),
       (''source'', volume_name inst key), (''path'', vo_path v)]"

definition mount_device :: "config \<Rightarrow> idmap_plan \<Rightarrow> mount \<Rightarrow> device" where
  "mount_device c plan m =
     apply_shift
       (fmap_of_list ([(''type'', ''disk''), (''source'', resolve_path c (mo_source m)),
          (''path'', mo_target m)] @ (if mo_readonly m then [(''readonly'', ''true'')] else [])))
       plan"

text \<open>The entries of a map in the order of their keys.\<close>

definition entries :: "'v gomap \<Rightarrow> (string \<times> 'v) list" where
  "entries m = map (\<lambda>k. (k, the (fmlookup m k))) (sorted_keys m)"

fun put_entries :: "(string \<Rightarrow> string) \<Rightarrow> (string \<Rightarrow> 'v \<Rightarrow> device) \<Rightarrow> (string \<times> 'v) list
   \<Rightarrow> device gomap \<Rightarrow> device gomap" where
  "put_entries nm f [] m = m"
| "put_entries nm f ((k, v) # es) m = put_entries nm f es (fmupd (nm k) (f k v) m)"

definition desired_devices :: "config \<Rightarrow> idmap_plan \<Rightarrow> string \<Rightarrow> device gomap" where
  "desired_devices c plan inst =
     put_entries mount_device_name (\<lambda>_. mount_device c plan) (entries (mounts c))
       (put_entries (\<lambda>k. k) (volume_device inst) (entries (cf_volumes c))
         (put_entries (\<lambda>k. k) (\<lambda>_. declared_device c plan) (entries (in_devices (cf_instance c)))
           fmempty))"


section \<open>Configuration\<close>

definition managed_names :: "string gomap \<Rightarrow> string list" where
  "managed_names desired =
     filter (\<lambda>k. \<not> has_prefix k reserved_config_prefix) (sorted_keys desired)"

definition desired_config ::
  "config \<Rightarrow> idmap_plan \<Rightarrow> string gomap \<Rightarrow> string \<Rightarrow> string gomap" where
  "desired_config c plan current inst =
     (let out = fmupd managed_schema_key (itoa (cf_schema c))
                 (fmupd managed_root_key (cf_root c)
                   (fmupd managed_project_key (pj_name (cf_project c)) (in_config (cf_instance c))));
          out = (if raw_idmap plan \<noteq> [] then fmupd raw_idmap_key (raw_idmap plan) out else out);
          out = fmupd managed_keys_key (join_list (managed_names out)) out;
          out = fmupd managed_devices_key (join_list (managed_device_names c)) out
      in fmupd managed_volumes_key (join_list (known_volumes current c inst)) out)"

definition stale_idmap_keys :: "string gomap \<Rightarrow> idmap_plan \<Rightarrow> string list" where
  "stale_idmap_keys current plan =
     (if \<not> ip_managed plan \<or> ip_mode plan = IDMapRaw \<or> \<not> has_key current raw_idmap_key then []
      else [raw_idmap_key])"

definition stale_config_keys ::
  "string gomap \<Rightarrow> string gomap \<Rightarrow> idmap_plan \<Rightarrow> string list" where
  "stale_config_keys current desired plan =
     (case fmlookup current managed_keys_key of
        None \<Rightarrow> stale_idmap_keys current plan
      | Some recorded \<Rightarrow>
          filter (\<lambda>k. \<not> has_key desired k \<and> has_key current k) (split_list recorded))"

definition stale_devices :: "string gomap \<Rightarrow> device gomap \<Rightarrow> device gomap \<Rightarrow> string list" where
  "stale_devices current_config current_devices desired =
     filter (\<lambda>n. \<not> has_key desired n \<and> has_key current_devices n)
       (split_list (get_str current_config managed_devices_key))"

definition instance_spec_of ::
  "config \<Rightarrow> string \<Rightarrow> idmap_plan \<Rightarrow> string gomap \<Rightarrow> instance_spec" where
  "instance_spec_of c name plan current =
     \<lparr>is_name = name, is_image = in_image (cf_instance c), is_profiles = profile_names c,
      is_no_profiles = (profile_names c = []),
      is_config = fmupd managed_image_key (in_image (cf_instance c))
        (desired_config c plan current name),
      is_devices = desired_devices c plan name\<rparr>"

definition is_managed_by :: "string gomap \<Rightarrow> string \<Rightarrow> bool" where
  "is_managed_by cfg project \<longleftrightarrow> get_str cfg managed_project_key = project"

definition steps_at :: "step list \<Rightarrow> nat list \<Rightarrow> step list" where
  "steps_at steps is = map (\<lambda>i. steps ! i) is"

definition recorded_volumes :: "incus_instance \<Rightarrow> config \<Rightarrow> string \<Rightarrow> string list" where
  "recorded_volumes i c inst =
     (case fmlookup (ii_config i) managed_volumes_key of
        Some recorded \<Rightarrow> split_list recorded
      | None \<Rightarrow>
          append_new (declared_volumes c inst)
            (map (\<lambda>(n, d). get_str d ''pool'' @ ''/'' @ get_str d ''source'')
              (filter (\<lambda>(n, d). dev_is_volume d \<and> get_str d ''source'' \<noteq> [])
                (entries (ii_devices i)))))"


section \<open>The change \<open>up\<close> writes\<close>

definition reapply_change ::
  "config \<Rightarrow> idmap_plan \<Rightarrow> string \<Rightarrow> string gomap \<Rightarrow> device gomap \<Rightarrow> instance_change" where
  "reapply_change c plan inst cfg devs =
     (let desired = desired_config c plan cfg inst; devices = desired_devices c plan inst
      in \<lparr>ch_set_config = desired, ch_unset_config = stale_config_keys cfg desired plan,
          ch_set_devices = devices, ch_remove_devices = stale_devices cfg devs devices\<rparr>)"

definition settled :: "string gomap \<Rightarrow> device gomap \<Rightarrow> instance_change \<Rightarrow> bool" where
  "settled cfg devs ch \<longleftrightarrow>
     list_all (\<lambda>k. \<not> has_key cfg k) (ch_unset_config ch)
     \<and> list_all (\<lambda>k. fmlookup cfg k = fmlookup (ch_set_config ch) k) (sorted_keys (ch_set_config ch))
     \<and> list_all (\<lambda>n. \<not> has_key devs n) (ch_remove_devices ch)
     \<and> list_all (\<lambda>n. fmlookup devs n = fmlookup (ch_set_devices ch) n) (sorted_keys (ch_set_devices ch))"


section \<open>Facts\<close>

subsection \<open>Records are lists joined by commas\<close>

abbreviation no_comma :: "string \<Rightarrow> bool" where
  "no_comma s \<equiv> CHR '','' \<notin> set s"

lemma split_list_no_comma: "x \<in> set (split_list v) \<Longrightarrow> no_comma x"
  using split_on_parts by (auto simp: split_list_def split: if_splits)

lemma split_list_join:
  assumes "\<And>x. x \<in> set xs \<Longrightarrow> no_comma x" "xs \<noteq> [[]]"
  shows "split_list (join_list xs) = xs"
proof (cases xs)
  case (Cons x ys)
  have "split_on (CHR '','') (join_list xs) = xs"
    using assms(1) Cons by (intro split_on_join) auto
  moreover have "join_list xs \<noteq> []"
    using assms Cons by (cases ys) auto
  ultimately show ?thesis by (simp add: split_list_def)
qed (simp add: split_list_def)

lemma set_split_list_join:
  assumes "\<And>x. x \<in> set xs \<Longrightarrow> no_comma x"
  shows "set (split_list (join_list xs)) \<subseteq> set xs"
  using split_list_join [OF assms] by (cases "xs = [[]]") (auto simp: split_list_def)

lemma join_split_list: "join_list (split_list v) = v"
  by (simp add: split_list_def join_split_on)

subsection \<open>Volumes\<close>

lemma append_new_eq: "append_new out rs = out @ dedup_from (set out) rs"
  by (induction out rs rule: append_new.induct) auto

lemma set_known_volumes:
  "set (known_volumes cur c n)
   = set (declared_volumes c n) \<union> set (split_list (get_str cur managed_volumes_key))"
  by (auto simp: known_volumes_def append_new_eq set_dedup_from)

lemma dedup_from_set_cong:
  assumes "set xs - s = set ys - s"
  shows "mset (dedup_from s xs) = mset (dedup_from s ys)"
  using assms by (simp add: set_eq_iff_mset_eq_distinct [symmetric] distinct_dedup_from set_dedup_from)

lemma known_volumes_cong:
  assumes "set (split_list (get_str cur managed_volumes_key)) - set (declared_volumes c n)
    = set (split_list (get_str cur' managed_volumes_key)) - set (declared_volumes c n)"
  shows "known_volumes cur c n = known_volumes cur' c n"
proof -
  have "mset (known_volumes cur c n) = mset (known_volumes cur' c n)"
    using dedup_from_set_cong [OF assms] by (simp add: known_volumes_def append_new_eq)
  moreover have "sorted (known_volumes cur c n)" "sorted (known_volumes cur' c n)"
    by (simp_all add: known_volumes_def)
  ultimately show ?thesis by (metis properties_for_sort)
qed

text \<open>Recording what is known and reading it back knows the same volumes.\<close>

lemma known_volumes_recorded:
  assumes "\<And>r. r \<in> set (declared_volumes c n) \<Longrightarrow> no_comma r"
    and "get_str cur' managed_volumes_key = join_list (known_volumes cur c n)"
  shows "join_list (known_volumes cur' c n) = join_list (known_volumes cur c n)"
proof (cases "known_volumes cur c n = [[]]")
  case True
  then have known: "set (known_volumes cur' c n) = set (declared_volumes c n)"
    using assms(2) by (simp add: set_known_volumes split_list_def)
  have "set (declared_volumes c n) \<subseteq> {[]}"
    using True set_known_volumes [of cur c n] by (metis Un_upper1 list.set(1) list.simps(15))
  moreover have "[] \<notin> set (declared_volumes c n)" by (auto simp: declared_volumes_def)
  ultimately have "set (declared_volumes c n) = {}" by (metis insertI1 subset_singletonD)
  then have "set (known_volumes cur' c n) = {}" unfolding known .
  then show ?thesis using True by simp
next
  case False
  have "no_comma r" if "r \<in> set (known_volumes cur c n)" for r
    using that assms(1) split_list_no_comma by (auto simp: set_known_volumes)
  then have "split_list (get_str cur' managed_volumes_key) = known_volumes cur c n"
    using False assms(2) by (simp add: split_list_join)
  then have "known_volumes cur' c n = known_volumes cur c n"
    by (intro known_volumes_cong) (auto simp: set_known_volumes)
  then show ?thesis by simp
qed

subsection \<open>Configuration and devices\<close>

lemma has_key_desired:
  "has_key (desired_config c plan cur n) k \<longleftrightarrow>
     has_key (in_config (cf_instance c)) k
     \<or> k \<in> {managed_project_key, managed_root_key, managed_schema_key, managed_keys_key,
            managed_devices_key, managed_volumes_key}
     \<or> (k = raw_idmap_key \<and> raw_idmap plan \<noteq> [])"
  by (auto simp: desired_config_def Let_def)

lemma desired_config_cong:
  "join_list (known_volumes cur c n) = join_list (known_volumes cur' c n) \<Longrightarrow>
   desired_config c plan cur n = desired_config c plan cur' n"
  by (simp add: desired_config_def)

lemma lookup_desired_volumes:
  "fmlookup (desired_config c plan cur n) managed_volumes_key = Some (join_list (known_volumes cur c n))"
  by (simp add: desired_config_def Let_def)

lemma lookup_desired_devices:
  "fmlookup (desired_config c plan cur n) managed_devices_key = Some (join_list (managed_device_names c))"
  by (simp add: desired_config_def Let_def managed_keys reserved_config_prefix_def)

lemma lookup_desired_keys:
  obtains names where
    "fmlookup (desired_config c plan cur n) managed_keys_key = Some (join_list names)"
    "\<And>k. k \<in> set names \<longleftrightarrow> has_key (desired_config c plan cur n) k \<and> \<not> has_prefix k reserved_config_prefix"
proof -
  define out where "out =
    (let out = fmupd managed_schema_key (itoa (cf_schema c))
                 (fmupd managed_root_key (cf_root c)
                   (fmupd managed_project_key (pj_name (cf_project c)) (in_config (cf_instance c))))
     in if raw_idmap plan \<noteq> [] then fmupd raw_idmap_key (raw_idmap plan) out else out)"
  have d: "desired_config c plan cur n =
      fmupd managed_volumes_key (join_list (known_volumes cur c n))
       (fmupd managed_devices_key (join_list (managed_device_names c))
         (fmupd managed_keys_key (join_list (managed_names out)) out))"
    by (simp only: desired_config_def out_def Let_def)
  have res: "has_prefix k reserved_config_prefix" if
    "k \<in> {managed_volumes_key, managed_devices_key, managed_keys_key}" for k
    using that by (auto simp: managed_keys)
  have "fmlookup (desired_config c plan cur n) managed_keys_key = Some (join_list (managed_names out))"
    unfolding d by (simp add: managed_keys reserved_config_prefix_def)
  moreover have "k \<in> set (managed_names out) \<longleftrightarrow>
      has_key (desired_config c plan cur n) k \<and> \<not> has_prefix k reserved_config_prefix" for k
    using res unfolding d managed_names_def by auto
  ultimately show ?thesis using that by blast
qed

lemma entries_keys: "map fst (entries m) = sorted_keys m"
  by (simp add: entries_def comp_def)

lemma set_entries: "fst ` set (entries m) = fmdom' m"
  using entries_keys [of m] by (metis image_set set_sorted_keys)

lemma has_key_put_entries:
  "has_key (put_entries nm f es m) k \<longleftrightarrow> k \<in> nm ` fst ` set es \<or> has_key m k"
  by (induction nm f es m rule: put_entries.induct) auto

lemma has_key_desired_devices:
  "has_key (desired_devices c plan n) k \<longleftrightarrow> k \<in> set (managed_device_names c)"
  by (auto simp: desired_devices_def has_key_put_entries managed_device_names_def set_entries)

lemma lookup_change_config:
  "fmlookup (change_config ch m) k =
     (case fmlookup (ch_set_config ch) k of
        Some v \<Rightarrow> Some v
      | None \<Rightarrow> if k \<in> set (ch_unset_config ch) then None else fmlookup m k)"
  by (auto simp: change_config_def fmdom_notD dest: fmdom_notI split: option.splits)

lemma lookup_change_devices:
  "fmlookup (change_devices ch m) k =
     (case fmlookup (ch_set_devices ch) k of
        Some v \<Rightarrow> Some v
      | None \<Rightarrow> if k \<in> set (ch_remove_devices ch) then None else fmlookup m k)"
  by (auto simp: change_devices_def fmdom_notD dest: fmdom_notI split: option.splits)

text \<open>A change is settled exactly when it would leave the instance as it is.\<close>

lemma settled_iff:
  "settled cfg devs ch \<longleftrightarrow>
     (\<forall>k\<in>set (ch_unset_config ch). \<not> has_key cfg k)
     \<and> (\<forall>k. has_key (ch_set_config ch) k \<longrightarrow> fmlookup cfg k = fmlookup (ch_set_config ch) k)
     \<and> (\<forall>n\<in>set (ch_remove_devices ch). \<not> has_key devs n)
     \<and> (\<forall>n. has_key (ch_set_devices ch) n \<longrightarrow> fmlookup devs n = fmlookup (ch_set_devices ch) n)"
  by (simp add: settled_def list_all_iff Ball_def)

lemma settled_unchanged:
  assumes "settled cfg devs ch"
  shows "change_config ch cfg = cfg" "change_devices ch devs = devs"
proof -
  show "change_config ch cfg = cfg"
    using assms by (intro fmap_ext) (auto simp: lookup_change_config settled_iff has_key_iff
        split: option.splits)
  show "change_devices ch devs = devs"
    using assms by (intro fmap_ext) (auto simp: lookup_change_devices settled_iff has_key_iff
        split: option.splits)
qed

lemma unchanged_settled:
  assumes "change_config ch cfg = cfg" "change_devices ch devs = devs"
    and "\<And>k. k \<in> set (ch_unset_config ch) \<Longrightarrow> \<not> has_key (ch_set_config ch) k"
    and "\<And>n. n \<in> set (ch_remove_devices ch) \<Longrightarrow> \<not> has_key (ch_set_devices ch) n"
  shows "settled cfg devs ch"
  unfolding settled_iff
proof (intro conjI ballI allI impI)
  fix k
  show "k \<in> set (ch_unset_config ch) \<Longrightarrow> \<not> has_key cfg k"
    using assms(1,3) lookup_change_config [of ch cfg k] by (simp add: has_key_iff)
  show "has_key (ch_set_config ch) k \<Longrightarrow> fmlookup cfg k = fmlookup (ch_set_config ch) k"
    using assms(1) lookup_change_config [of ch cfg k] by (auto simp: has_key_iff)
  show "k \<in> set (ch_remove_devices ch) \<Longrightarrow> \<not> has_key devs k"
    using assms(2,4) lookup_change_devices [of ch devs k] by (simp add: has_key_iff)
  show "has_key (ch_set_devices ch) k \<Longrightarrow> fmlookup devs k = fmlookup (ch_set_devices ch) k"
    using assms(2) lookup_change_devices [of ch devs k] by (auto simp: has_key_iff)
qed

subsection \<open>Well-formed declarations\<close>

text \<open>Names validation and the schema let through hold no comma, which is what the records are
  joined with; a plan the program resolves manages the mapping only when the user does not.\<close>

definition comma_free :: "config \<Rightarrow> string \<Rightarrow> bool" where
  "comma_free c n \<longleftrightarrow>
     list_all no_comma (sorted_keys (in_config (cf_instance c)))
     \<and> list_all no_comma (managed_device_names c) \<and> list_all no_comma (declared_volumes c n)"

definition plan_fits :: "config \<Rightarrow> idmap_plan \<Rightarrow> bool" where
  "plan_fits c plan \<longleftrightarrow> (if ip_managed plan then \<not> user_manages_idmap c else True)"

lemma no_comma_reserved:
  "no_comma managed_project_key" "no_comma managed_root_key" "no_comma managed_schema_key"
  "no_comma managed_keys_key" "no_comma managed_devices_key" "no_comma managed_volumes_key"
  "no_comma raw_idmap_key"
  by (simp_all add: managed_keys reserved_config_prefix_def raw_idmap_key_def)

lemma stale_not_desired:
  assumes "plan_fits c plan" "k \<in> set (stale_config_keys cfg (desired_config c plan cur n) plan)"
  shows "\<not> has_key (desired_config c plan cur n) k"
proof (cases "fmlookup cfg managed_keys_key")
  case None
  then have k: "k = raw_idmap_key" "ip_managed plan" "ip_mode plan \<noteq> IDMapRaw"
    using assms(2) by (auto simp: stale_config_keys_def stale_idmap_keys_def split: if_splits)
  then have "\<not> has_key (in_config (cf_instance c)) raw_idmap_key"
    using assms(1) by (simp add: plan_fits_def user_manages_idmap_def)
  then show ?thesis using k
    by (auto simp: has_key_desired raw_idmap_def managed_keys reserved_config_prefix_def raw_idmap_key_def)
next
  case (Some r)
  then show ?thesis using assms(2) by (simp add: stale_config_keys_def)
qed

lemma reapply_sel [simp]:
  "ch_set_config (reapply_change c plan n cfg devs) = desired_config c plan cfg n"
  "ch_unset_config (reapply_change c plan n cfg devs) = stale_config_keys cfg (desired_config c plan cfg n) plan"
  "ch_set_devices (reapply_change c plan n cfg devs) = desired_devices c plan n"
  "ch_remove_devices (reapply_change c plan n cfg devs) = stale_devices cfg devs (desired_devices c plan n)"
  by (simp_all add: reapply_change_def Let_def)

lemma stale_device_not_desired:
  "d \<in> set (stale_devices cfg devs ds) \<Longrightarrow> \<not> has_key ds d"
  by (simp add: stale_devices_def)

lemma not_empty_reapply: "\<not> change_is_empty (reapply_change c plan n cfg devs)"
proof
  assume "change_is_empty (reapply_change c plan n cfg devs)"
  then have "fmlookup (desired_config c plan cfg n) managed_volumes_key = None"
    by (intro fmdom_notD) (simp add: change_is_empty_def)
  then show False by (simp add: lookup_desired_volumes)
qed

lemma get_str_lookup: "fmlookup m k = Some v \<Longrightarrow> get_str m k = v"
  by (simp add: get_str_def)

lemma stale_nothing:
  assumes "comma_free c n" "fmlookup cfg managed_keys_key = fmlookup (desired_config c plan cur n) managed_keys_key"
  shows "stale_config_keys cfg (desired_config c plan cur' n) plan = []"
proof -
  obtain names where names: "fmlookup (desired_config c plan cur n) managed_keys_key = Some (join_list names)"
    "\<And>k. k \<in> set names \<longleftrightarrow> has_key (desired_config c plan cur n) k \<and> \<not> has_prefix k reserved_config_prefix"
    using lookup_desired_keys by blast
  have "no_comma k" if "k \<in> set names" for k
    using that assms(1) no_comma_reserved unfolding names(2) has_key_desired
    by (auto simp: comma_free_def list_all_iff)
  then have "set (split_list (join_list names)) \<subseteq> set names" by (rule set_split_list_join)
  then have "\<forall>k\<in>set (split_list (join_list names)). has_key (desired_config c plan cur' n) k"
    using names(2) unfolding has_key_desired by blast
  then show ?thesis using assms(2) names(1) by (simp add: stale_config_keys_def)
qed

lemma stale_no_device:
  assumes "comma_free c n" "get_str cfg managed_devices_key = join_list (managed_device_names c)"
  shows "stale_devices cfg devs (desired_devices c plan n) = []"
proof -
  have "set (split_list (join_list (managed_device_names c))) \<subseteq> set (managed_device_names c)"
    using assms(1) by (intro set_split_list_join) (auto simp: comma_free_def list_all_iff)
  then show ?thesis using assms(2) unfolding stale_devices_def
    by (auto simp: has_key_desired_devices filter_empty_conv)
qed


text \<open>A declaration with a setting, a volume and the default workspace, and an instance an earlier
  run left with a setting, a device and a volume that have since been dropped.\<close>

definition sample_config :: config where
  "sample_config = (plain_config ''web'' ''images:debian/12'' ''/src'')
     \<lparr>cf_instance := \<lparr>in_image = ''images:debian/12'', in_profiles = None,
        in_config = fmap_of_list [(''limits.cpu'', ''2''), (''security.nesting'', ''true'')], in_devices = fmempty\<rparr>,
      cf_volumes := fmap_of_list [(''data'', \<lparr>vo_path = ''/data'', vo_pool = [], vo_size = []\<rparr>)]\<rparr>"

definition sample_plan :: idmap_plan where
  "sample_plan = \<lparr>ip_mode = IDMapRaw, ip_managed = True, ip_uid = 1000, ip_gid = 1000,
     ip_owner = \<lparr>ro_uid = 0, ro_gid = 0\<rparr>, ip_warning = []\<rparr>"

definition sample_settings :: "string gomap" where
  "sample_settings = fmap_of_list
     [(managed_project_key, ''web''), (managed_keys_key, ''limits.memory,raw.idmap''),
      (managed_devices_key, ''cache,workspace''), (managed_volumes_key, ''default/dev-web-old''),
      (''limits.memory'', ''1GiB''), (''user.mine'', ''kept'')]"

definition sample_devices :: "device gomap" where
  "sample_devices = fmap_of_list [(''cache'', fmap_of_list [(''type'', ''disk'')])]"

lemma sample_fits: "comma_free sample_config ''dev-web''" "plan_fits sample_config sample_plan"
  by code_simp+


section \<open>Properties\<close>

text \<open>C15: \<open>up\<close> skips its write exactly when the write would change nothing: for the change it builds
  from any reading, \<open>settled\<close> answers whether applying it to what the daemon holds leaves the
  configuration and the devices as they are.\<close>

theorem settled_exact:
  assumes "plan_fits c plan"
  shows "settled cfg devs (reapply_change c plan n cur cur_devs)
    \<longleftrightarrow> change_config (reapply_change c plan n cur cur_devs) cfg = cfg
        \<and> change_devices (reapply_change c plan n cur cur_devs) devs = devs"
  using settled_unchanged unchanged_settled assms stale_not_desired stale_device_not_desired
  by (metis reapply_sel)

lemma settled_exact_witness:
  "settled sample_settings sample_devices
     (reapply_change sample_config sample_plan ''dev-web'' sample_settings sample_devices)
   \<longleftrightarrow> change_config (reapply_change sample_config sample_plan ''dev-web'' sample_settings sample_devices)
         sample_settings = sample_settings
     \<and> change_devices (reapply_change sample_config sample_plan ''dev-web'' sample_settings sample_devices)
         sample_devices = sample_devices"
  using sample_fits(2) by (rule settled_exact)

text \<open>C13: \<open>up\<close> converges: after its change has been applied, the change the next run would build from
  what is then there is settled, whatever the instance held before.\<close>

theorem reapply_converges:
  assumes "comma_free c n" "plan_fits c plan"
    and "cfg' = change_config (reapply_change c plan n cfg devs) cfg"
    and "devs' = change_devices (reapply_change c plan n cfg devs) devs"
  shows "settled cfg' devs' (reapply_change c plan n cfg' devs')"
proof -
  let ?d = "desired_config c plan cfg n"
  have look: "has_key ?d k \<Longrightarrow> fmlookup cfg' k = fmlookup ?d k" for k
    unfolding assms(3) lookup_change_config by (auto simp: has_key_iff)
  have "get_str cfg' managed_volumes_key = join_list (known_volumes cfg c n)"
    using look [of managed_volumes_key] by (simp add: has_key_desired lookup_desired_volumes get_str_lookup)
  then have "join_list (known_volumes cfg' c n) = join_list (known_volumes cfg c n)"
    using assms(1) by (intro known_volumes_recorded) (auto simp: comma_free_def list_all_iff)
  then have same: "desired_config c plan cfg' n = ?d" by (rule desired_config_cong)
  have "stale_config_keys cfg' (desired_config c plan cfg' n) plan = []"
    using assms(1) look [of managed_keys_key] by (intro stale_nothing) (auto simp: has_key_desired)
  moreover have "stale_devices cfg' devs' (desired_devices c plan n) = []"
    using assms(1) look [of managed_devices_key]
    by (intro stale_no_device) (simp_all add: has_key_desired lookup_desired_devices get_str_lookup)
  moreover have "has_key (desired_devices c plan n) k \<Longrightarrow> fmlookup devs' k = fmlookup (desired_devices c plan n) k" for k
    unfolding assms(4) lookup_change_devices by (auto simp: has_key_iff)
  ultimately show ?thesis using look by (simp add: settled_iff same)
qed

lemma reapply_converges_witness:
  "\<exists>cfg devs. settled cfg devs (reapply_change sample_config sample_plan ''dev-web'' cfg devs)
     \<and> get_str cfg ''user.mine'' = ''kept''"
proof (intro exI conjI)
  let ?ch = "reapply_change sample_config sample_plan ''dev-web'' sample_settings sample_devices"
  show "settled (change_config ?ch sample_settings) (change_devices ?ch sample_devices)
     (reapply_change sample_config sample_plan ''dev-web'' (change_config ?ch sample_settings)
       (change_devices ?ch sample_devices))"
    using sample_fits by (rule reapply_converges) (rule refl)+
  show "get_str (change_config ?ch sample_settings) ''user.mine'' = ''kept''" by code_simp
qed



text \<open>C17: no volume idev created drops out of the record: what the instance recorded before and what
  the declaration asks for are, together, what the record holds after \<open>up\<close> has written it.\<close>

theorem volume_record_complete:
  assumes "comma_free c n" "known_volumes cfg c n \<noteq> [[]]"
  shows "set (split_list (get_str (change_config (reapply_change c plan n cfg devs) cfg) managed_volumes_key))
    = set (declared_volumes c n) \<union> set (split_list (get_str cfg managed_volumes_key))"
proof -
  have "no_comma r" if "r \<in> set (known_volumes cfg c n)" for r
    using that assms(1) split_list_no_comma by (auto simp: set_known_volumes comma_free_def list_all_iff)
  then have "split_list (join_list (known_volumes cfg c n)) = known_volumes cfg c n"
    using assms(2) by (intro split_list_join)
  then show ?thesis
    by (simp add: get_str_def lookup_change_config lookup_desired_volumes set_known_volumes)
qed

lemma volume_record_complete_witness:
  "''default/dev-web-old'' \<in> set (split_list (get_str (change_config
     (reapply_change sample_config sample_plan ''dev-web'' sample_settings sample_devices)
     sample_settings) managed_volumes_key))"
proof -
  have "known_volumes sample_settings sample_config ''dev-web'' \<noteq> [[]]"
    "''default/dev-web-old'' \<in> set (split_list (get_str sample_settings managed_volumes_key))"
    by code_simp+
  then show ?thesis using volume_record_complete [OF sample_fits(1)] by blast
qed

end
