(* ===== verification/Restart.thy ===== *)
theory Restart
  imports Plan
begin

text \<open>
  Models the computations of \<open>internal/cli/restart.go\<close>: which of the keys Incus reads only at boot
  are owed a restart, the record that carries that from one run to the next, and its reading back.
  The operations that act on it (\<open>settleRestart\<close>, \<open>clearRestartPending\<close>) are in the theory \<open>App\<close>.
\<close>

record booted_value =
  bv_value :: string
  bv_known :: bool

definition restart_entry :: "string \<Rightarrow> string \<times> booted_value" where
  "restart_entry entry =
     (case cut_at (CHR ''='') entry of (key, value, ok) \<Rightarrow> (key, \<lparr>bv_value = value, bv_known = ok\<rparr>))"

definition pending_restart :: "string gomap \<Rightarrow> go_time \<Rightarrow> booted_value gomap" where
  "pending_restart prev last_start =
     (case cut_at (CHR ''|'') (get_str prev managed_restart_key) of
        (at, rest, ok) \<Rightarrow>
          (if \<not> ok then fmempty
           else case parse_time at of
               None \<Rightarrow> fmempty
             | Some recorded \<Rightarrow>
                 if time_after last_start recorded then fmempty
                 else foldl (\<lambda>out e. case restart_entry e of (k, b) \<Rightarrow> fmupd k b out) fmempty
                        (split_list rest)))"

definition was_booted :: "booted_value gomap \<Rightarrow> string gomap \<Rightarrow> string \<Rightarrow> booted_value" where
  "was_booted booted prev k =
     (case fmlookup booted k of
        Some b \<Rightarrow> b
      | None \<Rightarrow> \<lparr>bv_value = get_str prev k, bv_known = True\<rparr>)"

definition wanted :: "string gomap \<Rightarrow> string gomap \<Rightarrow> string list \<Rightarrow> string \<Rightarrow> string" where
  "wanted prev desired unset k =
     (case fmlookup desired k of
        Some v \<Rightarrow> v
      | None \<Rightarrow> if List.member unset k then [] else get_str prev k)"

definition unchanged_since_boot :: "string \<Rightarrow> string \<Rightarrow> booted_value \<Rightarrow> bool" where
  "unchanged_since_boot k want was \<longleftrightarrow>
     bv_known was \<and> (want = bv_value was \<or> (k = raw_idmap_key \<and> same_id_mapping want (bv_value was)))"

text \<open>What this run changed, everything owed, and what the running container has for each.\<close>

definition restart_owed ::
  "bool \<Rightarrow> string gomap \<Rightarrow> string gomap \<Rightarrow> string list \<Rightarrow> go_time
   \<Rightarrow> string list \<times> string list \<times> booted_value gomap" where
  "restart_owed running prev desired unset last_start =
     (if \<not> running then ([], [], fmempty)
      else
        let booted = pending_restart prev last_start;
            owed = filter (\<lambda>k. \<not> unchanged_since_boot k (wanted prev desired unset k)
                                  (was_booted booted prev k)) restart_required_keys;
            fresh = filter (\<lambda>k. \<not> has_key booted k \<or> get_str prev k \<noteq> wanted prev desired unset k) owed
        in (sort fresh, sort owed, map_from owed (was_booted booted prev)))"

definition restart_warning :: "string list \<Rightarrow> string list \<Rightarrow> string" where
  "restart_warning fresh all =
     (if fresh \<noteq> [] then
        join '', '' all @ '' changed but the instance is running; restart it to apply (idev up --restart)''
      else join '', '' all @ '' is still waiting on a restart (idev up --restart)'')"

definition record_restart :: "go_time \<Rightarrow> booted_value gomap \<Rightarrow> string" where
  "record_restart last_start booted =
     format_time last_start @ ''|'' @
     join '','' (map (\<lambda>(k, b). if bv_known b then k @ ''='' @ bv_value b else k) (entries booted))"


section \<open>Facts\<close>

lemma no_bar_format_time: "CHR ''|'' \<notin> set (format_time t)"
proof -
  have d: "CHR ''|'' \<notin> set (digits k n)" for k n
    using digits_all [of k n] by (auto simp: list_all_iff is_digit_def)
  have "CHR ''|'' \<notin> set (nano_text n)" for n
    using d [of 9 n] set_trim_right_char [of "CHR ''0''" "digits 9 n"] by (auto simp: nano_text_def Let_def)
  then show ?thesis using d by (auto simp: format_time_def offset_text_def)
qed

lemma cut_at_rest: "cut_at c s = (b, a, f) \<Longrightarrow> set a \<subseteq> set s \<and> (f \<or> a = [])"
  by (induction c s arbitrary: b rule: cut_at.induct) (auto split: prod.splits if_splits)

text \<open>A record that can be read back: keys with no comma and no equals sign, values with no comma.\<close>

definition readable :: "booted_value gomap \<Rightarrow> bool" where
  "readable b \<longleftrightarrow>
     (\<forall>k v. fmlookup b k = Some v \<longrightarrow>
        k \<noteq> [] \<and> no_comma k \<and> CHR ''='' \<notin> set k \<and> no_comma (bv_value v)
        \<and> (bv_known v \<or> bv_value v = []))"

lemma restart_entry_known:
  "CHR ''='' \<notin> set k \<Longrightarrow> restart_entry (k @ ''='' @ v) = (k, \<lparr>bv_value = v, bv_known = True\<rparr>)"
  by (simp add: restart_entry_def cut_at_append)

lemma restart_entry_unknown:
  "CHR ''='' \<notin> set k \<Longrightarrow> restart_entry k = (k, \<lparr>bv_value = [], bv_known = False\<rparr>)"
  by (simp add: restart_entry_def cut_at_none)

lemma foldl_upd_entries:
  assumes "\<And>e. e \<in> set es \<Longrightarrow> f e = p e"
  shows "foldl (\<lambda>out e. case f e of (k, b) \<Rightarrow> fmupd k b out) m es
    = foldl (\<lambda>out (k, b). fmupd k b out) m (map p es)"
  using assms by (induction es arbitrary: m) auto

lemma foldl_upd_lookup:
  "distinct (map fst es) \<Longrightarrow>
   fmlookup (foldl (\<lambda>out (k, b). fmupd k b out) m es) k
   = (case map_of es k of Some v \<Rightarrow> Some v | None \<Rightarrow> fmlookup m k)"
  by (induction es arbitrary: m) (force split: option.splits dest: map_of_SomeD)+

lemma map_of_entries: "map_of (entries m) k = fmlookup m k"
proof (cases "fmlookup m k")
  case None
  then have "k \<notin> fst ` set (entries m)" unfolding set_entries by (simp add: has_key_iff)
  then show ?thesis using None by (simp add: map_of_eq_None_iff)
next
  case (Some v)
  then have "k \<in> set (sorted_keys m)" by simp
  then have "(k, v) \<in> set (entries m)" using Some by (auto simp: entries_def)
  moreover have "distinct (map fst (entries m))" by (simp add: entries_keys)
  ultimately show ?thesis using Some by (simp add: map_of_is_SomeI)
qed

lemma entries_lookup: "(k, v) \<in> set (entries m) \<Longrightarrow> fmlookup m k = Some v"
  by (auto simp: entries_def has_key_iff)

lemma pending_recorded:
  assumes "valid_time t" "readable b" "get_str prev managed_restart_key = record_restart t b"
  shows "pending_restart prev t = b"
proof -
  define shown :: "string \<times> booted_value \<Rightarrow> string" where "shown = (\<lambda>(k, v). if bv_known v then k @ ''='' @ bv_value v else k)"
  have r: "restart_entry (shown e) = e \<and> no_comma (shown e) \<and> shown e \<noteq> []" if "e \<in> set (entries b)" for e
  proof -
    obtain k v where e: "e = (k, v)" by (cases e)
    have "fmlookup b k = Some v" using that unfolding e by (rule entries_lookup)
    then have kv: "k \<noteq> []" "no_comma k" "CHR ''='' \<notin> set k" "no_comma (bv_value v)" "bv_known v \<or> bv_value v = []"
      using assms(2) by (auto simp: readable_def)
    have "v = \<lparr>bv_value = bv_value v, bv_known = bv_known v\<rparr>" by simp
    then show ?thesis using kv by (cases "bv_known v")
        (auto simp: e shown_def restart_entry_known [of k, simplified] restart_entry_unknown)
  qed
  have ents: "split_list (join_list (map shown (entries b))) = map shown (entries b)"
    using r by (intro split_list_join) (auto simp: map_eq_Cons_conv)
  have cut: "cut_at (CHR ''|'') (record_restart t b) = (format_time t, join_list (map shown (entries b)), True)"
    by (simp add: record_restart_def shown_def cut_at_append no_bar_format_time)
  have "pending_restart prev t
      = foldl (\<lambda>out e. case restart_entry e of (k, b) \<Rightarrow> fmupd k b out) fmempty (map shown (entries b))"
    using assms(1,3) cut ents by (simp add: pending_restart_def parse_format_time time_after_def)
  also have "\<dots> = foldl (\<lambda>out (k, b). fmupd k b out) fmempty (entries b)"
    using r by (subst foldl_map, subst foldl_upd_entries [where p = id]) auto
  also have "\<dots> = b"
    by (intro fmap_ext) (simp add: foldl_upd_lookup entries_keys map_of_entries split: option.splits)
  finally show ?thesis .
qed

lemma pending_after_restart:
  assumes "valid_time t" "time_after t' t" "get_str prev managed_restart_key = record_restart t b"
  shows "pending_restart prev t' = fmempty"
proof -
  have "cut_at (CHR ''|'') (record_restart t b)
      = (format_time t, join '','' (map (\<lambda>(k, b). if bv_known b then k @ ''='' @ bv_value b else k) (entries b)), True)"
    unfolding record_restart_def append_Cons append_Nil using no_bar_format_time by (rule cut_at_append)
  then show ?thesis using assms by (simp add: pending_restart_def parse_format_time)
qed

section \<open>What is owed, and when it stops being owed\<close>

lemma lookup_owed:
  assumes "restart_owed True prev desired unset t = (fresh, all, owed)"
  shows "fmlookup owed k =
      (if k \<in> set restart_required_keys
          \<and> \<not> unchanged_since_boot k (wanted prev desired unset k)
               (was_booted (pending_restart prev t) prev k)
       then Some (was_booted (pending_restart prev t) prev k) else None)"
    "all = sort (filter (\<lambda>k. has_key owed k) restart_required_keys)"
    "fresh = sort (filter (\<lambda>k. has_key owed k \<and> (\<not> has_key (pending_restart prev t) k
                               \<or> get_str prev k \<noteq> wanted prev desired unset k))
                     restart_required_keys)"
proof -
  note eqs = assms [unfolded restart_owed_def Let_def, simplified]
  show owed: "fmlookup owed k =
      (if k \<in> set restart_required_keys
          \<and> \<not> unchanged_since_boot k (wanted prev desired unset k)
               (was_booted (pending_restart prev t) prev k)
       then Some (was_booted (pending_restart prev t) prev k) else None)" for k
    using eqs by auto
  have h: "has_key owed k \<longleftrightarrow> \<not> unchanged_since_boot k (wanted prev desired unset k)
               (was_booted (pending_restart prev t) prev k)" if "k \<in> set restart_required_keys" for k
    using that owed [of k] by (simp add: has_key_iff)
  show "all = sort (filter (\<lambda>k. has_key owed k) restart_required_keys)"
    using eqs h by (auto cong: filter_cong)
  show "fresh = sort (filter (\<lambda>k. has_key owed k \<and> (\<not> has_key (pending_restart prev t) k
                               \<or> get_str prev k \<noteq> wanted prev desired unset k))
                     restart_required_keys)"
    using eqs h by (auto simp: filter_filter conj_commute cong: filter_cong)
qed

lemma unchanged_same [simp]: "unchanged_since_boot k w \<lparr>bv_value = w, bv_known = True\<rparr>"
  by (simp add: unchanged_since_boot_def)

text \<open>The next run, after this one wrote the declaration and the record: \<open>before'\<close> holds what was
  wanted of every key, and the record of what is owed.\<close>

lemma owed_carried:
  assumes run: "restart_owed True prev desired unset t = (fresh, all, owed)"
    and t: "valid_time t" and r: "readable owed"
    and rec: "get_str prev' managed_restart_key = record_restart t owed"
    and stored: "\<And>k. k \<in> set restart_required_keys \<Longrightarrow> get_str prev' k = wanted prev desired unset k"
    and want: "\<And>k. k \<in> set restart_required_keys \<Longrightarrow>
                 wanted prev' desired' unset' k = wanted prev desired unset k"
  shows "restart_owed True prev' desired' unset' t = ([], all, owed)"
proof -
  have pending: "pending_restart prev' t = owed" using t r rec by (rule pending_recorded)
  obtain fresh' all' owed' where run': "restart_owed True prev' desired' unset' t = (fresh', all', owed')"
    using prod_cases3 by blast
  note a = lookup_owed [OF run] and b = lookup_owed [OF run', unfolded pending]
  have same: "owed' = owed"
  proof (rule fmap_ext)
    fix k
    show "fmlookup owed' k = fmlookup owed k"
    proof (cases "k \<in> set restart_required_keys")
      case True
      then show ?thesis
        using a(1) [of k] b(1) [of k] stored [OF True] want [OF True]
        by (auto simp: was_booted_def split: if_splits)
    qed (use a(1) b(1) in simp)
  qed
  have "\<not> (has_key owed k \<and> (\<not> has_key owed k \<or> get_str prev' k \<noteq> wanted prev' desired' unset' k))"
    if "k \<in> set restart_required_keys" for k
    using stored [OF that] want [OF that] by simp
  then have "fresh' = []" unfolding b(3) same by (simp add: filter_empty_conv)
  then show ?thesis using run' a(2) b(2) same by simp
qed

lemma owed_retired:
  assumes "pending_restart prev t = fmempty"
    and "\<And>k. k \<in> set restart_required_keys \<Longrightarrow> wanted prev desired unset k = get_str prev k"
  shows "restart_owed True prev desired unset t = ([], [], fmempty)"
proof -
  obtain fresh all owed where run: "restart_owed True prev desired unset t = (fresh, all, owed)"
    using prod_cases3 by blast
  note a = lookup_owed [OF run, unfolded assms(1)]
  have "owed = fmempty"
    using a(1) assms(2) by (intro fmap_ext) (auto simp: was_booted_def)
  then show ?thesis using run a(2,3) by simp
qed

lemma restart_keys_facts:
  "k \<in> set restart_required_keys \<Longrightarrow> k \<noteq> [] \<and> no_comma k \<and> CHR ''='' \<notin> set k"
  "k \<in> set restart_required_keys \<Longrightarrow> k \<noteq> managed_volumes_key \<and> k \<noteq> managed_restart_key"
  by (auto simp: restart_required_keys_def raw_idmap_key_def managed_keys reserved_config_prefix_def)

lemma pending_value_no_comma:
  assumes "fmlookup (pending_restart prev t) k = Some b"
  shows "no_comma (bv_value b) \<and> (bv_known b \<or> bv_value b = [])"
proof -
  have entry: "no_comma e \<Longrightarrow> restart_entry e = (k, b) \<Longrightarrow> no_comma (bv_value b) \<and> (bv_known b \<or> bv_value b = [])"
    for e k b
    by (auto simp: restart_entry_def split: prod.splits dest!: cut_at_rest)
  have "fmlookup (foldl (\<lambda>out e. case restart_entry e of (k, b) \<Rightarrow> fmupd k b out) m es) k = Some b \<Longrightarrow>
      fmlookup m k = Some b \<or> (\<exists>e\<in>set es. restart_entry e = (k, b))" for m es
    by (induction es arbitrary: m) (fastforce split: prod.splits if_splits)+
  from this [of fmempty] show ?thesis
    using assms entry split_list_no_comma
    by (fastforce simp: pending_restart_def split: prod.splits if_splits option.splits)
qed

lemma readable_owed:
  assumes "restart_owed True prev desired unset t = (fresh, all, owed)"
    and "\<And>k. k \<in> set restart_required_keys \<Longrightarrow> no_comma (get_str prev k)"
  shows "readable owed"
  unfolding readable_def
proof (intro allI impI)
  fix k v assume "fmlookup owed k = Some v"
  then have k: "k \<in> set restart_required_keys" and v: "v = was_booted (pending_restart prev t) prev k"
    using lookup_owed(1) [OF assms(1), of k] by (auto split: if_splits)
  have "no_comma (bv_value v) \<and> (bv_known v \<or> bv_value v = [])"
    using pending_value_no_comma [of prev t k] assms(2) [OF k] unfolding v
    by (cases "fmlookup (pending_restart prev t) k") (auto simp: was_booted_def)
  then show "k \<noteq> [] \<and> no_comma k \<and> CHR ''='' \<notin> set k \<and> no_comma (bv_value v) \<and> (bv_known v \<or> bv_value v = [])"
    using restart_keys_facts(1) [OF k] by simp
qed

text \<open>What the next run reads and wants, once this one has written the declaration and, beside it, a
  record \<open>r\<close>.\<close>

lemma next_run:
  assumes "comma_free c n" "plan_fits c plan"
    and "cfg2 = fmupd managed_restart_key r (change_config (reapply_change c plan n cfg devs) cfg)"
    and "k \<in> set restart_required_keys"
  shows "get_str cfg2 k = wanted cfg (desired_config c plan cfg n)
            (stale_config_keys cfg (desired_config c plan cfg n) plan) k"
    and "wanted cfg2 (desired_config c plan cfg2 n)
            (stale_config_keys cfg2 (desired_config c plan cfg2 n) plan) k = get_str cfg2 k"
proof -
  let ?d = "desired_config c plan cfg n"
  have other: "fmlookup cfg2 j = fmlookup (change_config (reapply_change c plan n cfg devs) cfg) j"
    if "j \<noteq> managed_restart_key" for j
    using that assms(3) by simp
  have look: "has_key ?d j \<Longrightarrow> j \<noteq> managed_restart_key \<Longrightarrow> fmlookup cfg2 j = fmlookup ?d j" for j
    unfolding other lookup_change_config by (auto simp: has_key_iff)
  have ne: "managed_volumes_key \<noteq> managed_restart_key" "managed_keys_key \<noteq> managed_restart_key"
    by (simp_all add: managed_keys)
  note k = restart_keys_facts(2) [OF assms(4)]
  show stored: "get_str cfg2 k = wanted cfg ?d (stale_config_keys cfg ?d plan) k"
    using other [of k] k by (auto simp: get_str_def wanted_def lookup_change_config split: option.splits)
  have "get_str cfg2 managed_volumes_key = join_list (known_volumes cfg c n)"
    using look [of managed_volumes_key] ne
    by (simp add: has_key_desired lookup_desired_volumes get_str_lookup)
  then have "join_list (known_volumes cfg2 c n) = join_list (known_volumes cfg c n)"
    using assms(1) by (intro known_volumes_recorded) (auto simp: comma_free_def list_all_iff)
  then have same: "desired_config c plan cfg2 n = ?d" by (rule desired_config_cong)
  have "stale_config_keys cfg2 (desired_config c plan cfg2 n) plan = []"
    using assms(1) look [of managed_keys_key] ne by (intro stale_nothing) (auto simp: has_key_desired)
  then show "wanted cfg2 (desired_config c plan cfg2 n)
      (stale_config_keys cfg2 (desired_config c plan cfg2 n) plan) k = get_str cfg2 k"
    using look [of k] k by (auto simp: wanted_def same get_str_def has_key_iff split: option.splits)
qed


lemma valid_zero_time: "valid_time zero_time"
  by (simp add: valid_time_def zero_time_def days_in_month_def leap_year_def)


section \<open>Properties\<close>

text \<open>C18: a restart that is owed stays owed. After a run that changed boot-time keys of a running
  instance has written the declaration and its record, the next run, with nothing restarted since,
  finds exactly the same keys waiting, with the same booted values, and none of them newly changed.\<close>

theorem restart_stays_owed:
  assumes "comma_free c n" "plan_fits c plan" "valid_time t"
    and "\<forall>k\<in>set restart_required_keys. no_comma (get_str cfg k)"
    and "restart_owed True cfg (desired_config c plan cfg n)
           (stale_config_keys cfg (desired_config c plan cfg n) plan) t = (fresh, all, owed)"
    and "cfg2 = fmupd managed_restart_key (record_restart t owed)
           (change_config (reapply_change c plan n cfg devs) cfg)"
  shows "restart_owed True cfg2 (desired_config c plan cfg2 n)
           (stale_config_keys cfg2 (desired_config c plan cfg2 n) plan) t = ([], all, owed)"
proof (rule owed_carried [OF assms(5,3)])
  show "readable owed" using assms(4,5) by (intro readable_owed) auto
  show "get_str cfg2 managed_restart_key = record_restart t owed"
    unfolding assms(6) by (simp add: get_str_def)
qed (use next_run [OF assms(1,2,6)] in simp_all)

lemma restart_stays_owed_witness:
  "\<exists>cfg2 all owed. all \<noteq> [] \<and> restart_owed True cfg2 (desired_config sample_config sample_plan cfg2 ''dev-web'')
     (stale_config_keys cfg2 (desired_config sample_config sample_plan cfg2 ''dev-web'') sample_plan)
     zero_time = ([], all, owed)"
proof -
  obtain fresh all owed where run: "restart_owed True sample_settings
      (desired_config sample_config sample_plan sample_settings ''dev-web'')
      (stale_config_keys sample_settings (desired_config sample_config sample_plan sample_settings ''dev-web'')
        sample_plan) zero_time = (fresh, all, owed)"
    using prod_cases3 by blast
  moreover have "wanted sample_settings (desired_config sample_config sample_plan sample_settings ''dev-web'')
      (stale_config_keys sample_settings (desired_config sample_config sample_plan sample_settings ''dev-web'')
        sample_plan) ''security.nesting'' = ''true''"
    "was_booted (pending_restart sample_settings zero_time) sample_settings ''security.nesting''
      = \<lparr>bv_value = [], bv_known = True\<rparr>"
    by code_simp+
  ultimately have "has_key owed ''security.nesting''"
    by (simp add: has_key_iff lookup_owed(1) unchanged_since_boot_def restart_required_keys_def raw_idmap_key_def)
  then have "''security.nesting'' \<in> set all"
    unfolding lookup_owed(2) [OF run] by (simp add: restart_required_keys_def)
  then have "all \<noteq> []" by auto
  moreover have "valid_time zero_time" by (rule valid_zero_time)
  moreover have "\<forall>k\<in>set restart_required_keys. no_comma (get_str sample_settings k)" by code_simp
  ultimately show ?thesis using restart_stays_owed [OF sample_fits _ _ run refl] by blast
qed

text \<open>A restart by anyone retires it. With the same record on the instance but a start later than
  the one it names, nothing is owed, whatever idev knew before.\<close>

theorem restart_retires_record:
  assumes "comma_free c n" "plan_fits c plan" "valid_time t" "time_after t' t"
    and "cfg2 = fmupd managed_restart_key (record_restart t owed)
           (change_config (reapply_change c plan n cfg devs) cfg)"
  shows "restart_owed True cfg2 (desired_config c plan cfg2 n)
           (stale_config_keys cfg2 (desired_config c plan cfg2 n) plan) t' = ([], [], fmempty)"
proof (rule owed_retired)
  show "pending_restart cfg2 t' = fmempty"
    using assms(3,4) by (rule pending_after_restart) (simp add: assms(5) get_str_def)
qed (rule next_run(2) [OF assms(1,2,5)])

lemma restart_retires_record_witness:
  "\<exists>cfg2. get_str cfg2 managed_restart_key \<noteq> [] \<and>
     restart_owed True cfg2 (desired_config sample_config sample_plan cfg2 ''dev-web'')
       (stale_config_keys cfg2 (desired_config sample_config sample_plan cfg2 ''dev-web'') sample_plan)
       (zero_time\<lparr>tm_year := 2\<rparr>) = ([], [], fmempty)"
proof (intro exI conjI)
  let ?cfg = "fmupd managed_restart_key (record_restart zero_time fmempty)
     (change_config (reapply_change sample_config sample_plan ''dev-web'' sample_settings fmempty)
        sample_settings)"
  show "get_str ?cfg managed_restart_key \<noteq> []"
    by (simp add: get_str_def record_restart_def)
  have "time_after (zero_time\<lparr>tm_year := 2\<rparr>) zero_time"
    by (simp add: time_after_def instant_def day_number_def zero_time_def)
  then show "restart_owed True ?cfg (desired_config sample_config sample_plan ?cfg ''dev-web'')
       (stale_config_keys ?cfg (desired_config sample_config sample_plan ?cfg ''dev-web'') sample_plan)
       (zero_time\<lparr>tm_year := 2\<rparr>) = ([], [], fmempty)"
    using sample_fits valid_zero_time by (intro restart_retires_record) simp_all
qed

text \<open>The record of a pending restart is read back as it was written. With the container still on
  the start it was recorded for, the booted values come back exactly; once it has been started since,
  nothing is pending.\<close>

theorem restart_record_round_trip:
  assumes "valid_time t" "readable b" "time_after t' t"
  shows "pending_restart (fmupd managed_restart_key (record_restart t b) cfg) t = b
    \<and> pending_restart (fmupd managed_restart_key (record_restart t b) cfg) t' = fmempty"
  using pending_recorded [OF assms(1,2)] pending_after_restart [OF assms(1,3)] by (simp add: get_str_def)

theorem restart_record_round_trip_witness:
  "pending_restart (fmupd managed_restart_key (record_restart zero_time
      (fmupd ''security.nesting'' \<lparr>bv_value = ''true'', bv_known = True\<rparr> fmempty)) fmempty) zero_time
   = fmupd ''security.nesting'' \<lparr>bv_value = ''true'', bv_known = True\<rparr> fmempty"
proof -
  have "readable (fmupd ''security.nesting'' \<lparr>bv_value = ''true'', bv_known = True\<rparr> fmempty)"
    by (auto simp: readable_def split: if_splits)
  moreover have "time_after (zero_time\<lparr>tm_year := 2\<rparr>) zero_time" by code_simp
  ultimately show ?thesis using restart_record_round_trip [OF valid_zero_time] by blast
qed

end
