(* ===== verification/Session.thy ===== *)
theory Session
  imports Daemon Runner Steps
begin

text \<open>
  What a run of the program holds: the daemon's world and the host's, apart (a command run on the
  host does not reconfigure an instance), the lines logged (\<open>internal/cli/log.go\<close>), the results
  written, the volume record a rebuild carries, and what the executor has probed once. Operations
  of the client and of the host are lifted to it.
\<close>

datatype log_level = Debug | Info | Warn

record ('d, 'h) session =
  se_daemon :: 'd
  se_host :: 'h
  se_log :: "(log_level \<times> string) list"
  se_out :: "string list"
  se_err :: "string list"
  se_carried :: "string list"
  se_playbook :: "err option option"
  se_plugin :: "err option option"
  se_galaxy :: "err option option"

definition new_session :: "'d \<Rightarrow> 'h \<Rightarrow> ('d, 'h) session" where
  "new_session d h = \<lparr>se_daemon = d, se_host = h, se_log = [], se_out = [], se_err = [], se_carried = [],
     se_playbook = None, se_plugin = None, se_galaxy = None\<rparr>"

type_synonym ('d, 'h, 'a) run = "(('d, 'h) session, err, 'a) op"

definition on_daemon :: "('d, err, 'a) op \<Rightarrow> ('d, 'h, 'a) run" where
  "on_daemon m = (\<lambda>s. case m (se_daemon s) of (r, d) \<Rightarrow> (r, s\<lparr>se_daemon := d\<rparr>))"

definition on_host :: "('h, err, 'a) op \<Rightarrow> ('d, 'h, 'a) run" where
  "on_host m = (\<lambda>s. case m (se_host s) of (r, h) \<Rightarrow> (r, s\<lparr>se_host := h\<rparr>))"

definition log_at :: "log_level \<Rightarrow> string \<Rightarrow> ('d, 'h, unit) run" where
  "log_at l msg = modify (\<lambda>s. s\<lparr>se_log := se_log s @ [(l, msg)]\<rparr>)"

abbreviation log_debug :: "string \<Rightarrow> ('d, 'h, unit) run" where "log_debug \<equiv> log_at Debug"
abbreviation log_info :: "string \<Rightarrow> ('d, 'h, unit) run" where "log_info \<equiv> log_at Info"
abbreviation log_warn :: "string \<Rightarrow> ('d, 'h, unit) run" where "log_warn \<equiv> log_at Warn"

definition warning_count :: "(log_level \<times> string) list \<Rightarrow> nat" where
  "warning_count ls = length (filter (\<lambda>l. fst l = Warn) ls)"

text \<open>A line as the handler prints it; debug lines only with \<open>--verbose\<close>.\<close>

definition log_line :: "log_level \<times> string \<Rightarrow> string" where
  "log_line l = ''[idev] '' @ (if fst l = Warn then ''warning: '' else []) @ snd l @ [CHR 0x0A]"

definition shown_log :: "bool \<Rightarrow> (log_level \<times> string) list \<Rightarrow> string" where
  "shown_log verbose ls =
     concat (map log_line (filter (\<lambda>l. if fst l = Debug then verbose else True) ls))"

definition write_out :: "string \<Rightarrow> ('d, 'h, unit) run" where
  "write_out text = modify (\<lambda>s. s\<lparr>se_out := se_out s @ [text]\<rparr>)"

text \<open>What goes to standard error beside the log: a question.\<close>

definition write_err :: "string \<Rightarrow> ('d, 'h, unit) run" where
  "write_err text = modify (\<lambda>s. s\<lparr>se_err := se_err s @ [text]\<rparr>)"

text \<open>\<open>defer\<close>: the cleanup runs whatever happened, and its own error is dropped.\<close>

definition with_cleanup :: "('d, 'h, 'a) run \<Rightarrow> ('d, 'h, unit) run \<Rightarrow> ('d, 'h, 'a) run" where
  "with_cleanup m cleanup = (\<lambda>s. case m s of (r, s') \<Rightarrow> (r, snd (cleanup s')))"

text \<open>What the program uses of the operating system, beside running commands. A file is written
  from the value it serialises.\<close>

datatype file_content = YamlFile json | JsonFile json

record 'h host =
  ho_run :: "command \<Rightarrow> ('h, err, run_result) op"
  ho_exists :: "string \<Rightarrow> ('h, err, bool) op"
  ho_temp_dir :: "string \<Rightarrow> ('h, err, string) op"
  ho_write :: "string \<Rightarrow> file_content \<Rightarrow> ('h, err, unit) op"
  ho_remove_all :: "string \<Rightarrow> ('h, err, unit) op"
  ho_read :: "string \<Rightarrow> ('h, err, string) op"
  ho_home :: "('h, err, string) op"


text \<open>A host on which every command succeeds and nothing is kept.\<close>

definition ok_host :: "unit host" where
  "ok_host = \<lparr>ho_run = (\<lambda>c. ret \<lparr>rr_code = 0, rr_stdout = ''ok'', rr_stderr = []\<rparr>),
     ho_exists = (\<lambda>p. ret False), ho_temp_dir = (\<lambda>p. ret (''/tmp/'' @ p @ ''1'')),
     ho_write = (\<lambda>p c. ret ()), ho_remove_all = (\<lambda>p. ret ()), ho_read = (\<lambda>p. ret []),
     ho_home = ret ''/home/dev''\<rparr>"


section \<open>Facts\<close>

lemma run_on_daemon [op_simps]:
  "on_daemon m s = (fst (m (se_daemon s)), s\<lparr>se_daemon := snd (m (se_daemon s))\<rparr>)"
  by (simp add: on_daemon_def split: prod.splits)

lemma run_on_host [op_simps]:
  "on_host m s = (fst (m (se_host s)), s\<lparr>se_host := snd (m (se_host s))\<rparr>)"
  by (simp add: on_host_def split: prod.splits)

lemma run_log [op_simps]: "log_at l msg s = (Inr (), s\<lparr>se_log := se_log s @ [(l, msg)]\<rparr>)"
  by (simp add: log_at_def modify_def)

lemma run_out [op_simps]: "write_out t s = (Inr (), s\<lparr>se_out := se_out s @ [t]\<rparr>)"
  by (simp add: write_out_def modify_def)

lemma run_err [op_simps]: "write_err t s = (Inr (), s\<lparr>se_err := se_err s @ [t]\<rparr>)"
  by (simp add: write_err_def modify_def)

lemma run_with_cleanup [op_simps]: "with_cleanup m c s = (fst (m s), snd (c (snd (m s))))"
  by (simp add: with_cleanup_def split: prod.splits)

text \<open>A predicate of the daemon alone is kept by everything that does not touch the daemon.\<close>

abbreviation on_d :: "('d \<Rightarrow> bool) \<Rightarrow> ('d, 'h) session \<Rightarrow> bool" where
  "on_d I \<equiv> (\<lambda>s. I (se_daemon s))"

lemma keeps_on_daemon: "keeps I m \<Longrightarrow> keeps (on_d I) (on_daemon m)"
  by (simp add: keeps_def run_on_daemon)

lemma keeps_on_host [keeps_intros]: "keeps (on_d I) (on_host m)"
  by (simp add: keeps_def run_on_host)

lemma keeps_log [keeps_intros]: "keeps (on_d I) (log_at l msg)"
  by (simp add: keeps_def run_log)

lemma keeps_out [keeps_intros]: "keeps (on_d I) (write_out t)"
  by (simp add: keeps_def run_out)

lemma keeps_err [keeps_intros]: "keeps (on_d I) (write_err t)"
  by (simp add: keeps_def run_err)

lemma keeps_with_cleanup [keeps_intros]: "keeps J m \<Longrightarrow> keeps J c \<Longrightarrow> keeps J (with_cleanup m c)"
  by (simp add: keeps_def run_with_cleanup)

lemma keeps_carried [keeps_intros]: "keeps (on_d I) (modify (\<lambda>s. s\<lparr>se_carried := x s\<rparr>))"
  by (simp add: keeps_def modify_def)

end
