(* ===== verification/Provision.thy ===== *)
theory Provision
  imports Session Config Fake
begin

text \<open>
  Models \<open>internal/provision\<close>: which steps a selection means (\<open>select.go\<close>), the context every step is
  given (\<open>env.go\<close>), the three kinds of step (\<open>step_run.go\<close>, \<open>step_ansible.go\<close>, \<open>step_galaxy.go\<close>),
  the probes made once per run, and running the steps in order (\<open>provision.go\<close>). Output streamed to
  the terminal is not part of the model.
\<close>

section \<open>Selecting steps\<close>

record selection =
  sl_only :: "string list"
  sl_from :: string

definition select_all :: selection where
  "select_all = \<lparr>sl_only = [], sl_from = []\<rparr>"

definition selection_is_zero :: "selection \<Rightarrow> bool" where
  "selection_is_zero sel \<longleftrightarrow> sl_only sel = [] \<and> sl_from sel = []"

definition available :: "step list \<Rightarrow> string" where
  "available steps =
     (if steps = [] then ''; this project declares no provision steps''
      else CHR 0x0A # ''available steps:'' @ CHR 0x0A # ''  '' @
        join (CHR 0x0A # ''  '') (map (\<lambda>(i, s). dec (i + 1) @ ''. '' @ display_name s (i + 1))
          (enum_from 0 steps)))"

definition positions :: "(nat \<Rightarrow> step \<Rightarrow> bool) \<Rightarrow> step list \<Rightarrow> nat list" where
  "positions P steps = map fst (filter (\<lambda>(i, s). P i s) (enum_from 0 steps))"

definition match_step :: "step list \<Rightarrow> string \<Rightarrow> err + nat list" where
  "match_step steps ref =
     (let named = positions (\<lambda>i s. st_name s = ref) steps;
          shown = positions (\<lambda>i s. st_name s = [] \<and> display_name s (i + 1) = ref) steps
      in if named \<noteq> [] then Inr named
         else if shown \<noteq> [] then Inr shown
         else case parse_int ref of
             Some n \<Rightarrow>
               if n < 1 \<or> int (length steps) < n
               then Inl (Errorf ''step %d is out of range (1-%d)%s''
                      [N n, N (int (length steps)), S (available steps)])
               else Inr [nat (n - 1)]
           | None \<Rightarrow> Inl (Errorf ''no step named %q%s'' [S ref, S (available steps)]))"

definition select_steps :: "step list \<Rightarrow> selection \<Rightarrow> err + nat list" where
  "select_steps steps sel =
     (if sl_only sel \<noteq> [] \<and> sl_from sel \<noteq> []
      then Inl (Errorf ''only and from cannot be used together'' [])
      else if selection_is_zero sel then Inr [0..<length steps]
      else if sl_from sel \<noteq> [] then
        bindR (match_step steps (sl_from sel)) (\<lambda>ms. Inr (drop (hd ms) [0..<length steps]))
      else bindR (map_result (match_step steps) (sl_only sel))
        (\<lambda>mss. Inr (sort (dedup_from {} (concat mss)))))"


section \<open>The context of a step\<close>

record step_env =
  ev_project_name :: string
  ev_project_root :: string
  ev_instance :: string
  ev_workspace :: string
  ev_workspace_source :: string
  ev_incus_project :: string
  ev_secrets :: "string gomap"

definition env_vars :: "step_env \<Rightarrow> string gomap" where
  "env_vars e = fmap_of_list
     [(''IDEV_PROJECT_NAME'', ev_project_name e), (''IDEV_INSTANCE'', ev_instance e),
      (''IDEV_WORKSPACE'', ev_workspace e), (''IDEV_WORKSPACE_SOURCE'', ev_workspace_source e),
      (''IDEV_INCUS_PROJECT'', ev_incus_project e)]"

definition ansible_vars :: "step_env \<Rightarrow> json" where
  "ansible_vars e = JObj (fmap_of_list
     [(''idev_project_name'', JStr (ev_project_name e)), (''idev_instance'', JStr (ev_instance e)),
      (''idev_workspace'', JStr (ev_workspace e)),
      (''idev_workspace_source'', JStr (ev_workspace_source e)),
      (''idev_incus_project'', JStr (ev_incus_project e))])"

definition resolve_in :: "string \<Rightarrow> string \<Rightarrow> string" where
  "resolve_in root path = (if is_abs path then path else path_join root path)"

definition or_default :: "string \<Rightarrow> string \<Rightarrow> string" where
  "or_default v fallback = (if v = [] then fallback else v)"

definition config_dir :: string where "config_dir = ''.incus-dev''"


section \<open>The executor\<close>

record ('d, 'h) executor =
  ex_client :: "'d client"
  ex_host :: "'h host"

text \<open>\<open>ANSIBLE_CONFIG\<close>, when the project has an \<open>ansible.cfg\<close>.\<close>

definition ansible_env :: "('d, 'h) executor \<Rightarrow> string \<Rightarrow> ('d, 'h, string list) run" where
  "ansible_env x root =
     (let cfg = path_join root (path_join config_dir (path_join ''ansible'' ''ansible.cfg''))
      in bindE (attempt (on_host (ho_exists (ex_host x) cfg)))
           (\<lambda>r. ret (case r of Inr True \<Rightarrow> [''ANSIBLE_CONFIG='' @ cfg] | _ \<Rightarrow> [])))"

definition run_on_host_command :: "('d, 'h) executor \<Rightarrow> command \<Rightarrow> ('d, 'h, run_result) run" where
  "run_on_host_command x c = on_host (ho_run (ex_host x) c)"

text \<open>\<open>sync.Once\<close>: the probe runs the first time, and its answer is kept.\<close>

definition once ::
  "(('d, 'h) session \<Rightarrow> err option option) \<Rightarrow> (err option \<Rightarrow> ('d, 'h) session \<Rightarrow> ('d, 'h) session)
   \<Rightarrow> ('d, 'h, err option) run \<Rightarrow> ('d, 'h, unit) run" where
  "once get put probe =
     bindE get_state (\<lambda>s.
       bindE (case get s of
           Some e \<Rightarrow> ret e
         | None \<Rightarrow> bindE probe (\<lambda>e. thenE (modify (put e)) (ret e)))
         (\<lambda>e. case e of None \<Rightarrow> ret () | Some err \<Rightarrow> fail err))"

definition version_probe ::
  "('d, 'h) executor \<Rightarrow> string \<Rightarrow> string \<Rightarrow> string \<Rightarrow> ('d, 'h, err option) run" where
  "version_probe x root tool msg =
     bindE (ansible_env x root) (\<lambda>env.
       bindE (attempt (run_on_host_command x
           ((new_command tool)\<lparr>cm_args := [''--version''], cm_env := env\<rparr>)))
         (\<lambda>r. ret (case r of Inl e \<Rightarrow> Some (Errorf msg [W e]) | Inr _ \<Rightarrow> None)))"

definition check_playbook :: "('d, 'h) executor \<Rightarrow> string \<Rightarrow> ('d, 'h, unit) run" where
  "check_playbook x root =
     once se_playbook (\<lambda>e s. s\<lparr>se_playbook := Some e\<rparr>)
       (version_probe x root ''ansible-playbook''
         (''ansible-playbook is required for ansible steps but could not be run: %w'' @ CHR 0x0A #
          ''install Ansible on this host, or use run steps instead''))"

definition check_galaxy :: "('d, 'h) executor \<Rightarrow> string \<Rightarrow> ('d, 'h, unit) run" where
  "check_galaxy x root =
     once se_galaxy (\<lambda>e s. s\<lparr>se_galaxy := Some e\<rparr>)
       (version_probe x root ''ansible-galaxy''
         (''ansible-galaxy is required for galaxy steps but could not be run: %w'' @ CHR 0x0A #
          ''install Ansible on this host''))"

definition connection_plugin :: string where "connection_plugin = ''community.general.incus''"

definition check_plugin :: "('d, 'h) executor \<Rightarrow> string \<Rightarrow> ('d, 'h, unit) run" where
  "check_plugin x root =
     once se_plugin (\<lambda>e s. s\<lparr>se_plugin := Some e\<rparr>)
       (bindE (ansible_env x root) (\<lambda>env.
         bindE (attempt (run_on_host_command x
             ((new_command ''ansible-doc'')\<lparr>cm_args := [''-t'', ''connection'', connection_plugin],
                cm_env := env\<rparr>)))
           (\<lambda>r. ret (case r of
               Inl e \<Rightarrow> Some (Errorf
                 (''ansible-doc is required to check for the %s connection plugin ''
                  @ ''but could not be run: %w'' @ CHR 0x0A #
                  ''install Ansible on this host, or use run steps instead'')
                 [S connection_plugin, W e])
             | Inr res \<Rightarrow>
                 if trim_space (rr_stdout res) = [] then
                   Some (Errorf
                     (''the %s connection plugin is required but was not found'' @ CHR 0x0A #
                      ''install it with: ansible-galaxy collection install community.general'')
                     [S connection_plugin])
                 else None))))"

text \<open>Whether a galaxy step, or an ansible step, is among the steps, and whether a galaxy step comes
  before the first ansible step.\<close>

fun scan_steps :: "step list \<Rightarrow> bool \<times> bool \<times> bool \<Rightarrow> bool \<times> bool \<times> bool" where
  "scan_steps [] acc = acc"
| "scan_steps (s # ss) (has_ansible, has_galaxy, galaxy_first) =
     (if st_galaxy s \<noteq> None then scan_steps ss (has_ansible, True, galaxy_first \<or> \<not> has_ansible)
      else if st_ansible s \<noteq> None then scan_steps ss (True, has_galaxy, galaxy_first)
      else scan_steps ss (has_ansible, has_galaxy, galaxy_first))"

definition check_prerequisites ::
  "('d, 'h) executor \<Rightarrow> string \<Rightarrow> step list \<Rightarrow> ('d, 'h, unit) run" where
  "check_prerequisites x root steps =
     (case scan_steps steps (False, False, False) of
        (has_ansible, has_galaxy, galaxy_first) \<Rightarrow>
          thenE (when_op has_galaxy (check_galaxy x root))
            (if \<not> has_ansible then ret ()
             else thenE (check_playbook x root)
               (if galaxy_first then ret () else check_plugin x root)))"


section \<open>Steps\<close>

definition run_argv :: "run_step \<Rightarrow> string list \<times> string" where
  "run_argv r =
     (let shell = run_shell_or_default r
      in if rs_user r \<noteq> [] \<and> parse_int (rs_user r) = None
         then ([''su'', ''-s'', shell, rs_user r, ''-c'', rs_script r], [])
         else ([shell, ''-c'', rs_script r], rs_user r))"

definition run_options :: "run_step \<Rightarrow> step_env \<Rightarrow> exec_options" where
  "run_options r env =
     exec_defaults\<lparr>eo_env := ev_secrets env ++\<^sub>f rs_env r,
       eo_public_env := fmfilter (\<lambda>k. \<not> has_key (rs_env r) k) (env_vars env),
       eo_cwd := rs_cwd r, eo_user := snd (run_argv r)\<rparr>"

definition exec_run_step :: "('d, 'h) executor \<Rightarrow> run_step \<Rightarrow> step_env \<Rightarrow> ('d, 'h, unit) run" where
  "exec_run_step x r env =
     bindE (on_daemon (cl_exec (ex_client x) (ev_instance env) (fst (run_argv r)) (run_options r env)))
       (\<lambda>(code, _). if code \<noteq> 0
          then fail (Errorf ''%s: exited with code %d'' [S (collapse (rs_script r)), N code])
          else ret ())"

definition exec_galaxy :: "('d, 'h) executor \<Rightarrow> galaxy_step \<Rightarrow> step_env \<Rightarrow> ('d, 'h, unit) run" where
  "exec_galaxy x g env =
     thenE (check_galaxy x (ev_project_root env))
       (bindE (ansible_env x (ev_project_root env)) (\<lambda>vars.
         let args = al_add_secret (gx_extra_args g)
               (args_of [''install'', ''-r'', resolve_in (ev_project_root env) (gx_requirements g)]);
             cmd = al_apply args ((new_command ''ansible-galaxy'')\<lparr>cm_dir := ev_project_root env,
               cm_env := vars, cm_stdout := True, cm_stderr := True\<rparr>)
         in bindE (run_on_host_command x cmd) (\<lambda>_. ret ())))"

definition inventory_for :: "step_env \<Rightarrow> json" where
  "inventory_for env =
     (let host = JObj (fmap_of_list
         [(''ansible_host'', JStr (ev_instance env)),
          (''ansible_connection'', JStr connection_plugin),
          (''ansible_incus_remote'', JStr ''local''),
          (''ansible_incus_project'', JStr (or_default (ev_incus_project env) ''default''))]);
        one = (\<lambda>k v. JObj (fmupd k v fmempty))
      in one ''all'' (one ''children'' (one ''idev'' (one ''hosts'' (one ''dev'' host)))))"

definition secrets_file :: "string gomap \<Rightarrow> json" where
  "secrets_file secrets =
     JObj (fmmap (\<lambda>v. JObj (fmupd ''__ansible_unsafe'' (JStr v) fmempty)) secrets)"

definition ansible_args ::
  "ansible_step \<Rightarrow> step_env \<Rightarrow> string \<Rightarrow> string \<Rightarrow> string \<Rightarrow> arg_list" where
  "ansible_args a env inventory vars secrets =
     (let root = ev_project_root env;
          l = args_of [''-i'', inventory];
          l = (if an_inventory a \<noteq> [] then al_add [''-i'', resolve_in root (an_inventory a)] l else l);
          l = al_add [''--extra-vars=@'' @ vars] l;
          l = (if fmdom (ev_secrets env) \<noteq> {||} then al_add [''--extra-vars=@'' @ secrets] l else l);
          l = (if an_vars a \<noteq> [] then al_add [''--extra-vars=@'' @ resolve_in root (an_vars a)] l else l);
          l = (if an_tags a \<noteq> [] then al_add [''--tags'', join '','' (an_tags a)] l else l);
          l = (if an_skip_tags a \<noteq> [] then al_add [''--skip-tags'', join '','' (an_skip_tags a)] l else l);
          l = al_add_secret (an_extra_args a) l
      in al_add [resolve_in root (an_playbook a)] l)"

definition wrap_error :: "string \<Rightarrow> ('d, 'h, 'a) run \<Rightarrow> ('d, 'h, 'a) run" where
  "wrap_error msg m = on_error m (\<lambda>e. fail (Errorf msg [W e]))"

text \<open>The part of \<open>execAnsible\<close> that works inside its temporary directory.\<close>

definition ansible_in_dir ::
  "('d, 'h) executor \<Rightarrow> ansible_step \<Rightarrow> step_env \<Rightarrow> string \<Rightarrow> ('d, 'h, unit) run" where
  "ansible_in_dir x a env dir =
     (let inventory = path_join dir ''inventory.yml''; vars = path_join dir ''idev-vars.json'';
          secrets = path_join dir ''secrets.json''
      in thenE (wrap_error ''write inventory: %w''
           (on_host (ho_write (ex_host x) inventory (YamlFile (inventory_for env)))))
         (thenE (wrap_error ''write idev vars: %w''
           (on_host (ho_write (ex_host x) vars (JsonFile (ansible_vars env)))))
         (thenE (when_op (fmdom (ev_secrets env) \<noteq> {||})
           (wrap_error ''write secrets: %w''
             (on_host (ho_write (ex_host x) secrets (JsonFile (secrets_file (ev_secrets env)))))))
         (bindE (ansible_env x (ev_project_root env)) (\<lambda>evs.
           bindE (run_on_host_command x (al_apply (ansible_args a env inventory vars secrets)
               ((new_command ''ansible-playbook'')\<lparr>cm_dir := ev_project_root env,
                  cm_env := evs, cm_stdout := True, cm_stderr := True\<rparr>)))
             (\<lambda>_. ret ()))))))"

definition exec_ansible :: "('d, 'h) executor \<Rightarrow> ansible_step \<Rightarrow> step_env \<Rightarrow> ('d, 'h, unit) run" where
  "exec_ansible x a env =
     thenE (check_playbook x (ev_project_root env))
     (thenE (check_plugin x (ev_project_root env))
     (bindE (wrap_error ''create temporary directory: %w'' (on_host (ho_temp_dir (ex_host x) ''idev-ansible-'')))
        (\<lambda>dir. with_cleanup (ansible_in_dir x a env dir) (on_host (ho_remove_all (ex_host x) dir)))))"

definition run_step :: "('d, 'h) executor \<Rightarrow> step \<Rightarrow> step_env \<Rightarrow> ('d, 'h, unit) run" where
  "run_step x s env =
     (case st_run s of
        Some r \<Rightarrow> exec_run_step x r env
      | None \<Rightarrow>
        (case st_ansible s of
           Some a \<Rightarrow> exec_ansible x a env
         | None \<Rightarrow>
           (case st_galaxy s of
              Some g \<Rightarrow> exec_galaxy x g env
            | None \<Rightarrow> fail (Errorf ''step has neither run nor ansible'' []))))"


section \<open>Running them\<close>

definition default_bootstrap_script :: string where
  "default_bootstrap_script =
     ''command -v python3 >/dev/null 2>&1 || '' @ ''(apt-get update && apt-get install -y python3)''"

definition default_bootstrap_name :: string where
  "default_bootstrap_name = ''bootstrap (default)''"

definition default_bootstrap_hint :: string where
  "default_bootstrap_hint =
     ''The default bootstrap assumes a Debian-family image (apt-get).'' @ CHR 0x0A #
     ''Define bootstrap explicitly in dev.yml for this image, for example:'' @ CHR 0x0A # CHR 0x0A #
     ''  bootstrap:'' @ CHR 0x0A #
     ''    - run: command -v python3 >/dev/null 2>&1 || dnf install -y python3'' @ CHR 0x0A # CHR 0x0A #
     ''Use '' @ CHR 0x22 # ''bootstrap: []'' @ CHR 0x22 # '' to skip it entirely.''"

definition bootstrap_steps :: "config \<Rightarrow> step list" where
  "bootstrap_steps c =
     (case cf_bootstrap c of
        Some b \<Rightarrow> b
      | None \<Rightarrow>
          if \<not> has_ansible_step c then []
          else [\<lparr>st_name = default_bootstrap_name,
                 st_run = Some \<lparr>rs_script = default_bootstrap_script, rs_shell = [], rs_cwd = [],
                            rs_user = [], rs_env = fmempty\<rparr>,
                 st_ansible = None, st_galaxy = None\<rparr>])"

definition all_indices :: "step list \<Rightarrow> nat list" where
  "all_indices steps = [0..<length steps]"

definition step_label :: "string \<Rightarrow> nat \<Rightarrow> nat \<Rightarrow> string \<Rightarrow> step \<Rightarrow> string" where
  "step_label kind i tot inst s =
     kind @ '' step '' @ dec (i + 1) @ ''/'' @ dec tot @ '' in '' @ inst @ '': ''
     @ display_name s (i + 1)"

definition run_steps ::
  "('d, 'h) executor \<Rightarrow> step list \<Rightarrow> nat list \<Rightarrow> string \<Rightarrow> step_env \<Rightarrow> bool \<Rightarrow> ('d, 'h, unit) run" where
  "run_steps x steps indices kind env ours =
     for_each indices (\<lambda>i.
       let label = step_label kind i (length steps) (ev_instance env) (steps ! i)
       in thenE (log_info label)
            (on_error (run_step x (steps ! i) env) (\<lambda>e. fail
              (if ours then Errorf (''%s: %w'' @ CHR 0x0A # CHR 0x0A # ''%s'')
                         [S label, W e, S default_bootstrap_hint]
               else Errorf ''%s: %w'' [S label, W e]))))"

definition bootstrap :: "('d, 'h) executor \<Rightarrow> config \<Rightarrow> step_env \<Rightarrow> ('d, 'h, unit) run" where
  "bootstrap x c env =
     (let steps = bootstrap_steps c
      in run_steps x steps (all_indices steps) ''bootstrap'' env (cf_bootstrap c = None))"

definition provision :: "('d, 'h) executor \<Rightarrow> config \<Rightarrow> step_env \<Rightarrow> selection \<Rightarrow> ('d, 'h, unit) run" where
  "provision x c env sel =
     bindE (lift_result (select_steps (cf_provision c) sel))
       (\<lambda>indices. run_steps x (cf_provision c) indices ''provision'' env False)"


section \<open>Facts\<close>

lemma positions_iff: "i \<in> set (positions P steps) \<longleftrightarrow> i < length steps \<and> P i (steps ! i)"
  by (force simp: positions_def enum_from_in)

lemma positions_Nil: "positions P steps = [] \<longleftrightarrow> (\<forall>i<length steps. \<not> P i (steps ! i))"
  using positions_iff [of _ P steps] by (metis empty_iff empty_set list.set_intros(1) neq_Nil_conv)

lemma match_step_range:
  assumes "match_step steps ref = Inr ms"
  shows "ms \<noteq> [] \<and> (\<forall>i\<in>set ms. i < length steps)"
  using assms positions_iff
  by (auto simp: match_step_def Let_def split: if_splits option.splits)

lemma map_result_concat:
  "map_result f xs = Inr yss \<Longrightarrow>
   i \<in> set (concat yss) \<longleftrightarrow> (\<exists>x\<in>set xs. \<exists>ys. f x = Inr ys \<and> i \<in> set ys)"
  by (induction xs arbitrary: yss) (auto simp: bindR_Inr_iff)

subsection \<open>A step changes neither the log nor what was carried\<close>

abbreviation log_is :: "(log_level \<times> string) list \<Rightarrow> ('d, 'h) session \<Rightarrow> bool" where
  "log_is l \<equiv> (\<lambda>s. se_log s = l)"

lemma keeps_log_is [keeps_intros]:
  "keeps (log_is l) (on_daemon m)" "keeps (log_is l) (on_host n)"
  by (simp_all add: keeps_def run_on_daemon run_on_host)

lemma keeps_once:
  assumes "keeps J probe" "\<And>e s. J (put e s) = J s"
  shows "keeps J (once get put probe)"
  unfolding once_def using assms by (intro keeps_intros) (auto simp: keeps_def modify_def)

lemma keeps_ansible_env:
  assumes "\<And>m :: ('h, err, bool) op. keeps J (on_host m)"
  shows "keeps J (ansible_env (x :: ('d, 'h) executor) root)"
  unfolding ansible_env_def Let_def using assms by (intro keeps_intros)

lemma keeps_run_step:
  fixes x :: "('d, 'h) executor"
  assumes d: "\<And>n argv opt. keeps J (on_daemon (cl_exec (ex_client x) n argv opt))"
    and h: "\<And>m :: ('h, err, bool) op. keeps J (on_host m)"
      "\<And>m :: ('h, err, run_result) op. keeps J (on_host m)"
      "\<And>m :: ('h, err, string) op. keeps J (on_host m)"
      "\<And>m :: ('h, err, unit) op. keeps J (on_host m)"
    and p: "\<And>e s. J (s\<lparr>se_playbook := e\<rparr>) = J s" "\<And>e s. J (s\<lparr>se_plugin := e\<rparr>) = J s"
      "\<And>e s. J (s\<lparr>se_galaxy := e\<rparr>) = J s"
  shows "keeps J (run_step x st env)" "keeps J (check_prerequisites x root steps)"
proof -
  have pb: "keeps J (check_playbook x r)" and gx: "keeps J (check_galaxy x r)"
    and pl: "keeps J (check_plugin x r)" for r
    unfolding check_playbook_def check_galaxy_def check_plugin_def version_probe_def run_on_host_command_def
    by (intro keeps_once keeps_intros keeps_ansible_env h; simp add: p)+
  show "keeps J (run_step x st env)"
    unfolding run_step_def exec_run_step_def exec_ansible_def ansible_in_dir_def exec_galaxy_def wrap_error_def
      run_on_host_command_def Let_def
    by (intro keeps_intros keeps_ansible_env d h pb gx pl)
  show "keeps J (check_prerequisites x root steps)"
    unfolding check_prerequisites_def by (intro keeps_intros pb gx pl)
qed

lemma keeps_log_run_step: "keeps (log_is l) (run_step x st env)"
  by (rule keeps_run_step) (simp_all add: keeps_log_is)

lemma keeps_check_playbook_log: "keeps (log_is l) (check_prerequisites x root steps)"
  by (rule keeps_run_step) (simp_all add: keeps_log_is)

text \<open>Running a list of steps: the labels logged are those of a prefix, which is all of them unless
  the last of the prefix failed.\<close>

definition labels :: "step list \<Rightarrow> string \<Rightarrow> string \<Rightarrow> nat list \<Rightarrow> (log_level \<times> string) list" where
  "labels steps kind inst is =
     map (\<lambda>i. (Info, step_label kind i (length steps) inst (steps ! i))) is"

lemma run_steps_prefix:
  assumes "run_steps x steps is kind env ours s = (r, s')"
  shows "\<exists>k\<le>length is. se_log s' = se_log s @ labels steps kind (ev_instance env) (take k is)
    \<and> (case r of Inr _ \<Rightarrow> k = length is
        | Inl e \<Rightarrow> 0 < k \<and> (\<exists>f as. e = Errorf f (S (step_label kind (is ! (k - 1)) (length steps)
             (ev_instance env) (steps ! (is ! (k - 1)))) # as)))"
  using assms
proof (induction "is" arbitrary: s)
  case Nil
  then show ?case by (auto simp: run_steps_def run_ret labels_def)
next
  case (Cons i js)
  let ?lab = "step_label kind i (length steps) (ev_instance env) (steps ! i)"
  let ?s1 = "s\<lparr>se_log := se_log s @ [(Info, ?lab)]\<rparr>"
  obtain q s2 where q: "run_step x (steps ! i) env ?s1 = (q, s2)" by (cases "run_step x (steps ! i) env ?s1")
  have log2: "se_log s2 = se_log s @ [(Info, ?lab)]"
    using keepsD [OF keeps_log_run_step [of "se_log s @ [(Info, ?lab)]" x "steps ! i" env], of ?s1] q by simp
  show ?case
  proof (cases q)
    case (Inl e)
    then have "\<exists>f as. r = Inl (Errorf f (S ?lab # as))" "s' = s2"
      using Cons.prems q by (auto simp: run_steps_def Let_def op_simps split: if_splits)
    then show ?thesis using log2 by (intro exI [of _ 1]) (auto simp: labels_def)
  next
    case (Inr u)
    then have "run_steps x steps js kind env ours s2 = (r, s')"
      using Cons.prems q by (simp add: run_steps_def Let_def op_simps)
    then obtain k where "k \<le> length js" "se_log s' = se_log s2 @ labels steps kind (ev_instance env) (take k js)"
      and "case r of Inr _ \<Rightarrow> k = length js
        | Inl e \<Rightarrow> 0 < k \<and> (\<exists>f as. e = Errorf f (S (step_label kind (js ! (k - 1)) (length steps)
             (ev_instance env) (steps ! (js ! (k - 1)))) # as))"
      using Cons.IH by blast
    then show ?thesis using log2
      by (intro exI [of _ "Suc k"]) (auto simp: labels_def nth_Cons' split: sum.splits)
  qed
qed


section \<open>Properties\<close>

text \<open>C20: a selection means steps of the list, each once, in declaration order: all of them when
  nothing was asked for, everything from a step on with \<open>--from\<close>, and with \<open>--step\<close> exactly the
  steps the names and numbers given stand for.\<close>

theorem select_steps_spec:
  assumes "select_steps steps sel = Inr is"
  shows "sorted is \<and> distinct is \<and> set is \<subseteq> {0..<length steps}
    \<and> (if sl_only sel \<noteq> [] then
         set is = {i. \<exists>ref\<in>set (sl_only sel). \<exists>ms. match_step steps ref = Inr ms \<and> i \<in> set ms}
       else if sl_from sel \<noteq> [] then
         \<exists>ms. match_step steps (sl_from sel) = Inr ms \<and> is = [hd ms..<length steps]
       else is = [0..<length steps])"
proof (cases "sl_only sel = []")
  case False
  then obtain mss where m: "map_result (match_step steps) (sl_only sel) = Inr mss"
    "is = sort (dedup_from {} (concat mss))"
    using assms by (auto simp: select_steps_def selection_is_zero_def bindR_Inr_iff split: if_splits)
  have "set is = set (concat mss)" by (simp add: m(2) set_dedup_from)
  then have "set is = {i. \<exists>ref\<in>set (sl_only sel). \<exists>ms. match_step steps ref = Inr ms \<and> i \<in> set ms}"
    using map_result_concat [OF m(1)] by blast
  then show ?thesis using False m(2) match_step_range by (auto simp: distinct_dedup_from)
next
  case True
  then show ?thesis using assms
    by (auto simp: select_steps_def selection_is_zero_def bindR_Inr_iff drop_upt split: if_splits)
qed

lemma select_steps_spec_witness:
  "\<exists>is. select_steps [\<lparr>st_name = ''a'', st_run = None, st_ansible = None, st_galaxy = None\<rparr>,
        \<lparr>st_name = ''b'', st_run = None, st_ansible = None, st_galaxy = None\<rparr>]
      \<lparr>sl_only = [''b'', ''a'', ''b''], sl_from = []\<rparr> = Inr is \<and> sorted is \<and> is = [0, 1]"
proof -
  have run: "select_steps [\<lparr>st_name = ''a'', st_run = None, st_ansible = None, st_galaxy = None\<rparr>,
        \<lparr>st_name = ''b'', st_run = None, st_ansible = None, st_galaxy = None\<rparr>]
      \<lparr>sl_only = [''b'', ''a'', ''b''], sl_from = []\<rparr> = Inr [0, 1]" by code_simp
  show ?thesis using select_steps_spec [OF run] run by blast
qed

text \<open>A name wins over a position: when steps carry the name given, they are what it means, even
  where it reads as a number or as the placeholder of an unnamed step.\<close>

theorem name_wins:
  assumes "\<exists>i<length steps. st_name (steps ! i) = ref"
  shows "\<exists>ms. match_step steps ref = Inr ms \<and> set ms = {i. i < length steps \<and> st_name (steps ! i) = ref}"
proof -
  have "positions (\<lambda>i s. st_name s = ref) steps \<noteq> []" using assms by (simp add: positions_Nil)
  then show ?thesis using positions_iff by (auto simp: match_step_def Let_def)
qed

lemma name_wins_witness:
  "\<exists>ms. match_step [\<lparr>st_name = ''2'', st_run = None, st_ansible = None, st_galaxy = None\<rparr>,
        \<lparr>st_name = [], st_run = None, st_ansible = None, st_galaxy = None\<rparr>] ''2'' = Inr ms \<and> set ms = {0}"
proof -
  let ?steps = "[\<lparr>st_name = ''2'', st_run = None, st_ansible = None, st_galaxy = None\<rparr>,
        \<lparr>st_name = [], st_run = None, st_ansible = None, st_galaxy = None\<rparr>]"
  have "\<exists>i<length ?steps. st_name (?steps ! i) = ''2''" by (intro exI [of _ 0]) simp
  then have "\<exists>ms. match_step ?steps ''2'' = Inr ms \<and> set ms = {i. i < length ?steps \<and> st_name (?steps ! i) = ''2''}"
    by (rule name_wins)
  moreover have "{i. i < length ?steps \<and> st_name (?steps ! i) = ''2''} = {0}"
    by (auto simp: less_Suc_eq nth_Cons')
  ultimately show ?thesis by simp
qed





end
