(* ===== verification/Volumes.thy ===== *)
theory Volumes
  imports Restart Provision
begin

text \<open>
  The state of the command line's application object and the parts of it that deal with host-side
  values and storage: \<open>AppOptions\<close> and \<open>App\<close> of \<open>internal/cli/app.go\<close>, the secrets of
  \<open>internal/cli/secrets.go\<close>, and \<open>internal/cli/volumes.go\<close>, which creates and deletes volumes and
  keeps the record saying which are idev's own.
\<close>

record ('d, 'h) app =
  ap_cfg :: config
  ap_client :: "'d client"
  ap_host :: "'h host"
  ap_in :: "string option"
  ap_interactive :: bool
  ap_term :: string
  ap_instance :: string
  ap_instance_err :: "err option"
  ap_incus_project :: string
  ap_check_idmap :: "int \<Rightarrow> int \<Rightarrow> err option"
  ap_uid :: int
  ap_gid :: int
  ap_lookup_env :: "string \<Rightarrow> string option"

definition ap_exec :: "('d, 'h) app \<Rightarrow> ('d, 'h) executor" where
  "ap_exec a = \<lparr>ex_client = ap_client a, ex_host = ap_host a\<rparr>"

abbreviation call :: "('d, err, 'a) op \<Rightarrow> ('d, 'h, 'a) run" where
  "call \<equiv> on_daemon"


section \<open>Secrets\<close>

definition expand_home :: "'h host \<Rightarrow> string \<Rightarrow> ('d, 'h, string) run" where
  "expand_home h p =
     (if p \<noteq> ''~'' \<and> \<not> has_prefix p ''~/'' then ret p
      else bindE (on_host (ho_home h))
        (\<lambda>home. ret (path_join home (trim_prefix (trim_prefix p ''~'') ''/''))))"

definition read_secret :: "('d, 'h) app \<Rightarrow> secret \<Rightarrow> ('d, 'h, string) run" where
  "read_secret a s =
     (if se_env s \<noteq> [] then
        (case ap_lookup_env a (se_env s) of
           None \<Rightarrow> fail (Errorf ''not set'' [])
         | Some v \<Rightarrow> ret v)
      else bindE (expand_home (ap_host a) (se_file s)) (\<lambda>p.
           bindE (on_host (ho_read (ap_host a) (resolve_path (ap_cfg a) p)))
             (\<lambda>data. ret (trim_space data))))"

definition read_one_secret ::
  "('d, 'h) app \<Rightarrow> string \<Rightarrow> string gomap \<times> string list \<Rightarrow> ('d, 'h, string gomap \<times> string list) run" where
  "read_one_secret a name acc =
     (case fmlookup (cf_secrets (ap_cfg a)) name of
        None \<Rightarrow> ret acc
      | Some s \<Rightarrow>
          bindE (attempt (read_secret a s)) (\<lambda>r.
            ret (case r of
                Inr v \<Rightarrow> (fmupd name v (fst acc), snd acc)
              | Inl e \<Rightarrow>
                  if se_optional s then acc
                  else (fst acc, snd acc @ [name @ '' ('' @ secret_source s @ ''): '' @ err_text e]))))"

definition resolve_secrets :: "('d, 'h) app \<Rightarrow> ('d, 'h, string gomap) run" where
  "resolve_secrets a =
     bindE (fold_op (read_one_secret a) (sorted_keys (cf_secrets (ap_cfg a))) (fmempty, []))
       (\<lambda>(out, missing).
         if missing \<noteq> [] then
           fail (Errorf (''cannot resolve secret(s):'' @ CHR 0x0A # ''  %s'')
             [S (join (CHR 0x0A # ''  '') missing)])
         else ret out)"


section \<open>What is said about volumes\<close>

definition quoted :: "string \<Rightarrow> string" where
  "quoted s = CHR 0x27 # s @ [CHR 0x27]"

definition volume_delete_hint :: "string list \<Rightarrow> string" where
  "volume_delete_hint volumes =
     (case split_volume (hd volumes) of
        (pool, name, ok) \<Rightarrow>
          if \<not> ok then quoted ''incus storage volume delete <pool> <volume>''
          else quoted (''incus storage volume delete '' @ pool @ '' '' @ name)
               @ (if 1 < length volumes then '', and so on'' else []))"

definition named_volumes :: "string list \<Rightarrow> string list" where
  "named_volumes refs = filter (\<lambda>r. snd (snd (split_volume r))) refs"

definition remaining_volumes :: "err \<Rightarrow> string list \<Rightarrow> err" where
  "remaining_volumes e refs =
     (let named = named_volumes refs
      in if named = [] then e
         else Errorf (''%w'' @ CHR 0x0A # ''the instance is gone, and with it the record naming ''
               @ ''these volume(s), which were not deleted: %s'' @ CHR 0x0A # ''remove them with %s'')
             [W e, S (join '', '' named), S (volume_delete_hint named)])"

definition volumes_untouched :: "err \<Rightarrow> string list \<Rightarrow> err" where
  "volumes_untouched e refs =
     (let named = named_volumes refs
      in if named = [] then e
         else Errorf (''%w'' @ CHR 0x0A # ''no volume was deleted: %s'' @ CHR 0x0A #
               ''run 'idev destroy --volumes' again; if the instance is already gone, ''
               @ ''remove them with %s'')
             [W e, S (join '', '' named), S (volume_delete_hint named)])"

definition volumes_left_unnameable :: "err \<Rightarrow> string \<Rightarrow> string list \<Rightarrow> err" where
  "volumes_left_unnameable e inst refs =
     (let named = named_volumes refs
      in if named = [] then e
         else Errorf (''%w'' @ CHR 0x0A # ''if the instance did go, nothing names these again: %s''
               @ CHR 0x0A # ''check with 'incus list %s', then remove them with %s'')
             [W e, S (join '', '' named), S inst, S (volume_delete_hint named)])"


section \<open>Creating and deleting\<close>

definition ensure_volume :: "('d, 'h) app \<Rightarrow> string \<times> volume \<Rightarrow> ('d, 'h, unit) run" where
  "ensure_volume a kv =
     (case kv of (key, vol) \<Rightarrow>
        let pool = pool_or_default vol; name = volume_name (ap_instance a) key
        in bindE (call (cl_volume_exists (ap_client a) pool name)) (\<lambda>exists.
             if exists then log_info (''Using existing volume '' @ name @ '' on pool '' @ pool)
             else thenE (log_info (''Creating volume '' @ name @ '' on pool '' @ pool))
               (call (cl_create_volume (ap_client a) pool name
                  (if vo_size vol \<noteq> [] then fmupd ''size'' (vo_size vol) fmempty else fmempty)))))"

definition ensure_volumes :: "('d, 'h) app \<Rightarrow> ('d, 'h, unit) run" where
  "ensure_volumes a = for_each (entries (cf_volumes (ap_cfg a))) (ensure_volume a)"

fun delete_volumes :: "('d, 'h) app \<Rightarrow> string list \<Rightarrow> ('d, 'h, unit) run" where
  "delete_volumes a [] = ret ()"
| "delete_volumes a (ref # refs) =
     (case split_volume ref of
        (pool, name, ok) \<Rightarrow>
          if \<not> ok then delete_volumes a refs
          else bindE (attempt (call (cl_volume_exists (ap_client a) pool name))) (\<lambda>r.
            case r of
              Inl e \<Rightarrow>
                if errors_is e ErrPoolNotFound
                then thenE (log_debug (''skipping '' @ ref @ '': '' @ err_text e)) (delete_volumes a refs)
                else fail (remaining_volumes e (ref # refs))
            | Inr exists \<Rightarrow>
                if \<not> exists then delete_volumes a refs
                else thenE (log_info (''Deleting volume '' @ name))
                  (thenE (on_error (call (cl_delete_volume (ap_client a) pool name))
                            (\<lambda>e. fail (remaining_volumes e (ref # refs))))
                    (delete_volumes a refs))))"


section \<open>The record\<close>

text \<open>The carried record folded into the instance a rebuild found.\<close>

definition adopt_carried :: "('d, 'h) app \<Rightarrow> incus_instance \<Rightarrow> ('d, 'h, incus_instance) run" where
  "adopt_carried a i =
     bindE get_state (\<lambda>s.
       if se_carried s = [] then ret i
       else ret (i\<lparr>ii_config := fmupd managed_volumes_key
              (join_list (sort (append_new (known_volumes (ii_config i) (ap_cfg a) (ap_instance a))
                 (se_carried s)))) (ii_config i)\<rparr>))"

definition record_lost_with :: "('d, 'h) app \<Rightarrow> err \<Rightarrow> ('d, 'h, 'a) run" where
  "record_lost_with a e =
     bindE get_state (\<lambda>s.
       let named = named_volumes (undeclared_volumes (ap_cfg a) (ap_instance a) (se_carried s))
       in if named = [] then fail e
          else fail (Errorf (''%w'' @ CHR 0x0A # ''the instance holding the volume record is already gone, ''
                 @ ''so nothing names these again: %s'' @ CHR 0x0A #
                 ''keep them for the next 'idev up' by hand, or remove them with %s'')
               [W e, S (join '', '' named), S (volume_delete_hint named)]))"

text \<open>Whether an entry of the record is kept.\<close>

definition keep_ref :: "('d, 'h) app \<Rightarrow> string \<Rightarrow> ('d, 'h, bool) run" where
  "keep_ref a ref =
     (case split_volume ref of
        (pool, name, ok) \<Rightarrow>
          if \<not> ok then ret False
          else if List.member (declared_volumes (ap_cfg a) (ap_instance a)) ref then ret True
          else bindE (attempt (call (cl_volume_exists (ap_client a) pool name))) (\<lambda>r.
            case r of
              Inl e \<Rightarrow>
                if errors_is e ErrPoolNotFound
                then thenE (log_debug (''dropping '' @ ref @ '': '' @ err_text e)) (ret False)
                else thenE (log_debug (''could not check '' @ ref @ '': '' @ err_text e)) (ret True)
            | Inr exists \<Rightarrow> ret exists))"

definition keep_refs :: "('d, 'h) app \<Rightarrow> string list \<Rightarrow> ('d, 'h, string list) run" where
  "keep_refs a refs =
     fold_op (\<lambda>ref kept. bindE (keep_ref a ref) (\<lambda>k. ret (if k then kept @ [ref] else kept))) refs []"

definition prune_volume_record :: "('d, 'h) app \<Rightarrow> incus_instance \<Rightarrow> ('d, 'h, incus_instance) run" where
  "prune_volume_record a i =
     (case fmlookup (ii_config i) managed_volumes_key of
        None \<Rightarrow> ret i
      | Some recorded \<Rightarrow>
          bindE (keep_refs a (split_list recorded)) (\<lambda>kept.
            ret (i\<lparr>ii_config := fmupd managed_volumes_key (join_list kept) (ii_config i)\<rparr>)))"

definition pad16 :: string where "pad16 = replicate 16 (CHR '' '')"

definition warn_volumes_dropped :: "('d, 'h) app \<Rightarrow> incus_instance \<Rightarrow> ('d, 'h, unit) run" where
  "warn_volumes_dropped a i =
     (let dropped = undeclared_volumes (ap_cfg a) (ap_instance a)
            (split_list (get_str (ii_config i) managed_volumes_key))
      in when_op (dropped \<noteq> [])
           (log_warn (''volume(s) no longer declared, and their data is kept: '' @ join '', '' dropped
              @ CHR 0x0A # pad16 @ ''declare them again, or remove one with ''
              @ volume_delete_hint dropped)))"

end
