(* ===== verification/App.thy ===== *)
theory App
  imports Volumes Naming
begin

text \<open>
  Models \<open>internal/cli/app.go\<close> and the operations of \<open>internal/cli/restart.go\<close>: the commands \<open>up\<close>,
  \<open>provision\<close>, \<open>destroy\<close>, \<open>rebuild\<close>, \<open>exec\<close> and \<open>shell\<close>, with everything they check, warn about and
  write, in the order the code does it. Each is an operation on a session that ends in a result or
  an error.
\<close>

record ('d, 'h) app_options =
  op_cfg :: config
  op_client :: "'d client"
  op_host :: "'h host"
  op_name_optional :: bool
  op_in :: "string option"
  op_interactive :: bool
  op_term :: string
  op_incus_project :: string
  op_check_idmap :: "int \<Rightarrow> int \<Rightarrow> err option"
  op_uid :: int
  op_gid :: int
  op_branch :: "('h, err, string) op option"
  op_lookup_env :: "string \<Rightarrow> string option"

definition new_app :: "('d, 'h) app_options \<Rightarrow> ('h, err, ('d, 'h) app) op" where
  "new_app o' =
     bindE (attempt (instance_name_for (op_cfg o') (op_branch o'))) (\<lambda>r.
       let app = (\<lambda>name e. \<lparr>ap_cfg = op_cfg o', ap_client = op_client o', ap_host = op_host o',
             ap_in = op_in o', ap_interactive = op_interactive o', ap_term = op_term o',
             ap_instance = name, ap_instance_err = e, ap_incus_project = op_incus_project o',
             ap_check_idmap = op_check_idmap o', ap_uid = op_uid o', ap_gid = op_gid o',
             ap_lookup_env = op_lookup_env o'\<rparr>)
       in case r of
            Inr name \<Rightarrow> ret (app name None)
          | Inl e \<Rightarrow> if op_name_optional o' then ret (app [] (Some e)) else fail e)"


section \<open>Warnings\<close>

datatype checkout_effect = ActsOnMountedTree | RemountsHere | WouldRemountHere | SharedEnvironment

fun effect_text :: "checkout_effect \<Rightarrow> string" where
  "effect_text ActsOnMountedTree = ''the workspace stays mounted from there, so this acts on that tree''"
| "effect_text RemountsHere = ''the workspace is being remounted from this one''"
| "effect_text WouldRemountHere = quoted ''idev up'' @ '' would remount the workspace from this one''"
| "effect_text SharedEnvironment = ''this environment is in use from there''"

definition warn_different_checkout ::
  "('d, 'h) app \<Rightarrow> incus_instance \<Rightarrow> checkout_effect \<Rightarrow> ('d, 'h, unit) run" where
  "warn_different_checkout a i eff =
     (let was = get_str (ii_config i) managed_root_key
      in when_op (was \<noteq> [] \<and> was \<noteq> cf_root (ap_cfg a))
           (log_warn (''this instance was last used from '' @ was @ ''; '' @ effect_text eff @ ''.''
              @ newline @ pad16
              @ ''Set project.scope to path or branch to give each checkout its own instance'')))"

definition warn_image_changed :: "('d, 'h) app \<Rightarrow> incus_instance \<Rightarrow> ('d, 'h, unit) run" where
  "warn_image_changed a i =
     (let was = get_str (ii_config i) managed_image_key; img = in_image (cf_instance (ap_cfg a))
      in when_op (was \<noteq> [] \<and> was \<noteq> img)
           (log_warn (''instance.image is '' @ img @ '' but this instance was created from '' @ was
              @ ''; run '' @ quoted ''idev rebuild'' @ '' to recreate it from the declared image'')))"

definition warn_profiles_changed :: "('d, 'h) app \<Rightarrow> incus_instance \<Rightarrow> ('d, 'h, unit) run" where
  "warn_profiles_changed a i =
     (let want = profile_names (ap_cfg a)
      in when_op (want \<noteq> ii_profiles i)
           (log_warn (''instance.profiles is ['' @ join '', '' want @ ''] but this instance has [''
              @ join '', '' (ii_profiles i) @ '']; ''
              @ ''profiles are set when the instance is created, so run '' @ quoted ''idev rebuild''
              @ '' to change them'')))"

definition warn_changes ::
  "('d, 'h) app \<Rightarrow> incus_instance \<Rightarrow> checkout_effect \<Rightarrow> ('d, 'h, unit) run" where
  "warn_changes a i eff =
     thenE (warn_different_checkout a i eff)
     (thenE (warn_image_changed a i)
     (thenE (warn_profiles_changed a i) (warn_volumes_dropped a i)))"

definition loose_settings :: "('d, 'h) app \<Rightarrow> incus_instance \<Rightarrow> idmap_plan \<Rightarrow> string list" where
  "loose_settings a i plan =
     (let want = desired_config (ap_cfg a) plan (ii_config i) (ap_instance a);
          devs = desired_devices (ap_cfg a) plan (ap_instance a)
      in filter (\<lambda>k. \<not> has_prefix k reserved_config_prefix \<and> \<not> has_prefix k ''volatile.''
             \<and> \<not> has_prefix k ''image.'' \<and> \<not> has_key want k) (sorted_keys (ii_config i))
         @ map (\<lambda>n. n @ '' (device)'') (filter (\<lambda>n. \<not> has_key devs n) (sorted_keys (ii_devices i))))"

definition warn_unrecorded :: "('d, 'h) app \<Rightarrow> incus_instance \<Rightarrow> idmap_plan \<Rightarrow> ('d, 'h, unit) run" where
  "warn_unrecorded a i plan =
     (if has_key (ii_config i) managed_keys_key \<or> has_key (ii_config i) managed_devices_key then ret ()
      else when_op (loose_settings a i plan \<noteq> [])
        (log_warn (''this instance predates idev's record of what it applied, so these are left ''
           @ ''alone and will not be followed: '' @ join '', '' (loose_settings a i plan)
           @ newline @ pad16 @ ''idev cannot tell one an older dev.yml set from one you set ''
           @ ''by hand; remove any you no longer want, or '' @ quoted ''idev rebuild'' @ '' for a clean one'')))"

definition legacy_project_key :: string where "legacy_project_key = ''user.incus-devkit.project''"
definition legacy_root_key :: string where "legacy_root_key = ''user.incus-devkit.root''"

definition warn_if_stranded :: "('d, 'h) app \<Rightarrow> incus_instance \<Rightarrow> ('d, 'h, unit) run" where
  "warn_if_stranded a i =
     (let project = get_str (ii_config i) managed_project_key;
          legacy = get_str (ii_config i) legacy_project_key;
          name = pj_name (cf_project (ap_cfg a));
          root = get_str (ii_config i) managed_root_key;
          root = (if root = [] then get_str (ii_config i) legacy_root_key else root)
      in if ii_name i = ap_instance a then ret ()
         else if project \<noteq> name \<and> legacy \<noteq> name then ret ()
         else if root \<noteq> [] \<and> root \<noteq> cf_root (ap_cfg a) then ret ()
         else if legacy \<noteq> [] then
           log_warn (ii_name i @ '' belongs to this project but was made by an older idev, under the ''
             @ ''markers it used then.'' @ newline @ pad16
             @ ''idev will not adopt it; take anything you need out of it, then ''
             @ quoted (''incus delete '' @ ii_name i))
         else
           log_warn (ii_name i @ '' belongs to this project but idev no longer derives that name, so a new ''
             @ ''instance is being created.'' @ newline @ pad16
             @ ''The old one keeps running; remove it with '' @ quoted (''incus delete '' @ ii_name i)))"

definition warn_stranded_instances :: "('d, 'h) app \<Rightarrow> ('d, 'h, unit) run" where
  "warn_stranded_instances a =
     bindE (attempt (call (cl_list (ap_client a)))) (\<lambda>r.
       case r of
         Inl e \<Rightarrow> log_debug (''could not look for older instances: '' @ err_text e)
       | Inr all \<Rightarrow> for_each all (warn_if_stranded a))"


section \<open>Checks before anything is done\<close>

definition app_idmap_plan :: "('d, 'h) app \<Rightarrow> ('d, 'h, idmap_plan) run" where
  "app_idmap_plan a =
     resolve_idmap (ap_cfg a) (ap_uid a) (ap_gid a) (ap_check_idmap a)
       (Some (call (cl_idmapped_mounts (ap_client a))))"

definition app_env :: "('d, 'h) app \<Rightarrow> ('d, 'h, step_env) run" where
  "app_env a =
     bindE (resolve_secrets a) (\<lambda>secrets.
       ret \<lparr>ev_project_name = pj_name (cf_project (ap_cfg a)), ev_project_root = cf_root (ap_cfg a),
            ev_instance = ap_instance a, ev_workspace = wm_target (workspace_or_default (ap_cfg a)),
            ev_workspace_source = workspace_source_path (ap_cfg a),
            ev_incus_project = ap_incus_project a, ev_secrets = secrets\<rparr>)"

definition check_profiles :: "('d, 'h) app \<Rightarrow> ('d, 'h, unit) run" where
  "check_profiles a =
     (let declared = profile_names (ap_cfg a)
      in if declared = [] then ret ()
         else bindE (call (cl_profile_names (ap_client a))) (\<lambda>present.
           let missing = filter (\<lambda>n. \<not> List.member present n) declared
           in if missing = [] then ret ()
              else fail (Errorf (''incus profile(s) not found on this host: %s'' @ newline @
                     ''idev does not create profiles; create them or remove them from instance.profiles'')
                   [S (join '', '' missing)])))"

definition preflight :: "('d, 'h) app \<Rightarrow> ('d, 'h, idmap_plan \<times> step_env) run" where
  "preflight a =
     (case check_volume_names (ap_cfg a) (ap_instance a) of
        Some e \<Rightarrow> fail e
      | None \<Rightarrow>
          bindE (app_idmap_plan a) (\<lambda>plan.
          bindE (app_env a) (\<lambda>env.
          thenE (when_op (ip_warning plan \<noteq> []) (log_warn (ip_warning plan)))
          (thenE (check_profiles a)
          (thenE (check_prerequisites (ap_exec a) (cf_root (ap_cfg a)) (cf_provision (ap_cfg a)))
            (ret (plan, env)))))))"

definition unmanaged_error :: "('d, 'h) app \<Rightarrow> incus_instance \<Rightarrow> err" where
  "unmanaged_error a i =
     (let owner = get_str (ii_config i) managed_project_key; mine = pj_name (cf_project (ap_cfg a))
      in if owner \<noteq> [] then
           Errorf (''instance %s already belongs to project %q'' @ newline @ ''%s; rename one of them'')
             [S (ii_name i), S owner,
              S (if instance_name owner = instance_name mine
                 then quote mine @ '' and '' @ quote owner @ '' differ only in characters the instance ''
                      @ ''name drops, so both ask for '' @ ii_name i
                 else ''two projects cannot share one instance'')]
         else
           Errorf (''instance %s exists but is not managed by idev for project %q'' @ newline @
                   ''refusing to touch it; rename the project or remove the instance manually'')
             [S (ii_name i), S mine])"

definition check_managed ::
  "('d, 'h) app \<Rightarrow> incus_instance \<Rightarrow> checkout_effect \<Rightarrow> ('d, 'h, incus_instance) run" where
  "check_managed a i eff =
     (if \<not> is_managed_by (ii_config i) (pj_name (cf_project (ap_cfg a))) then fail (unmanaged_error a i)
      else thenE (warn_different_checkout a i eff) (ret i))"

definition advise_up :: string where "advise_up = ''run 'idev up' first''"
definition advise_nothing :: string where "advise_nothing = ''nothing was deleted''"

definition managed_instance ::
  "('d, 'h) app \<Rightarrow> checkout_effect \<Rightarrow> string \<Rightarrow> ('d, 'h, incus_instance) run" where
  "managed_instance a eff advice =
     bindE (on_error (call (cl_instance (ap_client a) (ap_instance a))) (\<lambda>e.
         if errors_is e ErrInstanceNotFound
         then fail (Errorf ''instance %s does not exist; %s'' [S (ap_instance a), S advice])
         else fail e))
       (\<lambda>i. check_managed a i eff)"


section \<open>Starting, and running the steps\<close>

definition ensure_running :: "('d, 'h) app \<Rightarrow> incus_instance option \<Rightarrow> ('d, 'h, unit) run" where
  "ensure_running a io =
     bindE (case io of Some i \<Rightarrow> ret i | None \<Rightarrow> call (cl_instance (ap_client a) (ap_instance a)))
       (\<lambda>i. thenE (when_op (\<not> is_running i)
               (thenE (log_info (''Starting instance '' @ ap_instance a))
                 (call (cl_start (ap_client a) (ap_instance a)))))
             (on_error (call (cl_wait_ready (ap_client a) (ap_instance a) wait_zero)) (\<lambda>e.
                if errors_is e ErrNetworkNotReady
                then log_warn (err_text e @ ''; steps that need network access may fail'')
                else fail e)))"

definition run_provisioning :: "('d, 'h) app \<Rightarrow> step_env \<Rightarrow> selection \<Rightarrow> ('d, 'h, unit) run" where
  "run_provisioning a env sel =
     thenE (bootstrap (ap_exec a) (ap_cfg a) env) (provision (ap_exec a) (ap_cfg a) env sel)"


section \<open>Applying the declaration\<close>

definition changed_underfoot :: "('d, 'h) app \<Rightarrow> err \<Rightarrow> err" where
  "changed_underfoot a e =
     (if \<not> errors_is e ErrChanged then e
      else Errorf (''%w'' @ newline @ ''something else changed %s while this run was working on it, ''
             @ ''most likely another idev; run 'idev up' again once it has finished'')
           [W e, S (ap_instance a)])"

definition app_update :: "('d, 'h) app \<Rightarrow> instance_change \<Rightarrow> string \<Rightarrow> ('d, 'h, unit) run" where
  "app_update a ch etag =
     on_error (call (cl_update (ap_client a) (ap_instance a) ch etag))
       (\<lambda>e. fail (changed_underfoot a e))"

definition clear_restart_pending :: "('d, 'h) app \<Rightarrow> string gomap \<Rightarrow> ('d, 'h, unit) run" where
  "clear_restart_pending a prev =
     (if \<not> has_key prev managed_restart_key then ret ()
      else app_update a (empty_change\<lparr>ch_unset_config := [managed_restart_key]\<rparr>) [])"

definition settle_restart ::
  "('d, 'h) app \<Rightarrow> bool \<Rightarrow> go_time \<Rightarrow> string gomap \<Rightarrow> string gomap \<Rightarrow> string list \<Rightarrow> bool
   \<Rightarrow> ('d, 'h, unit) run" where
  "settle_restart a running last_start prev desired unset restart =
     (if \<not> running then clear_restart_pending a prev
      else case restart_owed running prev desired unset last_start of
          (fresh, changed, booted) \<Rightarrow>
            (if changed = [] then clear_restart_pending a prev
             else if \<not> restart then
               thenE (log_warn (restart_warning fresh changed))
                 (let rec = record_restart last_start booted
                  in if get_str prev managed_restart_key = rec then ret ()
                     else app_update a
                       (empty_change\<lparr>ch_set_config := fmupd managed_restart_key rec fmempty\<rparr>) [])
             else
               thenE (log_info (''Restarting instance to apply '' @ join '', '' changed))
               (thenE (call (cl_stop (ap_client a) (ap_instance a)))
               (thenE (call (cl_start (ap_client a) (ap_instance a)))
                 (clear_restart_pending a prev)))))"

definition drop_carried :: "('d, 'h, unit) run" where
  "drop_carried = modify (\<lambda>s. s\<lparr>se_carried := []\<rparr>)"

text \<open>\<open>i\<close> is the instance as the run works on it, \<open>as_read\<close> the configuration the daemon returned.\<close>

definition reapply_instance ::
  "('d, 'h) app \<Rightarrow> incus_instance \<Rightarrow> string gomap \<Rightarrow> idmap_plan \<Rightarrow> bool \<Rightarrow> ('d, 'h, unit) run" where
  "reapply_instance a i as_read plan restart =
     (let ch = reapply_change (ap_cfg a) plan (ap_instance a) (ii_config i) (ii_devices i)
      in thenE (when_op (ch_unset_config ch \<noteq> [])
            (log_info (''Removing config no longer declared: '' @ join '', '' (ch_unset_config ch))))
         (thenE (when_op (ch_remove_devices ch \<noteq> [])
            (log_info (''Removing devices no longer declared: '' @ join '', '' (ch_remove_devices ch))))
         (thenE (if settled as_read (ii_devices i) ch
                 then log_debug ''instance already matches dev.yml; nothing to write''
                 else app_update a ch (ii_etag i))
         (thenE drop_carried
           (settle_restart a (is_running i) (ii_last_used i) as_read (ch_set_config ch)
              (ch_unset_config ch) restart)))))"

definition app_instance_spec :: "('d, 'h) app \<Rightarrow> idmap_plan \<Rightarrow> string list \<Rightarrow> instance_spec" where
  "app_instance_spec a plan carried =
     instance_spec_of (ap_cfg a) (ap_instance a) plan
       (if carried \<noteq> [] then fmupd managed_volumes_key (join_list carried) fmempty else fmempty)"


section \<open>The commands\<close>

definition up_existing ::
  "('d, 'h) app \<Rightarrow> bool \<Rightarrow> idmap_plan \<Rightarrow> incus_instance \<Rightarrow> ('d, 'h, unit) run" where
  "up_existing a restart plan i =
     (if \<not> is_managed_by (ii_config i) (pj_name (cf_project (ap_cfg a))) then fail (unmanaged_error a i)
      else thenE (log_info (''Using existing instance '' @ ap_instance a))
        (bindE (adopt_carried a i) (\<lambda>i1.
         thenE (ensure_volumes a)
        (bindE (prune_volume_record a i1) (\<lambda>i2.
         thenE (warn_unrecorded a i2 plan)
        (thenE (warn_changes a i2 RemountsHere)
           (reapply_instance a i2 (ii_config i) plan restart)))))))"

definition up_new :: "('d, 'h) app \<Rightarrow> idmap_plan \<Rightarrow> ('d, 'h, unit) run" where
  "up_new a plan =
     thenE (warn_stranded_instances a)
     (thenE (log_info (''Creating instance '' @ ap_instance a))
     (thenE (ensure_volumes a)
     (bindE get_state (\<lambda>s.
        thenE (call (cl_create (ap_client a) (app_instance_spec a plan (se_carried s))))
          drop_carried))))"

definition ready_line :: "('d, 'h, unit) run" where
  "ready_line = bindE get_state (\<lambda>s.
     if 0 < warning_count (se_log s)
     then log_info (''Development environment is ready, with '' @ dec (warning_count (se_log s))
            @ '' warning(s) above'')
     else log_info ''Development environment is ready'')"

definition up_with ::
  "('d, 'h) app \<Rightarrow> bool \<Rightarrow> idmap_plan \<Rightarrow> step_env \<Rightarrow> ('d, 'h, unit) run" where
  "up_with a restart plan env =
     thenE (log_info (''Project: '' @ pj_name (cf_project (ap_cfg a))))
     (bindE (attempt (call (cl_instance (ap_client a) (ap_instance a)))) (\<lambda>r.
      thenE (case r of
          Inr i \<Rightarrow> up_existing a restart plan i
        | Inl e \<Rightarrow> if errors_is e ErrInstanceNotFound then up_new a plan else fail e)
      (thenE (log_info (''Mounting workspace '' @ workspace_source_path (ap_cfg a) @ '' -> ''
                @ wm_target (workspace_or_default (ap_cfg a))))
      (thenE (ensure_running a None)
      (thenE (run_provisioning a env select_all) ready_line)))))"

definition up :: "('d, 'h) app \<Rightarrow> bool \<Rightarrow> ('d, 'h, unit) run" where
  "up a restart = bindE (preflight a) (\<lambda>(plan, env). up_with a restart plan env)"

definition app_provision :: "('d, 'h) app \<Rightarrow> selection \<Rightarrow> ('d, 'h, unit) run" where
  "app_provision a sel =
     bindE (lift_result (select_steps (cf_provision (ap_cfg a)) sel)) (\<lambda>selected.
     thenE (check_prerequisites (ap_exec a) (cf_root (ap_cfg a))
              (steps_at (cf_provision (ap_cfg a)) selected))
     (bindE (app_env a) (\<lambda>env.
      bindE (managed_instance a ActsOnMountedTree advise_up) (\<lambda>i.
      thenE (ensure_running a (Some i)) (run_provisioning a env sel)))))"

definition list_steps :: "('d, 'h) app \<Rightarrow> ('d, 'h, unit) run" where
  "list_steps a =
     (if cf_provision (ap_cfg a) = [] then log_info ''No provision steps declared''
      else for_each (enum_from 0 (cf_provision (ap_cfg a))) (\<lambda>(i, s).
        write_out (dec (i + 1) @ CHR 0x09 # display_name s (i + 1) @ CHR 0x09 # ''('' @ step_kind s
          @ '')'' @ newline)))"

definition destroy_instance ::
  "('d, 'h) app \<Rightarrow> bool \<Rightarrow> bool \<Rightarrow> incus_instance option \<Rightarrow> ('d, 'h, unit) run" where
  "destroy_instance a with_volumes carrying io =
     (let eff = (if carrying then RemountsHere else SharedEnvironment)
      in bindE (case io of
             None \<Rightarrow> managed_instance a eff advise_nothing
           | Some i \<Rightarrow> check_managed a i eff) (\<lambda>i.
         let volumes = recorded_volumes i (ap_cfg a) (ap_instance a)
         in thenE (log_info (''Deleting instance '' @ ap_instance a))
            (thenE (on_error (call (cl_delete (ap_client a) (ap_instance a))) (\<lambda>e.
                fail (if with_volumes then volumes_untouched e volumes
                      else if \<not> errors_is e ErrOutcomeUnknown then e
                      else volumes_left_unnameable e (ap_instance a)
                             (undeclared_volumes (ap_cfg a) (ap_instance a) volumes))))
            (thenE (if with_volumes then delete_volumes a volumes
                    else when_op (volumes \<noteq> [])
                      (thenE (log_info (''Kept volume(s) '' @ join '', '' volumes))
                        (let others = undeclared_volumes (ap_cfg a) (ap_instance a) volumes
                         in when_op (\<not> carrying \<and> others \<noteq> [])
                              (log_info (''The next 'idev up' adopts the declared ones again; ''
                                 @ ''remove any other with '' @ volume_delete_hint others)))))
              (log_info ''Instance deleted. Source tree on the host is untouched'')))))"

definition destroy :: "('d, 'h) app \<Rightarrow> bool \<Rightarrow> ('d, 'h, unit) run" where
  "destroy a with_volumes = destroy_instance a with_volumes False None"

definition rebuild :: "('d, 'h) app \<Rightarrow> ('d, 'h, unit) run" where
  "rebuild a =
     bindE (preflight a) (\<lambda>(plan, env).
     thenE (call (cl_check_image (ap_client a) (in_image (cf_instance (ap_cfg a)))))
     (bindE (attempt (call (cl_instance (ap_client a) (ap_instance a)))) (\<lambda>r.
      thenE (case r of
          Inr i \<Rightarrow>
            thenE (modify (\<lambda>s. s\<lparr>se_carried := recorded_volumes i (ap_cfg a) (ap_instance a)\<rparr>))
              (destroy_instance a False True (Some i))
        | Inl e \<Rightarrow> if errors_is e ErrInstanceNotFound then ret () else fail e)
       (on_error (up_with a False plan env) (record_lost_with a)))))"


section \<open>Running a command inside\<close>

record shell_user =
  su_name :: string
  su_uid :: string
  su_gid :: string
  su_home :: string
  su_shell :: string

definition no_user :: shell_user where
  "no_user = \<lparr>su_name = [], su_uid = [], su_gid = [], su_home = [], su_shell = []\<rparr>"

definition user_env :: "shell_user \<Rightarrow> string gomap" where
  "user_env u = fmap_of_list [(''HOME'', su_home u), (''USER'', su_name u),
     (''LOGNAME'', su_name u), (''SHELL'', su_shell u)]"

definition resolve_shell_user :: "('d, 'h) app \<Rightarrow> string \<Rightarrow> ('d, 'h, shell_user) run" where
  "resolve_shell_user a name =
     bindE (attempt (call (cl_exec (ap_client a) (ap_instance a) [''getent'', ''passwd'', name]
         exec_defaults))) (\<lambda>r.
       if (case r of Inl _ \<Rightarrow> True | Inr (code, out) \<Rightarrow> code \<noteq> 0 \<or> trim_space out = []) then
         (if parse_int name \<noteq> None then ret (no_user\<lparr>su_name := name, su_uid := name\<rparr>)
          else case r of
              Inl e \<Rightarrow> fail (Errorf ''look up shell.user %q in %s: %w'' [S name, S (ap_instance a), W e])
            | Inr _ \<Rightarrow> fail (Errorf (''shell.user %q does not exist in %s; ''
                @ ''create it during provisioning, or give a uid'') [S name, S (ap_instance a)]))
       else case r of
           Inl e \<Rightarrow> fail e
         | Inr (code, out) \<Rightarrow>
             (let fs = split_on (CHR '':'') (trim_space out)
              in if length fs < 7 then
                   fail (Errorf ''look up shell.user %q in %s: getent returned %q''
                     [S name, S (ap_instance a), S out])
                 else ret \<lparr>su_name = fs ! 0, su_uid = fs ! 2, su_gid = fs ! 3, su_home = fs ! 5,
                           su_shell = fs ! 6\<rparr>))"

definition exec_in_container ::
  "('d, 'h) app \<Rightarrow> string list \<Rightarrow> bool \<Rightarrow> string \<Rightarrow> ('d, 'h, unit) run" where
  "exec_in_container a argv tty user =
     bindE (managed_instance a ActsOnMountedTree advise_up) (\<lambda>i.
     thenE (ensure_running a (Some i))
     (let sh = shell_or_default (ap_cfg a);
          sh_u = (if user \<noteq> [] then user else sh_user sh);
          argv = (if argv = [] then [sh_command sh] else argv)
      in bindE (if sh_u \<noteq> [] then resolve_shell_user a sh_u else ret no_user) (\<lambda>who.
         bindE (attempt (call (cl_exec (ap_client a) (ap_instance a) argv
             \<lparr>eo_env = fmempty, eo_public_env = user_env who, eo_cwd = sh_cwd sh,
              eo_user = su_uid who, eo_group = su_gid who, eo_tty = tty, eo_term = ap_term a,
              eo_stdin = ap_in a\<rparr>))) (\<lambda>r.
           case r of
             Inl e \<Rightarrow> (case exit_errors e of
                 n # _ \<Rightarrow> fail (ExitCodeError n)
               | [] \<Rightarrow> fail e)
           | Inr (code, out) \<Rightarrow>
               thenE (write_out out) (if code \<noteq> 0 then fail (ExitCodeError code) else ret ())))))"

definition app_shell :: "('d, 'h) app \<Rightarrow> string list \<Rightarrow> string \<Rightarrow> ('d, 'h, unit) run" where
  "app_shell a argv user = exec_in_container a argv (ap_interactive a) user"

definition app_exec :: "('d, 'h) app \<Rightarrow> string list \<Rightarrow> string \<Rightarrow> ('d, 'h, unit) run" where
  "app_exec a argv user = exec_in_container a argv False user"


section \<open>Questions\<close>

fun any_exists :: "('d, 'h) app \<Rightarrow> string list \<Rightarrow> ('d, 'h, bool) run" where
  "any_exists a [] = ret False"
| "any_exists a (ref # refs) =
     (case split_volume ref of
        (pool, name, ok) \<Rightarrow>
          if \<not> ok then any_exists a refs
          else bindE (attempt (call (cl_volume_exists (ap_client a) pool name))) (\<lambda>r.
            if r = Inr True then ret True else any_exists a refs))"

definition has_volumes :: "('d, 'h) app \<Rightarrow> ('d, 'h, bool) run" where
  "has_volumes a =
     bindE (attempt (call (cl_instance (ap_client a) (ap_instance a)))) (\<lambda>r.
       case r of
         Inl _ \<Rightarrow> ret False
       | Inr i \<Rightarrow> any_exists a (recorded_volumes i (ap_cfg a) (ap_instance a)))"

definition validate_command :: "('d, 'h) app \<Rightarrow> ('d, 'h, unit) run" where
  "validate_command a =
     (case (if ap_instance_err a = None then check_volume_names (ap_cfg a) (ap_instance a) else None) of
        Some e \<Rightarrow> fail e
      | None \<Rightarrow> write_out (''configuration is valid'' @ newline @
          ''Project:    '' @ pj_name (cf_project (ap_cfg a)) @ newline @
          ''Instance:   '' @ (case ap_instance_err a of
              None \<Rightarrow> ap_instance a
            | Some e \<Rightarrow> ''(not derived: '' @ err_text e @ '')'') @ newline @
          ''Provision:  '' @ dec (length (cf_provision (ap_cfg a))) @ '' step(s)'' @ newline))"

end
