(* ===== verification/App_Frame.thy ===== *)
theory App_Frame
  imports App
begin

text \<open>
  What the commands of the theory \<open>App\<close> leave alone, proved for every client with the laws of the
  locale \<open>daemon\<close> and stated for the in-memory client of \<open>incustest\<close>, whatever faults are injected:
  no command touches another instance, and none but \<open>destroy --volumes\<close> deletes a volume, which
  deletes recorded ones only.
\<close>

text \<open>The other instances are as \<open>v\<close> says and the volumes in \<open>vs\<close> are still there.\<close>

definition framed ::
  "('w \<Rightarrow> string \<Rightarrow> incus_instance option) \<Rightarrow> ('w \<Rightarrow> string set) \<Rightarrow> string
   \<Rightarrow> (string \<Rightarrow> incus_instance option) \<Rightarrow> string set \<Rightarrow> 'w \<Rightarrow> bool" where
  "framed iv vv n v vs w \<longleftrightarrow> (\<forall>k. k \<noteq> n \<longrightarrow> iv w k = v k) \<and> vs \<subseteq> vv w"

lemma keeps_case_list [keeps_intros]:
  "(xs = [] \<Longrightarrow> keeps I m) \<Longrightarrow> (\<And>y ys. xs = y # ys \<Longrightarrow> keeps I (f y ys)) \<Longrightarrow>
   keeps I (case xs of [] \<Rightarrow> m | y # ys \<Rightarrow> f y ys)"
  by (cases xs) simp_all

lemma keeps_drop_carried [keeps_intros]: "keeps (on_d I) drop_carried"
  by (simp add: keeps_def drop_carried_def modify_def)

text \<open>Operations built from reads of the daemon and from the host alone.\<close>

lemma keeps_secrets [keeps_intros]: "keeps (on_d I) (resolve_secrets a)"
  unfolding resolve_secrets_def read_one_secret_def read_secret_def expand_home_def
  by (intro keeps_intros)

lemma keeps_app_env [keeps_intros]: "keeps (on_d I) (app_env a)"
  unfolding app_env_def by (intro keeps_intros)

lemma keeps_warn [keeps_intros]:
  "keeps (on_d I) (warn_different_checkout a i eff)" "keeps (on_d I) (warn_image_changed a i)"
  "keeps (on_d I) (warn_profiles_changed a i)" "keeps (on_d I) (warn_volumes_dropped a i)"
  "keeps (on_d I) (warn_unrecorded a i plan)" "keeps (on_d I) (warn_if_stranded a i)"
  unfolding warn_different_checkout_def warn_image_changed_def warn_profiles_changed_def
    warn_volumes_dropped_def warn_unrecorded_def warn_if_stranded_def Let_def
  by (intro keeps_intros)+

lemma keeps_warn_changes [keeps_intros]: "keeps (on_d I) (warn_changes a i eff)"
  unfolding warn_changes_def by (intro keeps_intros)

lemma keeps_check_managed [keeps_intros]: "keeps (on_d I) (check_managed a i eff)"
  unfolding check_managed_def by (intro keeps_intros)

lemma keeps_adopt [keeps_intros]: "keeps (on_d I) (adopt_carried a i)"
  unfolding adopt_carried_def by (intro keeps_intros)

lemma keeps_lost [keeps_intros]: "keeps (on_d I) (record_lost_with a e)"
  unfolding record_lost_with_def Let_def by (intro keeps_intros)

lemma keeps_ready_line [keeps_intros]: "keeps (on_d I) ready_line"
  unfolding ready_line_def by (intro keeps_intros)

lemma keeps_set_carried [keeps_intros]: "keeps (on_d I) (modify (\<lambda>s. s\<lparr>se_carried := x\<rparr>))"
  by (simp add: keeps_def modify_def)


section \<open>What a client's reads keep\<close>

text \<open>A predicate of the daemon that no read of the client changes.\<close>

definition kept_by_reads :: "('w \<Rightarrow> bool) \<Rightarrow> 'w client \<Rightarrow> bool" where
  "kept_by_reads I c \<longleftrightarrow>
     (\<forall>n. keeps I (cl_instance c n)) \<and> keeps I (cl_list c) \<and> keeps I (cl_idmapped_mounts c)
     \<and> keeps I (cl_profile_names c) \<and> (\<forall>r. keeps I (cl_check_image c r))
     \<and> (\<forall>p v. keeps I (cl_volume_exists c p v)) \<and> (\<forall>n argv opt. keeps I (cl_exec c n argv opt))
     \<and> (\<forall>n wo. keeps I (cl_wait_ready c n wo))"

lemma reads_calls:
  assumes "kept_by_reads I c" "ap_client a = c"
  shows "keeps (on_d I) (call (cl_instance (ap_client a) n))"
    "keeps (on_d I) (call (cl_list (ap_client a)))"
    "keeps (on_d I) (call (cl_idmapped_mounts (ap_client a)))"
    "keeps (on_d I) (call (cl_profile_names (ap_client a)))"
    "keeps (on_d I) (call (cl_check_image (ap_client a) r))"
    "keeps (on_d I) (call (cl_volume_exists (ap_client a) p v))"
    "keeps (on_d I) (call (cl_exec (ap_client a) n argv opt))"
    "keeps (on_d I) (call (cl_wait_ready (ap_client a) n wo))"
  using assms by (auto simp: kept_by_reads_def intro: keeps_on_daemon)

lemma reads_executor:
  assumes "kept_by_reads I c" "ap_client a = c"
  shows "keeps (on_d I) (run_step (ap_exec a) st env)"
    "keeps (on_d I) (check_prerequisites (ap_exec a) root steps)"
  by (rule keeps_run_step; simp add: ap_exec_def keeps_on_host reads_calls [OF assms])+

lemma reads_run_steps:
  assumes "kept_by_reads I c" "ap_client a = c"
  shows "keeps (on_d I) (run_steps (ap_exec a) steps is kind env ours)"
  unfolding run_steps_def Let_def by (intro keeps_intros reads_executor [OF assms])

lemma reads_plan:
  assumes "kept_by_reads I c" "ap_client a = c"
  shows "keeps (on_d I) (app_idmap_plan a)"
  unfolding app_idmap_plan_def resolve_idmap_def require_idmapped_mounts_def Let_def
  by (intro keeps_intros reads_calls [OF assms]) (auto intro: reads_calls [OF assms])

lemma reads_checks:
  assumes "kept_by_reads I c" "ap_client a = c"
  shows "keeps (on_d I) (check_profiles a)" "keeps (on_d I) (managed_instance a eff advice)"
    "keeps (on_d I) (warn_stranded_instances a)"
  unfolding check_profiles_def managed_instance_def warn_stranded_instances_def Let_def
  by (intro keeps_intros reads_calls [OF assms])+

lemma reads_provisioning:
  assumes "kept_by_reads I c" "ap_client a = c"
  shows "keeps (on_d I) (run_provisioning a env sel)"
  unfolding run_provisioning_def bootstrap_def provision_def Let_def
  by (intro keeps_intros reads_run_steps [OF assms])

lemma reads_prune:
  assumes "kept_by_reads I c" "ap_client a = c"
  shows "keeps (on_d I) (keep_ref a r)" "keeps (on_d I) (prune_volume_record a i)"
proof -
  show k: "keeps (on_d I) (keep_ref a r)" for r
    unfolding keep_ref_def by (intro keeps_intros reads_calls [OF assms])
  show "keeps (on_d I) (prune_volume_record a i)"
    unfolding prune_volume_record_def keep_refs_def by (intro keeps_intros k)
qed

lemma reads_shell_user:
  assumes "kept_by_reads I c" "ap_client a = c"
  shows "keeps (on_d I) (resolve_shell_user a u)"
  unfolding resolve_shell_user_def Let_def
  by (intro keeps_intros reads_calls [OF assms])

lemmas reads_parts = reads_plan reads_checks reads_provisioning reads_prune reads_shell_user

lemma reads_preflight:
  assumes "kept_by_reads I c" "ap_client a = c"
  shows "keeps (on_d I) (preflight a)"
  unfolding preflight_def by (intro keeps_intros reads_parts [OF assms] reads_executor [OF assms])


section \<open>What a client's writes to one instance keep\<close>

definition kept_by_writes :: "('w \<Rightarrow> bool) \<Rightarrow> string \<Rightarrow> 'w client \<Rightarrow> bool" where
  "kept_by_writes I n c \<longleftrightarrow>
     keeps I (cl_start c n) \<and> keeps I (cl_stop c n) \<and> keeps I (cl_delete c n)
     \<and> (\<forall>s. is_name s = n \<longrightarrow> keeps I (cl_create c s)) \<and> (\<forall>ch et. keeps I (cl_update c n ch et))
     \<and> (\<forall>p v cfg. keeps I (cl_create_volume c p v cfg))"

lemma name_of_spec [simp]: "is_name (app_instance_spec a plan carried) = ap_instance a"
  by (simp add: app_instance_spec_def instance_spec_of_def)

lemma writes_calls:
  assumes "kept_by_writes I n c" "ap_client a = c" "ap_instance a = n"
  shows "keeps (on_d I) (call (cl_start (ap_client a) (ap_instance a)))"
    "keeps (on_d I) (call (cl_stop (ap_client a) (ap_instance a)))"
    "keeps (on_d I) (call (cl_delete (ap_client a) (ap_instance a)))"
    "keeps (on_d I) (call (cl_create (ap_client a) (app_instance_spec a plan carried)))"
    "keeps (on_d I) (call (cl_update (ap_client a) (ap_instance a) ch et))"
    "keeps (on_d I) (call (cl_create_volume (ap_client a) p v cfg))"
  using assms by (auto simp: kept_by_writes_def intro: keeps_on_daemon)

text \<open>
  The contract between a predicate of the daemon and the commands: kept by what the client reads,
  and by what it writes to the instance \<open>n\<close>. Every command but \<open>destroy --volumes\<close> then keeps it.
\<close>

locale kept_by_client =
  fixes I :: "'w \<Rightarrow> bool" and c :: "'w client" and n :: string
  assumes reads: "kept_by_reads I c" and writes: "kept_by_writes I n c"
begin

lemma keeps_ensure_volumes:
  assumes "ap_client a = c" "ap_instance a = n"
  shows "keeps (on_d I) (ensure_volumes a)"
  unfolding ensure_volumes_def ensure_volume_def Let_def
  by (intro keeps_intros reads_calls [OF reads assms(1)] writes_calls [OF writes assms])

lemma keeps_update:
  assumes "ap_client a = c" "ap_instance a = n"
  shows "keeps (on_d I) (app_update a ch et)"
  unfolding app_update_def by (intro keeps_intros writes_calls [OF writes assms])

lemma keeps_settle_restart:
  assumes "ap_client a = c" "ap_instance a = n"
  shows "keeps (on_d I) (settle_restart a running t prev desired unset restart)"
  unfolding settle_restart_def clear_restart_pending_def Let_def
  by (intro keeps_intros writes_calls [OF writes assms] keeps_update [OF assms])

lemma keeps_reapply:
  assumes "ap_client a = c" "ap_instance a = n"
  shows "keeps (on_d I) (reapply_instance a i as_read plan restart)"
  unfolding reapply_instance_def Let_def
  by (intro keeps_intros keeps_update [OF assms] keeps_settle_restart [OF assms])

lemma keeps_ensure_running:
  assumes "ap_client a = c" "ap_instance a = n"
  shows "keeps (on_d I) (ensure_running a io)"
  unfolding ensure_running_def
  by (intro keeps_intros reads_calls [OF reads assms(1)] writes_calls [OF writes assms])

lemma keeps_up_existing:
  assumes "ap_client a = c" "ap_instance a = n"
  shows "keeps (on_d I) (up_existing a restart plan i)"
  unfolding up_existing_def
  by (intro keeps_intros reads_parts [OF reads assms(1)] keeps_ensure_volumes [OF assms] keeps_reapply [OF assms])

lemma keeps_up_new:
  assumes "ap_client a = c" "ap_instance a = n"
  shows "keeps (on_d I) (up_new a plan)"
  unfolding up_new_def
  by (intro keeps_intros reads_parts [OF reads assms(1)] writes_calls [OF writes assms]
      keeps_ensure_volumes [OF assms])

lemma keeps_up_with:
  assumes "ap_client a = c" "ap_instance a = n"
  shows "keeps (on_d I) (up_with a restart plan env)"
  unfolding up_with_def
  by (intro keeps_intros reads_calls [OF reads assms(1)] reads_parts [OF reads assms(1)]
      keeps_up_existing [OF assms] keeps_up_new [OF assms] keeps_ensure_running [OF assms])

lemma keeps_up:
  assumes "ap_client a = c" "ap_instance a = n"
  shows "keeps (on_d I) (up a restart)"
  unfolding up_def by (intro keeps_intros reads_preflight [OF reads assms(1)] keeps_up_with [OF assms])

lemma keeps_app_provision:
  assumes "ap_client a = c" "ap_instance a = n"
  shows "keeps (on_d I) (app_provision a sel)"
  unfolding app_provision_def
  by (intro keeps_intros reads_parts [OF reads assms(1)] reads_executor [OF reads assms(1)]
      keeps_ensure_running [OF assms])

lemma keeps_destroy_instance:
  assumes "ap_client a = c" "ap_instance a = n"
    and "with_volumes \<Longrightarrow> \<forall>refs. keeps (on_d I) (delete_volumes a refs)"
  shows "keeps (on_d I) (destroy_instance a with_volumes carrying io)"
  unfolding destroy_instance_def Let_def
  by (intro keeps_intros reads_parts [OF reads assms(1)] writes_calls [OF writes assms(1,2)])
    (use assms(3) in blast)

lemma keeps_rebuild:
  assumes "ap_client a = c" "ap_instance a = n"
  shows "keeps (on_d I) (rebuild a)"
  unfolding rebuild_def
  by (intro keeps_intros reads_calls [OF reads assms(1)] reads_preflight [OF reads assms(1)]
      keeps_up_with [OF assms] keeps_destroy_instance [OF assms]) simp

lemma keeps_exec_in_container:
  assumes "ap_client a = c" "ap_instance a = n"
  shows "keeps (on_d I) (exec_in_container a argv tty user)"
  unfolding exec_in_container_def Let_def
  by (intro keeps_intros reads_calls [OF reads assms(1)] reads_parts [OF reads assms(1)]
      keeps_ensure_running [OF assms])

end

text \<open>A daemon keeps the other instances and the volumes through all of it.\<close>

lemma framed_reads: "reads_only iv vv m \<Longrightarrow> keeps (framed iv vv n v vs) m"
  unfolding reads_only_def keeps_def framed_def by metis

lemma framed_only: "only_instance iv vv n m \<Longrightarrow> keeps (framed iv vv n v vs) m"
  unfolding only_instance_def keeps_def framed_def by blast

context daemon begin

lemma kept_by_reads_framed: "kept_by_reads (framed iv vv n v vs) c"
  unfolding kept_by_reads_def
  by (intro conjI allI framed_reads client_reads)

lemma kept_by_writes_framed: "kept_by_writes (framed iv vv n v vs) n c"
  unfolding kept_by_writes_def
proof (intro conjI allI impI)
  show "keeps (framed iv vv n v vs) (cl_create c s)" if "is_name s = n" for s
    using framed_only create_frame that by blast
  show "keeps (framed iv vv n v vs) (cl_create_volume c p w cfg)" for p w cfg
    using create_volume_frame create_volume_adds unfolding keeps_def framed_def by (metis order_trans)
qed (rule framed_only start_frame stop_frame delete_frame update_frame)+

end

sublocale daemon < frame: kept_by_client "framed iv vv n v vs" c n for n v vs
  by unfold_locales (rule kept_by_reads_framed kept_by_writes_framed)+

lemma framed_refl: "framed iv vv n (iv w) (vv w) w"
  by (simp add: framed_def)

lemma framedD:
  assumes "keeps (on_d (framed iv vv n (iv (se_daemon s)) (vv (se_daemon s)))) m"
  shows "k \<noteq> n \<Longrightarrow> iv (se_daemon (snd (m s))) k = iv (se_daemon s) k"
    "vv (se_daemon s) \<subseteq> vv (se_daemon (snd (m s)))"
  using keepsD [OF assms, of s] framed_refl [of iv vv n "se_daemon s"] by (auto simp: framed_def)


section \<open>Deleting volumes\<close>

lemma split_volume_ref:
  assumes "split_volume ref = (pool, name, True)"
  shows "ref_of pool name = ref" "CHR ''/'' \<notin> set pool"
proof -
  obtain b t f where cut: "cut_at (CHR ''/'') ref = (b, t, f)" by (cases "cut_at (CHR ''/'') ref")
  then show "ref_of pool name = ref" "CHR ''/'' \<notin> set pool"
    using assms cut_at_found by (auto simp: split_volume_def ref_of_def)
qed

context daemon begin

lemma call_volume_exists_keeps:
  assumes "ap_client a = c"
  shows "keeps (on_d (framed iv vv n v vs)) (call (cl_volume_exists (ap_client a) p w))"
  unfolding assms by (intro keeps_on_daemon framed_reads volume_exists_reads)

lemma call_delete_volume_keeps:
  assumes "ap_client a = c" "ref_of p w \<notin> vs"
  shows "keeps (on_d (framed iv vv n v vs)) (call (cl_delete_volume (ap_client a) p w))"
proof -
  have "keeps (framed iv vv n v vs) (cl_delete_volume c p w)"
  proof (rule keepsI)
    fix d
    assume f: "framed iv vv n v vs d"
    then have "vs \<subseteq> vv d - {ref_of p w}" using assms(2) by (auto simp: framed_def)
    also have "\<dots> \<subseteq> vv (snd (cl_delete_volume c p w d))" using delete_volume_removes by blast
    finally show "framed iv vv n v vs (snd (cl_delete_volume c p w d))"
      using f by (simp add: framed_def delete_volume_frame)
  qed
  then show ?thesis unfolding assms(1) by (rule keeps_on_daemon)
qed

lemma delete_volumes_keeps:
  assumes "ap_client a = c" "set refs \<inter> vs = {}"
  shows "keeps (on_d (framed iv vv n v vs)) (delete_volumes a refs)"
  using assms(2)
proof (induction refs)
  case Nil
  then show ?case by (simp add: keeps_ret)
next
  case (Cons ref refs)
  then have IH: "keeps (on_d (framed iv vv n v vs)) (delete_volumes a refs)" and ref: "ref \<notin> vs" by auto
  obtain pool name ok where sv: "split_volume ref = (pool, name, ok)" by (cases "split_volume ref")
  show ?case
  proof (cases ok)
    case True
    then have "ref_of pool name \<notin> vs" using split_volume_ref sv ref by simp
    then show ?thesis
      unfolding delete_volumes.simps sv prod.case
      by (intro keeps_intros IH call_volume_exists_keeps [OF assms(1)] call_delete_volume_keeps [OF assms(1)])
  qed (simp add: sv IH)
qed

lemma managed_instance_ok:
  assumes "ap_client a = c" "managed_instance a eff advice s = (Inr i, s')"
  shows "iv (se_daemon s) (ap_instance a) = Some i" "is_managed_by (ii_config i) (pj_name (cf_project (ap_cfg a)))"
    "iv (se_daemon s') = iv (se_daemon s)" "vv (se_daemon s') = vv (se_daemon s)"
proof -
  have "\<exists>d. cl_instance c (ap_instance a) (se_daemon s) = (Inr i, d)
      \<and> is_managed_by (ii_config i) (pj_name (cf_project (ap_cfg a))) \<and> se_daemon s' = d"
    using assms
    by (cases "cl_instance c (ap_instance a) (se_daemon s)")
      (auto simp: managed_instance_def check_managed_def warn_different_checkout_def Let_def
        run_bindE run_on_error run_fail run_thenE run_when run_log run_ret run_on_daemon
        split: sum.splits if_splits)
  then obtain d where d: "cl_instance c (ap_instance a) (se_daemon s) = (Inr i, d)" "se_daemon s' = d"
    and m: "is_managed_by (ii_config i) (pj_name (cf_project (ap_cfg a)))" by blast
  show "is_managed_by (ii_config i) (pj_name (cf_project (ap_cfg a)))" by (rule m)
  show "iv (se_daemon s) (ap_instance a) = Some i" using d(1) by (rule instance_ok)
  show "iv (se_daemon s') = iv (se_daemon s)" "vv (se_daemon s') = vv (se_daemon s)"
    using d read_view [OF instance_reads, of "ap_instance a" "se_daemon s"] by simp_all
qed

lemma destroy_recorded_only:
  assumes "ap_client a = c" "destroy a True s = (r, s')"
  shows "(\<forall>k. k \<noteq> ap_instance a \<longrightarrow> iv (se_daemon s') k = iv (se_daemon s) k)
    \<and> (\<forall>ref\<in>vv (se_daemon s) - vv (se_daemon s').
         \<exists>i. iv (se_daemon s) (ap_instance a) = Some i \<and> ref \<in> set (recorded_volumes i (ap_cfg a) (ap_instance a)))"
proof -
  let ?n = "ap_instance a"
  obtain q s1 where m: "managed_instance a SharedEnvironment advise_nothing s = (q, s1)"
    by (cases "managed_instance a SharedEnvironment advise_nothing s")
  have fr: "keeps (on_d (framed iv vv ?n (iv (se_daemon s)) (vv (se_daemon s))))
      (managed_instance a SharedEnvironment advise_nothing)"
    by (rule reads_parts [OF kept_by_reads_framed assms(1)])
  show ?thesis
  proof (cases q)
    case (Inl e)
    then have "s' = s1" using assms(2) m by (simp add: destroy_def destroy_instance_def Let_def run_bindE)
    then show ?thesis using framedD [OF fr] m by auto
  next
    case (Inr i)
    note i = managed_instance_ok [OF assms(1) m [unfolded Inr]]
    let ?vs = "vv (se_daemon s) - set (recorded_volumes i (ap_cfg a) ?n)"
    have "keeps (on_d (framed iv vv ?n (iv (se_daemon s)) ?vs))
      (thenE (log_info (''Deleting instance '' @ ?n))
        (thenE (on_error (call (cl_delete (ap_client a) ?n))
            (\<lambda>e. fail (volumes_untouched e (recorded_volumes i (ap_cfg a) ?n))))
        (thenE (delete_volumes a (recorded_volumes i (ap_cfg a) ?n))
          (log_info ''Instance deleted. Source tree on the host is untouched''))))"
      by (intro keeps_intros writes_calls [OF kept_by_writes_framed assms(1) refl] delete_volumes_keeps [OF assms(1)]) blast
    moreover have "framed iv vv ?n (iv (se_daemon s)) ?vs (se_daemon s1)"
      using i by (auto simp: framed_def)
    ultimately have "framed iv vv ?n (iv (se_daemon s)) ?vs (se_daemon s')"
      using assms(2) m Inr
      by (auto simp: destroy_def destroy_instance_def Let_def run_bindE dest!: keepsD [of _ _ s1])
    then show ?thesis using i(1) by (auto simp: framed_def)
  qed
qed

end


section \<open>A concrete run\<close>

text \<open>A project, its instance with a recorded volume, and another project's instance beside it.\<close>

definition sample_app :: "(fake, unit) app" where
  "sample_app = \<lparr>ap_cfg = sample_config, ap_client = fake_client, ap_host = ok_host, ap_in = None,
     ap_interactive = False, ap_term = ''xterm'', ap_instance = ''dev-web'', ap_instance_err = None,
     ap_incus_project = ''default'', ap_check_idmap = (\<lambda>u g. None), ap_uid = 1000, ap_gid = 1000,
     ap_lookup_env = (\<lambda>k. None)\<rparr>"

definition sample_instance :: "string \<Rightarrow> string gomap \<Rightarrow> incus_instance" where
  "sample_instance n cfg = \<lparr>ii_name = n, ii_status = ''Running'', ii_last_used = zero_time,
     ii_profiles = [''default''], ii_config = cfg, ii_devices = fmempty, ii_expanded = fmempty,
     ii_network = None, ii_etag = []\<rparr>"

definition sample_daemon :: fake where
  "sample_daemon = new_fake\<lparr>fk_instances := fmap_of_list
       [(''dev-web'', sample_instance ''dev-web'' (fmap_of_list
           [(managed_project_key, ''web''), (managed_volumes_key, ''default/dev-web-old'')])),
        (''dev-db'', sample_instance ''dev-db'' fmempty)],
     fk_volumes := fmap_of_list [(''default/dev-web-old'', True), (''default/other'', True)]\<rparr>"

abbreviation sample_session :: "(fake, unit) session" where
  "sample_session \<equiv> new_session sample_daemon ()"

lemma sample_app_sel [simp]:
  "ap_client sample_app = fake_client" "ap_instance sample_app = ''dev-web''" "ap_cfg sample_app = sample_config"
  "ap_host sample_app = ok_host"
  by (simp_all add: sample_app_def)


section \<open>Properties\<close>

text \<open>C10: a command touches its own instance only. Whatever happens in a run of \<open>up\<close>, \<open>provision\<close>,
  \<open>destroy\<close>, \<open>rebuild\<close>, \<open>exec\<close> or \<open>shell\<close>, faults of the daemon included, every other instance is left
  exactly as it was and no storage volume is deleted.\<close>

theorem commands_touch_only_their_instance:
  assumes "ap_client a = fake_client"
    and "m \<in> {up a restart, app_provision a sel, destroy a False, rebuild a, app_exec a argv user,
              app_shell a argv user}"
  shows "(\<forall>k. k \<noteq> ap_instance a \<longrightarrow>
           instance_view (se_daemon (snd (m s))) k = instance_view (se_daemon s) k)
    \<and> volume_view (se_daemon s) \<subseteq> volume_view (se_daemon (snd (m s)))"
proof -
  have "keeps (on_d (framed instance_view volume_view (ap_instance a) v vs)) m" for v vs
    using assms(2) fk.frame.keeps_up [OF assms(1) refl] fk.frame.keeps_app_provision [OF assms(1) refl]
      fk.frame.keeps_destroy_instance [OF assms(1) refl, of False] fk.frame.keeps_rebuild [OF assms(1) refl]
      fk.frame.keeps_exec_in_container [OF assms(1) refl]
    by (auto simp: destroy_def app_exec_def app_shell_def)
  then show ?thesis using framedD [of instance_view volume_view "ap_instance a" s m] by blast
qed

theorem commands_touch_only_their_instance_witness:
  "instance_view (se_daemon (snd (rebuild sample_app sample_session))) ''dev-db''
     = instance_view sample_daemon ''dev-db''
   \<and> ''default/dev-web-old'' \<in> volume_view (se_daemon (snd (rebuild sample_app sample_session)))"
proof -
  have "''default/dev-web-old'' \<in> volume_view sample_daemon"
    by (simp add: volume_view_def volume_at_def sample_daemon_def)
  then show ?thesis
    using commands_touch_only_their_instance
      [of sample_app "rebuild sample_app" False select_all "[]" "[]" sample_session]
    by (auto simp: new_session_def)
qed

text \<open>C9: \<open>destroy --volumes\<close> deletes the volumes the instance recorded and no other: a volume that is
  gone afterwards was named by the record of the instance, and every other instance is as it was.\<close>

theorem destroy_volumes_deletes_recorded_only:
  assumes "ap_client a = fake_client" "destroy a True s = (r, s')"
  shows "(\<forall>k. k \<noteq> ap_instance a \<longrightarrow> instance_view (se_daemon s') k = instance_view (se_daemon s) k)
    \<and> (\<forall>ref\<in>volume_view (se_daemon s) - volume_view (se_daemon s').
         \<exists>i. instance_view (se_daemon s) (ap_instance a) = Some i
             \<and> ref \<in> set (recorded_volumes i (ap_cfg a) (ap_instance a)))"
  using assms by (rule fk.destroy_recorded_only)

theorem destroy_volumes_deletes_recorded_only_witness:
  "''default/other'' \<in> volume_view (se_daemon (snd (destroy sample_app True sample_session)))"
proof -
  let ?s' = "snd (destroy sample_app True sample_session)"
  obtain i where i: "instance_view sample_daemon ''dev-web'' = Some i"
    and v: "fmlookup (ii_config i) managed_volumes_key = Some ''default/dev-web-old''"
    by (simp add: instance_view_def sample_daemon_def sample_instance_def managed_keys)
  have "split_list ''default/dev-web-old'' = [''default/dev-web-old'']" by code_simp
  with v have r: "recorded_volumes i sample_config ''dev-web'' = [''default/dev-web-old'']"
    by (simp add: recorded_volumes_def)
  have "destroy sample_app True sample_session = (fst (destroy sample_app True sample_session), ?s')" by simp
  from destroy_volumes_deletes_recorded_only [OF _ this]
  have spec: "\<exists>j. instance_view sample_daemon ''dev-web'' = Some j
      \<and> ref \<in> set (recorded_volumes j sample_config ''dev-web'')"
    if "ref \<in> volume_view sample_daemon" "ref \<notin> volume_view (se_daemon ?s')" for ref
    using that by (simp add: new_session_def)
  have "''default/other'' \<in> volume_view sample_daemon"
    by (simp add: volume_view_def volume_at_def sample_daemon_def)
  then show ?thesis using spec [of "''default/other''"] i r by auto
qed

end
