(* ===== verification/App_Safety.thy ===== *)
theory App_Safety
  imports App_Frame
begin

text \<open>
  When the commands refuse. An instance that is not this project's is never written to; a rebuild
  deletes nothing before everything it checks has passed; volumes are deleted only once the instance
  is gone; and a write built from a stale reading is refused. Proved for every client with the laws
  of the locale \<open>daemon\<close> and stated for the in-memory client of \<open>incustest\<close>, whatever faults it injects.
\<close>


section \<open>Operations that refuse\<close>

text \<open>From any state with \<open>I\<close> the operation ends in an error, and \<open>I\<close> still holds.\<close>

definition refuses :: "('s \<Rightarrow> bool) \<Rightarrow> ('s, 'e, 'a) op \<Rightarrow> bool" where
  "refuses I m \<longleftrightarrow> keeps I m \<and> (\<forall>s. I s \<longrightarrow> isl (fst (m s)))"

definition yields :: "('s \<Rightarrow> bool) \<Rightarrow> ('s, 'e, 'a) op \<Rightarrow> ('a \<Rightarrow> bool) \<Rightarrow> bool" where
  "yields I m P \<longleftrightarrow> keeps I m \<and> (\<forall>s x. I s \<longrightarrow> fst (m s) = Inr x \<longrightarrow> P x)"

lemma refuses_keeps: "refuses I m \<Longrightarrow> keeps I m"
  by (simp add: refuses_def)

lemma refuses_fail: "refuses I (fail e)"
  by (simp add: refuses_def keeps_fail run_fail)

lemma refuses_bind_first: "refuses I m \<Longrightarrow> refuses I (bindE m f)"
  by (fastforce simp: refuses_def keeps_def run_bindE split: prod.splits sum.splits)

lemma refuses_bind:
  assumes "yields I m P" "\<And>x. P x \<Longrightarrow> refuses I (f x)"
  shows "refuses I (bindE m f)"
proof -
  have "isl (fst (bindE m f s)) \<and> I (snd (bindE m f s))" if "I s" for s
  proof (cases "m s")
    case (Pair r s')
    have s': "I s'" using assms(1) that Pair by (auto simp: yields_def dest: keepsD)
    show ?thesis
    proof (cases r)
      case (Inr x)
      then have "P x" using assms(1) that Pair by (auto simp: yields_def)
      then show ?thesis using assms(2) s' Pair Inr by (auto simp: refuses_def run_bindE dest: keepsD)
    qed (use Pair s' in \<open>simp add: run_bindE\<close>)
  qed
  then show ?thesis by (simp add: refuses_def keeps_def)
qed

lemma yields_keeps: "keeps I m \<Longrightarrow> yields I m (\<lambda>x. True)"
  by (simp add: yields_def)

lemma refuses_after: "keeps I m \<Longrightarrow> (\<And>x. refuses I (f x)) \<Longrightarrow> refuses I (bindE m f)"
  using refuses_bind yields_keeps by blast

lemma refuses_then_first: "refuses I m \<Longrightarrow> refuses I (thenE m n)"
  by (simp add: thenE_def refuses_bind_first)

lemma refuses_then: "keeps I m \<Longrightarrow> refuses I n \<Longrightarrow> refuses I (thenE m n)"
  by (simp add: thenE_def refuses_after)

lemma refuses_on_error:
  "refuses I m \<Longrightarrow> (\<And>e. refuses I (h e)) \<Longrightarrow> refuses I (on_error m h)"
  by (fastforce simp: refuses_def keeps_def run_on_error split: prod.splits sum.splits)

lemma yields_on_error:
  assumes "yields I m P" "\<And>e. refuses I (h e)"
  shows "yields I (on_error m h) P"
proof -
  have "I (snd (on_error m h s)) \<and> (\<forall>x. fst (on_error m h s) = Inr x \<longrightarrow> P x)" if "I s" for s
  proof (cases "m s")
    case (Pair r s')
    have s': "I s'" using assms(1) that Pair by (auto simp: yields_def dest: keepsD)
    show ?thesis
    proof (cases r)
      case (Inl e)
      have "isl (fst (h e s')) \<and> I (snd (h e s'))" using assms(2) [of e] s' by (simp add: refuses_def keepsD)
      then show ?thesis using Pair Inl by (auto simp: run_on_error isl_def)
    qed (use assms(1) that Pair s' in \<open>simp add: yields_def run_on_error\<close>)
  qed
  then show ?thesis by (simp add: yields_def keeps_def)
qed

lemma yields_attempt: "yields I m P \<Longrightarrow> yields I (attempt m) (\<lambda>r. \<forall>x. r = Inr x \<longrightarrow> P x)"
  by (simp add: yields_def run_attempt keeps_attempt)

lemma refuses_lost: "refuses (on_d I) (record_lost_with a e)"
  unfolding refuses_def using keeps_lost by (simp add: record_lost_with_def run_bindE run_get run_fail Let_def)

lemmas refuses_intros = refuses_then refuses_after refuses_fail refuses_lost


section \<open>An instance of somebody else\<close>

text \<open>The instances are exactly as \<open>x\<close> says and the volumes in \<open>vs\<close> are still there.\<close>

definition standing ::
  "('w \<Rightarrow> string \<Rightarrow> incus_instance option) \<Rightarrow> ('w \<Rightarrow> string set)
   \<Rightarrow> (string \<Rightarrow> incus_instance option) \<Rightarrow> string set \<Rightarrow> 'w \<Rightarrow> bool" where
  "standing iv vv x vs w \<longleftrightarrow> iv w = x \<and> vs \<subseteq> vv w"

lemma standing_reads: "reads_only iv vv m \<Longrightarrow> keeps (standing iv vv x vs) m"
  unfolding reads_only_def keeps_def standing_def by metis

context daemon begin

lemma standing_kept: "kept_by_reads (standing iv vv x vs) c"
  unfolding kept_by_reads_def
  by (intro conjI allI standing_reads client_reads)

lemma standing_create_volume: "keeps (standing iv vv x vs) (cl_create_volume c p v cfg)"
  using create_volume_frame create_volume_adds unfolding keeps_def standing_def by (metis order_trans)

lemma standing_ensure_volumes:
  assumes "ap_client a = c"
  shows "keeps (on_d (standing iv vv x vs)) (ensure_volumes a)"
  unfolding ensure_volumes_def ensure_volume_def Let_def
  by (intro keeps_intros reads_calls [OF standing_kept assms])
    (simp add: assms keeps_on_daemon standing_create_volume)

lemma standing_instance:
  fixes a :: "('w, 'h) app"
  assumes "ap_client a = c" "x (ap_instance a) = Some i"
  shows "yields (on_d (standing iv vv x vs)) (call (cl_instance (ap_client a) (ap_instance a))) (\<lambda>j. j = i)"
proof -
  have kept: "keeps (on_d (standing iv vv x vs)) (call (cl_instance (ap_client a) (ap_instance a)))"
    by (rule reads_calls(1) [OF standing_kept assms(1)])
  have "j = i" if "standing iv vv x vs w" "fst (cl_instance c (ap_instance a) w) = Inr j" for w j
    using that assms(2) instance_ok [of "ap_instance a" w j]
    by (cases "cl_instance c (ap_instance a) w") (auto simp: standing_def)
  then show ?thesis unfolding yields_def using kept by (auto simp: run_on_daemon assms(1))
qed

lemma standing_create:
  assumes "ap_client a = c" "x (ap_instance a) = Some i"
  shows "refuses (on_d (standing iv vv x vs)) (call (cl_create (ap_client a) (app_instance_spec a plan carried)))"
proof -
  let ?spec = "app_instance_spec a plan carried"
  have "isl (fst (cl_create c ?spec w)) \<and> standing iv vv x vs (snd (cl_create c ?spec w))"
    if "standing iv vv x vs w" for w
    using create_refused [of w ?spec i] only_view(2) [OF create_frame, of ?spec w] that assms(2)
    by (auto simp: standing_def)
  then show ?thesis unfolding refuses_def keeps_def assms(1) by (simp add: run_on_daemon)
qed

text \<open>From here on the instance under the name is \<open>i\<close>, and it is not this project's.\<close>

lemma check_managed_refuses:
  assumes "\<not> is_managed_by (ii_config i) (pj_name (cf_project (ap_cfg a)))"
  shows "refuses I (check_managed a i eff)"
  using assms by (simp add: check_managed_def refuses_fail)

lemma managed_instance_refuses:
  assumes "ap_client a = c" "x (ap_instance a) = Some i"
    and "\<not> is_managed_by (ii_config i) (pj_name (cf_project (ap_cfg a)))"
  shows "refuses (on_d (standing iv vv x vs)) (managed_instance a eff advice)"
  unfolding managed_instance_def
  by (rule refuses_bind [OF yields_on_error [OF standing_instance [where x = x, OF assms(1,2)]]])
    (simp_all add: refuses_fail check_managed_refuses assms(3))

lemma up_with_refuses:
  assumes "ap_client a = c" "x (ap_instance a) = Some i"
    and "\<not> is_managed_by (ii_config i) (pj_name (cf_project (ap_cfg a)))"
  shows "refuses (on_d (standing iv vv x vs)) (up_with a restart plan env)"
proof -
  have new: "refuses (on_d (standing iv vv x vs)) (up_new a plan)"
    unfolding up_new_def
    by (rule refuses_then [OF reads_checks(3) [OF standing_kept assms(1)]
          refuses_then [OF keeps_log refuses_then [OF standing_ensure_volumes [OF assms(1)]
            refuses_after [OF keeps_get refuses_then_first [OF standing_create [where x = x, OF assms(1,2)]]]]]])
  have found: "refuses (on_d (standing iv vv x vs)) (case r of
          Inr i \<Rightarrow> up_existing a restart plan i
        | Inl e \<Rightarrow> if errors_is e ErrInstanceNotFound then up_new a plan else fail e)"
    if "\<forall>j. r = Inr j \<longrightarrow> j = i" for r
    using that new by (cases r) (simp_all add: up_existing_def assms(3) refuses_fail)
  show ?thesis unfolding up_with_def
    by (rule refuses_then [OF keeps_log
          refuses_bind [OF yields_attempt [OF standing_instance [where x = x, OF assms(1,2)]]
            refuses_then_first [OF found]]])
qed

lemma command_refuses:
  assumes "ap_client a = c" "x (ap_instance a) = Some i"
    and "\<not> is_managed_by (ii_config i) (pj_name (cf_project (ap_cfg a)))"
  shows "refuses (on_d (standing iv vv x vs)) (up a restart)"
    "refuses (on_d (standing iv vv x vs)) (app_provision a sel)"
    "refuses (on_d (standing iv vv x vs)) (destroy a with_volumes)"
    "refuses (on_d (standing iv vv x vs)) (rebuild a)"
    "refuses (on_d (standing iv vv x vs)) (exec_in_container a argv tty user)"
proof -
  note kept = standing_kept [of x vs]
  note mi = managed_instance_refuses [where x = x, OF assms]
  show "refuses (on_d (standing iv vv x vs)) (up a restart)"
    unfolding up_def case_prod_beta
    by (intro refuses_after reads_preflight [OF kept assms(1)] up_with_refuses [where x = x, OF assms])
  show "refuses (on_d (standing iv vv x vs)) (app_provision a sel)"
    unfolding app_provision_def
    by (intro refuses_after refuses_then refuses_bind_first keeps_lift keeps_app_env
        reads_executor [OF kept assms(1)] mi)
  show "refuses (on_d (standing iv vv x vs)) (destroy a with_volumes)"
    unfolding destroy_def destroy_instance_def Let_def option.case by (intro refuses_bind_first mi)
  show "refuses (on_d (standing iv vv x vs)) (exec_in_container a argv tty user)"
    unfolding exec_in_container_def by (intro refuses_bind_first mi)
  have "refuses (on_d (standing iv vv x vs)) (destroy_instance a False True (Some i))"
    unfolding destroy_instance_def Let_def option.case
    by (intro refuses_bind_first check_managed_refuses assms(3))
  then have "keeps (on_d (standing iv vv x vs)) (case r of
          Inr j \<Rightarrow> thenE (modify (\<lambda>s. s\<lparr>se_carried := recorded_volumes j (ap_cfg a) (ap_instance a)\<rparr>))
              (destroy_instance a False True (Some j))
        | Inl e \<Rightarrow> if errors_is e ErrInstanceNotFound then ret () else fail e)"
    if "\<forall>j. r = Inr j \<longrightarrow> j = i" for r
    using that
    by (cases r) (simp_all add: keeps_ret keeps_fail keeps_thenE keeps_set_carried refuses_keeps)
  note found = refuses_then [OF this refuses_on_error [OF up_with_refuses [where x = x, OF assms] refuses_lost]]
  show "refuses (on_d (standing iv vv x vs)) (rebuild a)"
    unfolding rebuild_def case_prod_beta
    by (rule refuses_after [OF reads_preflight [OF kept assms(1)]
          refuses_then [OF reads_calls(5) [OF kept assms(1)]
            refuses_bind [OF yields_attempt [OF standing_instance [where x = x, OF assms(1,2)]] found]]])
qed

lemma standing_now: "standing iv vv (iv w) (vv w) w"
  by (simp add: standing_def)

end

lemma refusesD:
  assumes "refuses (on_d (standing iv vv (iv (se_daemon s)) (vv (se_daemon s)))) m"
  shows "isl (fst (m s))" "iv (se_daemon (snd (m s))) = iv (se_daemon s)"
    "vv (se_daemon s) \<subseteq> vv (se_daemon (snd (m s)))"
  using assms keepsD [of _ m s] by (auto simp: refuses_def standing_def)


section \<open>Nothing is deleted before the checks have passed\<close>

lemma keeps_same:
  assumes "\<And>x vs. keeps (on_d (\<lambda>w. iv w = x \<and> vv w = vs)) m"
  shows "iv (se_daemon (snd (m s))) = iv (se_daemon s)" "vv (se_daemon (snd (m s))) = vv (se_daemon s)"
  using keepsD [OF assms [of "iv (se_daemon s)" "vv (se_daemon s)"], of s] by simp_all

lemma same_as_read: "reads_only iv vv m \<Longrightarrow> keeps (\<lambda>w. iv w = x \<and> vv w = vs) m"
  by (simp add: reads_only_def)

context daemon begin

lemma same_reads: "kept_by_reads (\<lambda>w. iv w = x \<and> vv w = vs) c"
  unfolding kept_by_reads_def
  by (intro conjI allI same_as_read client_reads)

lemma preflight_view:
  assumes "ap_client a = c"
  shows "iv (se_daemon (snd (preflight a s))) = iv (se_daemon s)"
    "vv (se_daemon (snd (preflight a s))) = vv (se_daemon s)"
  by (rule keeps_same, rule reads_preflight [OF same_reads assms])+

lemma rebuild_unchecked:
  assumes "ap_client a = c"
    and "\<not> (\<exists>plan env s1 d. preflight a s = (Inr (plan, env), s1)
            \<and> cl_check_image c (in_image (cf_instance (ap_cfg a))) (se_daemon s1) = (Inr (), d))"
  shows "isl (fst (rebuild a s)) \<and> iv (se_daemon (snd (rebuild a s))) = iv (se_daemon s)
    \<and> vv (se_daemon (snd (rebuild a s))) = vv (se_daemon s)"
proof -
  obtain p s1 where pre: "preflight a s = (p, s1)" by (cases "preflight a s")
  note v = preflight_view [OF assms(1), of s, unfolded pre snd_conv]
  show ?thesis
  proof (cases p)
    case (Inl e)
    then show ?thesis using assms pre v by (simp add: rebuild_def run_bindE)
  next
    case (Inr pe)
    obtain plan env where pe: "pe = (plan, env)" by (cases pe)
    obtain q d where img: "cl_check_image c (in_image (cf_instance (ap_cfg a))) (se_daemon s1) = (q, d)"
      by (cases "cl_check_image c (in_image (cf_instance (ap_cfg a))) (se_daemon s1)")
    have "iv d = iv (se_daemon s1)" "vv d = vv (se_daemon s1)"
      using read_view [OF check_image_reads, of "in_image (cf_instance (ap_cfg a))" "se_daemon s1"] img by simp_all
    then show ?thesis using assms pre v Inr pe img
      by (cases q) (auto simp: rebuild_def run_bindE run_thenE run_on_daemon)
  qed
qed

end


section \<open>Volumes go after the instance\<close>

lemma gone_reads: "reads_only iv vv m \<Longrightarrow> keeps (\<lambda>w. iv w n = None) m"
  unfolding reads_only_def keeps_def by metis

context daemon begin

lemma delete_volumes_gone:
  assumes "ap_client a = c"
  shows "keeps (on_d (\<lambda>w. iv w n = None)) (delete_volumes a refs)"
proof -
  have reads: "keeps (on_d (\<lambda>w. iv w n = None)) (call (cl_volume_exists (ap_client a) p v))" for p v
    unfolding assms by (rule keeps_on_daemon [OF gone_reads [OF volume_exists_reads]])
  have del: "keeps (on_d (\<lambda>w. iv w n = None)) (call (cl_delete_volume (ap_client a) p v))" for p v
    unfolding assms by (rule keeps_on_daemon) (simp add: keeps_def delete_volume_frame)
  show ?thesis
  proof (induction refs)
    case (Cons ref refs)
    then show ?case unfolding delete_volumes.simps by (intro keeps_intros reads del)
  qed (simp add: keeps_ret)
qed

lemma destroy_order:
  assumes "ap_client a = c" "destroy a True s = (r, s')" "vv (se_daemon s') \<noteq> vv (se_daemon s)"
  shows "iv (se_daemon s') (ap_instance a) = None"
proof -
  let ?n = "ap_instance a"
  obtain q s1 where m: "managed_instance a SharedEnvironment advise_nothing s = (q, s1)"
    by (cases "managed_instance a SharedEnvironment advise_nothing s")
  have "vv (se_daemon (snd (managed_instance a SharedEnvironment advise_nothing s))) = vv (se_daemon s)"
    by (rule keeps_same(2) [where iv = iv], rule reads_checks(2) [OF same_reads assms(1)])
  with m have v1: "vv (se_daemon s1) = vv (se_daemon s)" by simp
  show ?thesis
  proof (cases q)
    case (Inl e)
    then show ?thesis using assms m v1 by (simp add: destroy_def destroy_instance_def Let_def run_bindE)
  next
    case (Inr i)
    let ?refs = "recorded_volumes i (ap_cfg a) ?n"
    obtain u d where del: "cl_delete c ?n (se_daemon s1) = (u, d)" by (cases "cl_delete c ?n (se_daemon s1)")
    show ?thesis
    proof (cases u)
      case (Inl e)
      then show ?thesis using assms m v1 Inr del only_view(2) [OF delete_frame, of ?n "se_daemon s1"]
        by (auto simp: destroy_def destroy_instance_def Let_def run_bindE run_thenE run_log run_on_error
            run_on_daemon run_fail)
    next
      case (Inr x)
      then have gone: "iv d ?n = None" using del delete_ok by simp
      have "keeps (on_d (\<lambda>w. iv w ?n = None)) (thenE (delete_volumes a ?refs)
          (log_info ''Instance deleted. Source tree on the host is untouched''))"
        by (intro keeps_intros delete_volumes_gone assms)
      from keepsD [OF this, of "s1\<lparr>se_log := se_log s1 @ [(Info, ''Deleting instance '' @ ?n)], se_daemon := d\<rparr>"]
      show ?thesis using assms m \<open>q = Inr i\<close> del Inr gone
        by (simp add: destroy_def destroy_instance_def Let_def run_bindE run_log run_on_error
            run_on_daemon run_thenE [of "log_info _"] run_thenE [of "on_error _ _"])
    qed
  qed
qed

end


section \<open>A stale reading\<close>

context daemon begin

lemma reapply_stale:
  assumes "ap_client a = c" "iv (se_daemon s) (ap_instance a) = Some j"
    and "ii_etag i \<noteq> []" "ii_etag i \<noteq> ii_etag j"
    and "\<not> settled as_read (ii_devices i) (reapply_change (ap_cfg a) plan (ap_instance a) (ii_config i) (ii_devices i))"
  shows "isl (fst (reapply_instance a i as_read plan restart s))"
    "iv (se_daemon (snd (reapply_instance a i as_read plan restart s))) = iv (se_daemon s)"
proof -
  let ?ch = "reapply_change (ap_cfg a) plan (ap_instance a) (ii_config i) (ii_devices i)"
  obtain e where "fst (cl_update c (ap_instance a) ?ch (ii_etag i) (se_daemon s)) = Inl e"
    and "iv (snd (cl_update c (ap_instance a) ?ch (ii_etag i) (se_daemon s))) = iv (se_daemon s)"
    using update_stale [OF not_empty_reapply assms(2,3)] assms(4) by blast
  with assms(1,5) show "isl (fst (reapply_instance a i as_read plan restart s))"
    "iv (se_daemon (snd (reapply_instance a i as_read plan restart s))) = iv (se_daemon s)"
    by (simp_all add: reapply_instance_def Let_def app_update_def run_thenE run_when run_log run_on_error
        run_on_daemon run_fail)
qed

end


section \<open>Properties\<close>

text \<open>An instance of somebody else is never touched. When the instance under the derived name is
  not managed by this project, \<open>up\<close>, \<open>provision\<close>, \<open>destroy\<close> (with or without \<open>--volumes\<close>), \<open>rebuild\<close>,
  \<open>exec\<close> and \<open>shell\<close> all end in an error, every instance is exactly as it was and no volume is deleted,
  whatever faults the daemon injects.\<close>

theorem foreign_instance_refused:
  assumes "ap_client a = fake_client"
    and "instance_view (se_daemon s) (ap_instance a) = Some i"
    and "\<not> is_managed_by (ii_config i) (pj_name (cf_project (ap_cfg a)))"
    and "m \<in> {up a restart, app_provision a sel, destroy a with_volumes, rebuild a, app_exec a argv user,
              app_shell a argv user}"
  shows "isl (fst (m s)) \<and> instance_view (se_daemon (snd (m s))) = instance_view (se_daemon s)
    \<and> volume_view (se_daemon s) \<subseteq> volume_view (se_daemon (snd (m s)))"
proof -
  have "refuses (on_d (standing instance_view volume_view (instance_view (se_daemon s))
      (volume_view (se_daemon s)))) m"
    using assms(4) fk.command_refuses [where x = "instance_view (se_daemon s)", OF assms(1,2,3)] by (auto simp: app_exec_def app_shell_def)
  then show ?thesis using refusesD [of instance_view volume_view s m] by blast
qed

theorem foreign_instance_refused_witness:
  "isl (fst (destroy (sample_app\<lparr>ap_instance := ''dev-db''\<rparr>) True sample_session))
   \<and> instance_view (se_daemon (snd (destroy (sample_app\<lparr>ap_instance := ''dev-db''\<rparr>) True sample_session))) ''dev-db''
       = instance_view sample_daemon ''dev-db''"
proof -
  obtain i where i: "instance_view sample_daemon ''dev-db'' = Some i" "ii_config i = fmempty"
    by (simp add: instance_view_def sample_daemon_def sample_instance_def)
  have "\<not> is_managed_by fmempty (pj_name (cf_project sample_config))" by code_simp
  then show ?thesis
    using foreign_instance_refused [of "sample_app\<lparr>ap_instance := ''dev-db''\<rparr>" sample_session i
        "destroy (sample_app\<lparr>ap_instance := ''dev-db''\<rparr>) True" False select_all True "[]" "[]"] i
    by (simp add: sample_app_def new_session_def)
qed

text \<open>C11: a rebuild deletes nothing before everything it checks has passed. Unless the preflight (volume
  names, identity mapping, secrets, profiles, playbooks and tools on the host) and the look for the
  image both succeed, \<open>rebuild\<close> ends in an error and every instance and volume is as it was.\<close>

theorem rebuild_deletes_after_checks:
  assumes "ap_client a = fake_client"
    and "\<not> (\<exists>plan env s1 d. preflight a s = (Inr (plan, env), s1)
            \<and> fk_check_image (in_image (cf_instance (ap_cfg a))) (se_daemon s1) = (Inr (), d))"
  shows "isl (fst (rebuild a s))
    \<and> instance_view (se_daemon (snd (rebuild a s))) = instance_view (se_daemon s)
    \<and> volume_view (se_daemon (snd (rebuild a s))) = volume_view (se_daemon s)"
  using fk.rebuild_unchecked [OF assms(1)] assms(2) by (simp only: fake_client_sel)

theorem rebuild_deletes_after_checks_witness:
  "isl (fst (rebuild (sample_app\<lparr>ap_instance := replicate 60 (CHR ''x'')\<rparr>) sample_session))
   \<and> volume_view (se_daemon (snd (rebuild (sample_app\<lparr>ap_instance := replicate 60 (CHR ''x'')\<rparr>) sample_session)))
     = volume_view sample_daemon"
proof -
  let ?a = "sample_app\<lparr>ap_instance := replicate 60 (CHR ''x'')\<rparr>"
  have "check_volume_names sample_config (replicate 60 (CHR ''x'')) \<noteq> None" by code_simp
  then have "fst (preflight ?a sample_session) \<noteq> Inr pe" for pe
    by (auto simp: preflight_def sample_app_def run_fail)
  then show ?thesis using rebuild_deletes_after_checks [of ?a sample_session]
    by (fastforce simp: new_session_def sample_app_def)
qed

text \<open>C12: \<open>destroy --volumes\<close> deletes no volume while the instance that names them is there: after a
  run that left the instance, for whatever reason, every volume is still there too.\<close>

theorem volumes_go_after_the_instance:
  assumes "ap_client a = fake_client" "destroy a True s = (r, s')"
    and "instance_view (se_daemon s') (ap_instance a) \<noteq> None"
  shows "volume_view (se_daemon s') = volume_view (se_daemon s)"
  using fk.destroy_order [OF assms(1,2)] assms(3) by blast

theorem volumes_go_after_the_instance_witness:
  "volume_view (se_daemon (snd (destroy sample_app True
      (new_session (sample_daemon\<lparr>fk_fail_on := [(''instance'', Foreign ''connection lost'')]\<rparr>) ()))))
   = volume_view sample_daemon"
proof -
  let ?s = "new_session (sample_daemon\<lparr>fk_fail_on := [(''instance'', Foreign ''connection lost'')]\<rparr>) ()
     :: (fake, unit) session"
  have "fk_instance ''dev-web'' (se_daemon ?s) = (Inl (Foreign ''connection lost''),
      (se_daemon ?s)\<lparr>fk_calls := [''instance dev-web'']\<rparr>)"
    by (simp add: fk_instance_def fk_record_def has_prefix_def run_thenE new_session_def sample_daemon_def new_fake_def)
  then have "instance_view (se_daemon (snd (destroy sample_app True ?s))) ''dev-web'' \<noteq> None"
    by (simp add: destroy_def destroy_instance_def managed_instance_def run_bindE run_on_error run_on_daemon
        run_fail new_session_def) (simp add: instance_view_def sample_daemon_def)
  then show ?thesis
    using volumes_go_after_the_instance [of sample_app ?s "fst (destroy sample_app True ?s)"
        "snd (destroy sample_app True ?s)"]
    by (simp add: new_session_def volume_view_def volume_at_def)
qed

text \<open>C14: a write built from a stale reading is refused. When the instance has changed since the
  reading \<open>i\<close> was taken (its etag is another one by now) and there is something to write, the
  reapplication ends in an error, the instance keeps what the other writer put there, and so does
  every other.\<close>

theorem stale_reading_refused:
  assumes "ap_client a = fake_client" "instance_view (se_daemon s) (ap_instance a) = Some j"
    and "ii_etag i \<noteq> []" "ii_etag i \<noteq> ii_etag j"
    and "\<not> settled as_read (ii_devices i)
           (reapply_change (ap_cfg a) plan (ap_instance a) (ii_config i) (ii_devices i))"
  shows "isl (fst (reapply_instance a i as_read plan restart s))
    \<and> instance_view (se_daemon (snd (reapply_instance a i as_read plan restart s)))
        = instance_view (se_daemon s)"
  using fk.reapply_stale [OF assms] by blast

theorem stale_reading_refused_witness:
  "isl (fst (reapply_instance sample_app ((sample_instance ''dev-web'' sample_settings)\<lparr>ii_etag := ''v7''\<rparr>)
     sample_settings sample_plan False sample_session))"
proof -
  have "dec 0 = ''0''" by code_simp
  then obtain j where "instance_view sample_daemon ''dev-web'' = Some j" "ii_etag j = ''v0''"
    by (simp add: instance_view_def sample_daemon_def sample_instance_def etag_of_def new_fake_def)
  moreover have "\<not> settled sample_settings fmempty
      (reapply_change sample_config sample_plan ''dev-web'' sample_settings fmempty)" by code_simp
  ultimately show ?thesis
    using stale_reading_refused [of sample_app sample_session j
        "(sample_instance ''dev-web'' sample_settings)\<lparr>ii_etag := ''v7''\<rparr>" sample_settings sample_plan False]
    by (simp add: new_session_def sample_instance_def)
qed

end
