(* ===== verification/App_Up.thy ===== *)
theory App_Up
  imports App_Safety
begin

text \<open>
  What a successful \<open>up\<close> or \<open>rebuild\<close> achieves: the instance is running and holds the declared
  configuration and devices, the declared volumes exist, and the volume record still names every
  volume it named before that exists.
\<close>


section \<open>What an operation achieves when it succeeds\<close>

definition achieves :: "('s \<Rightarrow> bool) \<Rightarrow> ('s, 'e, 'a) op \<Rightarrow> ('a \<Rightarrow> 's \<Rightarrow> bool) \<Rightarrow> bool" where
  "achieves P m Q \<longleftrightarrow> (\<forall>s x s'. P s \<longrightarrow> m s = (Inr x, s') \<longrightarrow> Q x s')"

lemma achievesI: "(\<And>s x s'. P s \<Longrightarrow> m s = (Inr x, s') \<Longrightarrow> Q x s') \<Longrightarrow> achieves P m Q"
  by (simp add: achieves_def)

lemma achievesD: "achieves P m Q \<Longrightarrow> P s \<Longrightarrow> m s = (Inr x, s') \<Longrightarrow> Q x s'"
  by (simp add: achieves_def)

lemma achieves_bind:
  assumes "achieves P m R" "\<And>x. achieves (R x) (f x) Q"
  shows "achieves P (bindE m f) Q"
proof (rule achievesI)
  fix s x s'
  assume "P s" "bindE m f s = (Inr x, s')"
  then show "Q x s'" using assms by (auto simp: run_bindE achieves_def split: prod.splits sum.splits)
qed

lemma achieves_then: "achieves P m (\<lambda>_. R) \<Longrightarrow> achieves R n Q \<Longrightarrow> achieves P (thenE m n) Q"
  by (simp add: thenE_def achieves_bind)

lemma achieves_keeps: "keeps P m \<Longrightarrow> achieves P m (\<lambda>_. P)"
  unfolding achieves_def using keepsD by fastforce

lemma achieves_skip: "keeps P m \<Longrightarrow> achieves P n Q \<Longrightarrow> achieves P (thenE m n) Q"
  by (rule achieves_then [OF achieves_keeps])

lemma achieves_weaken: "achieves P m R \<Longrightarrow> (\<And>x s. R x s \<Longrightarrow> Q x s) \<Longrightarrow> achieves P m Q"
  by (simp add: achieves_def)

lemma achieves_pre: "achieves P' m Q \<Longrightarrow> (\<And>s. P s \<Longrightarrow> P' s) \<Longrightarrow> achieves P m Q"
  unfolding achieves_def by blast

lemma achieves_ret: "(\<And>s. P s \<Longrightarrow> Q x s) \<Longrightarrow> achieves P (ret x) Q"
  by (simp add: achieves_def run_ret)

lemma achieves_fail: "achieves P (fail e) Q"
  by (simp add: achieves_def run_fail)

lemma achieves_on_error: "achieves P m Q \<Longrightarrow> achieves P (on_error m (\<lambda>e. fail (h e))) Q"
  by (auto simp: achieves_def run_on_error run_fail split: prod.splits sum.splits)

lemma achieves_if:
  "(b \<Longrightarrow> achieves P m Q) \<Longrightarrow> (\<not> b \<Longrightarrow> achieves P n Q) \<Longrightarrow> achieves P (if b then m else n) Q"
  by simp

lemma achieves_attempt:
  assumes "keeps P m" "achieves P m Q"
  shows "achieves P (attempt m) (\<lambda>r s. case r of Inl e \<Rightarrow> P s | Inr x \<Rightarrow> Q x s)"
proof (rule achievesI)
  fix s r s'
  assume "P s" "attempt m s = (Inr r, s')"
  then show "case r of Inl e \<Rightarrow> P s' | Inr x \<Rightarrow> Q x s'"
    using keepsD [OF assms(1), of s] achievesD [OF assms(2), of s]
    by (cases "m s") (auto simp: run_attempt split: sum.splits)
qed

lemma achieves_frame:
  "achieves P m R \<Longrightarrow> keeps Q m \<Longrightarrow> achieves (\<lambda>s. P s \<and> Q s) m (\<lambda>x s. R x s \<and> Q s)"
  unfolding achieves_def using keepsD by fastforce

lemma keeps_conj: "keeps P m \<Longrightarrow> keeps Q m \<Longrightarrow> keeps (\<lambda>s. P s \<and> Q s) m"
  by (simp add: keeps_def)


section \<open>The record a rebuild carries\<close>

abbreviation carrying_set :: "string set \<Rightarrow> ('d, 'h) session \<Rightarrow> bool" where
  "carrying_set X \<equiv> (\<lambda>s. X \<subseteq> set (se_carried s))"

lemma carrying_steps [keeps_intros]:
  "keeps (carrying_set X) (on_daemon m)" "keeps (carrying_set X) (on_host h)" "keeps (carrying_set X) (log_at l msg)"
  by (simp_all add: keeps_def run_on_daemon run_on_host run_log)

lemma carrying_parts [keeps_intros]:
  "keeps (carrying_set X) (ensure_volumes a)" "keeps (carrying_set X) (warn_stranded_instances a)"
  unfolding ensure_volumes_def ensure_volume_def warn_stranded_instances_def warn_if_stranded_def Let_def
  by (intro keeps_intros)+


section \<open>Lists joined by commas\<close>

lemma split_on_join_append: "split_on c (x @ c # s) = split_on c x @ split_on c s"
proof (induction x)
  case (Cons a x)
  then show ?case by (cases "split_on c x") auto
qed simp

lemma in_join_list:
  assumes "x \<in> set xs" "no_comma x" "x \<noteq> []"
  shows "x \<in> set (split_list (join_list xs))"
proof -
  have "x \<in> set (split_on (CHR '','') (join_list xs))"
    using assms(1) by (induction "'',''" xs rule: join.induct)
      (auto simp: split_on_no_sep assms(2) split_on_join_append)
  then show ?thesis using assms(2,3) by (auto simp: split_list_def)
qed


section \<open>The declared state\<close>

definition holds :: "config \<Rightarrow> idmap_plan \<Rightarrow> string \<Rightarrow> string gomap \<Rightarrow> incus_instance \<Rightarrow> bool" where
  "holds c plan n cur i \<longleftrightarrow>
     (\<forall>k. has_key (desired_config c plan cur n) k
            \<longrightarrow> fmlookup (ii_config i) k = fmlookup (desired_config c plan cur n) k)
     \<and> (\<forall>d. has_key (desired_devices c plan n) d
            \<longrightarrow> fmlookup (ii_devices i) d = fmlookup (desired_devices c plan n) d)"

text \<open>The instance holds the declaration, the record it was built from names the volumes \<open>X\<close>, and
  the declared volumes exist.\<close>

definition established ::
  "('d, 'h) app \<Rightarrow> idmap_plan \<Rightarrow> string set \<Rightarrow> incus_instance option \<Rightarrow> string set \<Rightarrow> bool" where
  "established a plan X io vs \<longleftrightarrow>
     (\<exists>i cur. io = Some i \<and> holds (ap_cfg a) plan (ap_instance a) cur i
        \<and> X \<subseteq> set (split_list (get_str cur managed_volumes_key))
        \<and> set (declared_volumes (ap_cfg a) (ap_instance a)) \<subseteq> vs)"

text \<open>No declared key is one of idev's own (validation refuses the prefix).\<close>

definition no_reserved_keys :: "config \<Rightarrow> bool" where
  "no_reserved_keys c \<longleftrightarrow>
     list_all (\<lambda>k. \<not> has_prefix k reserved_config_prefix) (sorted_keys (in_config (cf_instance c)))"

lemma not_desired:
  assumes "no_reserved_keys c"
  shows "\<not> has_key (desired_config c plan cur n) managed_restart_key"
    "\<not> has_key (desired_config c plan cur n) managed_image_key"
proof -
  have "\<not> has_key (in_config (cf_instance c)) k" if "has_prefix k reserved_config_prefix" for k
    using assms that by (auto simp: no_reserved_keys_def list_all_iff)
  moreover have "has_prefix managed_restart_key reserved_config_prefix"
    "has_prefix managed_image_key reserved_config_prefix"
    by (simp_all add: managed_keys)
  ultimately show "\<not> has_key (desired_config c plan cur n) managed_restart_key"
    "\<not> has_key (desired_config c plan cur n) managed_image_key"
    unfolding has_key_desired by (auto simp: managed_keys reserved_config_prefix_def raw_idmap_key_def)
qed

text \<open>Nor one that the daemon writes for itself.\<close>

definition proper_keys :: "(string \<Rightarrow> bool) \<Rightarrow> config \<Rightarrow> bool" where
  "proper_keys own c \<longleftrightarrow> no_reserved_keys c
     \<and> (\<forall>plan cur n k. has_key (desired_config c plan cur n) k \<longrightarrow> \<not> own k)"

lemma proper_keys_none [simp]: "proper_keys (\<lambda>_. False) c = no_reserved_keys c"
  by (simp add: proper_keys_def)

lemma holds_same:
  assumes "holds c plan n cur i" "proper_keys own c"
    and "same_settings own (ii_config j) (ii_config i)" "ii_devices j = ii_devices i"
  shows "holds c plan n cur j"
  using assms by (auto simp: holds_def proper_keys_def same_settings_def)

lemma holds_restart_record:
  assumes "holds c plan n cur i" "proper_keys own c"
    and "ch \<in> {empty_change\<lparr>ch_unset_config := [managed_restart_key]\<rparr>,
               empty_change\<lparr>ch_set_config := fmupd managed_restart_key v fmempty\<rparr>}"
    and "same_settings own (ii_config j) (change_config ch (ii_config i))" "ii_devices j = change_devices ch (ii_devices i)"
  shows "holds c plan n cur j"
proof (rule holds_same [OF _ assms(2)])
  show "holds c plan n cur (i\<lparr>ii_config := change_config ch (ii_config i), ii_devices := change_devices ch (ii_devices i)\<rparr>)"
    using assms(1,3) not_desired(1) assms(2)
    by (auto simp: holds_def proper_keys_def lookup_change_config lookup_change_devices empty_change_def)
qed (simp_all add: assms)

lemma holds_reapplied:
  assumes "proper_keys own c" "same_settings own (ii_config j) (change_config (reapply_change c plan n cur devs) base)"
    and "ii_devices j = change_devices (reapply_change c plan n cur devs) ds"
  shows "holds c plan n cur j"
proof (rule holds_same [OF _ assms(1)])
  show "holds c plan n cur (j\<lparr>ii_config := change_config (reapply_change c plan n cur devs) base\<rparr>)"
    using assms(3) by (auto simp: holds_def lookup_change_config lookup_change_devices has_key_iff split: option.splits)
qed (simp_all add: assms)

lemma holds_settled:
  "settled (ii_config i) (ii_devices i) (reapply_change c plan n cur devs) \<Longrightarrow> holds c plan n cur i"
  by (simp add: holds_def settled_iff)

lemma holds_created:
  assumes "proper_keys own c" "s = instance_spec_of c n plan cur"
    and "same_settings own (ii_config i) (is_config s)" "ii_devices i = is_devices s"
  shows "holds c plan n cur i"
proof (rule holds_same [OF _ assms(1)])
  show "holds c plan n cur (i\<lparr>ii_config := is_config s\<rparr>)"
    using assms(1,2,4) not_desired(2) by (auto simp: holds_def instance_spec_of_def proper_keys_def)
qed (use assms in simp_all)


section \<open>Runs that keep a volume record\<close>

lemma keeps_and_view: "keeps J m \<Longrightarrow> reads_only iv vv m \<Longrightarrow> keeps (\<lambda>w. J w \<and> P (iv w) (vv w)) m"
  unfolding reads_only_def keeps_def by metis

text \<open>
  \<open>X\<close> is a set of volumes the record names and that exist; \<open>J\<close> a predicate of the daemon that every
  command keeps and under which a volume of \<open>X\<close> is there and its pool is never reported missing.
\<close>

locale recording = daemon c iv vv own + kept_by_client J c n
  for c :: "'w client" and iv :: "'w \<Rightarrow> string \<Rightarrow> incus_instance option" and vv :: "'w \<Rightarrow> string set"
    and own :: "string \<Rightarrow> bool" and J :: "'w \<Rightarrow> bool" and n :: string +
  fixes X :: "string set"
  assumes X_there: "J w \<Longrightarrow> X \<subseteq> vv w"
    and X_pool: "J w \<Longrightarrow> CHR ''/'' \<notin> set p \<Longrightarrow> ref_of p v \<in> X \<Longrightarrow> cl_volume_exists c p v w = (Inl e, w') \<Longrightarrow>
      \<not> errors_is e ErrPoolNotFound"
    and X_found: "J w \<Longrightarrow> cl_instance c n w = (Inl e, w') \<Longrightarrow> errors_is e ErrInstanceNotFound \<Longrightarrow>
      X \<noteq> {} \<Longrightarrow> iv w n = None"
    and X_refs: "x \<in> X \<Longrightarrow> no_comma x \<and> x \<noteq> [] \<and> snd (snd (split_volume x))"
begin

lemma kept_with_view: "kept_by_reads (\<lambda>w. J w \<and> P (iv w) (vv w)) c"
  using reads by (auto simp: kept_by_reads_def intro: keeps_and_view client_reads)

lemma keep_ref_kept:
  assumes "ap_client a = c"
  shows "achieves (on_d J) (keep_ref a ref) (\<lambda>k s. J (se_daemon s) \<and> (ref \<in> X \<longrightarrow> k))"
proof (rule achievesI)
  fix s k s'
  assume J: "J (se_daemon s)" and run: "keep_ref a ref s = (Inr k, s')"
  have "J (se_daemon s')"
    using keepsD [OF reads_prune(1) [OF reads assms], of s ref] J run by simp
  moreover have k if X: "ref \<in> X"
  proof -
    obtain p v ok where sv: "split_volume ref = (p, v, ok)" by (cases "split_volume ref")
    then have ok: ok using X_refs [OF X] by simp
    then have ref: "ref_of p v = ref" "CHR ''/'' \<notin> set p" using sv split_volume_ref by simp_all
    obtain r d where ve: "cl_volume_exists c p v (se_daemon s) = (r, d)"
      by (cases "cl_volume_exists c p v (se_daemon s)")
    have "ref \<in> vv (se_daemon s)" using X_there [OF J] X by blast
    then have yes: "r = Inr b \<Longrightarrow> b" for b using volume_exists_ok [of p v "se_daemon s" b d] ve ref by simp
    have known: "r = Inl e \<Longrightarrow> \<not> errors_is e ErrPoolNotFound" for e
      using X_pool [OF J ref(2), of v e d] X ref ve by simp
    note run = run [unfolded keep_ref_def sv assms]
    show k
    proof (cases r)
      case (Inl e)
      then show ?thesis using run ok ve known [OF Inl]
        by (auto simp: run_bindE run_attempt run_on_daemon run_ret run_thenE run_log split: if_splits)
    next
      case (Inr b)
      then show ?thesis using run ok ve yes [OF Inr]
        by (auto simp: run_bindE run_attempt run_on_daemon run_ret split: if_splits)
    qed
  qed
  ultimately show "J (se_daemon s') \<and> (ref \<in> X \<longrightarrow> k)" by blast
qed

lemma keep_refs_kept:
  assumes "ap_client a = c"
  shows "achieves (on_d J) (fold_op (\<lambda>ref kept. bindE (keep_ref a ref)
      (\<lambda>k. ret (if k then kept @ [ref] else kept))) refs kept)
    (\<lambda>out s. J (se_daemon s) \<and> set kept \<union> (X \<inter> set refs) \<subseteq> set out)"
proof (induction refs arbitrary: kept)
  case Nil
  then show ?case by (auto intro: achieves_ret)
next
  case (Cons ref refs)
  have "achieves (on_d J) (bindE (keep_ref a ref) (\<lambda>k. ret (if k then kept @ [ref] else kept)))
      (\<lambda>kept' s. J (se_daemon s) \<and> set kept \<union> (X \<inter> {ref}) \<subseteq> set kept')"
    by (rule achieves_bind [OF keep_ref_kept [OF assms]]) (auto intro!: achieves_ret)
  then show ?case unfolding fold_op.simps
  proof (rule achieves_bind)
    fix kept'
    show "achieves (\<lambda>s. J (se_daemon s) \<and> set kept \<union> (X \<inter> {ref}) \<subseteq> set kept')
       (fold_op (\<lambda>ref kept. bindE (keep_ref a ref) (\<lambda>k. ret (if k then kept @ [ref] else kept))) refs kept')
       (\<lambda>out s. J (se_daemon s) \<and> set kept \<union> (X \<inter> set (ref # refs)) \<subseteq> set out)"
      using Cons.IH [of kept'] unfolding achieves_def by fastforce
  qed
qed

text \<open>The instance a run works on, against the one it read.\<close>

definition worked_on :: "incus_instance \<Rightarrow> incus_instance \<Rightarrow> bool" where
  "worked_on i j \<longleftrightarrow> ii_devices j = ii_devices i
     \<and> X \<subseteq> set (split_list (get_str (ii_config j) managed_volumes_key))"

lemma adopt_kept:
  assumes "worked_on i i"
  shows "achieves P (adopt_carried a i) (\<lambda>j s. P s \<and> worked_on i j)"
proof (rule achievesI)
  fix s j s'
  assume P: "P s" and run: "adopt_carried a i s = (Inr j, s')"
  have "x \<in> set (split_list (join_list (sort (append_new
      (known_volumes (ii_config i) (ap_cfg a) (ap_instance a)) (se_carried s)))))" if "x \<in> X" for x
    using that assms X_refs [OF that]
    by (intro in_join_list) (auto simp: append_new_eq set_known_volumes worked_on_def)
  then have "worked_on i j" using run assms
    by (auto simp: adopt_carried_def run_bindE run_get run_ret worked_on_def get_str_def split: if_splits)
  then show "P s' \<and> worked_on i j" using P run
    by (auto simp: adopt_carried_def run_bindE run_get run_ret split: if_splits)
qed

lemma prune_kept:
  assumes "ap_client a = c" "worked_on i i1"
  shows "achieves (on_d (\<lambda>w. J w \<and> P (iv w) (vv w))) (prune_volume_record a i1)
    (\<lambda>j s. J (se_daemon s) \<and> P (iv (se_daemon s)) (vv (se_daemon s)) \<and> worked_on i j \<and> ii_etag j = ii_etag i1)"
proof (rule achievesI)
  fix s j s'
  assume pre: "J (se_daemon s) \<and> P (iv (se_daemon s)) (vv (se_daemon s))"
    and run: "prune_volume_record a i1 s = (Inr j, s')"
  have "J (se_daemon s') \<and> P (iv (se_daemon s')) (vv (se_daemon s'))"
    using keepsD [OF reads_prune(2) [OF kept_with_view assms(1), of P], of s i1] pre run by simp
  moreover have "worked_on i j \<and> ii_etag j = ii_etag i1"
  proof (cases "fmlookup (ii_config i1) managed_volumes_key")
    case None
    then show ?thesis using run assms(2) by (simp add: prune_volume_record_def run_ret)
  next
    case (Some rec)
    then obtain out s1 where out: "keep_refs a (split_list rec) s = (Inr out, s1)"
      "j = i1\<lparr>ii_config := fmupd managed_volumes_key (join_list out) (ii_config i1)\<rparr>"
      using run by (auto simp: prune_volume_record_def run_bindE run_ret split: prod.splits sum.splits)
    have "X \<subseteq> set (split_list rec)" using assms(2) Some by (simp add: worked_on_def get_str_def)
    then have "X \<subseteq> set out"
      using achievesD [OF keep_refs_kept [OF assms(1), of "split_list rec" "[]"], of s] pre out(1)
      by (auto simp: keep_refs_def)
    then have "X \<subseteq> set (split_list (join_list out))" using in_join_list X_refs by blast
    then show ?thesis using out(2) assms(2) by (simp add: worked_on_def get_str_def)
  qed
  ultimately show "J (se_daemon s') \<and> P (iv (se_daemon s')) (vv (se_daemon s')) \<and> worked_on i j
      \<and> ii_etag j = ii_etag i1" by blast
qed

text \<open>The declared volumes, created where they are missing.\<close>

lemma ensure_volume_there:
  assumes "ap_client a = c"
  shows "achieves (on_d (\<lambda>w. J w \<and> P (iv w) \<and> D \<subseteq> vv w)) (ensure_volume a (k, v))
    (\<lambda>_. on_d (\<lambda>w. J w \<and> P (iv w)
      \<and> insert (ref_of (pool_or_default v) (volume_name (ap_instance a) k)) D \<subseteq> vv w))"
proof (rule achievesI)
  let ?p = "pool_or_default v" and ?v = "volume_name (ap_instance a) k"
  fix s x s'
  assume pre: "J (se_daemon s) \<and> P (iv (se_daemon s)) \<and> D \<subseteq> vv (se_daemon s)"
    and run: "ensure_volume a (k, v) s = (Inr x, s')"
  obtain r d where ve: "cl_volume_exists c ?p ?v (se_daemon s) = (r, d)"
    by (cases "cl_volume_exists c ?p ?v (se_daemon s)")
  have d: "iv d = iv (se_daemon s)" "vv d = vv (se_daemon s)" "J d"
    using read_view [OF volume_exists_reads, of ?p ?v "se_daemon s"] ve pre reads
      keepsD [of J "cl_volume_exists c ?p ?v" "se_daemon s"] by (simp_all add: kept_by_reads_def)
  note run = run [unfolded ensure_volume_def assms prod.case Let_def]
  obtain b where b: "r = Inr b" using run ve by (cases r) (auto simp: run_bindE run_on_daemon)
  have b': "b = (ref_of ?p ?v \<in> vv (se_daemon s))" using volume_exists_ok ve b by blast
  show "J (se_daemon s') \<and> P (iv (se_daemon s')) \<and> insert (ref_of ?p ?v) D \<subseteq> vv (se_daemon s')"
  proof (cases b)
    case True
    then have "se_daemon s' = d" using run ve b by (auto simp: run_bindE run_on_daemon run_log)
    then show ?thesis using d pre True b' by auto
  next
    case False
    let ?cfg = "if vo_size v \<noteq> [] then fmupd ''size'' (vo_size v) fmempty else fmempty"
    obtain u d' where cv: "cl_create_volume c ?p ?v ?cfg d = (Inr u, d')" "se_daemon s' = d'"
      using run ve b False
      by (cases "cl_create_volume c ?p ?v ?cfg d") (auto simp: run_bindE run_on_daemon run_log run_thenE)
    have "iv d' = iv d" "vv d \<subseteq> vv d'" "ref_of ?p ?v \<in> vv d'"
      using create_volume_frame [of ?p ?v ?cfg d] create_volume_adds [of d ?p ?v ?cfg] create_volume_ok [OF cv(1)]
        cv(1) by auto
    moreover have "J d'"
      using writes keepsD [of J "cl_create_volume c ?p ?v ?cfg" d] d(3) cv(1) by (simp add: kept_by_writes_def)
    ultimately show ?thesis using d pre cv(2) by auto
  qed
qed

lemma declared_refs:
  "set (declared_volumes cfg m) = (\<lambda>(k, v). ref_of (pool_or_default v) (volume_name m k)) ` set (entries (cf_volumes cfg))"
proof -
  have "declared_volumes cfg m = map (\<lambda>(k, v). ref_of (pool_or_default v) (volume_name m k)) (entries (cf_volumes cfg))"
    by (auto simp: declared_volumes_def entries_def ref_of_def has_key_iff split: option.splits)
  then show ?thesis by simp
qed

lemma ensure_volumes_there:
  assumes "ap_client a = c"
  shows "achieves (on_d (\<lambda>w. J w \<and> P (iv w))) (ensure_volumes a)
    (\<lambda>_. on_d (\<lambda>w. J w \<and> P (iv w) \<and> set (declared_volumes (ap_cfg a) (ap_instance a)) \<subseteq> vv w))"
proof -
  have each: "achieves (on_d (\<lambda>w. J w \<and> P (iv w) \<and> D \<subseteq> vv w)) (for_each es (ensure_volume a))
      (\<lambda>_. on_d (\<lambda>w. J w \<and> P (iv w)
         \<and> (\<lambda>(k, v). ref_of (pool_or_default v) (volume_name (ap_instance a) k)) ` set es \<union> D \<subseteq> vv w))"
    for es D
  proof (induction es arbitrary: D)
    case Nil
    then show ?case by (simp add: achieves_ret)
  next
    case (Cons e es)
    obtain k v where e: "e = (k, v)" by (cases e)
    show ?case unfolding for_each.simps e
      by (rule achieves_weaken [OF achieves_then [OF ensure_volume_there [OF assms] Cons.IH]]) auto
  qed
  show ?thesis unfolding ensure_volumes_def declared_refs
    by (rule achieves_weaken [OF achieves_pre [OF each [of "{}"]]]) auto
qed

text \<open>Writing the declaration, and what a pending restart adds.\<close>

definition up_done :: "('w, 'h) app \<Rightarrow> idmap_plan \<Rightarrow> 'w \<Rightarrow> bool" where
  "up_done a plan w \<longleftrightarrow> J w \<and> established a plan X (iv w n) (vv w)"

lemma up_doneI:
  assumes "ap_instance a = n" "J w" "iv w n = Some i" "holds (ap_cfg a) plan n cur i"
    and "X \<subseteq> set (split_list (get_str cur managed_volumes_key))"
    and "set (declared_volumes (ap_cfg a) n) \<subseteq> vv w"
  shows "up_done a plan w"
  using assms unfolding up_done_def established_def by blast

lemma up_doneE:
  assumes "up_done a plan w" "ap_instance a = n"
  obtains i cur where "J w" "iv w n = Some i" "holds (ap_cfg a) plan n cur i"
    "X \<subseteq> set (split_list (get_str cur managed_volumes_key))"
    "set (declared_volumes (ap_cfg a) n) \<subseteq> vv w"
  using assms unfolding up_done_def established_def by blast

lemma app_update_done:
  assumes "ap_client a = c" "ap_instance a = n" "\<not> change_is_empty ch"
  shows "achieves (on_d (\<lambda>w. J w \<and> iv w n = Some i \<and> D \<subseteq> vv w)) (app_update a ch et)
    (\<lambda>_. on_d (\<lambda>w. J w \<and> D \<subseteq> vv w \<and> (\<exists>j. iv w n = Some j \<and> same_settings own (ii_config j) (change_config ch (ii_config i))
        \<and> ii_devices j = change_devices ch (ii_devices i))))"
proof (rule achievesI)
  fix s x s'
  assume pre: "J (se_daemon s) \<and> iv (se_daemon s) n = Some i \<and> D \<subseteq> vv (se_daemon s)"
    and run: "app_update a ch et s = (Inr x, s')"
  obtain u d where up: "cl_update c n ch et (se_daemon s) = (Inr u, d)" "se_daemon s' = d"
    using run [unfolded app_update_def assms(1,2)]
    by (cases "cl_update c n ch et (se_daemon s)")
      (auto simp: run_on_error run_on_daemon run_fail split: sum.splits)
  have "J d"
    using writes keepsD [of J "cl_update c n ch et" "se_daemon s"] pre up(1) by (simp add: kept_by_writes_def)
  moreover have "vv d = vv (se_daemon s)"
    using only_view(2) [OF update_frame, of n ch et "se_daemon s"] up(1) by simp
  ultimately show "J (se_daemon s') \<and> D \<subseteq> vv (se_daemon s') \<and> (\<exists>j. iv (se_daemon s') n = Some j
      \<and> same_settings own (ii_config j) (change_config ch (ii_config i)) \<and> ii_devices j = change_devices ch (ii_devices i))"
    using update_ok [OF up(1) assms(3)] pre up(2) by auto
qed

lemma restart_record_done:
  assumes "ap_client a = c" "ap_instance a = n" "proper_keys own (ap_cfg a)"
    and "ch \<in> {empty_change\<lparr>ch_unset_config := [managed_restart_key]\<rparr>,
               empty_change\<lparr>ch_set_config := fmupd managed_restart_key v fmempty\<rparr>}"
  shows "achieves (on_d (up_done a plan)) (app_update a ch et) (\<lambda>_. on_d (up_done a plan))"
proof (rule achievesI)
  fix s x s'
  assume "up_done a plan (se_daemon s)" and run: "app_update a ch et s = (Inr x, s')"
  then obtain i cur where i: "J (se_daemon s)" "iv (se_daemon s) n = Some i"
      "holds (ap_cfg a) plan n cur i" "X \<subseteq> set (split_list (get_str cur managed_volumes_key))"
      "set (declared_volumes (ap_cfg a) n) \<subseteq> vv (se_daemon s)"
    using up_doneE assms(2) by blast
  have "\<not> change_is_empty ch" using assms(4) by (auto simp: change_is_empty_def)
  from achievesD [OF app_update_done [OF assms(1,2) this] _ run, of i "set (declared_volumes (ap_cfg a) n)"] i
  obtain j where j: "J (se_daemon s')" "iv (se_daemon s') n = Some j"
      "same_settings own (ii_config j) (change_config ch (ii_config i))" "ii_devices j = change_devices ch (ii_devices i)"
      "set (declared_volumes (ap_cfg a) n) \<subseteq> vv (se_daemon s')" by auto
  show "up_done a plan (se_daemon s')"
    by (rule up_doneI [OF assms(2) j(1,2) holds_restart_record [OF i(3) assms(3,4) j(3,4)] i(4) j(5)])
qed

lemma start_stop_done:
  assumes "ap_client a = c" "ap_instance a = n" "proper_keys own (ap_cfg a)"
  shows "achieves (on_d (up_done a plan)) (call (cl_stop (ap_client a) (ap_instance a))) (\<lambda>_. on_d (up_done a plan))"
    and "achieves (on_d (up_done a plan)) (call (cl_start (ap_client a) (ap_instance a)))
      (\<lambda>_. on_d (\<lambda>w. up_done a plan w \<and> (\<exists>j. iv w n = Some j \<and> is_running j)))"
proof -
  have same: "up_done a plan (snd (m w))" if "up_done a plan w" "keeps J m" "only_instance iv vv n m"
      "\<And>i. iv w n = Some i \<Longrightarrow>
        \<exists>j. iv (snd (m w)) n = Some j \<and> same_settings own (ii_config j) (ii_config i) \<and> ii_devices j = ii_devices i"
    for m :: "('w, err, unit) op" and w
  proof -
    note h = that
    obtain i cur where i: "J w" "iv w n = Some i" "holds (ap_cfg a) plan n cur i"
        "X \<subseteq> set (split_list (get_str cur managed_volumes_key))" "set (declared_volumes (ap_cfg a) n) \<subseteq> vv w"
      using up_doneE [OF h(1) assms(2)] by blast
    obtain j where j: "iv (snd (m w)) n = Some j" "same_settings own (ii_config j) (ii_config i)" "ii_devices j = ii_devices i"
      using h(4) [OF i(2)] by blast
    show ?thesis
      by (rule up_doneI [OF assms(2) keepsD [OF h(2) i(1)] j(1) holds_same [OF i(3) assms(3) j(2,3)] i(4)])
        (simp add: only_view(2) [OF h(3)] i(5))
  qed
  have w: "keeps J (cl_stop c n)" "keeps J (cl_start c n)" using writes by (simp_all add: kept_by_writes_def)
  show "achieves (on_d (up_done a plan)) (call (cl_stop (ap_client a) (ap_instance a))) (\<lambda>_. on_d (up_done a plan))"
    unfolding assms using same [OF _ w(1) stop_frame] stop_ok
    by (auto simp: achieves_def run_on_daemon)
  have "\<exists>j. iv (snd (cl_start c n d)) n = Some j \<and> is_running j" if "fst (cl_start c n d) = Inr u" for d u
    using start_running [of n d u "snd (cl_start c n d)"] that by (metis prod.collapse)
  then show "achieves (on_d (up_done a plan)) (call (cl_start (ap_client a) (ap_instance a)))
      (\<lambda>_. on_d (\<lambda>w. up_done a plan w \<and> (\<exists>j. iv w n = Some j \<and> is_running j)))"
    unfolding assms using same [OF _ w(2) start_frame] start_ok
    by (auto simp: achieves_def run_on_daemon)
qed

lemma settle_restart_done:
  assumes "ap_client a = c" "ap_instance a = n" "proper_keys own (ap_cfg a)"
  shows "achieves (on_d (up_done a plan)) (settle_restart a running t prev desired unset restart)
    (\<lambda>_. on_d (up_done a plan))"
proof -
  have log: "keeps (on_d (up_done a plan)) (log_at l msg)" for l msg by (rule keeps_log)
  have clear: "achieves (on_d (up_done a plan)) (clear_restart_pending a prev) (\<lambda>_. on_d (up_done a plan))"
    unfolding clear_restart_pending_def
    by (intro achieves_if achieves_ret restart_record_done [OF assms]) simp_all
  have note_it: "achieves (on_d (up_done a plan))
      (app_update a (empty_change\<lparr>ch_set_config := fmupd managed_restart_key v fmempty\<rparr>) et)
      (\<lambda>_. on_d (up_done a plan))" for v et
    by (rule restart_record_done [OF assms, of _ v]) simp
  have started: "achieves (on_d (up_done a plan)) (call (cl_start (ap_client a) (ap_instance a)))
      (\<lambda>_. on_d (up_done a plan))"
    by (rule achieves_weaken [OF start_stop_done(2) [OF assms]]) simp
  obtain fresh changed booted where ro: "restart_owed running prev desired unset t = (fresh, changed, booted)"
    by (cases "restart_owed running prev desired unset t")
  show ?thesis unfolding settle_restart_def ro prod.case Let_def
    by (intro achieves_if clear achieves_skip [OF log] achieves_ret note_it
        achieves_then [OF start_stop_done(1) [OF assms]] achieves_then [OF started]) simp_all
qed

text \<open>Reapplying the declaration to an instance that is there.\<close>

lemma reapply_done:
  fixes a :: "('w, 'b) app"
  assumes "ap_client a = c" "ap_instance a = n" "proper_keys own (ap_cfg a)" "worked_on i i2"
  shows "achieves (on_d (\<lambda>w. J w \<and> iv w n = Some i \<and> set (declared_volumes (ap_cfg a) n) \<subseteq> vv w))
    (reapply_instance a i2 (ii_config i) plan restart) (\<lambda>_. on_d (up_done a plan))"
proof -
  let ?ch = "reapply_change (ap_cfg a) plan n (ii_config i2) (ii_devices i2)"
  let ?P = "\<lambda>w. J w \<and> iv w n = Some i \<and> set (declared_volumes (ap_cfg a) n) \<subseteq> vv w"
  have X: "X \<subseteq> set (split_list (get_str (ii_config i2) managed_volumes_key))" and devs: "ii_devices i2 = ii_devices i"
    using assms(4) by (simp_all add: worked_on_def)
  have "achieves (on_d ?P) (log_debug m) (\<lambda>_. on_d (up_done a plan))" if "settled (ii_config i) (ii_devices i2) ?ch" for m
    by (rule achieves_weaken [OF achieves_keeps [OF keeps_log]])
      (use X holds_settled [OF that [unfolded devs]] in \<open>auto intro: up_doneI [OF assms(2)]\<close>)
  moreover have "achieves (on_d ?P) (app_update a ?ch (ii_etag i2)) (\<lambda>_. on_d (up_done a plan))"
  proof (rule achieves_weaken [OF app_update_done [OF assms(1,2) not_empty_reapply, of i]])
    fix x :: unit and s :: "('w, 'b) session"
    assume "J (se_daemon s) \<and> set (declared_volumes (ap_cfg a) n) \<subseteq> vv (se_daemon s) \<and>
      (\<exists>j. iv (se_daemon s) n = Some j \<and> same_settings own (ii_config j) (change_config ?ch (ii_config i))
        \<and> ii_devices j = change_devices ?ch (ii_devices i))"
    then show "up_done a plan (se_daemon s)" using X by (auto intro: up_doneI [OF assms(2)] holds_reapplied [OF assms(3)])
  qed
  moreover have "keeps (on_d (up_done a plan)) drop_carried" by (rule keeps_drop_carried)
  ultimately show ?thesis
    unfolding reapply_instance_def Let_def assms(2)
    by (rule achieves_skip [OF keeps_when [OF keeps_log] achieves_skip [OF keeps_when [OF keeps_log]
        achieves_then [OF achieves_if achieves_skip [OF _ settle_restart_done [OF assms(1-3)]]]]])
qed

lemma up_existing_done:
  assumes "ap_client a = c" "ap_instance a = n" "proper_keys own (ap_cfg a)" "worked_on i i"
  shows "achieves (on_d (\<lambda>w. J w \<and> iv w n = Some i)) (up_existing a restart plan i) (\<lambda>_. on_d (up_done a plan))"
proof -
  let ?D = "set (declared_volumes (ap_cfg a) n)"
  let ?P = "\<lambda>w. J w \<and> iv w n = Some i \<and> ?D \<subseteq> vv w"
  have vols: "achieves (on_d (\<lambda>w. J w \<and> iv w n = Some i)) (ensure_volumes a) (\<lambda>_. on_d ?P)"
    using ensure_volumes_there [OF assms(1), of "\<lambda>f. f n = Some i"] assms(2) by simp
  have prune: "achieves (on_d ?P) (prune_volume_record a i1) (\<lambda>i2 s. ?P (se_daemon s) \<and> worked_on i i2)"
    if "worked_on i i1" for i1
    by (rule achieves_weaken [OF prune_kept [OF assms(1) that, of "\<lambda>f vs. f n = Some i \<and> ?D \<subseteq> vs"]]) simp
  have last: "achieves (\<lambda>s. ?P (se_daemon s) \<and> worked_on i i2)
      (thenE (warn_unrecorded a i2 plan) (thenE (warn_changes a i2 RemountsHere)
        (reapply_instance a i2 (ii_config i) plan restart))) (\<lambda>_. on_d (up_done a plan))" for i2
  proof (cases "worked_on i i2")
    case True
    have "achieves (on_d ?P) (thenE (warn_unrecorded a i2 plan) (thenE (warn_changes a i2 RemountsHere)
        (reapply_instance a i2 (ii_config i) plan restart))) (\<lambda>_. on_d (up_done a plan))"
      by (intro achieves_skip keeps_warn keeps_warn_changes reapply_done assms(1-3) True)
    then show ?thesis by (rule achieves_pre) simp
  qed (simp add: achieves_def)
  have rest: "achieves (\<lambda>s. (J (se_daemon s) \<and> iv (se_daemon s) n = Some i) \<and> worked_on i i1)
      (thenE (ensure_volumes a) (bindE (prune_volume_record a i1) (\<lambda>i2.
         thenE (warn_unrecorded a i2 plan) (thenE (warn_changes a i2 RemountsHere)
           (reapply_instance a i2 (ii_config i) plan restart))))) (\<lambda>_. on_d (up_done a plan))" for i1
  proof (cases "worked_on i i1")
    case True
    show ?thesis
      by (rule achieves_pre [OF achieves_then [OF vols achieves_bind [OF prune [OF True] last]]]) simp
  qed (simp add: achieves_def)
  show ?thesis unfolding up_existing_def
    by (intro achieves_if achieves_fail achieves_skip [OF keeps_log]
        achieves_bind [OF adopt_kept [OF assms(4)]]) (rule rest)
qed

lemma up_new_done:
  fixes a :: "('w, 'b) app"
  assumes "ap_client a = c" "ap_instance a = n" "proper_keys own (ap_cfg a)"
  shows "achieves (\<lambda>s. J (se_daemon s) \<and> X \<subseteq> set (se_carried s)) (up_new a plan) (\<lambda>_. on_d (up_done a plan))"
proof -
  let ?D = "set (declared_volumes (ap_cfg a) n)"
  let ?P = "\<lambda>s :: ('w, 'b) session. (J (se_daemon s) \<and> ?D \<subseteq> vv (se_daemon s)) \<and> X \<subseteq> set (se_carried s)"
  have stranded: "keeps (\<lambda>s. J (se_daemon s) \<and> X \<subseteq> set (se_carried s)) (warn_stranded_instances a)"
    by (intro keeps_conj reads_checks(3) [OF reads assms(1)] carrying_parts)
  have log: "keeps (\<lambda>s. J (se_daemon s) \<and> X \<subseteq> set (se_carried s)) (log_at l m)" for l m
    by (intro keeps_conj keeps_log carrying_steps)
  have vols: "achieves (\<lambda>s. J (se_daemon s) \<and> X \<subseteq> set (se_carried s)) (ensure_volumes a) (\<lambda>_. ?P)"
    using achieves_frame [OF ensure_volumes_there [OF assms(1), of "\<lambda>f. True"] carrying_parts(1)] assms(2) by simp
  have create: "achieves ?P (bindE get_state (\<lambda>s. thenE (call (cl_create (ap_client a)
      (app_instance_spec a plan (se_carried s)))) drop_carried)) (\<lambda>_. on_d (up_done a plan))"
  proof (rule achievesI)
    fix s :: "('w, 'b) session" and x :: unit and s'
    let ?carried = "se_carried s"
    let ?cur = "if ?carried \<noteq> [] then fmupd managed_volumes_key (join_list ?carried) fmempty else fmempty"
    assume pre: "?P s" and "bindE get_state (\<lambda>s. thenE (call (cl_create (ap_client a)
      (app_instance_spec a plan (se_carried s)))) drop_carried) s = (Inr x, s')"
    then obtain u d where cr: "cl_create c (app_instance_spec a plan ?carried) (se_daemon s) = (Inr u, d)"
        "se_daemon s' = d"
      unfolding assms(1) by (cases "cl_create c (app_instance_spec a plan ?carried) (se_daemon s)")
        (auto simp: run_bindE run_get run_thenE run_on_daemon drop_carried_def run_modify split: sum.splits)
    obtain i where i: "iv d n = Some i" "same_settings own (ii_config i) (is_config (app_instance_spec a plan ?carried))"
        "ii_devices i = is_devices (app_instance_spec a plan ?carried)"
      using create_ok [OF cr(1)] assms(2) by auto
    have "keeps J (cl_create c (app_instance_spec a plan ?carried))"
      using writes assms(2) by (simp add: kept_by_writes_def)
    from keepsD [OF this, of "se_daemon s"] have "J d" using pre cr(1) by simp
    moreover have "holds (ap_cfg a) plan n ?cur i"
      by (rule holds_created [OF assms(3) _ i(2,3)]) (simp add: app_instance_spec_def assms(2))
    moreover have "x \<in> set (split_list (get_str ?cur managed_volumes_key))" if "x \<in> X" for x
    proof -
      have "x \<in> set ?carried" using pre that by blast
      then show ?thesis using in_join_list X_refs [OF that] by (auto simp: get_str_def)
    qed
    moreover have "vv d = vv (se_daemon s)"
      using only_view(2) [OF create_frame, of "app_instance_spec a plan ?carried" "se_daemon s"] cr(1) by simp
    ultimately show "up_done a plan (se_daemon s')"
      using pre i(1) cr(2) by (intro up_doneI [OF assms(2)]) auto
  qed
  show ?thesis unfolding up_new_def
    by (rule achieves_skip [OF stranded achieves_skip [OF log achieves_then [OF vols create]]])
qed

text \<open>Starting and provisioning change none of it.\<close>

definition up_running :: "('w, 'h) app \<Rightarrow> idmap_plan \<Rightarrow> 'w \<Rightarrow> bool" where
  "up_running a plan w \<longleftrightarrow> up_done a plan w \<and> (\<exists>i. iv w n = Some i \<and> is_running i)"

lemma up_reads:
  "kept_by_reads (up_done a plan) c" "kept_by_reads (up_running a plan) c"
  "kept_by_reads (\<lambda>w. up_done a plan w \<and> iv w n = Some i) c"
  using kept_with_view [of "\<lambda>f vs. established a plan X (f n) vs"]
    kept_with_view [of "\<lambda>f vs. established a plan X (f n) vs \<and> (\<exists>i. f n = Some i \<and> is_running i)"]
    kept_with_view [of "\<lambda>f vs. established a plan X (f n) vs \<and> f n = Some i"]
  by (simp_all add: up_done_def [abs_def] up_running_def [abs_def] conj_assoc)

lemma read_found:
  assumes "ap_client a = c" "ap_instance a = n" "kept_by_reads P c"
  shows "achieves (on_d P) (call (cl_instance (ap_client a) (ap_instance a)))
    (\<lambda>i. on_d (\<lambda>w. P w \<and> iv w n = Some i))"
proof (rule achievesI)
  fix s i s'
  assume P: "P (se_daemon s)" and run: "call (cl_instance (ap_client a) (ap_instance a)) s = (Inr i, s')"
  have "P (se_daemon s')" using keepsD [OF reads_calls(1) [OF assms(3,1)], of s n] P run assms(2) by simp
  moreover have "iv (se_daemon s') n = Some i"
    using run instance_view_after [of n "se_daemon s" i] unfolding assms(1,2)
    by (cases "cl_instance c n (se_daemon s)") (auto simp: run_on_daemon)
  ultimately show "P (se_daemon s') \<and> iv (se_daemon s') n = Some i" by blast
qed

lemma ensure_running_done:
  assumes "ap_client a = c" "ap_instance a = n" "proper_keys own (ap_cfg a)"
  shows "achieves (on_d (up_done a plan)) (ensure_running a None) (\<lambda>_. on_d (up_running a plan))"
proof -
  have start: "achieves (on_d (\<lambda>w. up_done a plan w \<and> iv w n = Some i))
      (when_op (\<not> is_running i) (thenE (log_info m) (call (cl_start (ap_client a) (ap_instance a)))))
      (\<lambda>_. on_d (up_running a plan))" for i m
  proof (cases "is_running i")
    case True
    then show ?thesis by (auto simp: achieves_def run_when up_running_def)
  next
    case False
    have "achieves (on_d (up_done a plan)) (thenE (log_info m) (call (cl_start (ap_client a) (ap_instance a))))
        (\<lambda>_. on_d (up_running a plan))"
      unfolding up_running_def by (rule achieves_skip [OF keeps_log start_stop_done(2) [OF assms]])
    then show ?thesis using False by (auto simp: when_op_def intro: achieves_pre)
  qed
  have wait: "keeps (on_d (up_running a plan)) (on_error (call (cl_wait_ready (ap_client a) (ap_instance a) wait_zero))
      (\<lambda>e. if errors_is e ErrNetworkNotReady
           then log_warn (err_text e @ ''; steps that need network access may fail'') else fail e))"
    by (intro keeps_intros reads_calls [OF up_reads(2) assms(1)])
  show ?thesis unfolding ensure_running_def option.case
    by (rule achieves_bind [OF read_found [OF assms(1,2) up_reads(1)] achieves_then [OF start achieves_keeps [OF wait]]])
qed

definition up_ready :: "('w, 'h) session \<Rightarrow> bool" where
  "up_ready s \<longleftrightarrow> J (se_daemon s)
     \<and> (case iv (se_daemon s) n of
          Some i \<Rightarrow> X \<subseteq> set (split_list (get_str (ii_config i) managed_volumes_key))
        | None \<Rightarrow> X \<subseteq> set (se_carried s))"

lemma up_with_done:
  fixes a :: "('w, 'b) app"
  assumes "ap_client a = c" "ap_instance a = n" "proper_keys own (ap_cfg a)"
  shows "achieves up_ready (up_with a restart plan env) (\<lambda>_. on_d (up_running a plan))"
proof -
  have found: "achieves (\<lambda>s. J (se_daemon s) \<and> iv (se_daemon s) n = Some i
        \<and> X \<subseteq> set (split_list (get_str (ii_config i) managed_volumes_key)))
      (up_existing a restart plan i) (\<lambda>_. on_d (up_done a plan))" for i
    using up_existing_done [OF assms, of i restart plan] by (auto simp: achieves_def worked_on_def)
  have log: "keeps up_ready (log_at l m)" for l m by (simp add: keeps_def run_log up_ready_def split: option.splits)
  have look: "achieves up_ready (attempt (call (cl_instance (ap_client a) (ap_instance a))))
      (\<lambda>r s. case r of
          Inr i \<Rightarrow> J (se_daemon s) \<and> iv (se_daemon s) n = Some i
            \<and> X \<subseteq> set (split_list (get_str (ii_config i) managed_volumes_key))
        | Inl e \<Rightarrow> errors_is e ErrInstanceNotFound \<longrightarrow> J (se_daemon s) \<and> X \<subseteq> set (se_carried s))"
  proof (rule achievesI)
    fix s r s'
    assume up: "up_ready s" and run: "attempt (call (cl_instance (ap_client a) (ap_instance a))) s = (Inr r, s')"
    obtain d where d: "cl_instance c n (se_daemon s) = (r, d)" "se_daemon s' = d" "se_carried s' = se_carried s"
      using run unfolding assms by (cases "cl_instance c n (se_daemon s)") (auto simp: run_attempt run_on_daemon)
    have J: "J (se_daemon s)" "J d"
      using up keepsD [of J "cl_instance c n" "se_daemon s"] reads d(1) by (simp_all add: up_ready_def kept_by_reads_def)
    show "case r of
          Inr i \<Rightarrow> J (se_daemon s') \<and> iv (se_daemon s') n = Some i
            \<and> X \<subseteq> set (split_list (get_str (ii_config i) managed_volumes_key))
        | Inl e \<Rightarrow> errors_is e ErrInstanceNotFound \<longrightarrow> J (se_daemon s') \<and> X \<subseteq> set (se_carried s')"
    proof (cases r)
      case (Inl e)
      have "X \<subseteq> set (se_carried s)" if "errors_is e ErrInstanceNotFound"
      proof (cases "X = {}")
        case False
        then have "iv (se_daemon s) n = None" using X_found [OF J(1)] d(1) Inl that by blast
        then show ?thesis using up by (simp add: up_ready_def)
      qed simp
      then show ?thesis using Inl J d by simp
    next
      case (Inr i)
      then show ?thesis
        using up J d instance_ok [of n "se_daemon s" i d] instance_view_after [of n "se_daemon s" i d]
        by (simp add: up_ready_def)
    qed
  qed
  have do: "achieves (\<lambda>s. case r of
          Inr i \<Rightarrow> J (se_daemon s) \<and> iv (se_daemon s) n = Some i
            \<and> X \<subseteq> set (split_list (get_str (ii_config i) managed_volumes_key))
        | Inl e \<Rightarrow> errors_is e ErrInstanceNotFound \<longrightarrow> J (se_daemon s) \<and> X \<subseteq> set (se_carried s))
      (case r of
          Inr i \<Rightarrow> up_existing a restart plan i
        | Inl e \<Rightarrow> if errors_is e ErrInstanceNotFound then up_new a plan else fail e)
      (\<lambda>_. on_d (up_done a plan))" for r
    using found up_new_done [OF assms] by (cases r) (auto simp: achieves_fail)
  have after: "achieves (on_d (up_running a plan)) (thenE (run_provisioning a env select_all) ready_line)
      (\<lambda>_. on_d (up_running a plan))"
    by (rule achieves_keeps) (intro keeps_intros keeps_ready_line reads_provisioning [OF up_reads(2) assms(1)])
  show ?thesis unfolding up_with_def
    by (rule achieves_skip [OF log achieves_bind [OF look achieves_then [OF do
        achieves_skip [OF keeps_log achieves_then [OF ensure_running_done [OF assms] after]]]]])
qed

text \<open>A rebuild hands the record over.\<close>

lemma destroy_hands_over:
  assumes "ap_client a = c" "ap_instance a = n"
  shows "achieves (\<lambda>s. J (se_daemon s) \<and> X \<subseteq> set (se_carried s)) (destroy_instance a False True (Some i))
    (\<lambda>_. up_ready)"
proof -
  let ?P = "\<lambda>s. J (se_daemon s) \<and> X \<subseteq> set (se_carried s)"
  let ?Q = "\<lambda>s. (J (se_daemon s) \<and> iv (se_daemon s) n = None) \<and> X \<subseteq> set (se_carried s)"
  have check: "keeps ?P (check_managed a i eff)" for eff
    unfolding check_managed_def warn_different_checkout_def Let_def by (intro keeps_conj keeps_intros)
  have log: "keeps ?P (log_at l m)" "keeps ?Q (log_at l m)" for l m
    by (intro keeps_conj keeps_log carrying_steps)+
  have J: "keeps J (cl_delete c n)" using writes by (simp add: kept_by_writes_def)
  have del: "achieves ?P (call (cl_delete (ap_client a) (ap_instance a))) (\<lambda>_. ?Q)"
  proof (rule achieves_frame [OF achievesI carrying_steps(1)])
    fix s x s'
    assume "J (se_daemon s)" "call (cl_delete (ap_client a) (ap_instance a)) s = (Inr x, s')"
    then show "J (se_daemon s') \<and> iv (se_daemon s') n = None"
      using delete_ok [of n "se_daemon s" x] keepsD [OF J, of "se_daemon s"] unfolding assms
      by (cases "cl_delete c n (se_daemon s)") (auto simp: run_on_daemon)
  qed
  have "achieves ?P (destroy_instance a False True (Some i)) (\<lambda>_. ?Q)"
    unfolding destroy_instance_def option.case Let_def if_False
    by (rule achieves_bind [OF achieves_keeps [OF check]],
        rule achieves_skip [OF log(1) achieves_then [OF achieves_on_error [OF del] achieves_keeps]])
      (intro keeps_thenE keeps_when log)
  then show ?thesis by (rule achieves_weaken) (simp add: up_ready_def)
qed

lemma achieves_or_lost: "achieves P m Q \<Longrightarrow> achieves P (on_error m (record_lost_with a)) Q"
proof (rule achievesI)
  fix s x s'
  assume h: "achieves P m Q" "P s" "on_error m (record_lost_with a) s = (Inr x, s')"
  have "\<not> (\<exists>t. record_lost_with a e t = (Inr x, s'))" for e
    by (auto simp: record_lost_with_def run_bindE run_get run_fail Let_def)
  then show "Q x s'" using h by (auto simp: run_on_error achieves_def split: prod.splits sum.splits)
qed

definition up_start :: "'w \<Rightarrow> bool" where
  "up_start w \<longleftrightarrow> J w \<and> (case iv w n of
      Some i \<Rightarrow> X \<subseteq> set (split_list (get_str (ii_config i) managed_volumes_key)) | None \<Rightarrow> X = {})"

lemma up_start_reads: "kept_by_reads up_start c"
  using kept_with_view [of "\<lambda>f vs. case f n of
      Some i \<Rightarrow> X \<subseteq> set (split_list (get_str (ii_config i) managed_volumes_key)) | None \<Rightarrow> X = {}"]
  by (simp add: up_start_def [abs_def])

lemma up_start_ready: "up_start (se_daemon s) \<Longrightarrow> up_ready s"
  by (auto simp: up_start_def up_ready_def split: option.splits)

lemma recorded_in: "X \<subseteq> set (split_list (get_str (ii_config i) managed_volumes_key)) \<Longrightarrow>
  X \<subseteq> set (recorded_volumes i cfg m)"
  by (auto simp: recorded_volumes_def get_str_def split_list_def split: option.splits if_splits)

lemma up_achieves:
  assumes "ap_client a = c" "ap_instance a = n" "proper_keys own (ap_cfg a)"
    and "up_start (se_daemon s)" "up a restart s = (Inr x, s')"
  shows "\<exists>plan env s1. preflight a s = (Inr (plan, env), s1) \<and> up_running a plan (se_daemon s')"
proof -
  obtain plan env s1 where pre: "preflight a s = (Inr (plan, env), s1)"
      "up_with a restart plan env s1 = (Inr x, s')"
    using assms(5) by (auto simp: up_def run_bindE split: prod.splits sum.splits)
  have "up_start (se_daemon s1)"
    using keepsD [OF reads_preflight [OF up_start_reads assms(1)] assms(4)] pre(1) by simp
  then show ?thesis
    using achievesD [OF up_with_done [OF assms(1-3)] up_start_ready pre(2)] pre(1) by blast
qed

lemma rebuild_achieves:
  fixes a :: "('w, 'b) app"
  assumes "ap_client a = c" "ap_instance a = n" "proper_keys own (ap_cfg a)"
    and "up_start (se_daemon s)" "rebuild a s = (Inr x, s')"
  shows "\<exists>plan env s1. preflight a s = (Inr (plan, env), s1) \<and> up_running a plan (se_daemon s')"
proof -
  let ?rest = "\<lambda>plan env. thenE (call (cl_check_image (ap_client a) (in_image (cf_instance (ap_cfg a)))))
     (bindE (attempt (call (cl_instance (ap_client a) (ap_instance a)))) (\<lambda>r.
      thenE (case r of
          Inr i \<Rightarrow>
            thenE (modify (\<lambda>s. s\<lparr>se_carried := recorded_volumes i (ap_cfg a) (ap_instance a)\<rparr>))
              (destroy_instance a False True (Some i))
        | Inl e \<Rightarrow> if errors_is e ErrInstanceNotFound then ret () else fail e)
       (on_error (up_with a False plan env) (record_lost_with a))))"
  obtain plan env s1 where pre: "preflight a s = (Inr (plan, env), s1)" "?rest plan env s1 = (Inr x, s')"
    using assms(5) by (auto simp: rebuild_def run_bindE split: prod.splits sum.splits)
  have start: "up_start (se_daemon s1)"
    using keepsD [OF reads_preflight [OF up_start_reads assms(1)] assms(4)] pre(1) by simp
  have run: "achieves (on_d up_start) (?rest plan env) (\<lambda>_. on_d (up_running a plan))"
  proof (rule achieves_skip [OF _ achieves_bind])
    show "keeps (on_d up_start) (call (cl_check_image (ap_client a) (in_image (cf_instance (ap_cfg a)))))"
      by (rule reads_calls(5) [OF up_start_reads assms(1)])
    show "achieves (on_d up_start) (attempt (call (cl_instance (ap_client a) (ap_instance a))))
        (\<lambda>r s. case r of Inl e \<Rightarrow> up_start (se_daemon s)
          | Inr i \<Rightarrow> up_start (se_daemon s) \<and> iv (se_daemon s) n = Some i)"
      by (rule achieves_attempt [OF reads_calls(1) [OF up_start_reads assms(1)]
            read_found [OF assms(1,2) up_start_reads]])
    have gone: "achieves (\<lambda>s. up_start (se_daemon s) \<and> iv (se_daemon s) n = Some i)
        (thenE (modify (\<lambda>s. s\<lparr>se_carried := recorded_volumes i (ap_cfg a) (ap_instance a)\<rparr>))
          (destroy_instance a False True (Some i))) (\<lambda>_. up_ready)" for i
      by (rule achieves_then [OF _ destroy_hands_over [OF assms(1,2)]])
        (clarsimp simp: achieves_def run_modify up_start_def, rule recorded_in [THEN subsetD], assumption+)
    have branch: "achieves (\<lambda>s. case r of Inl e \<Rightarrow> up_start (se_daemon s)
          | Inr i \<Rightarrow> up_start (se_daemon s) \<and> iv (se_daemon s) n = Some i)
       (case r of
          Inr i \<Rightarrow> thenE (modify (\<lambda>s. s\<lparr>se_carried := recorded_volumes i (ap_cfg a) (ap_instance a)\<rparr>))
              (destroy_instance a False True (Some i))
        | Inl e \<Rightarrow> if errors_is e ErrInstanceNotFound then ret () else fail e) (\<lambda>_. up_ready)" for r
    proof (cases r)
      case (Inl e)
      show ?thesis unfolding Inl sum.case by (intro achieves_if achieves_fail achieves_ret up_start_ready)
    next
      case (Inr i)
      show ?thesis unfolding Inr sum.case by (rule gone)
    qed
    show "achieves (\<lambda>s. case r of Inl e \<Rightarrow> up_start (se_daemon s)
          | Inr i \<Rightarrow> up_start (se_daemon s) \<and> iv (se_daemon s) n = Some i)
       (thenE (case r of
          Inr i \<Rightarrow> thenE (modify (\<lambda>s. s\<lparr>se_carried := recorded_volumes i (ap_cfg a) (ap_instance a)\<rparr>))
              (destroy_instance a False True (Some i))
        | Inl e \<Rightarrow> if errors_is e ErrInstanceNotFound then ret () else fail e)
         (on_error (up_with a False plan env) (record_lost_with a)))
       (\<lambda>_. on_d (up_running a plan))" for r
      by (rule achieves_then [OF branch achieves_or_lost [OF up_with_done [OF assms(1-3)]]])
  qed
  have "up_running a plan (se_daemon s')" by (rule achievesD [OF run start pre(2)])
  then show ?thesis using pre(1) by blast
qed

end


section \<open>The in-memory client\<close>

text \<open>No fault says that an instance or a pool is missing, and every volume lies on a pool.\<close>

definition honest :: "fake \<Rightarrow> bool" where
  "honest f \<longleftrightarrow> fk_hook f = None
     \<and> list_all (\<lambda>(p, e). \<not> errors_is e ErrInstanceNotFound \<and> \<not> errors_is e ErrPoolNotFound) (fk_fail_on f)
     \<and> (case fk_pools f of None \<Rightarrow> True | Some ps \<Rightarrow> list_all (\<lambda>p. CHR ''/'' \<notin> set p) ps)
     \<and> list_all (\<lambda>r. volume_at f r \<longrightarrow> has_pool f (fst (split_volume r))) (sorted_keys (fk_volumes f))"

definition proper_refs :: "string set \<Rightarrow> string set" where
  "proper_refs X = {x \<in> X. no_comma x \<and> x \<noteq> [] \<and> snd (snd (split_volume x))}"

lemma honest_record: "keeps honest (fk_record what)"
  by (simp add: keeps_def fk_record_state honest_def has_pool_def volume_at_def)

lemma honest_set_instance: "keeps honest (set_instance n i)"
  by (simp add: keeps_def set_instance_def run_modify bump_etag_def honest_def has_pool_def volume_at_def)

lemma honest_drop_instance: "keeps honest (modify (\<lambda>f. f\<lparr>fk_instances := x f\<rparr>))"
  by (simp add: keeps_def run_modify honest_def has_pool_def volume_at_def)

lemma honest_execs: "keeps honest (modify (\<lambda>f. f\<lparr>fk_execs := x f\<rparr>))"
  by (simp add: keeps_def run_modify honest_def has_pool_def volume_at_def)

lemmas honest_keeps = keeps_intros honest_record honest_set_instance honest_drop_instance honest_execs
  keeps_lookup keeps_observe

lemma split_ref_pool: "CHR ''/'' \<notin> set p \<Longrightarrow> fst (split_volume (p @ CHR ''/'' # v)) = p"
  by (simp add: split_volume_def cut_at_append)

lemma honest_create_volume: "keeps honest (fk_create_volume p v cfg)"
proof (rule keepsI)
  fix f
  assume h: "honest f"
  let ?r = "p @ ''/'' @ v"
  have pool: "has_pool f (fst (split_volume ?r))" if "has_pool f p"
    using h that by (auto simp: honest_def has_pool_def split_ref_pool list_all_iff split: option.splits)
  have "honest (f\<lparr>fk_calls := c, fk_volumes := fmupd ?r True (fk_volumes f)\<rparr>)" if "has_pool f p" for c
  proof -
    have "volume_at (f\<lparr>fk_calls := c, fk_volumes := fmupd ?r True (fk_volumes f)\<rparr>) r = (volume_at f r \<or> r = ?r)" for r
      by (simp add: volume_at_def)
    then show ?thesis using h pool [OF that] by (auto simp: honest_def has_pool_def list_all_iff)
  qed
  moreover have "honest (f\<lparr>fk_calls := c\<rparr>)" for c
    using h by (simp add: honest_def has_pool_def volume_at_def)
  ultimately show "honest (snd (fk_create_volume p v cfg f))"
    by (auto simp: fk_create_volume_def fake_runs has_pool_def split: sum.splits)
qed

lemma honest_reads: "kept_by_reads honest fake_client"
  unfolding kept_by_reads_def fake_client_sel fk_instance_def fk_list_def fk_idmapped_mounts_def
    fk_profile_names_def fk_check_image_def fk_volume_exists_def fk_exec_def fk_wait_ready_def
  by (intro conjI allI honest_keeps)

lemma honest_writes: "kept_by_writes honest n fake_client"
  unfolding kept_by_writes_def fake_client_sel fk_create_def fk_start_def fk_stop_def fk_delete_def fk_update_def
  by (intro conjI allI impI honest_create_volume honest_keeps)

lemma there_read: "reads_only instance_view volume_view m \<Longrightarrow> keeps (\<lambda>w. X \<subseteq> volume_view w) m"
  using fk.read_view(2) [of m] by (simp add: keeps_def)

lemma there_only: "only_instance instance_view volume_view n m \<Longrightarrow> keeps (\<lambda>w. X \<subseteq> volume_view w) m"
  using fk.only_view(2) [of n m] by (simp add: keeps_def)

lemma there_create_volume: "keeps (\<lambda>w. X \<subseteq> volume_view w) (fk_create_volume p v cfg)"
  using fake_create_volume(2) unfolding keeps_def by blast

lemma there_reads: "kept_by_reads (\<lambda>w. X \<subseteq> volume_view w) fake_client"
  unfolding kept_by_reads_def by (intro conjI allI there_read fk.client_reads)

lemma there_writes: "kept_by_writes (\<lambda>w. X \<subseteq> volume_view w) n fake_client"
  unfolding kept_by_writes_def fake_client_sel
  by (intro conjI allI impI there_create_volume) (rule there_only, rule fake_frames)+

lemma kept_by_client_conj:
  assumes "kept_by_client I c n" "kept_by_client K c n"
  shows "kept_by_client (\<lambda>w. I w \<and> K w) c n"
  using assms unfolding kept_by_client_def kept_by_reads_def kept_by_writes_def
  by (simp add: keeps_conj)

lemma pool_missing:
  assumes "honest f" "CHR ''/'' \<notin> set p" "ref_of p v \<in> volume_view f"
    and "fk_volume_exists p v f = (Inl e, f')"
  shows "\<not> errors_is e ErrPoolNotFound"
proof -
  have "has_pool f p"
    using assms(1-3) split_ref_pool [of p v]
    by (auto simp: honest_def list_all_iff volume_view_def volume_at_def ref_of_def has_key_iff)
  then have "fst (fk_record (''volume exists '' @ p @ '' '' @ v) f) = Inl e"
    using assms(4) by (auto simp: fk_volume_exists_def fake_runs has_pool_def split: sum.splits if_splits)
  then show ?thesis
    using assms(1) by (auto simp: fk_record_def Let_def honest_def list_all_iff split: list.splits dest: filter_eq_ConsD)
qed

lemma instance_missing:
  assumes "honest f" "fk_instance n f = (Inl e, f')" "errors_is e ErrInstanceNotFound"
  shows "instance_view f n = None"
proof (cases "fst (fk_record (''instance '' @ n) f)")
  case (Inl e')
  then have "e' = e" using assms(2) by (simp add: fk_instance_def fake_runs)
  then show ?thesis using Inl assms(1,3)
    by (auto simp: fk_record_def Let_def honest_def list_all_iff split: list.splits dest: filter_eq_ConsD)
next
  case (Inr u)
  then show ?thesis using assms(2)
    by (auto simp: fk_instance_def fake_runs fk_lookup_def instance_view_def split: option.splits)
qed

text \<open>Every daemon is such a client, with nothing recorded; so a run that ends well has established the
  declaration.\<close>

sublocale daemon < plain: recording c iv vv own "\<lambda>w. True" n "{}" for n
  by unfold_locales (auto simp: kept_by_reads_def kept_by_writes_def keeps_def)

context daemon begin

lemma establishes:
  fixes a :: "('w, 'b) app"
  assumes "ap_client a = c" "proper_keys own (ap_cfg a)" "m \<in> {up a restart, rebuild a}" "m s = (Inr x, s')"
  shows "\<exists>plan env s1 i cur. preflight a s = (Inr (plan, env), s1)
    \<and> iv (se_daemon s') (ap_instance a) = Some i \<and> is_running i
    \<and> holds (ap_cfg a) plan (ap_instance a) cur i
    \<and> set (declared_volumes (ap_cfg a) (ap_instance a)) \<subseteq> vv (se_daemon s')"
proof -
  have "plain.up_start (ap_instance a) (se_daemon s)"
    by (simp add: plain.up_start_def split: option.splits)
  then obtain plan env s1 where "preflight a s = (Inr (plan, env), s1)"
      and "plain.up_running (ap_instance a) a plan (se_daemon s')"
    using assms(3,4) plain.up_achieves [OF assms(1) refl assms(2)] plain.rebuild_achieves [OF assms(1) refl assms(2)]
    by blast
  then show ?thesis unfolding plain.up_running_def plain.up_done_def established_def by auto
qed

end

interpretation faithful: recording fake_client instance_view volume_view "\<lambda>_. False"
  "\<lambda>w. honest w \<and> proper_refs X \<subseteq> volume_view w" n "proper_refs X" for n X
proof (intro recording.intro recording_axioms.intro)
  show "kept_by_client (\<lambda>w. honest w \<and> proper_refs X \<subseteq> volume_view w) fake_client n"
    by (intro kept_by_client_conj kept_by_client.intro honest_reads honest_writes there_reads there_writes)
qed (use pool_missing instance_missing in \<open>auto simp: proper_refs_def intro: fk.daemon_axioms\<close>)

end
