(* ===== verification/App_Live.thy ===== *)
theory App_Live
  imports App_Up
begin

text \<open>
  When \<open>up\<close> and \<open>rebuild\<close> succeed: with a daemon that has no fault, the declared pools, profiles and
  image, and a declaration that passes its checks and declares no steps and no secrets, nothing of
  idev's own stands in the way. With it, the properties of a successful run.
\<close>


section \<open>Operations that succeed\<close>

definition ends :: "('s \<Rightarrow> bool) \<Rightarrow> ('s, 'e, 'a) op \<Rightarrow> ('a \<Rightarrow> 's \<Rightarrow> bool) \<Rightarrow> bool" where
  "ends P m Q \<longleftrightarrow> (\<forall>s. P s \<longrightarrow> (\<exists>x s'. m s = (Inr x, s') \<and> Q x s'))"

lemma endsI: "(\<And>s. P s \<Longrightarrow> \<exists>x s'. m s = (Inr x, s') \<and> Q x s') \<Longrightarrow> ends P m Q"
  by (simp add: ends_def)

lemma endsD: "ends P m Q \<Longrightarrow> P s \<Longrightarrow> \<exists>x s'. m s = (Inr x, s') \<and> Q x s'"
  by (simp add: ends_def)

lemma ends_bind: "ends P m R \<Longrightarrow> (\<And>x. ends (R x) (f x) Q) \<Longrightarrow> ends P (bindE m f) Q"
  unfolding ends_def run_bindE by fastforce

lemma ends_then: "ends P m (\<lambda>_. R) \<Longrightarrow> ends R n Q \<Longrightarrow> ends P (thenE m n) Q"
  by (simp add: thenE_def ends_bind)

lemma ends_weaken: "ends P m R \<Longrightarrow> (\<And>x s. R x s \<Longrightarrow> Q x s) \<Longrightarrow> ends P m Q"
  unfolding ends_def by blast

lemma ends_pre: "ends P' m Q \<Longrightarrow> (\<And>s. P s \<Longrightarrow> P' s) \<Longrightarrow> ends P m Q"
  unfolding ends_def by blast

lemma ends_ret: "(\<And>s. P s \<Longrightarrow> Q x s) \<Longrightarrow> ends P (ret x) Q"
  by (simp add: ends_def run_ret)

lemma ends_skip: "ends P m (\<lambda>_. P) \<Longrightarrow> ends P n Q \<Longrightarrow> ends P (thenE m n) Q"
  by (rule ends_then)

lemma ends_on_error: "ends P m Q \<Longrightarrow> ends P (on_error m h) Q"
  unfolding ends_def run_on_error by fastforce

lemma ends_attempt: "keeps P m \<Longrightarrow> ends P (attempt m) (\<lambda>_. P)"
  by (simp add: ends_def run_attempt keeps_def)

lemma ends_attempt_ok: "ends P m Q \<Longrightarrow> ends P (attempt m) (\<lambda>r s. \<exists>x. r = Inr x \<and> Q x s)"
  unfolding ends_def run_attempt by fastforce

lemma ends_if: "(b \<Longrightarrow> ends P m Q) \<Longrightarrow> (\<not> b \<Longrightarrow> ends P n Q) \<Longrightarrow> ends P (if b then m else n) Q"
  by simp

lemma ends_when: "(b \<Longrightarrow> ends P m (\<lambda>_. P)) \<Longrightarrow> ends P (when_op b m) (\<lambda>_. P)"
  by (simp add: when_op_def ends_ret)

lemma ends_log: "ends (on_d P) (log_at l m) (\<lambda>_. on_d P)"
  by (simp add: ends_def run_log)

lemma ends_get: "(\<And>s. ends P (f s) Q) \<Longrightarrow> ends P (bindE get_state f) Q"
  unfolding ends_def run_bindE run_get by simp

lemma ends_for_each: "(\<And>x. x \<in> set xs \<Longrightarrow> ends P (f x) (\<lambda>_. P)) \<Longrightarrow> ends P (for_each xs f) (\<lambda>_. P)"
  by (induction xs) (auto intro: ends_ret ends_then)

lemma ends_fold: "(\<And>x a. x \<in> set xs \<Longrightarrow> ends P (f x a) (\<lambda>_. P)) \<Longrightarrow> ends P (fold_op f xs a) (\<lambda>_. P)"
  by (induction xs arbitrary: a) (auto intro: ends_ret ends_bind)

lemma ends_case_list:
  "(xs = [] \<Longrightarrow> ends P m Q) \<Longrightarrow> (\<And>y ys. xs = y # ys \<Longrightarrow> ends P (f y ys) Q) \<Longrightarrow>
   ends P (case xs of [] \<Rightarrow> m | y # ys \<Rightarrow> f y ys) Q"
  by (cases xs) simp_all

lemma ends_modify: "(\<And>s. P s \<Longrightarrow> P (g s)) \<Longrightarrow> ends P (modify g) (\<lambda>_. P)"
  by (simp add: ends_def run_modify)

lemma ends_call: "ends P m Q \<Longrightarrow> ends (on_d P) (on_daemon m) (\<lambda>x. on_d (Q x))"
  by (fastforce simp: ends_def run_on_daemon)


section \<open>A daemon that serves the declaration\<close>

definition serving :: "config \<Rightarrow> fake \<Rightarrow> bool" where
  "serving c f \<longleftrightarrow> fk_fail_on f = [] \<and> fk_hook f = None \<and> \<not> fk_fail_ready f \<and> fk_ctx f = None
     \<and> \<not> fk_no_idmapped_mounts f
     \<and> list_all (\<lambda>(k, v). has_pool f (pool_or_default v)) (entries (cf_volumes c))
     \<and> list_all (\<lambda>p. List.member (fk_profiles f) p) (profile_names c)
     \<and> (case fk_images f of None \<Rightarrow> True | Some is \<Rightarrow> List.member is (in_image (cf_instance c)))"

lemma fk_record_ok: "serving c f \<Longrightarrow> fk_record what f = (Inr (), f\<lparr>fk_calls := fk_calls f @ [what]\<rparr>)"
  by (simp add: serving_def fk_record_def Let_def)

lemma serving_update [simp]:
  "serving c (f\<lparr>fk_calls := x\<rparr>) = serving c f" "serving c (f\<lparr>fk_instances := y\<rparr>) = serving c f"
  "serving c (f\<lparr>fk_volumes := v\<rparr>) = serving c f" "serving c (bump_etag n f) = serving c f"
  by (simp_all add: serving_def has_pool_def bump_etag_def)

text \<open>The instance is there with this etag; nothing is said of its configuration.\<close>

definition serving_at :: "config \<Rightarrow> string \<Rightarrow> string \<Rightarrow> fake \<Rightarrow> bool" where
  "serving_at c n et f \<longleftrightarrow> serving c f \<and> has_key (fk_instances f) n \<and> etag_of f n = et"

definition serving_some :: "config \<Rightarrow> string \<Rightarrow> fake \<Rightarrow> bool" where
  "serving_some c n f \<longleftrightarrow> serving c f \<and> has_key (fk_instances f) n"

definition serving_fresh :: "config \<Rightarrow> string \<Rightarrow> fake \<Rightarrow> bool" where
  "serving_fresh c n f \<longleftrightarrow> serving c f \<and> \<not> has_key (fk_instances f) n"

lemmas serving_defs = serving_at_def serving_some_def serving_fresh_def

text \<open>A predicate that recording a call, or adding a volume, does not change.\<close>

definition loose :: "(fake \<Rightarrow> bool) \<Rightarrow> bool" where
  "loose P \<longleftrightarrow> (\<forall>f x. P (f\<lparr>fk_calls := x\<rparr>) = P f) \<and> (\<forall>f v. P (f\<lparr>fk_volumes := v\<rparr>) = P f)"

lemma loose_serving [simp]:
  "loose (serving c)" "loose (serving_at c n et)" "loose (serving_some c n)" "loose (serving_fresh c n)"
  by (simp_all add: loose_def serving_defs etag_of_def)

lemma etag_volumes [simp]: "etag_of (f\<lparr>fk_volumes := v\<rparr>) n = etag_of f n"
  by (simp add: etag_of_def)

lemma run_serving:
  assumes "serving c f"
  shows "thenE (fk_record what) m f = m (f\<lparr>fk_calls := fk_calls f @ [what]\<rparr>)"
  by (simp add: run_thenE fk_record_ok [OF assms])


section \<open>The client's operations\<close>

lemma has_key_calls [simp]: "serving_at c n et (f\<lparr>fk_calls := x\<rparr>) = serving_at c n et f"
  "serving_some c n (f\<lparr>fk_calls := x\<rparr>) = serving_some c n f"
  "serving_fresh c n (f\<lparr>fk_calls := x\<rparr>) = serving_fresh c n f"
  by (simp_all add: serving_defs)

lemma ends_volume_exists:
  assumes "loose P" "\<And>f. P f \<Longrightarrow> serving c f" "\<And>f. serving c f \<Longrightarrow> has_pool f p"
  shows "ends P (fk_volume_exists p v) (\<lambda>b f. P f \<and> b = volume_at f (p @ ''/'' @ v))"
proof (rule endsI)
  fix f
  assume f: "P f"
  have "has_pool (f\<lparr>fk_calls := x\<rparr>) p" for x using assms(2,3) f by simp
  then show "\<exists>x f'. fk_volume_exists p v f = (Inr x, f') \<and> P f' \<and> x = volume_at f' (p @ ''/'' @ v)"
    using assms(1) f
    by (simp add: fk_volume_exists_def run_serving [OF assms(2) [OF f]] run_bindE run_get run_ret loose_def)
qed

lemma ends_create_volume:
  assumes "loose P" "\<And>f. P f \<Longrightarrow> serving c f" "\<And>f. serving c f \<Longrightarrow> has_pool f p"
  shows "ends (\<lambda>f. P f \<and> False = volume_at f (p @ ''/'' @ v)) (fk_create_volume p v cfg) (\<lambda>_. P)"
proof (rule endsI)
  fix f
  assume f: "P f \<and> False = volume_at f (p @ ''/'' @ v)"
  have "has_pool (f\<lparr>fk_calls := x\<rparr>) p" for x using assms(2,3) f by simp
  then show "\<exists>x f'. fk_create_volume p v cfg f = (Inr x, f') \<and> P f'"
    using assms(1) f
    by (simp add: fk_create_volume_def run_serving [OF assms(2)] run_bindE run_get run_modify loose_def)
qed

lemma ends_ensure_volumes:
  assumes "ap_client a = fake_client" "loose P" "\<And>f. P f \<Longrightarrow> serving (ap_cfg a) f"
  shows "ends (on_d P) (ensure_volumes a) (\<lambda>_. on_d P)"
  unfolding ensure_volumes_def
proof (rule ends_for_each)
  fix e
  assume e: "e \<in> set (entries (cf_volumes (ap_cfg a)))"
  obtain k v where kv: "e = (k, v)" by (cases e)
  let ?p = "pool_or_default v" and ?v = "volume_name (ap_instance a) k"
  have pool: "has_pool f ?p" if "serving (ap_cfg a) f" for f
    using that e kv by (auto simp: serving_def list_all_iff)
  have make: "ends (on_d (\<lambda>f. P f \<and> exists = volume_at f (?p @ ''/'' @ ?v)))
      (if exists then log_info m else thenE (log_info m') (on_daemon (fk_create_volume ?p ?v cfg))) (\<lambda>_. on_d P)"
    for exists m m' cfg
  proof (cases exists)
    case True
    then show ?thesis by (auto simp: ends_def run_log)
  next
    case False
    have "ends (on_d (\<lambda>f. P f \<and> exists = volume_at f (?p @ ''/'' @ ?v)))
        (on_daemon (fk_create_volume ?p ?v cfg)) (\<lambda>_. on_d P)"
      using ends_call [OF ends_create_volume [OF assms(2,3) pool, of ?v cfg]] False by simp
    then show ?thesis unfolding if_not_P [OF False] by (rule ends_then [OF ends_log])
  qed
  show "ends (on_d P) (ensure_volume a e) (\<lambda>_. on_d P)"
    unfolding ensure_volume_def kv prod.case Let_def assms(1) fake_client_sel
    by (rule ends_bind [OF ends_call [OF ends_volume_exists [OF assms(2,3) pool]] make])
qed

lemma ends_update:
  assumes "et' \<in> {[], et}"
  shows "ends (serving_at c n et) (fk_update n ch et') (\<lambda>_. serving_some c n)"
proof (rule endsI)
  fix f
  assume f: "serving_at c n et f"
  have rec: "ends (serving_at c n et) (when_op b (fk_record what)) (\<lambda>_. serving_at c n et)" for b what
    by (rule ends_when) (auto simp: ends_def serving_at_def fk_record_ok)
  have last: "ends (serving_at c n et) (bindE (fk_lookup n) (\<lambda>i. bindE get_state (\<lambda>f.
           if et' \<noteq> [] \<and> et' \<noteq> etag_of f n
           then fail (Errorf ''update instance %s: %w'' [S n, W (Sentinel ErrChanged)])
           else set_instance n (i\<lparr>ii_config := change_config ch (ii_config i),
                                 ii_devices := change_devices ch (ii_devices i)\<rparr>)))) (\<lambda>_. serving_some c n)"
    using assms by (auto simp: ends_def serving_defs run_bindE fk_lookup_def run_get set_instance_def run_modify
        has_key_iff bump_etag_def[abs_def] serving_def has_pool_def split: option.splits)
  have "ends (serving_at c n et) (ret ()) (\<lambda>_. serving_some c n)"
    by (rule ends_ret) (simp add: serving_defs)
  then have "ends (serving_at c n et) (fk_update n ch et') (\<lambda>_. serving_some c n)"
    unfolding fk_update_def by (intro ends_if ends_skip [OF rec] last)
  then show "\<exists>x f'. fk_update n ch et' f = (Inr x, f') \<and> serving_some c n f'" using f by (rule endsD)
qed

lemma ends_status:
  assumes "m = thenE (fk_record what) (bindE (fk_lookup n) (\<lambda>i. set_instance n (i\<lparr>ii_status := s\<rparr>)))"
  shows "ends (serving_some c n) m (\<lambda>_. serving_some c n)"
  unfolding assms
  by (auto simp: ends_def serving_defs run_serving [of c] run_bindE fk_lookup_def set_instance_def run_modify
      has_key_iff bump_etag_def[abs_def] serving_def has_pool_def split: option.splits)

lemma ends_delete: "ends (serving_some c n) (fk_delete n) (\<lambda>_. serving_fresh c n)"
  by (auto simp: ends_def serving_defs fk_delete_def run_serving [of c] run_bindE fk_lookup_def run_get run_modify
      has_key_iff serving_def has_pool_def split: option.splits)

lemma ends_create: "is_name s = n \<Longrightarrow> ends (serving_fresh c n) (fk_create s) (\<lambda>_. serving_some c n)"
  by (auto simp: ends_def serving_defs fk_create_def run_serving [of c] run_bindE run_get set_instance_def
      run_modify bump_etag_def[abs_def] serving_def has_pool_def)

text \<open>Looking the instance up: it is there, with its etag, or is said not to be.\<close>

definition mine :: "('d, 'h) app \<Rightarrow> fake \<Rightarrow> bool" where
  "mine a f \<longleftrightarrow> serving (ap_cfg a) f
     \<and> (case fmlookup (fk_instances f) (ap_instance a) of
          None \<Rightarrow> True | Some i \<Rightarrow> is_managed_by (ii_config i) (pj_name (cf_project (ap_cfg a))))"

definition looked_up :: "('d, 'h) app \<Rightarrow> err + incus_instance \<Rightarrow> fake \<Rightarrow> bool" where
  "looked_up a r f \<longleftrightarrow> (case r of
       Inr i \<Rightarrow> serving_at (ap_cfg a) (ap_instance a) (ii_etag i) f
         \<and> is_managed_by (ii_config i) (pj_name (cf_project (ap_cfg a)))
     | Inl e \<Rightarrow> errors_is e ErrInstanceNotFound \<and> serving_fresh (ap_cfg a) (ap_instance a) f)"

lemma not_found_is: "errors_is (not_found n) ErrInstanceNotFound"
  by (simp add: not_found_def)

lemma ends_lookup: "ends (on_d (mine a)) (attempt (on_daemon (fk_instance (ap_instance a)))) (\<lambda>r. on_d (looked_up a r))"
  by (auto simp: ends_def run_attempt run_on_daemon mine_def looked_up_def fk_instance_def
      run_serving [of "ap_cfg a"] run_bindE fk_lookup_def serving_defs has_key_iff not_found_is
      split: option.splits)


section \<open>The parts of a run\<close>

text \<open>What is asked of the declaration and the host.\<close>

definition runnable :: "('d, 'h) app \<Rightarrow> bool" where
  "runnable a \<longleftrightarrow> check_volume_names (ap_cfg a) (ap_instance a) = None
     \<and> cf_secrets (ap_cfg a) = fmempty \<and> cf_provision (ap_cfg a) = [] \<and> bootstrap_steps (ap_cfg a) = []
     \<and> (wm_idmap (workspace_or_default (ap_cfg a)) = IDMapRaw \<longrightarrow> ap_check_idmap a (ap_uid a) (ap_gid a) = None)"

lemma ends_idmapped:
  assumes "loose P" "\<And>f. P f \<Longrightarrow> serving c f"
  shows "ends (on_d P) (require_idmapped_mounts (Some (on_daemon fk_idmapped_mounts))) (\<lambda>_. on_d P)"
proof (rule endsI)
  fix s :: "(fake, 'h) session"
  assume "P (se_daemon s)"
  moreover have "\<not> fk_no_idmapped_mounts (se_daemon s)"
    using assms(2) calculation by (simp add: serving_def)
  ultimately show "\<exists>x s'. require_idmapped_mounts (Some (on_daemon fk_idmapped_mounts)) s = (Inr x, s')
      \<and> P (se_daemon s')"
    using assms(1) by (simp add: require_idmapped_mounts_def run_bindE run_on_error run_on_daemon run_ret fk_idmapped_mounts_def
        run_serving [OF assms(2)] loose_def)
qed

lemma ends_plan:
  assumes "ap_client a = fake_client" "loose P" "\<And>f. P f \<Longrightarrow> serving c f" "runnable a"
  shows "ends (on_d P) (app_idmap_plan a) (\<lambda>_. on_d P)"
proof -
  note ask = ends_idmapped [OF assms(2,3)]
  show ?thesis
    using assms(4) unfolding app_idmap_plan_def resolve_idmap_def Let_def assms(1) fake_client_sel runnable_def
    by (auto intro!: ends_if ends_ret ends_then [OF ask] ends_then [OF ends_on_error [OF ask]] split: option.splits)
qed

lemma ends_env:
  assumes "runnable a"
  shows "ends (on_d P) (app_env a) (\<lambda>_. on_d P)"
  using assms by (auto simp: ends_def app_env_def resolve_secrets_def runnable_def run_bindE run_ret)

lemma ends_profiles:
  fixes a :: "(fake, 'h) app"
  assumes "ap_client a = fake_client" "loose P" "\<And>f. P f \<Longrightarrow> serving (ap_cfg a) f"
  shows "ends (on_d P) (check_profiles a) (\<lambda>_. on_d P)"
proof (rule endsI)
  fix s :: "(fake, 'h) session"
  assume P: "P (se_daemon s)"
  then have "filter (\<lambda>n. \<not> List.member (fk_profiles (se_daemon s)) n) (profile_names (ap_cfg a)) = []"
    using assms(3) by (auto simp: serving_def list_all_iff filter_empty_conv)
  then show "\<exists>x s'. check_profiles a s = (Inr x, s') \<and> P (se_daemon s')"
    using P assms(2) unfolding check_profiles_def Let_def assms(1) fake_client_sel
    by (simp add: run_ret run_bindE run_on_daemon fk_profile_names_def run_get run_serving [OF assms(3) [OF P]] loose_def)
qed

lemma ends_preflight:
  assumes "ap_client a = fake_client" "loose P" "\<And>f. P f \<Longrightarrow> serving (ap_cfg a) f" "runnable a"
  shows "ends (on_d P) (preflight a) (\<lambda>_. on_d P)"
proof -
  have tools: "ends (on_d P) (check_prerequisites (ap_exec a) root (cf_provision (ap_cfg a))) (\<lambda>_. on_d P)" for root
    using assms(4) by (simp add: runnable_def check_prerequisites_def when_op_def ends_def run_thenE run_ret)
  have "check_volume_names (ap_cfg a) (ap_instance a) = None" using assms(4) by (simp add: runnable_def)
  then show ?thesis unfolding preflight_def
    by (simp, intro ends_bind [OF ends_plan [OF assms]] ends_bind [OF ends_env [OF assms(4)]]
        ends_skip [OF ends_when [OF ends_log]] ends_skip [OF ends_profiles [OF assms(1-3)]] ends_skip [OF tools] ends_ret)
qed

lemma ends_stranded:
  assumes "ap_client a = fake_client" "loose P" "\<And>f. P f \<Longrightarrow> serving c f"
  shows "ends (on_d P) (warn_stranded_instances a) (\<lambda>_. on_d P)"
proof -
  have one: "ends (on_d P) (warn_if_stranded a i) (\<lambda>_. on_d P)" for i
    unfolding warn_if_stranded_def Let_def by (intro ends_if ends_ret ends_log)
  have each: "ends (on_d P) (case r of
         Inl e \<Rightarrow> log_debug (''could not look for older instances: '' @ err_text e)
       | Inr all \<Rightarrow> for_each all (warn_if_stranded a)) (\<lambda>_. on_d P)" for r
    by (cases r) (auto intro: ends_log ends_for_each one)
  have "keeps P fk_list"
    using assms(2) by (auto simp: keeps_def fk_list_def run_serving [OF assms(3)] loose_def)
  then show ?thesis unfolding warn_stranded_instances_def assms(1) fake_client_sel
    by (intro ends_bind [OF ends_attempt [OF keeps_on_daemon] each])
qed

lemma ends_warn:
  "ends (on_d P) (warn_changes a i eff) (\<lambda>_. on_d P)" "ends (on_d P) (warn_unrecorded a i plan) (\<lambda>_. on_d P)"
  "ends (on_d P) (warn_different_checkout a i eff) (\<lambda>_. on_d P)"
  unfolding warn_changes_def warn_different_checkout_def warn_image_changed_def warn_profiles_changed_def
    warn_volumes_dropped_def warn_unrecorded_def Let_def
  by (intro ends_if ends_skip ends_when ends_log ends_ret; assumption?)+

lemma ends_adopt: "ends (on_d P) (adopt_carried a i) (\<lambda>j s. P (se_daemon s) \<and> ii_etag j = ii_etag i)"
  by (auto simp: ends_def adopt_carried_def run_bindE run_get run_ret)

lemma ends_prune:
  assumes "ap_client a = fake_client" "loose P" "\<And>f. P f \<Longrightarrow> serving c f"
  shows "ends (on_d P) (prune_volume_record a i) (\<lambda>j s. P (se_daemon s) \<and> ii_etag j = ii_etag i)"
proof -
  have look: "keeps P (fk_volume_exists p v)" for p v
    using assms(2) by (auto simp: keeps_def fk_volume_exists_def run_serving [OF assms(3)] run_bindE run_get
        run_ret run_fail loose_def)
  have ref: "ends (on_d P) (keep_ref a ref) (\<lambda>_. on_d P)" for ref
  proof -
    have each: "ends (on_d P) (case r of
              Inl e \<Rightarrow> if errors_is e ErrPoolNotFound
                then thenE (log_debug (''dropping '' @ ref @ '': '' @ err_text e)) (ret False)
                else thenE (log_debug (''could not check '' @ ref @ '': '' @ err_text e)) (ret True)
            | Inr exists \<Rightarrow> ret exists) (\<lambda>_. on_d P)" for r :: "err + bool"
      by (cases r) (auto intro!: ends_if ends_skip [OF ends_log] ends_ret)
    show ?thesis unfolding keep_ref_def case_prod_beta assms(1) fake_client_sel
      by (intro ends_if ends_ret ends_bind [OF ends_attempt [OF keeps_on_daemon [OF look]] each])
  qed
  have refs: "ends (on_d P) (keep_refs a rs) (\<lambda>_. on_d P)" for rs
    unfolding keep_refs_def by (intro ends_fold ends_bind [OF ref] ends_ret)
  show ?thesis unfolding prune_volume_record_def
    by (cases "fmlookup (ii_config i) managed_volumes_key")
      (auto intro!: ends_ret ends_bind [OF refs])
qed


section \<open>The commands\<close>

text \<open>From here on \<open>c\<close> is the declaration of \<open>a\<close> and \<open>n\<close> its instance.\<close>

lemma some_at: "serving_at c n et f \<Longrightarrow> serving_some c n f"
  by (simp add: serving_defs)

lemma some_at_etag: "serving_some c n f \<Longrightarrow> serving_at c n (etag_of f n) f"
  by (simp add: serving_defs)

lemma serving_of: "serving_some c n f \<Longrightarrow> serving c f" "serving_at c n et f \<Longrightarrow> serving c f"
  "serving_fresh c n f \<Longrightarrow> serving c f" "mine a f \<Longrightarrow> serving (ap_cfg a) f"
  by (simp_all add: serving_defs mine_def)

lemma loose_mine [simp]: "loose (mine a)"
  by (simp add: loose_def mine_def)

lemma ends_some:
  assumes "\<And>et. ends (on_d (serving_at c n et)) m Q"
  shows "ends (on_d (serving_some c n)) m Q"
  using assms some_at_etag unfolding ends_def by blast

lemma ends_app_update:
  assumes "ap_client a = fake_client" "et' \<in> {[], et}"
  shows "ends (on_d (serving_at (ap_cfg a) (ap_instance a) et)) (app_update a ch et')
    (\<lambda>_. on_d (serving_some (ap_cfg a) (ap_instance a)))"
  unfolding app_update_def assms(1) fake_client_sel
  by (rule ends_on_error [OF ends_call [OF ends_update [OF assms(2)]]])

lemma ends_app_update_any:
  assumes "ap_client a = fake_client"
  shows "ends (on_d (serving_some (ap_cfg a) (ap_instance a))) (app_update a ch [])
    (\<lambda>_. on_d (serving_some (ap_cfg a) (ap_instance a)))"
  by (rule ends_some [OF ends_app_update [OF assms]]) simp

lemma ends_settle:
  assumes "ap_client a = fake_client"
  shows "ends (on_d (serving_some (ap_cfg a) (ap_instance a)))
    (settle_restart a running t prev desired unset restart)
    (\<lambda>_. on_d (serving_some (ap_cfg a) (ap_instance a)))"
proof -
  let ?P = "on_d (serving_some (ap_cfg a) (ap_instance a))"
  have clear: "ends ?P (clear_restart_pending a prev) (\<lambda>_. ?P)"
    unfolding clear_restart_pending_def by (intro ends_if ends_ret ends_app_update_any [OF assms])
  have onoff: "ends ?P (call (cl_stop (ap_client a) (ap_instance a))) (\<lambda>_. ?P)"
    "ends ?P (call (cl_start (ap_client a) (ap_instance a))) (\<lambda>_. ?P)"
    unfolding assms fake_client_sel by (intro ends_call ends_status [OF fk_stop_def] ends_status [OF fk_start_def])+
  obtain fresh changed booted where ro: "restart_owed running prev desired unset t = (fresh, changed, booted)"
    by (cases "restart_owed running prev desired unset t")
  show ?thesis unfolding settle_restart_def ro prod.case Let_def
    by (intro ends_if clear ends_skip [OF ends_log] ends_ret ends_app_update_any [OF assms] ends_skip [OF onoff(1)]
        ends_skip [OF onoff(2)])
qed

lemma ends_reapply:
  assumes "ap_client a = fake_client"
  shows "ends (on_d (serving_at (ap_cfg a) (ap_instance a) (ii_etag i))) (reapply_instance a i as_read plan restart)
    (\<lambda>_. on_d (serving_some (ap_cfg a) (ap_instance a)))"
proof -
  have drop: "ends (on_d P) drop_carried (\<lambda>_. on_d P)" for P
    unfolding drop_carried_def by (rule ends_modify) simp
  have wrote: "ends (on_d (serving_at (ap_cfg a) (ap_instance a) (ii_etag i)))
      (if b then log_debug m else app_update a ch (ii_etag i))
      (\<lambda>_. on_d (serving_some (ap_cfg a) (ap_instance a)))" for b m ch
    by (rule ends_if, rule ends_weaken [OF ends_log], erule some_at, rule ends_app_update [OF assms], simp)
  show ?thesis unfolding reapply_instance_def Let_def
    by (rule ends_skip [OF ends_when [OF ends_log] ends_skip [OF ends_when [OF ends_log]
        ends_then [OF wrote ends_skip [OF drop ends_settle [OF assms]]]]])
qed

lemma ends_up_existing:
  assumes "ap_client a = fake_client" "is_managed_by (ii_config i) (pj_name (cf_project (ap_cfg a)))"
  shows "ends (on_d (serving_at (ap_cfg a) (ap_instance a) (ii_etag i))) (up_existing a restart plan i)
    (\<lambda>_. on_d (serving_some (ap_cfg a) (ap_instance a)))"
proof -
  let ?P = "serving_at (ap_cfg a) (ap_instance a) (ii_etag i)"
  have last: "ends (\<lambda>s. ?P (se_daemon s) \<and> ii_etag i2 = ii_etag i1) (thenE (warn_unrecorded a i2 plan)
      (thenE (warn_changes a i2 RemountsHere) (reapply_instance a i2 (ii_config i) plan restart)))
      (\<lambda>_. on_d (serving_some (ap_cfg a) (ap_instance a)))" if "ii_etag i1 = ii_etag i" for i1 i2
  proof (cases "ii_etag i2 = ii_etag i1")
    case True
    have "ends (on_d (serving_at (ap_cfg a) (ap_instance a) (ii_etag i2))) (thenE (warn_unrecorded a i2 plan)
      (thenE (warn_changes a i2 RemountsHere) (reapply_instance a i2 (ii_config i) plan restart)))
      (\<lambda>_. on_d (serving_some (ap_cfg a) (ap_instance a)))"
      by (intro ends_skip [OF ends_warn(2)] ends_skip [OF ends_warn(1)] ends_reapply [OF assms(1)])
    then show ?thesis using True that by simp
  qed (simp add: ends_def)
  have rest: "ends (\<lambda>s. ?P (se_daemon s) \<and> ii_etag i1 = ii_etag i) (thenE (ensure_volumes a)
      (bindE (prune_volume_record a i1) (\<lambda>i2. thenE (warn_unrecorded a i2 plan)
      (thenE (warn_changes a i2 RemountsHere) (reapply_instance a i2 (ii_config i) plan restart)))))
      (\<lambda>_. on_d (serving_some (ap_cfg a) (ap_instance a)))" for i1
  proof (cases "ii_etag i1 = ii_etag i")
    case True
    have "ends (on_d ?P) (thenE (ensure_volumes a)
      (bindE (prune_volume_record a i1) (\<lambda>i2. thenE (warn_unrecorded a i2 plan)
      (thenE (warn_changes a i2 RemountsHere) (reapply_instance a i2 (ii_config i) plan restart)))))
      (\<lambda>_. on_d (serving_some (ap_cfg a) (ap_instance a)))"
      by (rule ends_then [OF ends_ensure_volumes [OF assms(1) loose_serving(2) serving_of(2)]
            ends_bind [OF ends_prune [OF assms(1) loose_serving(2) serving_of(2)] last [OF True]]])
    then show ?thesis using True by simp
  qed (simp add: ends_def)
  show ?thesis unfolding up_existing_def using assms(2)
    by (simp, intro ends_skip [OF ends_log] ends_bind [OF ends_adopt rest])
qed

lemma ends_up_new:
  assumes "ap_client a = fake_client"
  shows "ends (on_d (serving_fresh (ap_cfg a) (ap_instance a))) (up_new a plan)
    (\<lambda>_. on_d (serving_some (ap_cfg a) (ap_instance a)))"
proof -
  have drop: "ends (on_d P) drop_carried (\<lambda>_. on_d P)" for P
    unfolding drop_carried_def by (rule ends_modify) simp
  have create: "ends (on_d (serving_fresh (ap_cfg a) (ap_instance a)))
      (call (cl_create (ap_client a) (app_instance_spec a plan carried)))
      (\<lambda>_. on_d (serving_some (ap_cfg a) (ap_instance a)))" for carried
    unfolding assms fake_client_sel by (rule ends_call [OF ends_create]) simp
  show ?thesis unfolding up_new_def
    by (rule ends_skip [OF ends_stranded [OF assms loose_serving(4) serving_of(3)]
          ends_skip [OF ends_log ends_skip [OF ends_ensure_volumes [OF assms loose_serving(4) serving_of(3)]
            ends_get [OF ends_then [OF create drop]]]]])
qed

lemma ends_running:
  assumes "ap_client a = fake_client"
  shows "ends (on_d (serving_some (ap_cfg a) (ap_instance a))) (ensure_running a None)
    (\<lambda>_. on_d (serving_some (ap_cfg a) (ap_instance a)))"
proof -
  let ?P = "serving_some (ap_cfg a) (ap_instance a)"
  have look: "ends ?P (fk_instance (ap_instance a)) (\<lambda>_. ?P)"
    by (auto simp: ends_def fk_instance_def serving_defs run_serving [of "ap_cfg a"] run_bindE fk_lookup_def
        has_key_iff split: option.splits)
  have start: "ends ?P (fk_start (ap_instance a)) (\<lambda>_. ?P)" by (rule ends_status [OF fk_start_def])
  have wait: "ends (on_d ?P) (on_error (on_daemon (fk_wait_ready (ap_instance a) wait_zero)) (\<lambda>e.
      if errors_is e ErrNetworkNotReady
      then log_warn (err_text e @ ''; steps that need network access may fail'') else fail e)) (\<lambda>_. on_d ?P)"
  proof (rule endsI)
    fix s :: "(fake, 'b) session"
    assume P: "?P (se_daemon s)"
    then have "\<not> fk_fail_ready (se_daemon s)" by (simp add: serving_defs serving_def)
    then show "\<exists>x s'. on_error (on_daemon (fk_wait_ready (ap_instance a) wait_zero)) (\<lambda>e.
      if errors_is e ErrNetworkNotReady
      then log_warn (err_text e @ ''; steps that need network access may fail'') else fail e) s = (Inr x, s')
      \<and> ?P (se_daemon s')"
      using P by (simp add: run_on_error run_on_daemon fk_wait_ready_def run_serving [OF serving_of(1) [OF P]]
          run_bindE run_get run_fail run_ret run_log)
  qed
  show ?thesis unfolding ensure_running_def option.case assms fake_client_sel
    by (intro ends_bind [OF ends_call [OF look]] ends_then [OF ends_when [OF ends_skip [OF ends_log ends_call [OF start]]] wait])
qed

text \<open>The whole commands.\<close>

lemma ends_up_with:
  assumes "ap_client a = fake_client" "runnable a"
  shows "ends (on_d (mine a)) (up_with a restart plan env) (\<lambda>_. on_d (serving_some (ap_cfg a) (ap_instance a)))"
proof -
  let ?P = "on_d (serving_some (ap_cfg a) (ap_instance a))"
  have found: "ends (on_d (looked_up a r)) (case r of
          Inr i \<Rightarrow> up_existing a restart plan i
        | Inl e \<Rightarrow> if errors_is e ErrInstanceNotFound then up_new a plan else fail e) (\<lambda>_. ?P)" for r
  proof (cases r)
    case (Inl e)
    have "ends (on_d (looked_up a r)) (up_new a plan) (\<lambda>_. ?P)"
      by (rule ends_pre [OF ends_up_new [OF assms(1)]]) (simp add: Inl looked_up_def)
    then show ?thesis using Inl by (cases "errors_is e ErrInstanceNotFound") (simp_all add: ends_def looked_up_def)
  next
    case (Inr i)
    show ?thesis
    proof (cases "is_managed_by (ii_config i) (pj_name (cf_project (ap_cfg a)))")
      case True
      show ?thesis unfolding Inr sum.case
        by (rule ends_pre [OF ends_up_existing [OF assms(1) True]]) (simp add: Inr looked_up_def)
    qed (simp add: ends_def Inr looked_up_def)
  qed
  have steps: "ends ?P (run_provisioning a env select_all) (\<lambda>_. ?P)"
    using assms(2)
    by (simp add: ends_def runnable_def run_provisioning_def bootstrap_def provision_def run_steps_def all_indices_def
        select_steps_def select_all_def Let_def run_thenE run_bindE run_lift run_ret)
  have ready: "ends ?P ready_line (\<lambda>_. ?P)"
    unfolding ready_line_def by (intro ends_get ends_if ends_log)
  have look: "ends (on_d (mine a)) (attempt (call (cl_instance (ap_client a) (ap_instance a)))) (\<lambda>r. on_d (looked_up a r))"
    unfolding assms(1) fake_client_sel by (rule ends_lookup)
  show ?thesis unfolding up_with_def
    by (rule ends_skip [OF ends_log ends_bind [OF look ends_then [OF found
        ends_skip [OF ends_log ends_then [OF ends_running [OF assms(1)] ends_then [OF steps ready]]]]]])
qed

lemma ends_up:
  assumes "ap_client a = fake_client" "runnable a"
  shows "ends (on_d (mine a)) (up a restart) (\<lambda>_. on_d (serving_some (ap_cfg a) (ap_instance a)))"
  unfolding up_def case_prod_beta
  by (rule ends_bind [OF ends_preflight [OF assms(1) loose_mine serving_of(4) assms(2)] ends_up_with [OF assms]])

lemma ends_image:
  assumes "loose P" "\<And>f. P f \<Longrightarrow> serving c f"
  shows "ends P (fk_check_image (in_image (cf_instance c))) (\<lambda>_. P)"
proof (rule endsI)
  fix f
  assume f: "P f"
  then have "serving c f" by (rule assms(2))
  then show "\<exists>x f'. fk_check_image (in_image (cf_instance c)) f = (Inr x, f') \<and> P f'"
    using assms(1) f by (auto simp: fk_check_image_def run_serving run_bindE run_get run_ret loose_def serving_def
        split: option.splits)
qed

lemma ends_destroy_for_rebuild:
  assumes "ap_client a = fake_client" "is_managed_by (ii_config i) (pj_name (cf_project (ap_cfg a)))"
  shows "ends (on_d (serving_some (ap_cfg a) (ap_instance a))) (destroy_instance a False True (Some i))
    (\<lambda>_. on_d (serving_fresh (ap_cfg a) (ap_instance a)))"
proof -
  let ?P = "on_d (serving_some (ap_cfg a) (ap_instance a))" and ?Q = "on_d (serving_fresh (ap_cfg a) (ap_instance a))"
  have check: "ends ?P (check_managed a i eff) (\<lambda>_. ?P)" for eff
    unfolding check_managed_def using assms(2) by (simp add: ends_skip [OF ends_warn(3)] ends_ret)
  have del: "ends ?P (call (cl_delete (ap_client a) (ap_instance a))) (\<lambda>_. ?Q)"
    unfolding assms(1) fake_client_sel by (rule ends_call [OF ends_delete])
  have say: "ends ?Q (when_op b (thenE (log_info m) (when_op b' (log_info m')))) (\<lambda>_. ?Q)" for b b' m m'
    by (intro ends_when ends_skip [OF ends_log] ends_log)
  show ?thesis unfolding destroy_instance_def option.case Let_def if_False
    by (rule ends_bind [OF check ends_skip [OF ends_log ends_then [OF ends_on_error [OF del] ends_skip [OF say ends_log]]]])
qed

lemma ends_rebuild:
  assumes "ap_client a = fake_client" "runnable a"
  shows "ends (on_d (mine a)) (rebuild a) (\<lambda>_. on_d (serving_some (ap_cfg a) (ap_instance a)))"
proof -
  have image: "ends (on_d (mine a)) (call (cl_check_image (ap_client a) (in_image (cf_instance (ap_cfg a))))) (\<lambda>_. on_d (mine a))"
    unfolding assms(1) fake_client_sel by (rule ends_call [OF ends_image [OF loose_mine serving_of(4)]])
  have look: "ends (on_d (mine a)) (attempt (call (cl_instance (ap_client a) (ap_instance a)))) (\<lambda>r. on_d (looked_up a r))"
    unfolding assms(1) fake_client_sel by (rule ends_lookup)
  have fresh: "serving_fresh (ap_cfg a) (ap_instance a) f \<Longrightarrow> mine a f" for f
    by (simp add: serving_defs mine_def has_key_iff)
  have gone: "ends (on_d (looked_up a r)) (case r of
          Inr i \<Rightarrow> thenE (modify (\<lambda>s. s\<lparr>se_carried := recorded_volumes i (ap_cfg a) (ap_instance a)\<rparr>))
              (destroy_instance a False True (Some i))
        | Inl e \<Rightarrow> if errors_is e ErrInstanceNotFound then ret () else fail e) (\<lambda>_. on_d (mine a))" for r
  proof (cases r)
    case (Inl e)
    show ?thesis using fresh by (auto simp: Inl ends_def looked_up_def run_ret)
  next
    case (Inr i)
    show ?thesis
    proof (cases "is_managed_by (ii_config i) (pj_name (cf_project (ap_cfg a)))")
      case True
      have "ends (on_d (serving_some (ap_cfg a) (ap_instance a)))
          (thenE (modify (\<lambda>s. s\<lparr>se_carried := recorded_volumes i (ap_cfg a) (ap_instance a)\<rparr>))
            (destroy_instance a False True (Some i))) (\<lambda>_. on_d (mine a))"
        by (rule ends_then [OF ends_modify ends_weaken [OF ends_destroy_for_rebuild [OF assms(1) True]]])
          (simp_all add: fresh)
      then show ?thesis unfolding Inr sum.case by (rule ends_pre) (auto simp: Inr looked_up_def intro: some_at)
    qed (simp add: ends_def Inr looked_up_def)
  qed
  show ?thesis unfolding rebuild_def case_prod_beta
    by (rule ends_bind [OF ends_preflight [OF assms(1) loose_mine serving_of(4) assms(2)]
        ends_skip [OF image ends_bind [OF look ends_then [OF gone ends_on_error [OF ends_up_with [OF assms]]]]]])
qed


section \<open>Properties\<close>

text \<open>C8: \<open>up\<close> and \<open>rebuild\<close> succeed when nothing stands in the way: with a daemon that injects no fault,
  gets the instance ready and has the declared pools, profiles and image, and a declaration whose volume
  names fit, whose mapping is permitted and that declares no steps and no secrets, both end without an
  error, whether the project's instance is there or not.\<close>

theorem commands_succeed:
  assumes "ap_client a = fake_client" "runnable a" "mine a (se_daemon s)"
  shows "(\<exists>s'. up a restart s = (Inr (), s')) \<and> (\<exists>s'. rebuild a s = (Inr (), s'))"
  using endsD [OF ends_up [OF assms(1,2)] assms(3)] endsD [OF ends_rebuild [OF assms(1,2)] assms(3)] by auto

lemma sample_serves: "runnable sample_app" "mine sample_app sample_daemon"
proof -
  have "check_volume_names sample_config ''dev-web'' = None" "cf_secrets sample_config = fmempty"
    "cf_provision sample_config = []" "bootstrap_steps sample_config = []"
    "wm_idmap (workspace_or_default sample_config) \<noteq> IDMapRaw"
    by code_simp+
  then show "runnable sample_app" by (simp add: runnable_def)
  have "list_all (\<lambda>(k, v). pool_or_default v = ''default'') (entries (cf_volumes sample_config))"
    "profile_names sample_config = [''default'']" "pj_name (cf_project sample_config) = ''web''"
    by code_simp+
  then show "mine sample_app sample_daemon"
    by (auto simp: mine_def serving_def sample_daemon_def new_fake_def has_pool_def list_all_iff sample_instance_def
        is_managed_by_def get_str_def managed_keys)
qed

lemma sample_rebuilds: "\<exists>s'. rebuild sample_app sample_session = (Inr (), s')"
  using endsD [OF ends_rebuild [of sample_app], of sample_session] sample_serves by (simp add: new_session_def) blast

theorem commands_succeed_witness:
  "\<exists>s'. rebuild sample_app sample_session = (Inr (), s')"
  using commands_succeed [of sample_app sample_session] sample_serves by (simp add: new_session_def)



text \<open>C5: no volume is orphaned. With a daemon whose faults never claim that an instance or a pool is
  missing, a run of \<open>up\<close> or \<open>rebuild\<close> that ends well leaves on the instance, or on the one that
  replaced it, a record naming every volume the record named before and that exists.\<close>

theorem volume_record_survives:
  assumes "ap_client a = fake_client" "no_reserved_keys (ap_cfg a)" "honest (se_daemon s)"
    and "instance_view (se_daemon s) (ap_instance a) = Some i"
    and "m \<in> {up a restart, rebuild a}" "m s = (Inr (), s')"
    and "ref \<in> set (named_volumes (split_list (get_str (ii_config i) managed_volumes_key)))"
    and "ref \<in> volume_view (se_daemon s)"
  shows "\<exists>j. instance_view (se_daemon s') (ap_instance a) = Some j
    \<and> ref \<in> set (split_list (get_str (ii_config j) managed_volumes_key))"
proof -
  have r: "ref \<in> set (split_list (get_str (ii_config i) managed_volumes_key))" "snd (snd (split_volume ref))"
    using assms(7) by (auto simp: named_volumes_def)
  then have c: "no_comma ref" "ref \<noteq> []" using split_list_no_comma by (auto simp: split_volume_def)
  with r have X: "proper_refs {ref} = {ref}" by (auto simp: proper_refs_def)
  have "faithful.up_start {ref} (ap_instance a) (se_daemon s)"
    using assms(3,4,8) r(1) X unfolding faithful.up_start_def by simp
  then obtain plan where "faithful.up_running {ref} (ap_instance a) a plan (se_daemon s')"
    using assms(5,6) faithful.up_achieves [unfolded proper_keys_none, OF assms(1) refl assms(2)]
      faithful.rebuild_achieves [unfolded proper_keys_none, OF assms(1) refl assms(2)] by blast
  then obtain j cur where j: "instance_view (se_daemon s') (ap_instance a) = Some j"
      "holds (ap_cfg a) plan (ap_instance a) cur j"
      "ref \<in> set (split_list (get_str cur managed_volumes_key))"
    using X unfolding faithful.up_running_def faithful.up_done_def established_def by auto
  have "get_str (ii_config j) managed_volumes_key = join_list (known_volumes cur (ap_cfg a) (ap_instance a))"
    using j(2) by (simp add: holds_def get_str_def has_key_desired lookup_desired_volumes)
  then show ?thesis using j(1,3) c by (auto intro!: in_join_list simp: set_known_volumes)
qed

theorem volume_record_survives_witness:
  "\<exists>s' j. rebuild sample_app sample_session = (Inr (), s') \<and> instance_view (se_daemon s') ''dev-web'' = Some j
     \<and> ''default/dev-web-old'' \<in> set (split_list (get_str (ii_config j) managed_volumes_key))"
proof -
  have keys: "no_reserved_keys (ap_cfg sample_app)" unfolding sample_app_sel by code_simp
  obtain s' where run: "rebuild sample_app sample_session = (Inr (), s')" using sample_rebuilds by blast
  obtain i where i: "instance_view sample_daemon ''dev-web'' = Some i"
    and v: "get_str (ii_config i) managed_volumes_key = ''default/dev-web-old''"
    by (simp add: instance_view_def sample_daemon_def sample_instance_def managed_keys get_str_def)
  have named: "''default/dev-web-old'' \<in> set (named_volumes (split_list ''default/dev-web-old''))" by code_simp
  have there: "''default/dev-web-old'' \<in> volume_view sample_daemon"
    by (simp add: volume_view_def volume_at_def sample_daemon_def)
  have "honest sample_daemon" by code_simp
  then show ?thesis
    using volume_record_survives [of sample_app sample_session i "rebuild sample_app" False s' "''default/dev-web-old''"]
      keys run i v named there by (auto simp: new_session_def)
qed

end
