(* ===== verification/Dryrun.thy ===== *)
theory Dryrun
  imports App_Safety
begin

text \<open>
  Models \<open>internal/cli/dryrun.go\<close>: \<open>Plan\<close>, which prints what \<open>up\<close> would do without doing it, and the
  pure functions that list the actions; with \<open>warnRestartNeeded\<close> of \<open>internal/cli/restart.go\<close>, which
  only the preview uses. The properties relate the preview to the change \<open>up\<close> writes.
\<close>

definition single_line :: "string \<Rightarrow> string" where
  "single_line v = replace_char (CHR 0x0A) '' / '' (trim_right_char (CHR 0x0A) v)"

definition changed_keys :: "device \<Rightarrow> device \<Rightarrow> string list" where
  "changed_keys have_dev want =
     map (\<lambda>k. k @ ''='' @ get_str want k)
       (filter (\<lambda>k. get_str have_dev k \<noteq> get_str want k) (sorted_keys want))"

definition device_detail :: "device \<Rightarrow> string" where
  "device_detail d =
     (if get_str d ''source'' \<noteq> [] \<and> get_str d ''path'' \<noteq> []
      then CHR '' '' # get_str d ''source'' @ '' -> '' @ get_str d ''path'' else [])"

definition volume_actions :: "config \<Rightarrow> string \<Rightarrow> bool gomap \<Rightarrow> string list" where
  "volume_actions c name existing =
     map (\<lambda>(key, vol).
         (if fmlookup existing (pool_or_default vol @ ''/'' @ volume_name name key) = Some True
          then ''Use existing volume '' else ''Create volume '')
         @ volume_name name key @ '' on pool '' @ pool_or_default vol)
       (entries (cf_volumes c))"

definition config_sets :: "string gomap \<Rightarrow> string gomap \<Rightarrow> string list" where
  "config_sets current desired = filter (\<lambda>k. get_str current k \<noteq> get_str desired k) (sorted_keys desired)"

definition config_actions :: "string gomap \<Rightarrow> string gomap \<Rightarrow> string list \<Rightarrow> string list" where
  "config_actions current desired stale =
     map (\<lambda>k. ''Unset config '' @ k) stale
     @ map (\<lambda>k. ''Set config '' @ k @ ''='' @ single_line (get_str desired k))
         (filter (\<lambda>k. \<not> has_prefix k reserved_config_prefix) (config_sets current desired))
     @ (if list_ex (\<lambda>k. has_prefix k reserved_config_prefix) (config_sets current desired)
        then [''Set idev markers ('' @ reserved_config_prefix @ ''*)''] else [])"

definition device_action :: "device gomap \<Rightarrow> string \<times> device \<Rightarrow> string list" where
  "device_action current e =
     (case e of (name, want) \<Rightarrow>
        (case fmlookup current name of
           None \<Rightarrow> [''Add device '' @ name @ '' ('' @ device_type want @ device_detail want @ '')'']
         | Some d \<Rightarrow>
             if changed_keys d want \<noteq> []
             then [''Update device '' @ name @ '' ('' @ join '' '' (changed_keys d want) @ '')''] else []))"

definition device_actions :: "device gomap \<Rightarrow> device gomap \<Rightarrow> string list \<Rightarrow> string list" where
  "device_actions current desired stale =
     map (\<lambda>n. ''Remove device '' @ n) stale @ concat (map (device_action current) (entries desired))"

definition provision_actions :: "config \<Rightarrow> string list" where
  "provision_actions c =
     (let steps = bootstrap_steps c; total_steps = dec (length (cf_provision c))
      in (if steps = [] then ''Bootstrap: skipped''
          else if cf_bootstrap c = None then ''Bootstrap: '' @ dec (length steps) @ '' step (default)''
          else ''Bootstrap: '' @ dec (length steps) @ '' step(s) (from dev.yml)'')
         # map (\<lambda>(i, s). ''Provision step '' @ dec (i + 1) @ ''/'' @ total_steps @ '': ''
               @ display_name s (i + 1) @ '' ('' @ step_kind s
               @ (case st_ansible s of
                    Some an \<Rightarrow> CHR '' '' # an_playbook an
                  | None \<Rightarrow> (case st_galaxy s of Some g \<Rightarrow> CHR '' '' # gx_requirements g | None \<Rightarrow> []))
               @ '')'')
             (enum_from 0 (cf_provision c)))"

definition plan_actions ::
  "config \<Rightarrow> string \<Rightarrow> incus_instance option \<Rightarrow> idmap_plan \<Rightarrow> bool gomap \<Rightarrow> string list" where
  "plan_actions c name current plan existing =
     (let current_cfg = (case current of None \<Rightarrow> fmempty | Some i \<Rightarrow> ii_config i);
          cfg = desired_config c plan current_cfg name;
          devs = desired_devices c plan name
      in volume_actions c name existing
         @ (case current of
              None \<Rightarrow>
                (''Create instance '' @ name @ '' ('' @ in_image (cf_instance c) @ '')'')
                # (if profile_names c \<noteq> [] then ''Apply profiles: '' @ join '', '' (profile_names c)
                   else ''Apply no profiles'')
                # config_actions fmempty cfg [] @ device_actions fmempty devs [] @ [''Start instance'']
            | Some i \<Rightarrow>
                (''Use existing instance '' @ name @ '' ('' @ ii_status i @ '')'')
                # config_actions (ii_config i) cfg (stale_config_keys (ii_config i) cfg plan)
                @ device_actions (ii_devices i) devs (stale_devices (ii_config i) (ii_devices i) devs)
                @ (if is_running i then [] else [''Start instance'']))
         @ provision_actions c)"

definition existing_volumes :: "('d, 'h) app \<Rightarrow> ('d, 'h, bool gomap) run" where
  "existing_volumes a =
     fold_op (\<lambda>(key, vol) out.
         bindE (call (cl_volume_exists (ap_client a) (pool_or_default vol) (volume_name (ap_instance a) key)))
           (\<lambda>exists. ret (fmupd (pool_or_default vol @ ''/'' @ volume_name (ap_instance a) key) exists out)))
       (entries (cf_volumes (ap_cfg a))) fmempty"

definition warn_restart_needed :: "('d, 'h) app \<Rightarrow> incus_instance \<Rightarrow> idmap_plan \<Rightarrow> ('d, 'h, unit) run" where
  "warn_restart_needed a i plan =
     (if \<not> is_running i then ret ()
      else let desired = desired_config (ap_cfg a) plan (ii_config i) (ap_instance a)
        in case restart_owed True (ii_config i) desired (stale_config_keys (ii_config i) desired plan)
             (ii_last_used i) of
           (fresh, changed, booted) \<Rightarrow>
             if changed = [] then ret () else log_warn (restart_warning fresh changed))"

text \<open>The instance the preview is about, or nothing when \<open>up\<close> would create it.\<close>

definition plan_current :: "('d, 'h) app \<Rightarrow> idmap_plan \<Rightarrow> ('d, 'h, incus_instance option) run" where
  "plan_current a plan =
     bindE (attempt (call (cl_instance (ap_client a) (ap_instance a)))) (\<lambda>r.
       bindE (case r of
           Inr i \<Rightarrow>
             if \<not> is_managed_by (ii_config i) (pj_name (cf_project (ap_cfg a))) then fail (unmanaged_error a i)
             else ret (Some i)
         | Inl e \<Rightarrow> if errors_is e ErrInstanceNotFound then ret None else fail e)
       (\<lambda>current. case current of
           Some i \<Rightarrow>
             bindE (prune_volume_record a i) (\<lambda>i.
             thenE (warn_changes a i WouldRemountHere)
             (thenE (warn_restart_needed a i plan) (ret (Some i))))
         | None \<Rightarrow>
             thenE (call (cl_check_image (ap_client a) (in_image (cf_instance (ap_cfg a))))) (ret None)))"

definition plan_command :: "('d, 'h) app \<Rightarrow> ('d, 'h, unit) run" where
  "plan_command a =
     (case check_volume_names (ap_cfg a) (ap_instance a) of
        Some e \<Rightarrow> fail e
      | None \<Rightarrow>
          bindE (app_idmap_plan a) (\<lambda>plan.
          thenE (when_op (ip_warning plan \<noteq> []) (log_warn (ip_warning plan)))
          (bindE (app_env a) (\<lambda>env.
           thenE (check_profiles a)
          (thenE (check_prerequisites (ap_exec a) (cf_root (ap_cfg a)) (cf_provision (ap_cfg a)))
          (bindE (plan_current a plan) (\<lambda>current.
           bindE (existing_volumes a) (\<lambda>existing.
             for_each (plan_actions (ap_cfg a) (ap_instance a) current plan existing)
               (\<lambda>action. write_out (action @ newline))))))))))"


section \<open>Facts\<close>

lemma keeps_case_pair [keeps_intros]:
  "(\<And>x y. p = (x, y) \<Longrightarrow> keeps I (f x y z)) \<Longrightarrow> keeps I ((case p of (x, y) \<Rightarrow> f x y) z)"
  by (cases p) simp

lemma reads_plan_command:
  assumes "kept_by_reads I c" "ap_client a = c"
  shows "keeps (on_d I) (plan_command a)"
  unfolding plan_command_def plan_current_def existing_volumes_def warn_restart_needed_def Let_def
  by (intro keeps_intros reads_parts [OF assms] reads_calls [OF assms] reads_executor [OF assms])

lemma get_str_same_key:
  assumes "has_key m k = has_key n k" "get_str m k = get_str n k"
  shows "fmlookup m k = fmlookup n k"
  using assms by (cases "fmlookup m k"; cases "fmlookup n k") (simp_all add: get_str_def has_key_def)

lemma config_actions_empty:
  "config_actions current desired stale = []
   \<longleftrightarrow> stale = [] \<and> (\<forall>k. has_key desired k \<longrightarrow> get_str current k = get_str desired k)"
proof -
  have "config_actions current desired stale = [] \<longleftrightarrow> stale = [] \<and> config_sets current desired = []"
    by (cases "config_sets current desired") (auto simp: config_actions_def)
  then show ?thesis by (simp add: config_sets_def filter_empty_conv Ball_def)
qed

lemma changed_keys_empty:
  "changed_keys d want = [] \<longleftrightarrow> (\<forall>k. has_key want k \<longrightarrow> get_str d k = get_str want k)"
  by (simp add: changed_keys_def filter_empty_conv Ball_def)

lemma device_actions_empty:
  "device_actions current desired stale = []
   \<longleftrightarrow> stale = [] \<and> (\<forall>n want. fmlookup desired n = Some want \<longrightarrow>
         (\<exists>d. fmlookup current n = Some d \<and> changed_keys d want = []))"
proof -
  have "device_action current (n, want) = []
     \<longleftrightarrow> (\<exists>d. fmlookup current n = Some d \<and> changed_keys d want = [])" for n want
    by (simp add: device_action_def split: option.splits)
  moreover have "(n, want) \<in> set (entries desired) \<longleftrightarrow> fmlookup desired n = Some want" for n want
    by (auto simp: entries_def has_key_iff image_iff)
  moreover have "device_actions current desired stale = []
     \<longleftrightarrow> stale = [] \<and> (\<forall>n want. (n, want) \<in> set (entries desired) \<longrightarrow> device_action current (n, want) = [])"
    by (auto simp: device_actions_def)
  ultimately show ?thesis by simp
qed

text \<open>Equal on every wanted key and with no other key: then equal.\<close>

lemma no_changed_keys:
  assumes "changed_keys d want = []" "\<And>k. has_key d k = has_key want k"
  shows "d = want"
proof (rule fmap_ext)
  fix k
  show "fmlookup d k = fmlookup want k"
  proof (cases "has_key want k")
    case True
    then show ?thesis using assms by (intro get_str_same_key) (simp_all add: changed_keys_empty)
  next
    case False
    then show ?thesis using assms(2) [of k] by (simp add: has_key_iff)
  qed
qed

lemma stale_are_there:
  "k \<in> set (stale_config_keys cfg desired plan) \<Longrightarrow> has_key cfg k"
  "m \<in> set (stale_devices cfg devs devices) \<Longrightarrow> has_key devs m"
  by (auto simp: stale_config_keys_def stale_idmap_keys_def stale_devices_def split: option.splits if_splits)

lemma none_stale:
  "stale_config_keys cfg desired plan = [] \<longleftrightarrow> (\<forall>k\<in>set (stale_config_keys cfg desired plan). \<not> has_key cfg k)"
  "stale_devices cfg devs devices = [] \<longleftrightarrow> (\<forall>m\<in>set (stale_devices cfg devs devices). \<not> has_key devs m)"
  using stale_are_there by (metis list.set_intros(1) neq_Nil_conv empty_iff list.set(1))+


section \<open>Properties\<close>

text \<open>C33: the preview and the run agree where the instance holds every declared key and its devices
  hold no property the declaration lacks: nothing about settings or devices is listed exactly when
  the change \<open>up\<close> would write is settled.\<close>

theorem preview_silent_iff_settled:
  assumes "\<And>k. has_key (desired_config c plan cfg n) k \<Longrightarrow> has_key cfg k"
    and "\<And>m d want k. fmlookup devs m = Some d \<Longrightarrow> fmlookup (desired_devices c plan n) m = Some want
           \<Longrightarrow> has_key d k = has_key want k"
  shows "config_actions cfg (desired_config c plan cfg n) (stale_config_keys cfg (desired_config c plan cfg n) plan)
        @ device_actions devs (desired_devices c plan n) (stale_devices cfg devs (desired_devices c plan n)) = []
    \<longleftrightarrow> settled cfg devs (reapply_change c plan n cfg devs)"
proof -
  let ?d = "desired_config c plan cfg n" and ?v = "desired_devices c plan n"
  have same: "get_str cfg k = get_str ?d k \<longleftrightarrow> fmlookup cfg k = fmlookup ?d k" if "has_key ?d k" for k
    using get_str_same_key [of cfg k ?d] assms(1) [OF that] that by (auto simp: get_str_def)
  have cfg: "config_actions cfg ?d (stale_config_keys cfg ?d plan) = []
     \<longleftrightarrow> (\<forall>k\<in>set (stale_config_keys cfg ?d plan). \<not> has_key cfg k)
         \<and> (\<forall>k. has_key ?d k \<longrightarrow> fmlookup cfg k = fmlookup ?d k)"
    unfolding config_actions_empty none_stale(1) using same by blast
  have dev: "(\<exists>d. fmlookup devs m = Some d \<and> changed_keys d want = []) \<longleftrightarrow> fmlookup devs m = Some want"
    if "fmlookup ?v m = Some want" for m want
    using no_changed_keys assms(2) [OF _ that] by (auto simp: changed_keys_empty)
  have devs: "device_actions devs ?v (stale_devices cfg devs ?v) = []
     \<longleftrightarrow> (\<forall>m\<in>set (stale_devices cfg devs ?v). \<not> has_key devs m)
         \<and> (\<forall>m. has_key ?v m \<longrightarrow> fmlookup devs m = fmlookup ?v m)"
    unfolding device_actions_empty none_stale(2) [symmetric] using dev by (auto simp: has_key_iff)
  show ?thesis unfolding append_is_Nil_conv cfg devs settled_iff by simp
qed

text \<open>An instance left by a run of the declaration, with the workspace mounted read-only since.\<close>

definition settled_settings :: "string gomap" where
  "settled_settings = desired_config sample_config sample_plan fmempty ''dev-web''"

definition readonly_devices :: "device gomap" where
  "readonly_devices = (let devs = desired_devices sample_config sample_plan ''dev-web''
     in fmupd ''workspace'' (fmupd ''readonly'' ''true'' (the (fmlookup devs ''workspace''))) devs)"

lemma preview_silent_iff_settled_witness:
  "config_actions settled_settings (desired_config sample_config sample_plan settled_settings ''dev-web'')
      (stale_config_keys settled_settings (desired_config sample_config sample_plan settled_settings ''dev-web'') sample_plan)
    @ device_actions (desired_devices sample_config sample_plan ''dev-web'')
        (desired_devices sample_config sample_plan ''dev-web'')
        (stale_devices settled_settings (desired_devices sample_config sample_plan ''dev-web'')
          (desired_devices sample_config sample_plan ''dev-web'')) = []
   \<longleftrightarrow> settled settled_settings (desired_devices sample_config sample_plan ''dev-web'')
         (reapply_change sample_config sample_plan ''dev-web'' settled_settings
           (desired_devices sample_config sample_plan ''dev-web''))"
  by (rule preview_silent_iff_settled) (auto simp: settled_settings_def has_key_desired)

lemma settled_settings_again:
  "desired_config sample_config sample_plan settled_settings ''dev-web'' = settled_settings"
proof -
  have "no_comma r" if "r \<in> set (declared_volumes sample_config ''dev-web'')" for r
    using sample_fits(1) that by (auto simp: comma_free_def list_all_iff)
  moreover have "get_str settled_settings managed_volumes_key
      = join_list (known_volumes fmempty sample_config ''dev-web'')"
    by (simp add: settled_settings_def get_str_lookup lookup_desired_volumes)
  ultimately have "join_list (known_volumes settled_settings sample_config ''dev-web'')
      = join_list (known_volumes fmempty sample_config ''dev-web'')"
    by (rule known_volumes_recorded)
  then have "desired_config sample_config sample_plan settled_settings ''dev-web''
      = desired_config sample_config sample_plan fmempty ''dev-web''"
    by (rule desired_config_cong)
  then show ?thesis by (simp only: settled_settings_def [symmetric])
qed

lemma workspace_not_readonly:
  "case fmlookup (desired_devices sample_config sample_plan ''dev-web'') ''workspace'' of
     Some w \<Rightarrow> fmlookup w ''readonly'' = None | None \<Rightarrow> False"
  by code_simp

text \<open>Without that, the preview under-reports: a device property the declaration has dropped, such
  as \<open>readonly\<close> of a mount, is rewritten by \<open>up\<close> and not listed by the preview.\<close>

theorem preview_misses_dropped_property:
  "config_actions settled_settings (desired_config sample_config sample_plan settled_settings ''dev-web'')
      (stale_config_keys settled_settings (desired_config sample_config sample_plan settled_settings ''dev-web'')
        sample_plan) = []
   \<and> device_actions readonly_devices (desired_devices sample_config sample_plan ''dev-web'')
      (stale_devices settled_settings readonly_devices (desired_devices sample_config sample_plan ''dev-web'')) = []
   \<and> \<not> settled settled_settings readonly_devices
        (reapply_change sample_config sample_plan ''dev-web'' settled_settings readonly_devices)"
proof (intro conjI)
  let ?v = "desired_devices sample_config sample_plan ''dev-web''"
  obtain w where w: "fmlookup ?v ''workspace'' = Some w" "fmlookup w ''readonly'' = None"
    using workspace_not_readonly by (auto split: option.splits)
  have ro: "readonly_devices = fmupd ''workspace'' (fmupd ''readonly'' ''true'' w) ?v"
    by (simp add: readonly_devices_def w(1))
  have "stale_config_keys settled_settings (desired_config sample_config sample_plan fmempty ''dev-web'') sample_plan = []"
    by (rule stale_nothing [OF sample_fits(1), of _ sample_plan fmempty]) (simp add: settled_settings_def)
  then show "config_actions settled_settings (desired_config sample_config sample_plan settled_settings ''dev-web'')
      (stale_config_keys settled_settings (desired_config sample_config sample_plan settled_settings ''dev-web'')
        sample_plan) = []"
    by (simp add: config_actions_empty settled_settings_again) (simp add: settled_settings_def)
  have "get_str settled_settings managed_devices_key = join_list (managed_device_names sample_config)"
    by (simp add: settled_settings_def get_str_lookup lookup_desired_devices)
  then have stale: "stale_devices settled_settings readonly_devices ?v = []"
    by (rule stale_no_device [OF sample_fits(1)])
  have "changed_keys d d = []" for d by (simp add: changed_keys_empty)
  moreover have "changed_keys (fmupd ''readonly'' ''true'' w) w = []"
    using w(2) by (auto simp: changed_keys_empty get_str_def has_key_iff)
  ultimately show "device_actions readonly_devices ?v (stale_devices settled_settings readonly_devices ?v) = []"
    unfolding device_actions_empty stale by (auto simp: ro w(1))
  have "fmupd ''readonly'' ''true'' w \<noteq> w"
    using w(2) by (metis fmupd_lookup option.distinct(1))
  then show "\<not> settled settled_settings readonly_devices
      (reapply_change sample_config sample_plan ''dev-web'' settled_settings readonly_devices)"
    using w(1) by (auto simp: settled_iff ro has_key_iff)
qed

end
