(* ===== verification/Status.thy ===== *)
theory Status
  imports App_Safety
begin

text \<open>
  Models \<open>internal/cli/status.go\<close>: the report of \<open>status\<close>, as a table and as JSON, and \<open>ip\<close>. The JSON
  text is what \<open>encoding/json\<close> writes with an indent of two spaces.
\<close>

section \<open>JSON as text\<close>

datatype doc = DStr string | DBool bool | DNum int | DArr "doc list" | DObj "(string \<times> doc) list"

definition hex4 :: "nat \<Rightarrow> string" where
  "hex4 r = map (\<lambda>k. hex_digit (r div 16 ^ k mod 16)) [3, 2, 1, 0]"

definition json_rune :: "nat \<times> string \<Rightarrow> string" where
  "json_rune p =
     (case p of (r, b) \<Rightarrow>
        if r = 34 \<or> r = 92 then CHR 0x5C # b
        else if r = 8 then [CHR 0x5C, CHR ''b''] else if r = 12 then [CHR 0x5C, CHR ''f'']
        else if r = 10 then [CHR 0x5C, CHR ''n''] else if r = 13 then [CHR 0x5C, CHR ''r'']
        else if r = 9 then [CHR 0x5C, CHR ''t'']
        else if r < 32 \<or> List.member [60, 62, 38, 8232, 8233] r \<or> (r = rune_error \<and> length b = 1)
          then CHR 0x5C # CHR ''u'' # hex4 r
        else b)"

definition json_string :: "string \<Rightarrow> string" where
  "json_string s = CHR 0x22 # concat (map json_rune (runes s)) @ [CHR 0x22]"

definition json_indent :: "nat \<Rightarrow> string" where
  "json_indent n = newline @ concat (replicate n ''  '')"

fun doc_text :: "nat \<Rightarrow> doc \<Rightarrow> string" where
  "doc_text n (DStr s) = json_string s"
| "doc_text n (DBool b) = (if b then ''true'' else ''false'')"
| "doc_text n (DNum i) = itoa i"
| "doc_text n (DArr xs) =
     (if xs = [] then ''[]''
      else CHR ''['' # join '','' (map (\<lambda>x. json_indent (Suc n) @ doc_text (Suc n) x) xs) @ json_indent n @ '']'')"
| "doc_text n (DObj fs) =
     (if fs = [] then ''{}''
      else CHR ''{'' # join '','' (map (\<lambda>(k, x). json_indent (Suc n) @ json_string k @ '': '' @ doc_text (Suc n) x) fs)
        @ json_indent n @ ''}'')"


section \<open>The report\<close>

record status_report =
  sr_project :: string
  sr_instance :: string
  sr_status :: string
  sr_image :: string
  sr_image_declared :: string
  sr_workspace :: string
  sr_source :: string
  sr_source_declared :: string
  sr_exists :: bool
  sr_managed :: bool
  sr_profiles :: "string list"
  sr_config :: "string gomap"
  sr_devices :: "string list"
  sr_addresses :: "(string \<times> network_address) list"
  sr_steps :: nat
  sr_runtime :: string
  sr_incus_project :: string

definition address_doc :: "string \<times> network_address \<Rightarrow> doc" where
  "address_doc a =
     (case a of (iface, na) \<Rightarrow>
        DObj [(''interface'', DStr iface), (''family'', DStr (na_family na)),
          (''address'', DStr (na_address na)), (''scope'', DStr (na_scope na))])"

definition omit_empty :: "bool \<Rightarrow> string \<Rightarrow> doc \<Rightarrow> (string \<times> doc) list" where
  "omit_empty none k d = (if none then [] else [(k, d)])"

definition report_doc :: "status_report \<Rightarrow> doc" where
  "report_doc r = DObj
     ([(''project'', DStr (sr_project r)), (''instance'', DStr (sr_instance r)),
       (''status'', DStr (sr_status r)), (''image'', DStr (sr_image r))]
      @ omit_empty (sr_image_declared r = []) ''image_declared'' (DStr (sr_image_declared r))
      @ [(''workspace'', DStr (sr_workspace r)), (''workspace_source'', DStr (sr_source r))]
      @ omit_empty (sr_source_declared r = []) ''workspace_source_declared'' (DStr (sr_source_declared r))
      @ [(''exists'', DBool (sr_exists r)), (''managed'', DBool (sr_managed r))]
      @ omit_empty (sr_profiles r = []) ''profiles'' (DArr (map DStr (sr_profiles r)))
      @ omit_empty (sorted_keys (sr_config r) = []) ''config''
          (DObj (map (\<lambda>(k, v). (k, DStr v)) (entries (sr_config r))))
      @ omit_empty (sr_devices r = []) ''devices'' (DArr (map DStr (sr_devices r)))
      @ omit_empty (sr_addresses r = []) ''addresses'' (DArr (map address_doc (sr_addresses r)))
      @ [(''provision_steps'', DNum (int (sr_steps r)))]
      @ omit_empty (sr_runtime r = []) ''runtime'' (DStr (sr_runtime r))
      @ [(''incus_project'', DStr (sr_incus_project r))])"

definition device_summary :: "device gomap \<Rightarrow> string list" where
  "device_summary devs = map (\<lambda>(n, d). n @ ''('' @ device_type d @ '')'') (entries devs)"

definition limits_of :: "string gomap \<Rightarrow> string gomap" where
  "limits_of cfg = fmfilter (\<lambda>k. has_prefix k ''limits.'') cfg"

definition blank_report :: "('d, 'h) app \<Rightarrow> status_report" where
  "blank_report a =
     \<lparr>sr_project = pj_name (cf_project (ap_cfg a)), sr_instance = ap_instance a, sr_status = ''NOT CREATED'',
      sr_image = in_image (cf_instance (ap_cfg a)), sr_image_declared = [],
      sr_workspace = wm_target (workspace_or_default (ap_cfg a)), sr_source = workspace_source_path (ap_cfg a),
      sr_source_declared = [], sr_exists = False, sr_managed = False, sr_profiles = [],
      sr_config = fmempty, sr_devices = [], sr_addresses = [], sr_steps = length (cf_provision (ap_cfg a)),
      sr_runtime = (case cf_runtime (ap_cfg a) of Some r \<Rightarrow> rt_version r | None \<Rightarrow> []),
      sr_incus_project = ap_incus_project a\<rparr>"

definition report_on :: "('d, 'h) app \<Rightarrow> incus_instance \<Rightarrow> status_report" where
  "report_on a i =
     (let r = blank_report a;
          declared_source = workspace_source_path (ap_cfg a);
          declared_image = in_image (cf_instance (ap_cfg a));
          src = (case fmlookup (ii_devices i) workspace_device_name of
                   Some d \<Rightarrow> get_str d ''source'' | None \<Rightarrow> []);
          was = get_str (ii_config i) managed_image_key
      in r\<lparr>sr_exists := True, sr_status := ii_status i,
           sr_source := (if src \<noteq> [] then src else declared_source),
           sr_source_declared := (if src \<noteq> [] \<and> src \<noteq> declared_source then declared_source else []),
           sr_image := was,
           sr_image_declared := (if was = declared_image \<and> was \<noteq> [] then [] else declared_image),
           sr_managed := is_managed_by (ii_config i) (pj_name (cf_project (ap_cfg a))),
           sr_profiles := ii_profiles i, sr_config := limits_of (ii_config i),
           sr_devices := device_summary (ii_devices i), sr_addresses := addresses i\<rparr>)"

definition address_row :: "status_report \<Rightarrow> string" where
  "address_row r = join '', '' (map (\<lambda>a. na_address (snd a)) (sr_addresses r))"

definition workspace_row :: "status_report \<Rightarrow> string" where
  "workspace_row r =
     sr_source r @ '' -> '' @ sr_workspace r
     @ (if sr_source_declared r \<noteq> []
        then '' (dev.yml points at '' @ sr_source_declared r @ ''; idev up remounts it here)'' else [])"

definition image_row :: "status_report \<Rightarrow> string" where
  "image_row r =
     (if sr_image_declared r = [] then sr_image r
      else if sr_image r = [] then sr_image_declared r @ '' (declared; this instance predates the record, ''
             @ ''so what it was made from is not recorded)''
      else sr_image r @ '' (dev.yml declares '' @ sr_image_declared r @ ''; idev rebuild to recreate)'')"

definition yes_no :: "bool \<Rightarrow> string" where
  "yes_no b = (if b then ''yes'' else ''no'')"

definition value_or :: "string \<Rightarrow> string \<Rightarrow> string" where
  "value_or v fallback = (if v = [] then fallback else v)"

definition status_rows :: "status_report \<Rightarrow> (string \<times> string) list" where
  "status_rows r =
     [(''Project'', sr_project r), (''Instance'', sr_instance r), (''Status'', sr_status r),
      (''Image'', image_row r), (''Workspace'', workspace_row r)]
     @ (if sr_exists r then
          [(''Addresses'', address_row r), (''Profiles'', join '', '' (sr_profiles r)),
           (''Devices'', join '', '' (sr_devices r)), (''Managed'', yes_no (sr_managed r))]
          @ entries (sr_config r)
        else [])
     @ [(''Provision'', dec (sr_steps r) @ '' step(s)''), (''Runtime'', sr_runtime r),
        (''Incus'', value_or (sr_incus_project r) ''default'')]"

text \<open>\<open>%-11s\<close>: padded to eleven runes.\<close>

definition pad_to :: "nat \<Rightarrow> string \<Rightarrow> string" where
  "pad_to n s = s @ replicate (n - length (runes s)) (CHR '' '')"

definition print_status :: "status_report \<Rightarrow> ('d, 'h, unit) run" where
  "print_status r =
     for_each (status_rows r) (\<lambda>(label, v).
       if v = [] then ret () else write_out (pad_to 11 (label @ '':'') @ '' '' @ v @ newline))"

definition status_command :: "('d, 'h) app \<Rightarrow> bool \<Rightarrow> ('d, 'h, unit) run" where
  "status_command a as_json =
     bindE (attempt (call (cl_instance (ap_client a) (ap_instance a)))) (\<lambda>r.
       bindE (case r of
           Inr i \<Rightarrow> ret (report_on a i)
         | Inl e \<Rightarrow> if errors_is e ErrInstanceNotFound then ret (blank_report a) else fail e)
       (\<lambda>report. if as_json then write_out (doc_text 0 (report_doc report) @ newline) else print_status report))"

definition ip_command :: "('d, 'h) app \<Rightarrow> ('d, 'h, unit) run" where
  "ip_command a =
     bindE (managed_instance a SharedEnvironment advise_up) (\<lambda>i.
       if \<not> is_running i then
         fail (Errorf (''instance %s is not running (%s); an address exists only ''
                 @ ''while it runs, so start it with 'idev up'' @ [CHR 0x27]) [S (ap_instance a), S (ii_status i)])
       else if primary_address i = [] then
         fail (Errorf (''instance %s has no address yet; it has no network ''
                 @ ''device, or its address has not been assigned'') [S (ap_instance a)])
       else write_out (primary_address i @ newline))"


section \<open>Facts\<close>

text \<open>The order of addresses is a total preorder, whose ties carry the same address.\<close>

lemma address_before_total: "address_before a b \<or> address_before b a"
  by (auto simp: address_before_def Let_def)

lemma address_before_trans: "address_before a b \<Longrightarrow> address_before b c \<Longrightarrow> address_before a c"
  by (auto simp: address_before_def Let_def split: if_splits)

lemma address_before_tie: "address_before a b \<Longrightarrow> address_before b a \<Longrightarrow> na_address (snd a) = na_address (snd b)"
  by (auto simp: address_before_def Let_def split: if_splits)

lemma set_insert_address [simp]: "set (insert_address x ys) = insert x (set ys)"
  by (induction ys) auto

lemma set_sort_addresses [simp]: "set (sort_addresses xs) = set xs"
  by (induction xs) (auto simp: sort_addresses_def)

lemma insert_address_sorted: "sorted_wrt address_before ys \<Longrightarrow> sorted_wrt address_before (insert_address x ys)"
proof (induction ys)
  case (Cons y ys)
  then show ?case
    using address_before_total [of x y] address_before_trans [of x y] by auto
qed simp

lemma sort_addresses_sorted: "sorted_wrt address_before (sort_addresses xs)"
  by (induction xs) (simp_all add: sort_addresses_def insert_address_sorted)

lemma set_addresses_in:
  "set (addresses_in names net) = {(n, a). n \<in> set names \<and> n \<noteq> loopback_interface
     \<and> na_scope a = global_scope \<and> (\<exists>as. fmlookup net n = Some as \<and> a \<in> set as)}"
  by (force simp: addresses_in_def split: if_splits option.splits)

definition first_address :: "(string \<times> network_address) list \<Rightarrow> string" where
  "first_address as = (case as of [] \<Rightarrow> [] | a # _ \<Rightarrow> na_address (snd a))"

lemma first_address_same:
  assumes "set xs = set ys"
  shows "first_address (sort_addresses xs) = first_address (sort_addresses ys)"
proof (cases "sort_addresses xs")
  case Nil
  then have "set ys = {}" using assms set_sort_addresses [of xs] by simp
  then show ?thesis using Nil by (simp add: sort_addresses_def)
next
  case (Cons a as)
  then have "ys \<noteq> []" using assms set_sort_addresses [of xs] by auto
  then obtain b bs where b: "sort_addresses ys = b # bs"
    using set_sort_addresses [of ys] by (cases "sort_addresses ys") auto
  have "b \<in> set (a # as)" "a \<in> set (b # bs)"
    using assms Cons b set_sort_addresses [of xs] set_sort_addresses [of ys] by auto
  then have "a = b \<or> address_before a b" "a = b \<or> address_before b a"
    using sort_addresses_sorted [of xs] sort_addresses_sorted [of ys] Cons b by auto
  then show ?thesis using Cons b address_before_tie [of a b] by (auto simp: first_address_def)
qed

lemma primary_is_first: "primary_address i = first_address (addresses i)"
  by (simp add: primary_address_def first_address_def)

lemma head_is_ipv4:
  assumes "sorted_wrt address_before (b # bs)" "a \<in> set (b # bs)" "na_family (snd a) = family_ipv4"
  shows "na_family (snd b) = family_ipv4"
  using assms by (auto simp: address_before_def Let_def split: if_splits)

lemma addresses_sorted: "sorted_wrt address_before (addresses i)"
  by (simp add: addresses_def sort_addresses_sorted split: option.splits)

lemma global_are_addresses: "set (global_addresses i) = snd ` set (addresses i)"
  by (cases "ii_network i") (simp_all add: global_addresses_def addresses_def)

lemma reads_status:
  assumes "kept_by_reads I c" "ap_client a = c"
  shows "keeps (on_d I) (status_command a as_json)" "keeps (on_d I) (ip_command a)"
  unfolding status_command_def ip_command_def print_status_def
  by (intro keeps_intros reads_parts [OF assms] reads_calls [OF assms])+


section \<open>Properties\<close>

text \<open>The address \<open>ip\<close> answers with does not depend on the order in which the interfaces are visited,
  which Go leaves open, and it is an IPv4 address whenever the instance has one.\<close>

theorem primary_address_stable:
  assumes "ii_network i = Some net" "set names = set (sorted_keys net)"
  shows "first_address (sort_addresses (addresses_in names net)) = primary_address i
    \<and> (has_ipv4_address i \<longrightarrow> (\<exists>a\<in>set (global_addresses i).
          na_family a = family_ipv4 \<and> na_address a = primary_address i))"
proof (intro conjI impI)
  have "set (addresses_in names net) = set (addresses_in (sorted_keys net) net)"
    using assms(2) by (simp add: set_addresses_in)
  then have "first_address (sort_addresses (addresses_in names net))
      = first_address (sort_addresses (addresses_in (sorted_keys net) net))"
    by (rule first_address_same)
  then show "first_address (sort_addresses (addresses_in names net)) = primary_address i"
    using assms(1) by (simp add: primary_is_first addresses_def)
next
  assume "has_ipv4_address i"
  then obtain a where a: "a \<in> set (addresses i)" "na_family (snd a) = family_ipv4"
    by (auto simp: has_ipv4_address_def list_ex_iff global_are_addresses)
  then obtain b bs where b: "addresses i = b # bs" by (cases "addresses i") auto
  then have "na_family (snd b) = family_ipv4"
    using head_is_ipv4 [of b bs a] addresses_sorted [of i] a by simp
  then show "\<exists>a\<in>set (global_addresses i). na_family a = family_ipv4 \<and> na_address a = primary_address i"
    using b by (auto simp: global_are_addresses primary_is_first first_address_def)
qed

definition sample_network :: "network_state gomap" where
  "sample_network = fmap_of_list
     [(''eth0'', [\<lparr>na_family = ''inet6'', na_address = ''fd42::1'', na_scope = ''global''\<rparr>]),
      (''eth1'', [\<lparr>na_family = ''inet'', na_address = ''10.0.0.7'', na_scope = ''global''\<rparr>])]"

theorem primary_address_stable_witness:
  "first_address (sort_addresses (addresses_in [''eth1'', ''eth0''] sample_network))
     = primary_address ((sample_instance ''dev-web'' fmempty)\<lparr>ii_network := Some sample_network\<rparr>)"
proof -
  have "sorted_keys sample_network = [''eth0'', ''eth1'']" by code_simp
  then have "set [''eth1'', ''eth0''] = set (sorted_keys sample_network)" by auto
  then show ?thesis
    using primary_address_stable
      [of "(sample_instance ''dev-web'' fmempty)\<lparr>ii_network := Some sample_network\<rparr>" sample_network]
    by simp
qed

text \<open>\<open>ip\<close> is safe to substitute into a command: it succeeds only with the address of a running
  instance of this project, having written that address alone on one line, and when it fails it has
  written nothing.\<close>

theorem ip_address_or_nothing:
  "case ip_command a s of
     (Inr _, s') \<Rightarrow> \<exists>i d. cl_instance (ap_client a) (ap_instance a) (se_daemon s) = (Inr i, d)
        \<and> is_managed_by (ii_config i) (pj_name (cf_project (ap_cfg a))) \<and> is_running i
        \<and> primary_address i \<noteq> [] \<and> se_out s' = se_out s @ [primary_address i @ newline]
   | (Inl _, s') \<Rightarrow> se_out s' = se_out s"
proof -
  obtain r d where r: "cl_instance (ap_client a) (ap_instance a) (se_daemon s) = (r, d)" by force
  show ?thesis
    by (cases r) (auto simp: ip_command_def managed_instance_def check_managed_def warn_different_checkout_def
        when_op_def Let_def op_simps r split: prod.splits)
qed

end
