(* ===== verification/Snapshot.thy ===== *)
theory Snapshot
  imports App_Up Dryrun Status
begin

text \<open>
  Models \<open>internal/cli/snapshot.go\<close>: names of snapshots, and creating, listing, restoring and deleting
  them. The time now and the conversion to local time are arguments. The properties cover every command
  that only reads, in one statement.
\<close>

definition check_snapshot_name :: "string \<Rightarrow> err option" where
  "check_snapshot_name name =
     (if name = [] then Some (Errorf ''a snapshot name is required'' [])
      else if name = ''.'' \<or> name = ''..'' then
        Some (Errorf (''invalid snapshot name %q: it names a directory, ''
                @ ''which leaves a snapshot the instance cannot be deleted around'') [S name])
      else if contains_char name (CHR ''/'') then
        Some (Errorf ''invalid snapshot name %q: it must not contain %q'' [S name, S ''/''])
      else if list_ex (\<lambda>(r, _). is_space_rune r) (runes name) then
        Some (Errorf ''invalid snapshot name %q: it must not contain whitespace'' [S name])
      else if list_ex (\<lambda>(r, _). is_control_rune r) (runes name) then
        Some (Errorf ''invalid snapshot name %q: it must not contain control characters'' [S name])
      else None)"

text \<open>The time in the formats \<open>20060102-150405\<close> and RFC 3339.\<close>

definition snapshot_stamp :: "go_time \<Rightarrow> string" where
  "snapshot_stamp t =
     digits 4 (tm_year t) @ digits 2 (tm_month t) @ digits 2 (tm_day t) @ CHR ''-'' #
     digits 2 (tm_hour t) @ digits 2 (tm_min t) @ digits 2 (tm_sec t)"

definition rfc3339 :: "go_time \<Rightarrow> string" where
  "rfc3339 t = format_time (t\<lparr>tm_nano := 0\<rparr>)"

definition is_zero_time :: "go_time \<Rightarrow> bool" where
  "is_zero_time t \<longleftrightarrow> instant t = instant zero_time"

definition snapshot_exists_error :: "('d, 'h) app \<Rightarrow> string \<Rightarrow> bool \<Rightarrow> err \<Rightarrow> err" where
  "snapshot_exists_error a name generated e =
     (if \<not> errors_is e ErrSnapshotExists then e
      else Errorf ''%w: %s already has a snapshot named %q%s''
        [W e, S (ap_instance a), S name,
         S (if generated then ''; the name with no argument is the time to the second, ''
              @ ''so two in a row collide'' else [])])"

definition create_snapshot :: "('d, 'h) app \<Rightarrow> go_time \<Rightarrow> string \<Rightarrow> ('d, 'h, unit) run" where
  "create_snapshot a now asked =
     bindE (managed_instance a SharedEnvironment advise_up) (\<lambda>_.
       let name = (if asked = [] then snapshot_stamp now else asked)
       in case check_snapshot_name name of
            Some e \<Rightarrow> fail e
          | None \<Rightarrow>
              thenE (on_error (call (cl_create_snapshot (ap_client a) (ap_instance a) name))
                  (\<lambda>e. fail (snapshot_exists_error a name (asked = []) e)))
                (log_info (''Created snapshot '' @ name)))"

definition list_snapshots :: "('d, 'h) app \<Rightarrow> (go_time \<Rightarrow> go_time) \<Rightarrow> ('d, 'h, unit) run" where
  "list_snapshots a local =
     bindE (managed_instance a SharedEnvironment advise_up) (\<lambda>_.
     bindE (call (cl_snapshots (ap_client a) (ap_instance a))) (\<lambda>found.
       if found = [] then log_info ''No snapshots''
       else for_each found (\<lambda>s.
         write_out (sn_name s
           @ (if is_zero_time (sn_created s) then [] else CHR 0x09 # rfc3339 (local (sn_created s)))
           @ newline))))"

definition restore_snapshot :: "('d, 'h) app \<Rightarrow> string \<Rightarrow> ('d, 'h, unit) run" where
  "restore_snapshot a name =
     bindE (managed_instance a SharedEnvironment advise_up) (\<lambda>_.
     thenE (log_info (''Restoring snapshot '' @ name))
     (thenE (call (cl_restore_snapshot (ap_client a) (ap_instance a) name))
       (log_info ''Restored. The workspace on the host is untouched'')))"

definition delete_snapshot :: "('d, 'h) app \<Rightarrow> string \<Rightarrow> ('d, 'h, unit) run" where
  "delete_snapshot a name =
     bindE (managed_instance a SharedEnvironment advise_up) (\<lambda>_.
     thenE (call (cl_delete_snapshot (ap_client a) (ap_instance a) name))
       (log_info (''Deleted snapshot '' @ name)))"


section \<open>Facts\<close>

subsection \<open>Names\<close>

text \<open>A stamp is made of digits and a dash, all printable ASCII.\<close>

lemma printable_rune: "33 \<le> r \<Longrightarrow> r < 127 \<Longrightarrow> \<not> is_space_rune r \<and> \<not> is_control_rune r"
  by (simp add: is_space_rune_def is_control_rune_def)

lemma printable_name:
  assumes "\<forall>c\<in>set name. 33 \<le> byte c \<and> byte c < 127 \<and> c \<noteq> CHR ''/''" "name \<noteq> []" "hd name \<noteq> CHR ''.''"
  shows "check_snapshot_name name = None"
proof -
  have printable: "33 \<le> byte c" "byte c < 127" if "c \<in> set name" for c using assms(1) that by blast+
  then have "list_all (\<lambda>c. byte c < 128) name" unfolding list_all_iff by fastforce
  then have runes: "runes name = map (\<lambda>c. (byte c, [c])) name" by (rule runes_ascii)
  have "\<not> list_ex (\<lambda>(r, _). is_space_rune r) (runes name)" "\<not> list_ex (\<lambda>(r, _). is_control_rune r) (runes name)"
    unfolding runes list_ex_iff using printable_rune printable by auto
  moreover have "CHR ''/'' \<notin> set name" using assms(1) by blast
  moreover have "name \<noteq> ''.''" "name \<noteq> ''..''" using assms(3) by auto
  ultimately show ?thesis using assms(2) by (simp add: check_snapshot_name_def)
qed

lemma digits_printable:
  assumes "c \<in> set (digits k n)"
  shows "33 \<le> byte c \<and> byte c < 127 \<and> c \<noteq> CHR ''/'' \<and> c \<noteq> CHR ''.''"
proof -
  have "is_digit c" using digits_all [of k n] assms by (auto simp: list_all_iff)
  then show ?thesis by (auto simp: is_digit_def)
qed

lemma stamp_accepted: "check_snapshot_name (snapshot_stamp t) = None"
proof (rule printable_name)
  show "\<forall>c\<in>set (snapshot_stamp t). 33 \<le> byte c \<and> byte c < 127 \<and> c \<noteq> CHR ''/''"
    using digits_printable by (auto simp: snapshot_stamp_def)
  show "snapshot_stamp t \<noteq> []" by (simp add: snapshot_stamp_def)
  have "digits 4 (tm_year t) \<noteq> []" using length_digits [of 4 "tm_year t"] by (metis list.size(3) zero_neq_numeral)
  then have "hd (snapshot_stamp t) \<in> set (digits 4 (tm_year t))" by (simp add: snapshot_stamp_def)
  then show "hd (snapshot_stamp t) \<noteq> CHR ''.''" using digits_printable by blast
qed


subsection \<open>What the commands keep\<close>

lemma reads_snapshots:
  assumes "kept_by_reads I c" "ap_client a = c" "\<And>n. keeps I (cl_snapshots c n)"
  shows "keeps (on_d I) (list_snapshots a local)"
  unfolding list_snapshots_def
  by (intro keeps_intros reads_checks [OF assms(1,2)] keeps_on_daemon) (simp add: assms(2,3))

lemma fake_reads_snapshots: "reads_only instance_view volume_view (fk_list_snapshots n)"
  unfolding fk_list_snapshots_def by (intro reads_onlyI fake_keeps keeps_observe)

text \<open>The snapshots of the in-memory client; only the operations on snapshots change them.\<close>

abbreviation snapshots_are :: "snapshot list gomap \<Rightarrow> string gomap gomap \<Rightarrow> fake \<Rightarrow> bool" where
  "snapshots_are x y \<equiv> (\<lambda>f. fk_snapshots f = x \<and> fk_snapshot_config f = y)"

lemma snapshots_record: "keeps (snapshots_are x y) (fk_record what)"
  by (simp add: keeps_def fk_record_state)

lemma snapshots_set_instance: "keeps (snapshots_are x y) (set_instance n i)"
  by (simp add: keeps_def set_instance_def run_modify bump_etag_def)

lemma snapshots_modify:
  "keeps (snapshots_are x y) (modify (\<lambda>f. f\<lparr>fk_instances := g f\<rparr>))"
  "keeps (snapshots_are x y) (modify (\<lambda>f. f\<lparr>fk_execs := h f\<rparr>))"
  "keeps (snapshots_are x y) (modify (\<lambda>f. f\<lparr>fk_volumes := v f\<rparr>))"
  by (simp_all add: keeps_def run_modify)

lemmas snapshots_keeps = keeps_intros snapshots_record snapshots_set_instance snapshots_modify
  keeps_lookup keeps_observe

lemma snapshots_reads: "kept_by_reads (snapshots_are x y) fake_client"
  unfolding kept_by_reads_def fake_client_sel fk_instance_def fk_list_def fk_idmapped_mounts_def
    fk_profile_names_def fk_check_image_def fk_volume_exists_def fk_exec_def fk_wait_ready_def
  by (intro conjI allI snapshots_keeps)

lemma snapshots_writes: "kept_by_writes (snapshots_are x y) n fake_client"
  unfolding kept_by_writes_def fake_client_sel fk_create_def fk_start_def fk_stop_def fk_delete_def
    fk_update_def fk_create_volume_def
  by (intro conjI allI impI snapshots_keeps)

interpretation snapped: kept_by_client "snapshots_are x y" fake_client n for x y n
  by unfold_locales (rule snapshots_reads snapshots_writes)+

text \<open>A command that begins by asking for the managed instance refuses a foreign one.\<close>

lemma refuses_conj: "refuses I m \<Longrightarrow> keeps K m \<Longrightarrow> refuses (\<lambda>s. I s \<and> K s) m"
  by (simp add: refuses_def keeps_conj)

lemma asks_first_refuses:
  assumes "ap_client a = fake_client" "x (ap_instance a) = Some i"
    and "\<not> is_managed_by (ii_config i) (pj_name (cf_project (ap_cfg a)))"
  shows "refuses (\<lambda>s. standing instance_view volume_view x vs (se_daemon s) \<and> snapshots_are y z (se_daemon s))
    (bindE (managed_instance a eff advice) f)"
  by (intro refuses_bind_first refuses_conj fk.managed_instance_refuses [where x = x, OF assms]
      reads_checks(2) [OF snapshots_reads assms(1)])

lemma restore_result:
  assumes "fk_restore_snapshot n t f = (Inr u, f')" "fmlookup (fk_snapshot_config f) (n @ ''/'' @ t) = Some cfg"
    and "instance_view f n = Some i"
  shows "\<exists>j. instance_view f' n = Some j \<and> ii_config j = cfg"
  using assms
  by (auto simp: fk_restore_snapshot_def fake_runs instance_view_def bump_etag_def split: sum.splits if_splits)

lemma create_result:
  assumes "fk_create_snapshot n t f = (Inr u, f')" "instance_view f n = Some i"
  shows "fmlookup (fk_snapshot_config f') (n @ ''/'' @ t) = Some (ii_config i)"
  using assms
  by (auto simp: fk_create_snapshot_def fake_runs instance_view_def split: sum.splits if_splits)

lemma managed_instance_same:
  assumes "ap_client a = fake_client" "managed_instance a eff advice s = (Inr i, s')"
  shows "instance_view (se_daemon s) (ap_instance a) = Some i"
    "fk_snapshot_config (se_daemon s') = fk_snapshot_config (se_daemon s)"
    "instance_view (se_daemon s') = instance_view (se_daemon s)"
proof -
  show "instance_view (se_daemon s) (ap_instance a) = Some i"
    using fk.managed_instance_ok assms by blast
  show "fk_snapshot_config (se_daemon s') = fk_snapshot_config (se_daemon s)"
    using keepsD [OF reads_checks(2) [OF snapshots_reads assms(1), where eff = eff and advice = advice], of s]
      assms(2) by fastforce
  show "instance_view (se_daemon s') = instance_view (se_daemon s)"
    using keeps_same(1) [OF reads_checks(2) [OF fk.same_reads assms(1), where eff = eff and advice = advice], of s]
      assms(2) by simp
qed

lemma create_snapshot_result:
  assumes "ap_client a = fake_client" "create_snapshot a now asked s = (Inr u, s')"
    and "name = (if asked = [] then snapshot_stamp now else asked)"
  shows "\<exists>i. instance_view (se_daemon s) (ap_instance a) = Some i
    \<and> fmlookup (fk_snapshot_config (se_daemon s')) (ap_instance a @ ''/'' @ name) = Some (ii_config i)"
proof -
  obtain i s1 where s1: "managed_instance a SharedEnvironment advise_up s = (Inr i, s1)"
    using assms(2) by (cases "managed_instance a SharedEnvironment advise_up s")
      (auto simp: create_snapshot_def run_bindE split: sum.splits)
  obtain r d where d: "fk_create_snapshot (ap_instance a) name (se_daemon s1) = (r, d)" by force
  have "check_snapshot_name name = None"
    using assms(2) s1 assms(3) by (cases "check_snapshot_name name") (auto simp: create_snapshot_def run_bindE run_fail)
  then have "create_snapshot a now asked s
      = thenE (on_error (call (fk_create_snapshot (ap_instance a) name))
            (\<lambda>e. fail (snapshot_exists_error a name (asked = []) e)))
          (log_info (''Created snapshot '' @ name)) s1"
    unfolding create_snapshot_def run_bindE s1
    by (simp only: prod.case sum.case Let_def assms(3) [symmetric] option.case assms(1) fake_client_sel)
  then have "r = Inr () \<and> se_daemon s' = d"
    using assms(2) d by (cases r) (auto simp: run_thenE run_on_error run_on_daemon run_fail run_log)
  then show ?thesis
    using create_result [of "ap_instance a" name "se_daemon s1"] managed_instance_same [OF assms(1) s1] d by auto
qed

lemma restore_snapshot_result:
  assumes "ap_client a = fake_client" "restore_snapshot a name s = (Inr u, s')"
    and "fmlookup (fk_snapshot_config (se_daemon s)) (ap_instance a @ ''/'' @ name) = Some cfg"
  shows "\<exists>j. instance_view (se_daemon s') (ap_instance a) = Some j \<and> ii_config j = cfg"
proof -
  obtain i s1 where s1: "managed_instance a SharedEnvironment advise_up s = (Inr i, s1)"
    using assms(2) by (cases "managed_instance a SharedEnvironment advise_up s")
      (auto simp: restore_snapshot_def run_bindE split: sum.splits)
  obtain r d where rd: "fk_restore_snapshot (ap_instance a) name (se_daemon s1) = (r, d)" by force
  then have "r = Inr () \<and> se_daemon s' = d"
    using assms(1,2) s1
    by (cases r) (auto simp: restore_snapshot_def run_bindE run_thenE run_on_daemon run_log)
  then have d: "fk_restore_snapshot (ap_instance a) name (se_daemon s1) = (Inr (), d)" "se_daemon s' = d"
    using rd by simp_all
  show ?thesis
    using restore_result [OF d(1)] managed_instance_same [OF assms(1) s1] assms(3) d(2) by auto
qed

lemma snapshots_stay:
  assumes "keeps (on_d (snapshots_are (fk_snapshots (se_daemon s)) (fk_snapshot_config (se_daemon s)))) m"
  shows "fk_snapshots (se_daemon (snd (m s))) = fk_snapshots (se_daemon s)
    \<and> fk_snapshot_config (se_daemon (snd (m s))) = fk_snapshot_config (se_daemon s)"
  using keepsD [OF assms, of s] by simp


lemma restored:
  assumes "ap_client a = fake_client"
    and "create_snapshot a now asked s = (Inr (), s1)"
    and "m \<in> {up a restart, app_provision a sel, rebuild a, app_exec a argv user, app_shell a argv user}"
    and "restore_snapshot a (if asked = [] then snapshot_stamp now else asked) (snd (m s1)) = (Inr (), s2)"
  shows "\<exists>i j. instance_view (se_daemon s) (ap_instance a) = Some i
    \<and> instance_view (se_daemon s2) (ap_instance a) = Some j \<and> ii_config j = ii_config i
    \<and> (has_key (ii_config i) managed_volumes_key \<longrightarrow>
          recorded_volumes j (ap_cfg a) (ap_instance a) = recorded_volumes i (ap_cfg a) (ap_instance a))"
proof -
  obtain i where i: "instance_view (se_daemon s) (ap_instance a) = Some i"
    "fmlookup (fk_snapshot_config (se_daemon s1))
       (ap_instance a @ ''/'' @ (if asked = [] then snapshot_stamp now else asked)) = Some (ii_config i)"
    using create_snapshot_result [OF assms(1,2) refl] by blast
  have "keeps (on_d (snapshots_are x y)) m" for x y
    using assms(3) snapped.keeps_up [OF assms(1) refl] snapped.keeps_app_provision [OF assms(1) refl]
      snapped.keeps_rebuild [OF assms(1) refl] snapped.keeps_exec_in_container [OF assms(1) refl]
    by (auto simp: app_exec_def app_shell_def)
  then have "fk_snapshot_config (se_daemon (snd (m s1))) = fk_snapshot_config (se_daemon s1)"
    using snapshots_stay by blast
  then obtain j where "instance_view (se_daemon s2) (ap_instance a) = Some j" "ii_config j = ii_config i"
    using restore_snapshot_result [OF assms(1,4)] i(2) by auto
  then show ?thesis using i(1) by (auto simp: recorded_volumes_def has_key_iff)
qed


section \<open>Properties\<close>

text \<open>What only shows changes nothing. Whatever \<open>up --dry-run\<close>, \<open>status\<close>, \<open>ip\<close> and \<open>snapshot list\<close>
  meet, faults of the daemon included, every instance and every volume is afterwards exactly as it was.\<close>

theorem showing_changes_nothing:
  assumes "ap_client a = fake_client"
    and "m \<in> {plan_command a, status_command a as_json, ip_command a, list_snapshots a local}"
  shows "instance_view (se_daemon (snd (m s))) = instance_view (se_daemon s)
    \<and> volume_view (se_daemon (snd (m s))) = volume_view (se_daemon s)"
proof -
  have "keeps (\<lambda>w. instance_view w = x \<and> volume_view w = vs) (cl_snapshots fake_client n)" for x vs n
    using same_as_read [OF fake_reads_snapshots] by simp
  then have "keeps (on_d (\<lambda>w. instance_view w = x \<and> volume_view w = vs)) m" for x vs
    using assms(2) reads_plan_command [OF fk.same_reads assms(1)] reads_status [OF fk.same_reads assms(1)]
      reads_snapshots [OF fk.same_reads assms(1)] by blast
  then show ?thesis using keeps_same [of instance_view volume_view m s] by blast
qed

theorem showing_changes_nothing_witness:
  "volume_view (se_daemon (snd (plan_command sample_app sample_session))) = volume_view sample_daemon"
  using showing_changes_nothing [of sample_app "plan_command sample_app" False "\<lambda>t. t" sample_session]
  by (simp add: new_session_def)

text \<open>A snapshot of somebody else's instance is never taken, restored or deleted. When the instance
  under the derived name is not managed by this project the four commands end in an error, with every
  instance and every snapshot as it was and no volume deleted.\<close>

theorem foreign_snapshots_refused:
  assumes "ap_client a = fake_client"
    and "instance_view (se_daemon s) (ap_instance a) = Some i"
    and "\<not> is_managed_by (ii_config i) (pj_name (cf_project (ap_cfg a)))"
    and "m \<in> {create_snapshot a now name, list_snapshots a local, restore_snapshot a name, delete_snapshot a name}"
  shows "isl (fst (m s)) \<and> instance_view (se_daemon (snd (m s))) = instance_view (se_daemon s)
    \<and> volume_view (se_daemon s) \<subseteq> volume_view (se_daemon (snd (m s)))
    \<and> fk_snapshots (se_daemon (snd (m s))) = fk_snapshots (se_daemon s)"
proof -
  let ?I = "\<lambda>w. standing instance_view volume_view (instance_view (se_daemon s)) (volume_view (se_daemon s)) w
    \<and> snapshots_are (fk_snapshots (se_daemon s)) (fk_snapshot_config (se_daemon s)) w"
  note asks = asks_first_refuses [where x = "instance_view (se_daemon s)", OF assms(1-3)]
  have "refuses (on_d ?I) m"
    using assms(4) unfolding create_snapshot_def list_snapshots_def restore_snapshot_def delete_snapshot_def
    by (auto intro: asks)
  then show ?thesis using keepsD [of "on_d ?I" m s] by (auto simp: refuses_def standing_def)
qed

theorem foreign_snapshots_refused_witness:
  "isl (fst (delete_snapshot (sample_app\<lparr>ap_instance := ''dev-db''\<rparr>) ''before'' sample_session))"
proof -
  obtain i where i: "instance_view sample_daemon ''dev-db'' = Some i" "ii_config i = fmempty"
    by (simp add: instance_view_def sample_daemon_def sample_instance_def)
  have "\<not> is_managed_by fmempty (pj_name (cf_project sample_config))" by code_simp
  then show ?thesis
    using foreign_snapshots_refused [of "sample_app\<lparr>ap_instance := ''dev-db''\<rparr>" sample_session i
        "delete_snapshot (sample_app\<lparr>ap_instance := ''dev-db''\<rparr>) ''before''" zero_time "''before''" "\<lambda>t. t"] i
    by (simp add: sample_app_def new_session_def)
qed


text \<open>A concrete run: a snapshot, a \<open>provision\<close> that names no step, and the restore.\<close>

definition no_such_step :: selection where
  "no_such_step = \<lparr>sl_only = [''q''], sl_from = []\<rparr>"

abbreviation sample_settings_of :: "string gomap" where
  "sample_settings_of \<equiv> fmap_of_list
     [(managed_project_key, ''web''), (managed_volumes_key, ''default/dev-web-old'')]"

lemma record_free: "fk_fail_on f = [] \<Longrightarrow> fk_hook f = None \<Longrightarrow>
   fk_record w f = (Inr (), f\<lparr>fk_calls := fk_calls f @ [w]\<rparr>)"
  by (simp add: fk_record_def Let_def)

lemma sample_daemon_sel:
  "fk_fail_on sample_daemon = []" "fk_hook sample_daemon = None"
  "fmlookup (fk_instances sample_daemon) ''dev-web'' = Some (sample_instance ''dev-web'' sample_settings_of)"
  "fk_snapshots sample_daemon = fmempty"
  by (simp_all add: sample_daemon_def new_fake_def)

lemma sample_asks:
  assumes "fk_fail_on (se_daemon s) = []" "fk_hook (se_daemon s) = None"
    and "fmlookup (fk_instances (se_daemon s)) ''dev-web'' = Some (sample_instance ''dev-web'' sample_settings_of)"
  shows "\<exists>i d. managed_instance sample_app eff adv s = (Inr i, s\<lparr>se_daemon := d\<rparr>)
    \<and> d = (se_daemon s)\<lparr>fk_calls := fk_calls (se_daemon s) @ [''instance dev-web'']\<rparr>"
proof -
  have "is_managed_by sample_settings_of (pj_name (cf_project sample_config))"
    "get_str sample_settings_of managed_root_key = []" by code_simp+
  then show ?thesis
    using assms by (simp add: managed_instance_def check_managed_def warn_different_checkout_def op_simps
        fk_instance_def fake_runs fk_lookup_def record_free sample_instance_def)
qed

lemma sample_snapshot_taken:
  "\<exists>d log. create_snapshot sample_app zero_time ''x'' sample_session
       = (Inr (), sample_session\<lparr>se_daemon := d, se_log := log\<rparr>)
    \<and> fk_fail_on d = [] \<and> fk_hook d = None \<and> fk_instances d = fk_instances sample_daemon
    \<and> list_ex (\<lambda>t. sn_name t = ''x'') (snapshots_of d ''dev-web'')
    \<and> volume_view d = volume_view sample_daemon
    \<and> fmlookup (fk_snapshot_config d) ''dev-web/x'' = Some sample_settings_of"
proof -
  obtain i where i: "managed_instance sample_app SharedEnvironment advise_up sample_session
      = (Inr i, sample_session\<lparr>se_daemon := sample_daemon\<lparr>fk_calls := fk_calls sample_daemon @ [''instance dev-web'']\<rparr>\<rparr>)"
    using sample_asks [of sample_session SharedEnvironment advise_up]
    by (auto simp: new_session_def sample_daemon_sel)
  let ?d = "sample_daemon\<lparr>fk_calls := fk_calls sample_daemon @ [''instance dev-web'', ''snapshot create dev-web x''],
      fk_snapshots := fmupd ''dev-web'' [\<lparr>sn_name = ''x'', sn_created = zero_time\<rparr>] fmempty,
      fk_snapshot_config := fmupd ''dev-web/x'' sample_settings_of (fk_snapshot_config sample_daemon)\<rparr>"
  have "check_snapshot_name ''x'' = None" by (rule printable_name) simp_all
  then have "create_snapshot sample_app zero_time ''x'' sample_session
      = (Inr (), sample_session\<lparr>se_daemon := ?d, se_log := se_log sample_session @ [(Info, ''Created snapshot x'')]\<rparr>)"
    unfolding create_snapshot_def run_bindE i
    by (simp add: Let_def op_simps fk_create_snapshot_def fake_runs record_free sample_daemon_sel
        snapshots_of_def sample_instance_def)
  moreover have "fk_fail_on ?d = [] \<and> fk_hook ?d = None \<and> fk_instances ?d = fk_instances sample_daemon
    \<and> list_ex (\<lambda>t. sn_name t = ''x'') (snapshots_of ?d ''dev-web'')
    \<and> volume_view ?d = volume_view sample_daemon
    \<and> fmlookup (fk_snapshot_config ?d) ''dev-web/x'' = Some sample_settings_of"
    by (simp add: sample_daemon_sel snapshots_of_def volume_view_def volume_at_def)
  ultimately show ?thesis by blast
qed

lemma no_step: "snd (app_provision sample_app no_such_step s) = s"
proof -
  have "isl (select_steps (cf_provision sample_config) no_such_step)" by code_simp
  then show ?thesis by (auto simp: app_provision_def run_bindE run_lift sample_app_def isl_def)
qed

lemma sample_restored:
  obtains s1 s2 where "create_snapshot sample_app zero_time ''x'' sample_session = (Inr (), s1)"
    "restore_snapshot sample_app (if ''x'' = [] then snapshot_stamp zero_time else ''x'')
       (snd (app_provision sample_app no_such_step s1)) = (Inr (), s2)"
    "''default/other'' \<in> volume_view (se_daemon s2)"
proof -
  obtain d log where d: "create_snapshot sample_app zero_time ''x'' sample_session
       = (Inr (), sample_session\<lparr>se_daemon := d, se_log := log\<rparr>)"
    "fk_fail_on d = []" "fk_hook d = None" "fk_instances d = fk_instances sample_daemon"
    "list_ex (\<lambda>t. sn_name t = ''x'') (snapshots_of d ''dev-web'')" "volume_view d = volume_view sample_daemon"
    "fmlookup (fk_snapshot_config d) ''dev-web/x'' = Some sample_settings_of"
    using sample_snapshot_taken by auto
  let ?s1 = "sample_session\<lparr>se_daemon := d, se_log := log\<rparr>"
  obtain i where i: "managed_instance sample_app SharedEnvironment advise_up ?s1
      = (Inr i, ?s1\<lparr>se_daemon := d\<lparr>fk_calls := fk_calls d @ [''instance dev-web'']\<rparr>\<rparr>)"
    using sample_asks [of ?s1 SharedEnvironment advise_up] d by (auto simp: sample_daemon_sel)
  have "''default/other'' \<in> volume_view d"
    unfolding d(6) by (simp add: volume_view_def volume_at_def sample_daemon_def)
  then have "\<exists>s2. restore_snapshot sample_app ''x'' ?s1 = (Inr (), s2) \<and> ''default/other'' \<in> volume_view (se_daemon s2)"
    unfolding restore_snapshot_def run_bindE i using d
    by (simp add: op_simps fk_restore_snapshot_def fake_runs record_free sample_daemon_sel
        snapshots_of_def volume_view_def volume_at_def bump_etag_def)
  then show ?thesis using that d(1) no_step [of ?s1] by auto
qed




text \<open>No snapshot is taken under a name that could not be deleted: a name with a slash, white space or a
  control character, or that names a directory, ends in an error before any snapshot is asked for; and
  the name made of the time is always accepted.\<close>

theorem bad_snapshot_names_refused:
  assumes "ap_client a = fake_client" "asked \<noteq> []" "check_snapshot_name asked = Some e"
  shows "isl (fst (create_snapshot a now asked s))
    \<and> fk_snapshots (se_daemon (snd (create_snapshot a now asked s))) = fk_snapshots (se_daemon s)
    \<and> check_snapshot_name (snapshot_stamp now) = None"
proof -
  let ?I = "snapshots_are (fk_snapshots (se_daemon s)) (fk_snapshot_config (se_daemon s))"
  have "refuses (on_d ?I) (create_snapshot a now asked)"
    unfolding create_snapshot_def using assms(2,3)
    by (auto simp: Let_def intro!: refuses_after refuses_fail reads_checks(2) [OF snapshots_reads assms(1)])
  then show ?thesis using keepsD [of "on_d ?I" _ s] stamp_accepted by (auto simp: refuses_def)
qed

theorem bad_snapshot_names_refused_witness:
  "isl (fst (create_snapshot sample_app zero_time ''../x'' sample_session))"
proof -
  have "check_snapshot_name ''../x'' \<noteq> None" by (simp add: check_snapshot_name_def)
  then obtain e where "check_snapshot_name ''../x'' = Some e" by blast
  then show ?thesis
    using bad_snapshot_names_refused [of sample_app "''../x''" e zero_time sample_session] by simp
qed

end
