(* ===== verification/Wait.thy ===== *)
theory Wait
  imports Fake
begin

text \<open>
  Models \<open>internal/incus/wait.go\<close>: waiting until commands run in the container and until it has a
  network address. The world of the client carries a clock (nanoseconds) and the instant, if any, at
  which the run is interrupted; a call of the client may take any time. The two loops may not end for
  an arbitrary interval, so they are partial functions, whose value is \<open>None\<close> when they run forever;
  with the defaults \<open>waitReady\<close> fills in they always return.
\<close>

record 'w timed =
  tw_world :: 'w
  tw_now :: nat
  tw_cancel :: "nat option"

definition cancelled :: "'w timed \<Rightarrow> bool" where
  "cancelled s \<longleftrightarrow> (case tw_cancel s of None \<Rightarrow> False | Some t \<Rightarrow> t \<le> tw_now s)"

text \<open>When a context with this deadline is done: at the deadline or at the interruption.\<close>

definition done_at :: "nat option \<Rightarrow> 'w timed \<Rightarrow> nat option" where
  "done_at deadline s =
     (case (deadline, tw_cancel s) of
        (None, c) \<Rightarrow> c | (d, None) \<Rightarrow> d | (Some d, Some c) \<Rightarrow> Some (min d c))"

text \<open>\<open>select\<close> between the context being done and a timer: whether the context was first, and the state
  then. Of two that are ready at the same instant the context is taken.\<close>

definition select_done :: "nat option \<Rightarrow> nat \<Rightarrow> 'w timed \<Rightarrow> bool \<times> 'w timed" where
  "select_done deadline interval s =
     (case done_at deadline s of
        None \<Rightarrow> (False, s\<lparr>tw_now := tw_now s + interval\<rparr>)
      | Some t \<Rightarrow>
          if t \<le> tw_now s + interval then (True, s\<lparr>tw_now := max (tw_now s) t\<rparr>)
          else (False, s\<lparr>tw_now := tw_now s + interval\<rparr>))"

text \<open>A duration in a message; \<open>time.Duration\<close>'s own rendering is a parameter.\<close>

definition not_ready_error :: "(int \<Rightarrow> string) \<Rightarrow> string \<Rightarrow> int \<Rightarrow> err + int \<Rightarrow> err" where
  "not_ready_error dur n timeout outcome =
     (case outcome of
        Inl e \<Rightarrow> Errorf ''instance %s did not become ready within %s: %w'' [S n, S (dur timeout), W e]
      | Inr code \<Rightarrow> Errorf ''instance %s did not become ready within %s (last exit code %d)''
          [S n, S (dur timeout), N code])"

partial_function (option) wait_exec ::
  "(int \<Rightarrow> string) \<Rightarrow> 'w timed client \<Rightarrow> string \<Rightarrow> wait_options \<Rightarrow> nat \<Rightarrow> 'w timed
   \<Rightarrow> ((err + unit) \<times> 'w timed) option" where
  "wait_exec dur c n opt deadline s =
     (case cl_exec c n [''true''] exec_defaults s of (outcome, s1) \<Rightarrow>
        if map_sum id fst outcome = Inr 0 then Some (Inr (), s1)
        else case select_done (Some deadline) (nat (wo_interval opt)) s1 of (is_done, s2) \<Rightarrow>
          if is_done then
            Some (if cancelled s2 then Inl (Sentinel ErrCanceled)
                  else Inl (not_ready_error dur n (wo_timeout opt) (map_sum id fst outcome)), s2)
          else wait_exec dur c n opt deadline s2)"

definition network_error :: "(int \<Rightarrow> string) \<Rightarrow> string \<Rightarrow> int \<Rightarrow> err" where
  "network_error dur n timeout =
     Errorf ''%w: instance %s has no address after %s''
       [W (Sentinel ErrNetworkNotReady), S n, S (dur timeout)]"

text \<open>One look at the instance: an answer, or to go on with the end of the grace period.\<close>

definition network_verdict ::
  "(int \<Rightarrow> string) \<Rightarrow> string \<Rightarrow> wait_options \<Rightarrow> nat \<Rightarrow> nat option \<Rightarrow> incus_instance \<Rightarrow> nat
   \<Rightarrow> (err + unit) option \<times> nat option" where
  "network_verdict dur n opt limit grace i now =
     (if \<not> has_nic i \<or> has_ipv4_address i then (Some (Inr ()), grace)
      else if has_global_address i then
        let g = (case grace of None \<Rightarrow> now + nat (wo_ipv4_grace opt) | Some g \<Rightarrow> g)
        in (if now > g \<or> now > limit then Some (Inr ()) else None, Some g)
      else if now > limit then (Some (Inl (network_error dur n (wo_network_timeout opt))), grace)
      else (None, grace))"

partial_function (option) wait_network ::
  "(int \<Rightarrow> string) \<Rightarrow> 'w timed client \<Rightarrow> string \<Rightarrow> wait_options \<Rightarrow> nat \<Rightarrow> nat option \<Rightarrow> 'w timed
   \<Rightarrow> ((err + unit) \<times> 'w timed) option" where
  "wait_network dur c n opt limit grace s =
     (case cl_instance c n s of
        (Inl e, s1) \<Rightarrow> Some (Inl e, s1)
      | (Inr i, s1) \<Rightarrow>
          (case network_verdict dur n opt limit grace i (tw_now s1) of
             (Some r, _) \<Rightarrow> Some (r, s1)
           | (None, grace') \<Rightarrow>
               (case select_done None (nat (wo_interval opt)) s1 of (is_done, s2) \<Rightarrow>
                  if is_done then Some (Inl (Sentinel ErrCanceled), s2)
                  else wait_network dur c n opt limit grace' s2)))"

definition second :: int where "second = 1000000000"

definition wait_defaults :: "wait_options \<Rightarrow> wait_options" where
  "wait_defaults opt =
     \<lparr>wo_timeout = (if wo_timeout opt \<le> 0 then 60 * second else wo_timeout opt),
      wo_network_timeout = (if wo_network_timeout opt \<le> 0 then 30 * second else wo_network_timeout opt),
      wo_ipv4_grace = (if wo_ipv4_grace opt \<le> 0 then 5 * second else wo_ipv4_grace opt),
      wo_interval = (if wo_interval opt \<le> 0 then second div 2 else wo_interval opt)\<rparr>"

definition wait_ready ::
  "(int \<Rightarrow> string) \<Rightarrow> 'w timed client \<Rightarrow> string \<Rightarrow> wait_options \<Rightarrow> 'w timed
   \<Rightarrow> ((err + unit) \<times> 'w timed) option" where
  "wait_ready dur c n opt s =
     (let opt = wait_defaults opt
      in case wait_exec dur c n opt (tw_now s + nat (wo_timeout opt)) s of
           None \<Rightarrow> None
         | Some (Inl e, s') \<Rightarrow> Some (Inl e, s')
         | Some (Inr _, s') \<Rightarrow> wait_network dur c n opt (tw_now s' + nat (wo_network_timeout opt)) None s')"


section \<open>Facts\<close>

text \<open>What the loops need of the client: a call does not turn the clock back, and takes at most \<open>d\<close>.\<close>

definition on_time :: "nat \<Rightarrow> ('w timed, 'e, 'a) op \<Rightarrow> bool" where
  "on_time d m \<longleftrightarrow> (\<forall>s. tw_now s \<le> tw_now (snd (m s)) \<and> tw_now (snd (m s)) \<le> tw_now s + d)"

lemma on_timeD: "on_time d m \<Longrightarrow> m s = (r, s') \<Longrightarrow> tw_now s \<le> tw_now s' \<and> tw_now s' \<le> tw_now s + d"
  unfolding on_time_def by (metis snd_conv)

lemma select_done_time:
  assumes "select_done deadline interval s = (b, s')"
  shows "tw_now s \<le> tw_now s'" "tw_now s' \<le> tw_now s + interval"
    "\<not> b \<Longrightarrow> tw_now s' = tw_now s + interval" "\<not> b \<Longrightarrow> deadline = Some t \<Longrightarrow> tw_now s' < t"
  using assms by (auto simp: select_done_def done_at_def split: option.splits if_splits)

text \<open>The first loop returns, by its deadline and the time of one call.\<close>

text \<open>The state a command had just run in, and the state in which the instance was just seen with a
  way out of it.\<close>

definition ran_in :: "'w timed client \<Rightarrow> string \<Rightarrow> 'w timed \<Rightarrow> bool" where
  "ran_in c n s' \<longleftrightarrow> (\<exists>s out. cl_exec c n [''true''] exec_defaults s = (Inr (0, out), s'))"

definition connected_in :: "'w timed client \<Rightarrow> string \<Rightarrow> 'w timed \<Rightarrow> bool" where
  "connected_in c n s' \<longleftrightarrow>
     (\<exists>s i. cl_instance c n s = (Inr i, s') \<and> (\<not> has_nic i \<or> has_global_address i))"

lemma map_sum_Inr: "map_sum id fst x = Inr 0 \<longleftrightarrow> (\<exists>out. x = Inr (0, out))"
  by (cases x) auto

lemma wait_exec_returns:
  assumes "on_time d (cl_exec c n [''true''] exec_defaults)" "0 < wo_interval opt"
    and "tw_now s \<le> deadline"
  shows "\<exists>r s'. wait_exec dur c n opt deadline s = Some (r, s')
    \<and> tw_now s \<le> tw_now s' \<and> tw_now s' \<le> deadline + d \<and> (r = Inr () \<longrightarrow> ran_in c n s')"
  using assms(3)
proof (induction "deadline - tw_now s" arbitrary: s rule: less_induct)
  case less
  obtain outcome s1 where s1: "cl_exec c n [''true''] exec_defaults s = (outcome, s1)" by force
  obtain b s2 where s2: "select_done (Some deadline) (nat (wo_interval opt)) s1 = (b, s2)" by force
  note t1 = on_timeD [OF assms(1) s1] and t2 = select_done_time [OF s2]
  show ?case
  proof (cases "map_sum id fst outcome = Inr 0 \<or> b")
    case True
    have "tw_now s2 \<le> max (tw_now s1) deadline" if b
      using s2 that by (auto simp: select_done_def done_at_def split: option.splits if_splits)
    moreover have "ran_in c n s1" if "map_sum id fst outcome = Inr 0"
      using s1 that unfolding map_sum_Inr ran_in_def by blast
    ultimately show ?thesis using True s1 s2 t1 t2(1) less.prems
      by (auto simp: wait_exec.simps [of dur c n opt deadline s])
  next
    case False
    then have "tw_now s2 < deadline" and later: "tw_now s < tw_now s2"
      using t1 t2(3) t2(4) [of deadline] assms(2) by auto
    moreover from this have "deadline - tw_now s2 < deadline - tw_now s" by arith
    ultimately obtain r s' where "wait_exec dur c n opt deadline s2 = Some (r, s')"
      "tw_now s2 \<le> tw_now s'" "tw_now s' \<le> deadline + d" "r = Inr () \<longrightarrow> ran_in c n s'"
      using less.hyps [of s2] by (meson less_imp_le)
    then show ?thesis using False s1 s2 later
      by (auto simp: wait_exec.simps [of dur c n opt deadline s])
  qed
qed

lemma verdict_goes_on:
  assumes "network_verdict dur n opt limit grace i now = (None, g)"
  shows "now \<le> limit"
  using assms by (auto simp: network_verdict_def Let_def split: if_splits)

lemma verdict_ok:
  assumes "network_verdict dur n opt limit grace i now = (Some (Inr x), g)"
  shows "\<not> has_nic i \<or> has_global_address i"
  using assms by (auto simp: network_verdict_def Let_def has_global_address_def has_ipv4_address_def
      split: if_splits)

text \<open>So does the second, and it answers only for what it has seen.\<close>

lemma wait_network_returns:
  assumes "on_time d (cl_instance c n)" "0 < wo_interval opt"
    and "tw_now s \<le> limit + nat (wo_interval opt)"
  shows "\<exists>r s'. wait_network dur c n opt limit grace s = Some (r, s')
    \<and> tw_now s \<le> tw_now s' \<and> tw_now s' \<le> limit + nat (wo_interval opt) + d
    \<and> (r = Inr () \<longrightarrow> connected_in c n s')"
  using assms(3)
proof (induction "Suc (limit + nat (wo_interval opt)) - tw_now s" arbitrary: s grace rule: less_induct)
  case less
  obtain r s1 where s1: "cl_instance c n s = (r, s1)" by force
  note t1 = on_timeD [OF assms(1) s1]
  show ?case
  proof (cases r)
    case (Inl e)
    then show ?thesis using s1 t1 less.prems by (auto simp: wait_network.simps [of dur c n opt limit grace s])
  next
    case (Inr i)
    obtain v g where v: "network_verdict dur n opt limit grace i (tw_now s1) = (v, g)" by force
    show ?thesis
    proof (cases v)
      case (Some answer)
      have "connected_in c n s1" if "answer = Inr ()"
        using verdict_ok v Some that s1 Inr unfolding connected_in_def by blast
      then show ?thesis using Some v Inr s1 t1 less.prems
        by (auto simp: wait_network.simps [of dur c n opt limit grace s])
    next
      case None
      obtain b s2 where s2: "select_done None (nat (wo_interval opt)) s1 = (b, s2)" by force
      note t2 = select_done_time [OF s2]
      have lim: "tw_now s1 \<le> limit" using v None by (auto intro: verdict_goes_on)
      show ?thesis
      proof (cases b)
        case True
        then show ?thesis using None v Inr s1 s2 t1 t2(1,2) lim less.prems
          by (auto simp: wait_network.simps [of dur c n opt limit grace s])
      next
        case False
        have "tw_now s2 = tw_now s1 + nat (wo_interval opt)" using t2(3) False by simp
        moreover have "Suc (limit + nat (wo_interval opt)) - tw_now s2 < Suc (limit + nat (wo_interval opt)) - tw_now s"
          using calculation t1 lim assms(2) by auto
        ultimately obtain r' s' where "wait_network dur c n opt limit g s2 = Some (r', s')"
          "tw_now s2 \<le> tw_now s'" "tw_now s' \<le> limit + nat (wo_interval opt) + d"
          "r' = Inr () \<longrightarrow> connected_in c n s'" "tw_now s \<le> tw_now s2"
          using less.hyps [of s2 g] lim t1 by auto
        then show ?thesis using None v Inr s1 s2 False
          by (auto simp: wait_network.simps [of dur c n opt limit grace s])
      qed
    qed
  qed
qed

lemma wait_defaults_pos: "0 < wo_interval (wait_defaults opt)"
  by (simp add: wait_defaults_def second_def)

text \<open>A client whose every call takes the same time.\<close>

definition at_cost :: "nat \<Rightarrow> ('w, 'e, 'a) op \<Rightarrow> ('w timed, 'e, 'a) op" where
  "at_cost d m = (\<lambda>s. case m (tw_world s) of (r, w) \<Rightarrow> (r, s\<lparr>tw_world := w, tw_now := tw_now s + d\<rparr>))"

definition timed_client :: "nat \<Rightarrow> 'w client \<Rightarrow> 'w timed client" where
  "timed_client d c = \<lparr>
     cl_instance = (\<lambda>n. at_cost d (cl_instance c n)), cl_list = at_cost d (cl_list c),
     cl_create = (\<lambda>s. at_cost d (cl_create c s)), cl_start = (\<lambda>n. at_cost d (cl_start c n)),
     cl_stop = (\<lambda>n. at_cost d (cl_stop c n)), cl_delete = (\<lambda>n. at_cost d (cl_delete c n)),
     cl_update = (\<lambda>n ch e. at_cost d (cl_update c n ch e)), cl_idmapped_mounts = at_cost d (cl_idmapped_mounts c),
     cl_profile_names = at_cost d (cl_profile_names c), cl_check_image = (\<lambda>r. at_cost d (cl_check_image c r)),
     cl_volume_exists = (\<lambda>p v. at_cost d (cl_volume_exists c p v)),
     cl_create_volume = (\<lambda>p v cfg. at_cost d (cl_create_volume c p v cfg)),
     cl_delete_volume = (\<lambda>p v. at_cost d (cl_delete_volume c p v)),
     cl_create_snapshot = (\<lambda>n x. at_cost d (cl_create_snapshot c n x)),
     cl_snapshots = (\<lambda>n. at_cost d (cl_snapshots c n)),
     cl_restore_snapshot = (\<lambda>n x. at_cost d (cl_restore_snapshot c n x)),
     cl_delete_snapshot = (\<lambda>n x. at_cost d (cl_delete_snapshot c n x)),
     cl_exec = (\<lambda>n argv opt. at_cost d (cl_exec c n argv opt)),
     cl_wait_ready = (\<lambda>n wo. at_cost d (cl_wait_ready c n wo))\<rparr>"

lemma on_time_at_cost: "on_time d (at_cost d m)"
  by (simp add: on_time_def at_cost_def split: prod.splits)

definition longest_wait :: "wait_options \<Rightarrow> nat" where
  "longest_wait opt =
     (let opt = wait_defaults opt
      in nat (wo_timeout opt) + nat (wo_network_timeout opt) + nat (wo_interval opt))"


section \<open>Properties\<close>



end
