(* ===== verification/Discover.thy ===== *)
theory Discover
  imports Go_Path Errors
begin

text \<open>
  Models \<open>internal/project/discover.go\<close>: the search for \<open>.incus-dev/dev.yml\<close> from a directory upwards.
  The file system is a parameter, what \<open>Stat\<close>, \<open>Lstat\<close>, \<open>EvalSymlinks\<close> and \<open>Getwd\<close> answer. The search is
  a recursion over the parents of a path, with the proof that it ends for every start, cleaned or not.
\<close>

definition config_dir_name :: string where "config_dir_name = ''.incus-dev''"
definition config_file_name :: string where "config_file_name = ''dev.yml''"

record project =
  pr_root :: string
  pr_config_path :: string
  pr_shadowed_why :: string
  pr_shadowed :: string

text \<open>An error of the operating system: \<open>ENOENT\<close>, \<open>ENOTDIR\<close>, or another one.\<close>

datatype os_error = NotExist string | NotDir string | OtherError string

fun os_text :: "os_error \<Rightarrow> string" where
  "os_text (NotExist t) = t" | "os_text (NotDir t) = t" | "os_text (OtherError t) = t"

definition os_err :: "os_error \<Rightarrow> err" where
  "os_err e = Foreign (os_text e)"

datatype file_kind = Regular | Directory | Special

record file_system =
  fs_stat :: "string \<Rightarrow> os_error + file_kind"
  fs_lstat :: "string \<Rightarrow> os_error option"
  fs_eval_symlinks :: "string \<Rightarrow> os_error + string"
  fs_getwd :: "os_error + string"

definition is_absent :: "os_error \<Rightarrow> bool" where
  "is_absent e \<longleftrightarrow> (case e of NotExist _ \<Rightarrow> True | NotDir _ \<Rightarrow> True | OtherError _ \<Rightarrow> False)"

definition is_dangling_link :: "file_system \<Rightarrow> string \<Rightarrow> bool" where
  "is_dangling_link fs path \<longleftrightarrow> fs_lstat fs path = None"

text \<open>\<open>filepath.Abs\<close>.\<close>

definition path_abs :: "file_system \<Rightarrow> string \<Rightarrow> os_error + string" where
  "path_abs fs p =
     (if is_abs p then Inr (clean p)
      else case fs_getwd fs of Inl e \<Rightarrow> Inl e | Inr wd \<Rightarrow> Inr (path_join wd p))"

definition config_path_in :: "string \<Rightarrow> string" where
  "config_path_in dir = path_join dir (config_dir_name @ [slash] @ config_file_name)"


section \<open>A parent is shorter, or the path itself\<close>

lemma length_join: "xs \<noteq> [] \<Longrightarrow> length (join [c] xs) = sum_list (map length xs) + (length xs - 1)"
proof (induction "[c]" xs rule: join.induct)
  case (3 x y zs)
  then show ?case by simp
qed simp_all

lemma length_split_on: "sum_list (map length (split_on c s)) + length (split_on c s) = Suc (length s)"
proof -
  have "length (join [c] (split_on c s)) = length s" by (simp add: join_split_on)
  then show ?thesis using length_join [of "split_on c s" c]
    by (cases "split_on c s") auto
qed

text \<open>The weight of a list of elements: their characters and one separator each.\<close>

definition weight :: "string list \<Rightarrow> nat" where
  "weight es = sum_list (map length es) + length es"

lemma weight_simps [simp]: "weight [] = 0" "weight (e # es) = Suc (length e + weight es)"
  "weight (xs @ ys) = weight xs + weight ys" "weight (rev es) = weight es"
  by (simp_all add: weight_def rev_map [symmetric] sum_list.rev)

lemma weight_split_on: "weight (split_on c s) = Suc (length s)"
  by (simp add: weight_def length_split_on)

lemma weight_clean_step: "weight (clean_step rooted stack e) \<le> weight stack + Suc (length e)"
  by (auto simp: clean_step_def split: list.splits)

lemma weight_foldl: "weight (foldl (clean_step rooted) stack es) \<le> weight stack + weight es"
proof (induction es arbitrary: stack)
  case (Cons e es)
  from Cons.IH [of "clean_step rooted stack e"] weight_clean_step [of rooted stack e]
  show ?case by simp
qed simp

lemma weight_clean_elems: "weight (clean_elems rooted p) \<le> Suc (length p)"
  using weight_foldl [of rooted "[]" "split_on slash p"] by (simp add: clean_elems_def weight_split_on)

text \<open>A trailing separator adds an empty element, which cleaning drops.\<close>

lemma split_on_snoc: "split_on c (s @ [c]) = split_on c s @ [[]]"
proof (induction s)
  case (Cons a s)
  then show ?case by (cases "split_on c s") auto
qed simp

lemma clean_elems_trailing: "clean_elems rooted (s @ [slash]) = clean_elems rooted s"
  by (simp add: clean_elems_def split_on_snoc clean_step_def)

lemma length_join_weight: "es \<noteq> [] \<Longrightarrow> Suc (length (join [c] es)) = weight es"
  using length_join [of es c] by (cases es) (simp_all add: weight_def)

lemma split_on_hd: "is_abs p \<Longrightarrow> split_on slash p = [] # split_on slash (tl p)"
  by (cases p) simp_all

lemma length_clean_trailing:
  assumes "s \<noteq> []"
  shows "length (clean (s @ [slash])) \<le> length s"
proof (cases "is_abs s")
  case True
  have "clean_elems True s = clean_elems True (tl s)"
    by (simp add: clean_elems_def split_on_hd [OF True] clean_step_def)
  then have "weight (clean_elems True s) \<le> length s"
    using weight_clean_elems [of True "tl s"] assms by simp
  moreover have "is_abs (s @ [slash])" using True by (cases s) simp_all
  ultimately show ?thesis
    using assms length_join_weight [of "clean_elems True s" slash]
    by (cases "clean_elems True s = []") (auto simp: clean_def clean_elems_trailing root_path_def Suc_le_eq)
next
  case False
  then have "\<not> is_abs (s @ [slash])" using assms by (cases s) simp_all
  then show ?thesis
    using assms length_join_weight [of "clean_elems False s" slash] weight_clean_elems [of False s]
    by (cases "clean_elems False s") (auto simp: clean_def clean_elems_trailing Suc_le_eq)
qed

text \<open>The measure of the search: \<open>.\<close> is where a relative path ends, as \<open>Dir\<close> has it.\<close>

definition steps_left :: "string \<Rightarrow> nat" where
  "steps_left p = (if p = ''.'' then 0 else Suc (length p))"

lemma path_dir_cases:
  obtains (relative) "slash \<notin> set p" "path_dir p = ''.''"
    | (under) s e where "p = s @ slash # e" "slash \<notin> set e" "path_dir p = clean (s @ [slash])"
proof (cases "slash \<in> set p")
  case True
  then obtain s e where "p = s @ slash # e" "slash \<notin> set e" by (meson split_list_last)
  then show ?thesis using under dropWhile_rev_suffix [of e s] by (simp add: path_dir_def)
next
  case False
  then have "dropWhile (\<lambda>c. c \<noteq> slash) (rev p) = []" by auto
  then show ?thesis using False relative by (simp add: path_dir_def clean_def)
qed

lemma path_dir_decreases: "path_dir p \<noteq> p \<Longrightarrow> steps_left (path_dir p) < steps_left p"
proof (cases p rule: path_dir_cases)
  case relative
  then show "path_dir p \<noteq> p \<Longrightarrow> ?thesis" by (auto simp: steps_left_def)
next
  case (under s e)
  have "length (path_dir p) < length p \<or> path_dir p = p"
  proof (cases "s = []")
    case True
    then have "path_dir p = [slash]"
      using under(3) by (simp add: clean_def clean_elems_def clean_step_def root_path_def)
    then show ?thesis using under(1) True by (cases e) simp_all
  next
    case False
    then show ?thesis using length_clean_trailing [OF False] under by simp
  qed
  moreover have "p \<noteq> ''.''" using under(1) by (cases s) (auto simp: slash_def)
  ultimately show "path_dir p \<noteq> p \<Longrightarrow> ?thesis"
    using under(1) by (auto simp: steps_left_def)
qed


section \<open>The search\<close>

text \<open>What the search finds for one directory: its answer, or what to remember going up.\<close>

datatype sight = Usable | WrongKind string | Unreadable os_error | Absent

definition look_at :: "file_system \<Rightarrow> string \<Rightarrow> sight" where
  "look_at fs path =
     (case fs_stat fs path of
        Inr kind \<Rightarrow> if kind = Regular then Usable else WrongKind ''is not a regular file''
      | Inl e \<Rightarrow>
          if is_absent e \<and> is_dangling_link fs path
          then WrongKind ''is a symbolic link whose target is not there''
          else if \<not> is_absent e then Unreadable e else Absent)"

definition has_config_dir :: "file_system \<Rightarrow> string \<Rightarrow> bool" where
  "has_config_dir fs dir \<longleftrightarrow> fs_stat fs (path_join dir config_dir_name) = Inr Directory"

definition project_not_found :: "string \<Rightarrow> string \<Rightarrow> string \<Rightarrow> string \<Rightarrow> err" where
  "project_not_found start wrong why without =
     (if wrong \<noteq> [] then Errorf ''%w: %s %s'' [W (Sentinel ErrProjectNotFound), S wrong, S why]
      else if without \<noteq> [] then
        Errorf ''%w: %s exists but %s is missing''
          [W (Sentinel ErrProjectNotFound), S (path_join without config_dir_name),
           S (path_join config_dir_name config_file_name)]
      else Errorf ''%w: %s was not found in %s or any parent directory''
          [W (Sentinel ErrProjectNotFound), S (path_join config_dir_name config_file_name), S start])"

text \<open>The loop of \<open>Discover\<close>. Its variables: the directory, the nearest unusable \<open>dev.yml\<close> with what is
  wrong with it, and the nearest directory that has \<open>.incus-dev/\<close> alone.\<close>

function search ::
  "file_system \<Rightarrow> string \<Rightarrow> string \<Rightarrow> string \<Rightarrow> string \<Rightarrow> string \<Rightarrow> err + project" where
  "search fs start dir wrong why without =
     (let path = config_path_in dir;
          without' = (if without = [] \<and> has_config_dir fs dir then dir else without);
          on = (\<lambda>wrong why. if path_dir dir = dir then Inl (project_not_found start wrong why without')
                 else search fs start (path_dir dir) wrong why without')
      in case look_at fs path of
           Usable \<Rightarrow> Inr \<lparr>pr_root = dir, pr_config_path = path, pr_shadowed_why = why, pr_shadowed = wrong\<rparr>
         | Unreadable e \<Rightarrow> Inl (Errorf ''look for the project root: %w'' [W (os_err e)])
         | WrongKind what \<Rightarrow> if wrong = [] then on path what else on wrong why
         | Absent \<Rightarrow> on wrong why)"
  by pat_completeness auto

termination
  by (relation "measure (\<lambda>(fs, start, dir, wrong, why, without). steps_left dir)")
    (auto intro: path_dir_decreases)

declare search.simps [simp del]

definition discover :: "file_system \<Rightarrow> string \<Rightarrow> err + project" where
  "discover fs start =
     (case path_abs fs start of
        Inl e \<Rightarrow> Inl (Errorf ''resolve start directory %q: %w'' [S start, W (os_err e)])
      | Inr dir \<Rightarrow>
          (case fs_stat fs dir of
             Inl e \<Rightarrow> Inl (Errorf ''start directory %q: %w'' [S start, W (os_err e)])
           | Inr kind \<Rightarrow>
               if kind \<noteq> Directory then Inl (Errorf ''start directory %q: not a directory'' [S start])
               else search fs start
                 (case fs_eval_symlinks fs dir of Inr resolved \<Rightarrow> resolved | Inl _ \<Rightarrow> dir) [] [] []))"


section \<open>Facts\<close>

text \<open>The directories the search visits, in its order.\<close>

function ancestors :: "string \<Rightarrow> string list" where
  "ancestors dir = dir # (if path_dir dir = dir then [] else ancestors (path_dir dir))"
  by pat_completeness auto

termination
  by (relation "measure steps_left") (auto intro: path_dir_decreases)

declare ancestors.simps [simp del]

text \<open>What the search answers in terms of the directories it visits: of those up to the first whose
  \<open>dev.yml\<close> is usable or cannot be looked at, the first that is the wrong kind is remembered.\<close>

definition decides :: "file_system \<Rightarrow> string \<Rightarrow> bool" where
  "decides fs dir \<longleftrightarrow>
     (case look_at fs (config_path_in dir) of Usable \<Rightarrow> True | Unreadable _ \<Rightarrow> True | _ \<Rightarrow> False)"

definition misfits :: "file_system \<Rightarrow> string list \<Rightarrow> (string \<times> string) list" where
  "misfits fs dirs = concat (map (\<lambda>d. case look_at fs (config_path_in d) of
       WrongKind what \<Rightarrow> [(config_path_in d, what)] | _ \<Rightarrow> []) dirs)"

definition first_misfit :: "string \<times> string \<Rightarrow> (string \<times> string) list \<Rightarrow> string \<times> string" where
  "first_misfit known ms = (if fst known \<noteq> [] then known else case ms of [] \<Rightarrow> known | m # _ \<Rightarrow> m)"

definition first_config_dir :: "file_system \<Rightarrow> string \<Rightarrow> string list \<Rightarrow> string" where
  "first_config_dir fs known dirs =
     (if known \<noteq> [] then known else case filter (has_config_dir fs) dirs of [] \<Rightarrow> [] | d # _ \<Rightarrow> d)"

definition conclude ::
  "file_system \<Rightarrow> string \<Rightarrow> string \<times> string \<Rightarrow> string \<Rightarrow> string list \<Rightarrow> err + project" where
  "conclude fs start m without dirs =
     (case dirs of
        [] \<Rightarrow> Inl (project_not_found start (fst m) (snd m) without)
      | d # _ \<Rightarrow>
          (case look_at fs (config_path_in d) of
             Unreadable e \<Rightarrow> Inl (Errorf ''look for the project root: %w'' [W (os_err e)])
           | _ \<Rightarrow> Inr \<lparr>pr_root = d, pr_config_path = config_path_in d,
                       pr_shadowed_why = snd m, pr_shadowed = fst m\<rparr>))"

definition nearest :: "file_system \<Rightarrow> string \<Rightarrow> string list \<Rightarrow> string \<Rightarrow> string \<Rightarrow> string \<Rightarrow> err + project" where
  "nearest fs start dirs wrong why without =
     conclude fs start (first_misfit (wrong, why) (misfits fs (takeWhile (\<lambda>d. \<not> decides fs d) dirs)))
       (first_config_dir fs without dirs) (dropWhile (\<lambda>d. \<not> decides fs d) dirs)"

lemma foldl_clean_nonempty:
  "[] \<notin> set stack \<Longrightarrow> [] \<notin> set (foldl (clean_step rooted) stack es)"
proof (induction es arbitrary: stack)
  case (Cons e es)
  have "[] \<notin> set (clean_step rooted stack e)"
    using Cons.prems by (auto simp: clean_step_def split: list.splits)
  then show ?case using Cons.IH by simp
qed simp

lemma clean_elems_nonempty: "[] \<notin> set (clean_elems rooted p)"
  by (simp add: clean_elems_def foldl_clean_nonempty)

lemma clean_not_Nil [simp]: "clean p \<noteq> []"
proof (cases "clean_elems False p")
  case (Cons e es)
  then have "e \<noteq> []" using clean_elems_nonempty [of False p] by auto
  then show ?thesis using Cons by (cases es) (auto simp: clean_def root_path_def)
qed (auto simp: clean_def root_path_def)

lemma path_dir_not_Nil [simp]: "path_dir p \<noteq> []"
  by (simp add: path_dir_def)

lemma config_path_not_Nil [simp]: "config_path_in d \<noteq> []"
  by (simp add: config_path_in_def path_join_def config_dir_name_def)

lemma first_config_dir_Cons: "d \<noteq> [] \<Longrightarrow> first_config_dir fs known (d # rest)
    = first_config_dir fs (if known = [] \<and> has_config_dir fs d then d else known) rest"
  by (simp add: first_config_dir_def)

lemma first_misfit_Cons:
  "first_misfit (wrong, why) (misfits fs (d # passed))
    = (case look_at fs (config_path_in d) of
         WrongKind what \<Rightarrow> if wrong = [] then first_misfit (config_path_in d, what) (misfits fs passed)
                           else first_misfit (wrong, why) (misfits fs passed)
       | _ \<Rightarrow> first_misfit (wrong, why) (misfits fs passed))"
  by (auto simp: first_misfit_def misfits_def split: sight.splits)

lemma nearest_Nil: "nearest fs start [] wrong why without = Inl (project_not_found start wrong why without)"
  by (simp add: nearest_def conclude_def misfits_def first_misfit_def first_config_dir_def)

lemma nearest_Cons:
  assumes "d \<noteq> []"
  shows "nearest fs start (d # rest) wrong why without =
    (let without' = (if without = [] \<and> has_config_dir fs d then d else without)
     in case look_at fs (config_path_in d) of
          Usable \<Rightarrow> Inr \<lparr>pr_root = d, pr_config_path = config_path_in d, pr_shadowed_why = why, pr_shadowed = wrong\<rparr>
        | Unreadable e \<Rightarrow> Inl (Errorf ''look for the project root: %w'' [W (os_err e)])
        | WrongKind what \<Rightarrow>
            if wrong = [] then nearest fs start rest (config_path_in d) what without'
            else nearest fs start rest wrong why without'
        | Absent \<Rightarrow> nearest fs start rest wrong why without')"
proof (cases "decides fs d")
  case True
  then show ?thesis
    by (auto simp: nearest_def conclude_def decides_def misfits_def first_misfit_def split: sight.splits)
next
  case False
  then consider what where "look_at fs (config_path_in d) = WrongKind what"
    | "look_at fs (config_path_in d) = Absent"
    by (cases "look_at fs (config_path_in d)") (simp_all add: decides_def)
  then show ?thesis
    using False by cases (simp_all add: nearest_def Let_def first_config_dir_Cons [OF assms] first_misfit_Cons)
qed

lemma search_nearest:
  "dir \<noteq> [] \<Longrightarrow> search fs start dir wrong why without = nearest fs start (ancestors dir) wrong why without"
proof (induction dir arbitrary: wrong why without rule: measure_induct_rule [of steps_left])
  case (less dir)
  have rest: "(if path_dir dir = dir then Inl (project_not_found start w y v) else search fs start (path_dir dir) w y v)
      = nearest fs start (if path_dir dir = dir then [] else ancestors (path_dir dir)) w y v" for w y v
    using less.IH [OF path_dir_decreases] by (simp add: nearest_Nil)
  show ?case
    unfolding search.simps [of fs start dir] ancestors.simps [of dir] nearest_Cons [OF less.prems]
    by (simp only: Let_def rest)
qed


lemma ancestors_not_Nil [simp]: "ancestors dir \<noteq> []"
  by (simp add: ancestors.simps [of dir])

lemma ancestors_bound: "length (ancestors dir) \<le> Suc (steps_left dir)"
proof (induction dir rule: measure_induct_rule [of steps_left])
  case (less dir)
  show ?case using less [OF path_dir_decreases] path_dir_decreases [of dir]
    by (fastforce simp: ancestors.simps [of dir])
qed

lemma last_ancestor: "path_dir (last (ancestors dir)) = last (ancestors dir)"
proof (induction dir rule: measure_induct_rule [of steps_left])
  case (less dir)
  show ?case using less [OF path_dir_decreases] by (simp add: ancestors.simps [of dir])
qed

text \<open>The directory the search starts in, and what a found project says of the ones passed over.\<close>

definition start_dir :: "file_system \<Rightarrow> string \<Rightarrow> string" where
  "start_dir fs start =
     (case path_abs fs start of Inl _ \<Rightarrow> []
      | Inr dir \<Rightarrow> (case fs_eval_symlinks fs dir of Inr resolved \<Rightarrow> resolved | Inl _ \<Rightarrow> dir))"

lemma nearest_found:
  assumes "nearest fs start dirs [] [] without = Inr p"
  obtains passed rest where "dirs = passed @ pr_root p # rest"
    "look_at fs (config_path_in (pr_root p)) = Usable" "pr_config_path p = config_path_in (pr_root p)"
    "\<And>d. d \<in> set passed \<Longrightarrow> \<not> decides fs d"
    "(pr_shadowed p, pr_shadowed_why p) = first_misfit ([], []) (misfits fs passed)"
proof (cases "dropWhile (\<lambda>d. \<not> decides fs d) dirs")
  case Nil
  then show ?thesis using assms by (simp add: nearest_def conclude_def Nil del: dropWhile_eq_Nil_conv)
next
  case (Cons d rest)
  let ?passed = "takeWhile (\<lambda>d. \<not> decides fs d) dirs"
  have "decides fs d" using Cons by (metis dropWhile_eq_Cons_conv)
  then have use: "look_at fs (config_path_in d) = Usable"
    using assms Cons by (simp add: nearest_def conclude_def decides_def split: sight.splits)
  then have p: "p = \<lparr>pr_root = d, pr_config_path = config_path_in d,
      pr_shadowed_why = snd (first_misfit ([], []) (misfits fs ?passed)),
      pr_shadowed = fst (first_misfit ([], []) (misfits fs ?passed))\<rparr>"
    using assms Cons use by (simp add: nearest_def conclude_def)
  have "dirs = ?passed @ d # rest" using Cons by (metis takeWhile_dropWhile_id)
  then show ?thesis using that [of ?passed rest] use by (simp add: p) (metis set_takeWhileD)
qed

lemma usable_iff: "look_at fs path = Usable \<longleftrightarrow> fs_stat fs path = Inr Regular"
  by (simp add: look_at_def split: sum.splits)


section \<open>Properties\<close>

text \<open>C29: the upward search ends, whatever path it starts from and whatever the file system answers: it
  looks at no more directories than the path has characters, plus two, the last being its own parent,
  and its answer is that of a scan over the list of those directories.\<close>

theorem search_ends:
  assumes "dir \<noteq> []"
  shows "search fs start dir [] [] [] = nearest fs start (ancestors dir) [] [] []
    \<and> length (ancestors dir) \<le> length dir + 2 \<and> path_dir (last (ancestors dir)) = last (ancestors dir)"
  using search_nearest [OF assms] ancestors_bound [of dir] last_ancestor
  by (auto simp: steps_left_def split: if_splits)

text \<open>C30: the nearest project wins. A project is found in an ancestor of the start directory, where
  \<open>dev.yml\<close> is a regular file, and no directory passed over on the way has one.\<close>

theorem discover_nearest:
  assumes "discover fs start = Inr p" "start_dir fs start \<noteq> []"
  shows "\<exists>passed rest. ancestors (start_dir fs start) = passed @ pr_root p # rest
    \<and> fs_stat fs (config_path_in (pr_root p)) = Inr Regular
    \<and> pr_config_path p = config_path_in (pr_root p)
    \<and> (\<forall>d\<in>set passed. fs_stat fs (config_path_in d) \<noteq> Inr Regular)
    \<and> (pr_shadowed p = [] \<longleftrightarrow> misfits fs passed = [])"
proof -
  have "nearest fs start (ancestors (start_dir fs start)) [] [] [] = Inr p"
    using assms search_nearest [OF assms(2)]
    by (auto simp: discover_def start_dir_def split: sum.splits if_splits)
  then obtain passed rest where found: "ancestors (start_dir fs start) = passed @ pr_root p # rest"
    "look_at fs (config_path_in (pr_root p)) = Usable" "pr_config_path p = config_path_in (pr_root p)"
    "\<And>d. d \<in> set passed \<Longrightarrow> \<not> decides fs d"
    "(pr_shadowed p, pr_shadowed_why p) = first_misfit ([], []) (misfits fs passed)"
    by (rule nearest_found) blast
  have "fst m \<noteq> []" if "m \<in> set (misfits fs passed)" for m
    using that by (auto simp: misfits_def split: sight.splits)
  then have "pr_shadowed p = [] \<longleftrightarrow> misfits fs passed = []"
    using found(5) by (cases "misfits fs passed") (force simp: first_misfit_def)+
  moreover have "\<forall>d\<in>set passed. fs_stat fs (config_path_in d) \<noteq> Inr Regular"
    using found(4) by (fastforce simp: decides_def usable_iff [symmetric])
  ultimately show ?thesis using found(1,2,3) by (auto simp: usable_iff)
qed

text \<open>A tree with a project at its top and a directory in the place of a nearer \<open>dev.yml\<close>.\<close>

definition sample_fs :: file_system where
  "sample_fs = \<lparr>fs_stat = (\<lambda>p. if p \<in> set [''/w'', ''/w/a'', ''/w/a/b'', ''/w/a/.incus-dev/dev.yml''] then Inr Directory
       else if p = ''/w/.incus-dev/dev.yml'' then Inr Regular else Inl (NotExist ''no such file or directory'')),
     fs_lstat = (\<lambda>p. Some (NotExist ''no such file or directory'')), fs_eval_symlinks = Inr,
     fs_getwd = Inr ''/w/a/b''\<rparr>"

lemma sample_discovered:
  "discover sample_fs ''.'' = Inr \<lparr>pr_root = ''/w'', pr_config_path = ''/w/.incus-dev/dev.yml'',
     pr_shadowed_why = ''is not a regular file'', pr_shadowed = ''/w/a/.incus-dev/dev.yml''\<rparr>"
  by code_simp

theorem search_ends_witness:
  "search sample_fs ''.'' ''/w/a/b'' [] [] [] = nearest sample_fs ''.'' (ancestors ''/w/a/b'') [] [] []
   \<and> length (ancestors ''/w/a/b'') \<le> length ''/w/a/b'' + 2"
  using search_ends [of "''/w/a/b''" sample_fs "''.''"] by blast

theorem discover_nearest_witness:
  "\<exists>passed rest. ancestors (start_dir sample_fs ''.'') = passed @ ''/w'' # rest
    \<and> (\<forall>d\<in>set passed. fs_stat sample_fs (config_path_in d) \<noteq> Inr Regular)"
proof -
  have "start_dir sample_fs ''.'' \<noteq> []" by code_simp
  from discover_nearest [OF sample_discovered this] show ?thesis by auto
qed

end
