(* ===== verification/Root.thy ===== *)
theory Root
  imports Snapshot Discover Parse
begin

text \<open>
  Models \<open>internal/cli/root.go\<close> and what \<open>cmd/idev/main.go\<close> does with the result: building the program's
  state from the working directory and \<open>dev.yml\<close>, the body of every command, the question before a
  destructive one, and the exit code. The command line is given as cobra has parsed it, one constructor
  for each command; what the process finds around itself is the record \<open>surroundings\<close>.
\<close>

record global_flags =
  gf_verbose :: bool
  gf_directory :: string
  gf_incus_project :: string

definition default_incus_project :: string where "default_incus_project = ''default''"

definition resolve_target :: "global_flags \<Rightarrow> config \<Rightarrow> string" where
  "resolve_target g c =
     (let p = (if gf_incus_project g = [] then incus_project c else gf_incus_project g)
      in if p = [] then default_incus_project else p)"

datatype reach = Online | Offline

text \<open>\<open>su_no_client\<close> stands for the nil client of an offline command.\<close>

record ('d, 'h) surroundings =
  su_fs :: file_system
  su_yaml :: yaml_lib
  su_stat :: stat_fun
  su_read_file :: "string \<Rightarrow> err + string"
  su_connect :: "string \<Rightarrow> err + 'd client"
  su_no_client :: "'d client"
  su_host :: "'h host"
  su_stdin :: string
  su_stdin_tty :: bool
  su_stdout_tty :: bool
  su_check_idmap :: "int \<Rightarrow> int \<Rightarrow> err option"
  su_uid :: int
  su_gid :: int
  su_env :: "string \<Rightarrow> string option"
  su_now :: go_time
  su_local :: "go_time \<Rightarrow> go_time"

definition getenv :: "('d, 'h) surroundings \<Rightarrow> string \<Rightarrow> string" where
  "getenv su k = (case su_env su k of Some v \<Rightarrow> v | None \<Rightarrow> [])"

definition options_for ::
  "('d, 'h) surroundings \<Rightarrow> global_flags \<Rightarrow> reach \<Rightarrow> project \<Rightarrow> config \<Rightarrow> 'd client \<Rightarrow> ('d, 'h) app_options" where
  "options_for su g r proj cfg client =
     \<lparr>op_cfg = cfg, op_client = client, op_host = su_host su, op_name_optional = (r = Offline),
      op_in = Some (su_stdin su), op_interactive = (su_stdin_tty su \<and> su_stdout_tty su),
      op_term = getenv su ''TERM'', op_incus_project = resolve_target g cfg,
      op_check_idmap = su_check_idmap su, op_uid = su_uid su, op_gid = su_gid su,
      op_branch = Some (git_branch (ho_run (su_host su)) (pr_root proj)), op_lookup_env = su_env su\<rparr>"

definition build_app ::
  "('d, 'h) surroundings \<Rightarrow> global_flags \<Rightarrow> reach \<Rightarrow> ('d, 'h, ('d, 'h) app) run" where
  "build_app su g r =
     bindE (lift_result (if gf_directory g \<noteq> [] then Inr (gf_directory g)
              else case fs_getwd (su_fs su) of
                Inl e \<Rightarrow> Inl (Errorf ''get working directory: %w'' [W (os_err e)]) | Inr wd \<Rightarrow> Inr wd)) (\<lambda>start.
     bindE (lift_result (discover (su_fs su) start)) (\<lambda>proj.
     bindE (lift_result (load (su_yaml su) (su_stat su) (su_read_file su) (pr_config_path proj))) (\<lambda>cfg.
     thenE (when_op (pr_shadowed proj \<noteq> [])
             (log_warn (pr_shadowed proj @ '' '' @ pr_shadowed_why proj
                @ '', so it was skipped; this run acts on the project at '' @ pr_root proj)))
     (bindE (case r of Offline \<Rightarrow> ret (su_no_client su)
                     | Online \<Rightarrow> lift_result (su_connect su (resolve_target g cfg))) (\<lambda>client.
      on_host (new_app (options_for su g r proj cfg client)))))))"


section \<open>The question before a destructive command\<close>

definition first_line :: "string \<Rightarrow> string" where
  "first_line input = fst (cut_at (CHR 0x0A) input)"

definition confirm_answer :: "string \<Rightarrow> bool \<Rightarrow> err + bool" where
  "confirm_answer input at_terminal =
     (if input = [] then (if at_terminal then Inr False else Inl (Sentinel ErrNoAnswer))
      else Inr (List.member [''y'', ''yes''] (to_lower (trim_space (first_line input)))))"

definition confirm :: "('d, 'h) surroundings \<Rightarrow> string \<Rightarrow> ('d, 'h, bool) run" where
  "confirm su prompt =
     thenE (write_err (prompt @ '' [y/N]: '')) (lift_result (confirm_answer (su_stdin su) (su_stdin_tty su)))"

definition unless_declined ::
  "('d, 'h) surroundings \<Rightarrow> bool \<Rightarrow> ('d, 'h, string) run \<Rightarrow> ('d, 'h, unit) run \<Rightarrow> ('d, 'h, unit) run" where
  "unless_declined su force prompt m =
     (if force then m
      else bindE prompt (\<lambda>p. bindE (confirm su p) (\<lambda>ok. if ok then m else fail (Sentinel ErrAborted))))"


section \<open>The commands\<close>

definition up_body :: "('d, 'h) surroundings \<Rightarrow> global_flags \<Rightarrow> bool \<Rightarrow> bool \<Rightarrow> ('d, 'h, unit) run" where
  "up_body su g dry_run restart =
     bindE (build_app su g Online) (\<lambda>a. if dry_run then plan_command a else up a restart)"

definition provision_body ::
  "('d, 'h) surroundings \<Rightarrow> global_flags \<Rightarrow> bool \<Rightarrow> selection \<Rightarrow> ('d, 'h, unit) run" where
  "provision_body su g list_only sel =
     bindE (build_app su g (if list_only then Offline else Online))
       (\<lambda>a. if list_only then list_steps a else app_provision a sel)"

definition shell_body ::
  "('d, 'h) surroundings \<Rightarrow> global_flags \<Rightarrow> string list \<Rightarrow> string \<Rightarrow> ('d, 'h, unit) run" where
  "shell_body su g args user = bindE (build_app su g Online) (\<lambda>a. app_shell a args user)"

definition exec_body ::
  "('d, 'h) surroundings \<Rightarrow> global_flags \<Rightarrow> string list \<Rightarrow> string \<Rightarrow> ('d, 'h, unit) run" where
  "exec_body su g args user =
     (if args = []
      then fail (Errorf ''exec requires a command; use 'idev shell' for an interactive shell'' [])
      else bindE (build_app su g Online) (\<lambda>a. app_exec a args user))"

definition status_body :: "('d, 'h) surroundings \<Rightarrow> global_flags \<Rightarrow> bool \<Rightarrow> ('d, 'h, unit) run" where
  "status_body su g as_json = bindE (build_app su g Online) (\<lambda>a. status_command a as_json)"

definition ip_body :: "('d, 'h) surroundings \<Rightarrow> global_flags \<Rightarrow> ('d, 'h, unit) run" where
  "ip_body su g = bindE (build_app su g Online) ip_command"

definition destroy_prompt :: "('d, 'h) app \<Rightarrow> bool \<Rightarrow> ('d, 'h, string) run" where
  "destroy_prompt a volumes =
     bindE (if volumes then has_volumes a else ret False) (\<lambda>has.
       ret (if has then ''Delete instance '' @ ap_instance a
                    @ '' AND its persistent volumes, with everything in them?''
            else ''Delete instance '' @ ap_instance a @ ''?''))"

definition destroy_body :: "('d, 'h) surroundings \<Rightarrow> global_flags \<Rightarrow> bool \<Rightarrow> bool \<Rightarrow> ('d, 'h, unit) run" where
  "destroy_body su g force volumes =
     bindE (build_app su g Online) (\<lambda>a.
       unless_declined su force (destroy_prompt a volumes) (destroy a volumes))"

definition rebuild_body :: "('d, 'h) surroundings \<Rightarrow> global_flags \<Rightarrow> bool \<Rightarrow> ('d, 'h, unit) run" where
  "rebuild_body su g force =
     bindE (build_app su g Online) (\<lambda>a.
       unless_declined su force (ret (''Destroy and recreate instance '' @ ap_instance a @ ''?'')) (rebuild a))"

definition snapshot_create_body :: "('d, 'h) surroundings \<Rightarrow> global_flags \<Rightarrow> string list \<Rightarrow> ('d, 'h, unit) run" where
  "snapshot_create_body su g args =
     bindE (build_app su g Online) (\<lambda>a. create_snapshot a (su_now su) (case args of [] \<Rightarrow> [] | n # _ \<Rightarrow> n))"

definition snapshot_list_body :: "('d, 'h) surroundings \<Rightarrow> global_flags \<Rightarrow> ('d, 'h, unit) run" where
  "snapshot_list_body su g = bindE (build_app su g Online) (\<lambda>a. list_snapshots a (su_local su))"

definition snapshot_restore_body :: "('d, 'h) surroundings \<Rightarrow> global_flags \<Rightarrow> bool \<Rightarrow> string \<Rightarrow> ('d, 'h, unit) run" where
  "snapshot_restore_body su g force n =
     bindE (build_app su g Online) (\<lambda>a.
       unless_declined su force
         (ret (''Roll instance '' @ ap_instance a @ '' back to '' @ n @ ''? Its current state will be lost.''))
         (restore_snapshot a n))"

definition snapshot_delete_body :: "('d, 'h) surroundings \<Rightarrow> global_flags \<Rightarrow> bool \<Rightarrow> string \<Rightarrow> ('d, 'h, unit) run" where
  "snapshot_delete_body su g force n =
     bindE (build_app su g Online) (\<lambda>a.
       unless_declined su force (ret (''Delete snapshot '' @ n @ ''?'')) (delete_snapshot a n))"

definition validate_body :: "('d, 'h) surroundings \<Rightarrow> global_flags \<Rightarrow> ('d, 'h, unit) run" where
  "validate_body su g = bindE (build_app su g Offline) validate_command"

datatype command_line =
    CmdUp bool bool | CmdProvision bool selection | CmdShell "string list" string
  | CmdExec "string list" string | CmdStatus bool | CmdIP | CmdDestroy bool bool | CmdRebuild bool
  | CmdValidate | CmdSnapshotCreate "string list" | CmdSnapshotList
  | CmdSnapshotRestore bool string | CmdSnapshotDelete bool string

fun execute :: "('d, 'h) surroundings \<Rightarrow> global_flags \<Rightarrow> command_line \<Rightarrow> ('d, 'h, unit) run" where
  "execute su g (CmdUp dry_run restart) = up_body su g dry_run restart"
| "execute su g (CmdProvision list_only sel) = provision_body su g list_only sel"
| "execute su g (CmdShell args user) = shell_body su g args user"
| "execute su g (CmdExec args user) = exec_body su g args user"
| "execute su g (CmdStatus as_json) = status_body su g as_json"
| "execute su g CmdIP = ip_body su g"
| "execute su g (CmdDestroy force volumes) = destroy_body su g force volumes"
| "execute su g (CmdRebuild force) = rebuild_body su g force"
| "execute su g CmdValidate = validate_body su g"
| "execute su g (CmdSnapshotCreate args) = snapshot_create_body su g args"
| "execute su g CmdSnapshotList = snapshot_list_body su g"
| "execute su g (CmdSnapshotRestore force n) = snapshot_restore_body su g force n"
| "execute su g (CmdSnapshotDelete force n) = snapshot_delete_body su g force n"

text \<open>What is printed for an error, and the exit code of the process.\<close>

definition report :: "err option \<Rightarrow> string \<times> int" where
  "report eo =
     (case eo of
        None \<Rightarrow> ([], 0)
      | Some e \<Rightarrow> (case exit_codes e of
                    n # _ \<Rightarrow> ([], n)
                  | [] \<Rightarrow> (''[idev] error: '' @ err_text e @ newline, 1)))"

definition main_run :: "('d, 'h) surroundings \<Rightarrow> global_flags \<Rightarrow> command_line \<Rightarrow> ('d, 'h) session
   \<Rightarrow> int \<times> ('d, 'h) session" where
  "main_run su g cmd s =
     (case execute su g cmd s of (r, s') \<Rightarrow>
        (case report (case r of Inl e \<Rightarrow> Some e | Inr _ \<Rightarrow> None) of
           (text, code) \<Rightarrow> (code, if text = [] then s' else s'\<lparr>se_err := se_err s' @ [text]\<rparr>)))"


section \<open>Facts\<close>

lemma keeps_case_reach [keeps_intros]:
  "keeps I m \<Longrightarrow> keeps I n \<Longrightarrow> keeps I (case r of Online \<Rightarrow> m | Offline \<Rightarrow> n)"
  by (cases r) simp_all

lemma keeps_build_app [keeps_intros]: "keeps (on_d I) (build_app su g r)"
  unfolding build_app_def by (intro keeps_intros)

lemma keeps_confirm [keeps_intros]: "keeps (on_d I) (confirm su p)"
  unfolding confirm_def by (intro keeps_intros)

text \<open>What a command keeps once its app is built.\<close>

lemma built_keeps:
  assumes "build_app su g r s = (Inr a, s1)" "keeps (on_d I) (f a)" "I (se_daemon s)"
  shows "I (se_daemon (snd (bindE (build_app su g r) f s)))"
  using assms keepsD [OF keeps_build_app [of I su g r], of s] keepsD [OF assms(2), of s1]
  by (simp add: run_bindE)

lemma built_client:
  assumes "build_app su g Online s = (Inr a, s1)" "su_connect su = (\<lambda>t. Inr c)"
  shows "ap_client a = c"
  using assms
  by (auto simp: build_app_def options_for_def run_bindE run_thenE run_when run_lift run_log run_on_host new_app_def run_attempt
      run_ret run_fail Let_def split: sum.splits prod.splits if_splits)

lemma keeps_unless_declined:
  assumes "keeps (on_d I) prompt" "keeps (on_d I) m"
  shows "keeps (on_d I) (unless_declined su force prompt m)"
  unfolding unless_declined_def by (intro keeps_intros assms)

lemma declined_refuses:
  assumes "keeps (on_d I) prompt" "confirm_answer (su_stdin su) (su_stdin_tty su) \<noteq> Inr True"
  shows "refuses (on_d I) (unless_declined su False prompt m)"
proof -
  have "fst (confirm su p s) \<noteq> Inr True" for p s
    using assms(2) by (simp add: confirm_def run_thenE run_err run_lift)
  then have declined: "yields (on_d I) (confirm su p) (\<lambda>ok. \<not> ok)" for p
    by (auto simp: yields_def keeps_confirm)
  have "refuses (on_d I) (bindE (confirm su p) (\<lambda>ok. if ok then m else fail (Sentinel ErrAborted)))" for p
    by (rule refuses_bind [OF declined]) (simp add: refuses_fail)
  then show ?thesis
    unfolding unless_declined_def if_False by (rule refuses_after [OF assms(1)])
qed

lemma reads_has_volumes:
  assumes "kept_by_reads I c" "ap_client a = c"
  shows "keeps (on_d I) (has_volumes a)"
proof -
  have any: "keeps (on_d I) (any_exists a refs)" for refs
    by (induction refs) (auto intro!: keeps_intros reads_calls [OF assms] simp: split: prod.splits)
  show ?thesis unfolding has_volumes_def by (intro keeps_intros reads_calls [OF assms] any)
qed

lemma reads_destroy_prompt:
  assumes "kept_by_reads I c" "ap_client a = c"
  shows "keeps (on_d I) (destroy_prompt a volumes)"
  unfolding destroy_prompt_def by (intro keeps_intros reads_has_volumes [OF assms])

lemma kept_by_reads_conj:
  "kept_by_reads I c \<Longrightarrow> kept_by_reads K c \<Longrightarrow> kept_by_reads (\<lambda>w. I w \<and> K w) c"
  unfolding kept_by_reads_def by (simp add: keeps_conj)

lemma asks_first:
  assumes "cmd \<in> {CmdDestroy False volumes, CmdRebuild False, CmdSnapshotRestore False n, CmdSnapshotDelete False n}"
    and "build_app su g Online s = (Inr a, s1)"
  shows "\<exists>prompt m. execute su g cmd s = unless_declined su False prompt m s1
    \<and> (prompt = destroy_prompt a volumes \<or> (\<exists>p. prompt = ret p))"
  using assms(1) unfolding insert_iff empty_iff
  by (elim disjE) (auto simp: destroy_body_def rebuild_body_def snapshot_restore_body_def
      snapshot_delete_body_def run_bindE assms(2))

text \<open>An offline command does not look at its client.\<close>

lemma on_host_map: "on_host (bindE m (\<lambda>a. ret (f a))) = bindE (on_host m) (\<lambda>a. ret (f a))"
  by (rule ext) (simp add: on_host_def bindE_def ret_def split: sum.splits prod.splits)

lemma new_app_client:
  "new_app (o'\<lparr>op_client := c\<rparr>) = bindE (new_app o') (\<lambda>a. ret (a\<lparr>ap_client := c\<rparr>))"
proof
  fix s
  show "new_app (o'\<lparr>op_client := c\<rparr>) s = bindE (new_app o') (\<lambda>a. ret (a\<lparr>ap_client := c\<rparr>)) s"
    by (auto simp: new_app_def run_bindE run_attempt run_ret run_fail Let_def split: sum.splits prod.splits)
qed


text \<open>The surroundings of a run in a project whose declaration could not be more plain.\<close>

definition root_fs :: file_system where
  "root_fs = \<lparr>fs_stat = (\<lambda>p. if p = ''/w'' then Inr Directory
       else if p = ''/w/.incus-dev/dev.yml'' then Inr Regular else Inl (NotExist ''no such file or directory'')),
     fs_lstat = (\<lambda>p. Some (NotExist ''no such file or directory'')), fs_eval_symlinks = Inr, fs_getwd = Inr ''/w''\<rparr>"

lemma root_fs_wd: "fs_getwd root_fs = Inr ''/w''"
  by (simp add: root_fs_def)

definition root_yaml :: yaml_lib where
  "root_yaml = \<lparr>yl_documents = (\<lambda>_. Some [True]),
     yl_json = (\<lambda>_. Inr (JObj (fmap_of_list [(''schema'', JNum ''1''),
       (''project'', JObj (fmap_of_list [(''name'', JStr ''web''), (''scope'', JStr ''name'')])),
       (''instance'', JObj (fmap_of_list [(''image'', JStr ''images:debian/12'')]))]))),
     yl_schema = (\<lambda>_. None)\<rparr>"

definition root_stat :: stat_fun where
  "root_stat p =
     (if p = ''/w'' then Inr \<lparr>fi_dir = True, fi_regular = False\<rparr>
      else if p = ''/w/.incus-dev/dev.yml'' then Inr \<lparr>fi_dir = False, fi_regular = True\<rparr>
      else Inl (Foreign ''no such file or directory''))"

definition root_surroundings :: "string \<Rightarrow> (fake, unit) surroundings" where
  "root_surroundings input =
     \<lparr>su_fs = root_fs, su_yaml = root_yaml, su_stat = root_stat, su_read_file = (\<lambda>_. Inr []),
      su_connect = (\<lambda>t. Inr fake_client), su_no_client = fake_client, su_host = ok_host,
      su_stdin = input, su_stdin_tty = True, su_stdout_tty = True, su_check_idmap = (\<lambda>u g. None),
      su_uid = 1000, su_gid = 1000, su_env = (\<lambda>k. None), su_now = zero_time, su_local = (\<lambda>t. t)\<rparr>"

definition plain_flags :: global_flags where
  "plain_flags = \<lparr>gf_verbose = False, gf_directory = [], gf_incus_project = []\<rparr>"

lemma root_built:
  "\<exists>a. build_app (root_surroundings input) plain_flags r s = (Inr a, s)
    \<and> ap_client a = fake_client \<and> ap_instance a = ''dev-web'' \<and> pj_name (cf_project (ap_cfg a)) = ''web''"
proof -
  have d: "discover root_fs ''/w'' = Inr \<lparr>pr_root = ''/w'', pr_config_path = ''/w/.incus-dev/dev.yml'',
      pr_shadowed_why = [], pr_shadowed = []\<rparr>" by code_simp
  have "case load root_yaml root_stat (\<lambda>_. Inr []) ''/w/.incus-dev/dev.yml'' of
      Inr c \<Rightarrow> pj_name (cf_project c) = ''web'' \<and> scope_or_default (cf_project c) = ScopeName | Inl _ \<Rightarrow> False"
    by code_simp
  then obtain c where c: "load root_yaml root_stat (\<lambda>_. Inr []) ''/w/.incus-dev/dev.yml'' = Inr c"
    "pj_name (cf_project c) = ''web''" "scope_or_default (cf_project c) = ScopeName"
    by (auto split: sum.splits)
  have "instance_name ''web'' = ''dev-web''" by code_simp
  then have "instance_name_for c b h = (Inr ''dev-web'', h)" for b and h :: unit
    using c by (simp add: instance_name_for_def ScopeName_def ScopePath_def ScopeBranch_def run_ret)
  then show ?thesis
    using d c by (cases r) (simp_all add: build_app_def options_for_def root_surroundings_def plain_flags_def root_fs_def [symmetric]
        run_bindE run_thenE run_when run_lift run_ret run_on_host new_app_def run_attempt Let_def getenv_def
        root_fs_wd)
qed


section \<open>Properties\<close>

text \<open>C27: declining is safe. Without \<open>--force\<close>, when the answer is not a yes, or nobody is there to give
  one, \<open>destroy\<close>, \<open>rebuild\<close>, \<open>snapshot restore\<close> and \<open>snapshot delete\<close> end in an error with every instance,
  volume and snapshot as it was.\<close>

theorem declined_changes_nothing:
  fixes su :: "(fake, 'h) surroundings"
  assumes "su_connect su = (\<lambda>t. Inr fake_client)"
    and "confirm_answer (su_stdin su) (su_stdin_tty su) \<noteq> Inr True"
    and "cmd \<in> {CmdDestroy False volumes, CmdRebuild False, CmdSnapshotRestore False n, CmdSnapshotDelete False n}"
  shows "isl (fst (execute su g cmd s))
    \<and> instance_view (se_daemon (snd (execute su g cmd s))) = instance_view (se_daemon s)
    \<and> volume_view (se_daemon (snd (execute su g cmd s))) = volume_view (se_daemon s)
    \<and> fk_snapshots (se_daemon (snd (execute su g cmd s))) = fk_snapshots (se_daemon s)"
proof (cases "build_app su g Online s")
  case (Pair r s1)
  let ?I = "\<lambda>w. (instance_view w = instance_view (se_daemon s) \<and> volume_view w = volume_view (se_daemon s))
    \<and> snapshots_are (fk_snapshots (se_daemon s)) (fk_snapshot_config (se_daemon s)) w"
  have kept: "?I (se_daemon s1)"
    using keepsD [OF keeps_build_app [of ?I su g Online], of s] Pair by simp
  show ?thesis
  proof (cases r)
    case (Inl e)
    then have "execute su g cmd s = (Inl e, s1)"
      using assms(3) Pair
      by (auto simp: destroy_body_def rebuild_body_def snapshot_restore_body_def snapshot_delete_body_def run_bindE)
    then show ?thesis using kept by simp
  next
    case (Inr a)
    have client: "ap_client a = fake_client" using built_client [OF _ assms(1)] Pair Inr by simp
    have reads: "kept_by_reads ?I fake_client"
      by (rule kept_by_reads_conj [OF fk.same_reads snapshots_reads])
    obtain prompt m where m: "execute su g cmd s = unless_declined su False prompt m s1"
      "prompt = destroy_prompt a volumes \<or> (\<exists>p. prompt = ret p)"
      using asks_first [OF assms(3) Pair [unfolded Inr]] by blast
    have "keeps (on_d ?I) prompt"
      using m(2) reads_destroy_prompt [OF reads client, of volumes] by (auto simp: keeps_ret)
    then have "refuses (on_d ?I) (unless_declined su False prompt m)"
      by (rule declined_refuses [OF _ assms(2)])
    then show ?thesis using m(1) kept keepsD [of "on_d ?I" "unless_declined su False prompt m" s1]
      by (auto simp: refuses_def)
  qed
qed

theorem declined_changes_nothing_witness:
  "execute (root_surroundings []) plain_flags (CmdRebuild False) sample_session
     = (Inl (Sentinel ErrAborted), sample_session\<lparr>se_err := [''Destroy and recreate instance dev-web? [y/N]: '']\<rparr>)
   \<and> volume_view (se_daemon (snd (execute (root_surroundings []) plain_flags (CmdDestroy False True) sample_session)))
     = volume_view sample_daemon"
proof
  have ans: "confirm_answer [] True = Inr False" by (simp add: confirm_answer_def)
  obtain a where a: "build_app (root_surroundings []) plain_flags Online sample_session = (Inr a, sample_session)"
    "ap_instance a = ''dev-web''" using root_built by blast
  have su: "su_stdin (root_surroundings i) = i" "su_stdin_tty (root_surroundings i)"
    "su_connect (root_surroundings i) = (\<lambda>t. Inr fake_client)" for i
    by (simp_all add: root_surroundings_def)
  show "execute (root_surroundings []) plain_flags (CmdRebuild False) sample_session
     = (Inl (Sentinel ErrAborted), sample_session\<lparr>se_err := [''Destroy and recreate instance dev-web? [y/N]: '']\<rparr>)"
    using a ans by (simp add: rebuild_body_def unless_declined_def confirm_def su run_bindE run_thenE run_err run_lift
        run_fail run_ret) (simp add: new_session_def)
  show "volume_view (se_daemon (snd (execute (root_surroundings []) plain_flags (CmdDestroy False True) sample_session)))
     = volume_view sample_daemon"
    using declined_changes_nothing [of "root_surroundings []" "CmdDestroy False True" True "[]" plain_flags
        sample_session] ans by (simp add: su new_session_def)
qed

text \<open>\<open>validate\<close> and \<open>provision --list\<close> need no Incus: what they do does not depend on whether one can be
  reached, nor on any client.\<close>

theorem offline_needs_no_incus:
  fixes su :: "('d, 'h) surroundings"
  assumes "cmd = CmdValidate \<or> cmd = CmdProvision True sel"
  shows "execute (su\<lparr>su_connect := connect, su_no_client := client\<rparr>) g cmd = execute su g cmd"
proof -
  let ?su = "su\<lparr>su_connect := connect, su_no_client := client\<rparr>"
  have opts: "options_for ?su g Offline proj cfg c = (options_for su g Offline proj cfg c')\<lparr>op_client := c\<rparr>" for proj cfg c c'
    by (simp add: options_for_def getenv_def)
  have build: "build_app ?su g Offline = bindE (build_app su g Offline) (\<lambda>a. ret (a\<lparr>ap_client := client\<rparr>))"
    by (rule ext) (simp add: build_app_def opts [of _ _ _ "su_no_client su"] new_app_client on_host_map run_bindE
        run_thenE run_when run_lift run_ret run_log split: sum.splits prod.splits)
  have same: "validate_command (a\<lparr>ap_client := client\<rparr>) = validate_command a"
    "list_steps (a\<lparr>ap_client := client\<rparr>) = list_steps a" for a
    by (simp_all add: validate_command_def list_steps_def cong: option.case_cong)
  have offline: "bindE (build_app ?su g Offline) k = bindE (build_app su g Offline) k"
    if "\<And>a. k (a\<lparr>ap_client := client\<rparr>) = k a" for k :: "('d, 'h) app \<Rightarrow> ('d, 'h, unit) run"
    unfolding build by (rule ext) (simp add: run_bindE run_ret that split: sum.splits prod.splits)
  from offline [of validate_command, OF same(1)] offline [of list_steps, OF same(2)] show ?thesis
    using assms by (auto simp: validate_body_def provision_body_def)
qed

theorem offline_needs_no_incus_witness:
  "execute ((root_surroundings [])\<lparr>su_connect := (\<lambda>t. Inl (Foreign ''no daemon'')), su_no_client := fake_client\<rparr>)
     plain_flags CmdValidate = execute (root_surroundings []) plain_flags CmdValidate"
  by (rule offline_needs_no_incus [of CmdValidate select_all]) simp

text \<open>C26: no command of the program touches an instance of somebody else. Whatever command is given, when
  the instance under the name derived for the project is not managed by it, every instance is afterwards
  exactly as it was and no volume has been deleted, under any fault of the daemon.\<close>

theorem no_command_touches_foreign:
  fixes su :: "(fake, 'h) surroundings"
  assumes "su_connect su = (\<lambda>t. Inr fake_client)"
    and "build_app su g Online s = (Inr a, s1)"
    and "instance_view (se_daemon s) (ap_instance a) = Some i"
    and "\<not> is_managed_by (ii_config i) (pj_name (cf_project (ap_cfg a)))"
  shows "instance_view (se_daemon (snd (execute su g cmd s))) = instance_view (se_daemon s)
    \<and> volume_view (se_daemon s) \<subseteq> volume_view (se_daemon (snd (execute su g cmd s)))"
proof -
  let ?I = "standing instance_view volume_view (instance_view (se_daemon s)) (volume_view (se_daemon s))"
  have client: "ap_client a = fake_client" using built_client [OF assms(2,1)] .
  note refused = fk.command_refuses [where x = "instance_view (se_daemon s)", OF client assms(3,4), THEN refuses_keeps]
  note snaps = fk.managed_instance_refuses [where x = "instance_view (se_daemon s)", OF client assms(3,4),
      THEN refuses_bind_first, THEN refuses_keeps]
  note reads = fk.standing_kept [of "instance_view (se_daemon s)" "volume_view (se_daemon s)"]
  have offline: "keeps (on_d ?I) (validate_command x)" "keeps (on_d ?I) (list_steps x)" for x :: "(fake, 'h) app"
    unfolding validate_command_def list_steps_def by (intro keeps_intros)+
  have lists: "keeps (on_d ?I) (list_snapshots a l)" for l
    unfolding list_snapshots_def by (rule snaps)
  have snapshot: "keeps (on_d ?I) (create_snapshot a t n)" "keeps (on_d ?I) (restore_snapshot a n)"
    "keeps (on_d ?I) (delete_snapshot a n)" for t n
    unfolding create_snapshot_def restore_snapshot_def delete_snapshot_def by (rule snaps)+
  note kept = refused snapshot lists reads_plan_command [OF reads client] reads_status [OF reads client]
    keeps_unless_declined [OF reads_destroy_prompt [OF reads client]] keeps_unless_declined [OF keeps_ret]
  have "?I (se_daemon s)" by (rule fk.standing_now)
  then have on: "?I (se_daemon (snd (bindE (build_app su g Online) f s)))" if "keeps (on_d ?I) (f a)" for f
    using built_keeps [OF assms(2), of ?I f] that by blast
  have off: "?I (se_daemon (snd (bindE (build_app su g Offline) f s)))" if "\<And>x. keeps (on_d ?I) (f x)" for f
  proof -
    have "keeps (on_d ?I) (bindE (build_app su g Offline) f)" by (intro keeps_bindE keeps_build_app that)
    then show ?thesis by (rule keepsD) (rule fk.standing_now)
  qed
  have "?I (se_daemon (snd (execute su g cmd s)))"
    by (cases cmd) (auto simp: up_body_def provision_body_def shell_body_def exec_body_def status_body_def
        ip_body_def destroy_body_def rebuild_body_def snapshot_create_body_def snapshot_list_body_def
        snapshot_restore_body_def snapshot_delete_body_def validate_body_def app_exec_def app_shell_def
        run_fail fk.standing_now offline intro!: on off kept)
  then show ?thesis by (simp add: standing_def)
qed

theorem no_command_touches_foreign_witness:
  "instance_view (se_daemon (snd (execute (root_surroundings ''y'') plain_flags (CmdDestroy True True)
      (new_session (sample_daemon\<lparr>fk_instances := fmap_of_list [(''dev-web'', sample_instance ''dev-web'' fmempty)]\<rparr>) ()))))
      ''dev-web'' \<noteq> None"
proof -
  let ?d = "sample_daemon\<lparr>fk_instances := fmap_of_list [(''dev-web'', sample_instance ''dev-web'' fmempty)]\<rparr>"
  obtain a where a: "build_app (root_surroundings ''y'') plain_flags Online (new_session ?d ()) = (Inr a, new_session ?d ())"
    "ap_instance a = ''dev-web''" "pj_name (cf_project (ap_cfg a)) = ''web''" using root_built by blast
  obtain i where i: "instance_view ?d ''dev-web'' = Some i" "ii_config i = fmempty"
    by (simp add: instance_view_def sample_instance_def)
  have "\<not> is_managed_by fmempty ''web''" by (simp add: is_managed_by_def get_str_def)
  then show ?thesis
    using no_command_touches_foreign [of "root_surroundings ''y''" plain_flags "new_session ?d ()" a "new_session ?d ()" i
        "CmdDestroy True True"] a i
    by (simp add: root_surroundings_def) (simp add: new_session_def)
qed

end
