(* ===== verification/Server.thy ===== *)
theory Server
  imports Wait Complex_Main "HOL-Library.Word"
begin

text \<open>
  The daemon's side of \<open>internal/incus/api.go\<close>: the values of the Incus API as far as idev names their
  fields, and the interface \<open>server\<close>, the calls idev makes, as a record over the daemon's world \<open>'s\<close>
  with a clock. The Incus library behind it is not part of the repository: the record's fields are
  parameters. \<open>'o\<close> is an operation running in the daemon, \<open>'g\<close> an image together with the server it
  comes from.

  The locale \<open>incus_server\<close> states what the REST API documents of the calls. It is interpreted at the
  end on a daemon in memory whose operations take effect when they are waited for, with etags, pools
  and injected faults.
\<close>


section \<open>Values of the API\<close>

record api_address =
  aa_family :: string
  aa_address :: string
  aa_scope :: string

text \<open>The writable part of an instance. A Go map or slice that may be nil is an option; \<open>ip_other\<close> stands
  for the fields idev only sends back as it read them.\<close>

record instance_put =
  ip_config :: "string gomap option"
  ip_devices :: "device gomap option"
  ip_profiles :: "string list option"
  ip_restore :: string
  ip_other :: "string gomap"

definition zero_put :: instance_put where
  "zero_put = \<lparr>ip_config = None, ip_devices = None, ip_profiles = None, ip_restore = [], ip_other = fmempty\<rparr>"

definition or_empty :: "'v gomap option \<Rightarrow> 'v gomap" where
  "or_empty m = (case m of None \<Rightarrow> fmempty | Some x \<Rightarrow> x)"

record api_instance =
  ai_name :: string
  ai_status :: string
  ai_put :: instance_put

record instance_full = api_instance +
  if_last_used :: go_time
  if_expanded :: "device gomap"
  if_state :: "api_address list gomap option"

record instances_post =
  po_name :: string
  po_put :: instance_put
  po_alias :: string

record state_put =
  sp_action :: string
  sp_force :: bool
  sp_timeout :: int

record exec_post =
  ep_command :: "string list"
  ep_environment :: "string gomap"
  ep_wait_for_ws :: bool
  ep_cwd :: string
  ep_user :: "32 word"
  ep_group :: "32 word"
  ep_interactive :: bool
  ep_width :: int
  ep_height :: int

record volumes_post =
  vp_name :: string
  vp_type :: string
  vp_config :: "string gomap"

text \<open>What a finished operation carries under a key of its metadata: a JSON number is a \<open>float64\<close>, which
  is a rational.\<close>

datatype meta_value = MFloat rat | MInt int | MOther


section \<open>The calls\<close>

text \<open>
  A call that starts an operation answers with it; \<open>sv_wait\<close> is \<open>WaitContext\<close>. \<open>sv_await\<close> is a \<open>select\<close>
  between the answer of \<open>Wait\<close> and the end of the context: \<open>None\<close> when the context was first.
  \<open>sv_data\<close> is such a \<open>select\<close> on the end of the output, which it carries, and \<open>sv_signal_sent\<close> the
  instant the control connection reports an interruption as sent. \<open>sv_status\<close> is
  \<open>api.StatusErrorCheck\<close>.
\<close>

record ('s, 'o, 'g) server =
  sv_get_full :: "string \<Rightarrow> ('s timed, err, instance_full \<times> string) op"
  sv_get :: "string \<Rightarrow> ('s timed, err, api_instance \<times> string) op"
  sv_list :: "('s timed, err, api_instance list) op"
  sv_create :: "'g \<Rightarrow> instances_post \<Rightarrow> ('s timed, err, 'o) op"
  sv_update :: "string \<Rightarrow> instance_put \<Rightarrow> string \<Rightarrow> ('s timed, err, 'o) op"
  sv_update_state :: "string \<Rightarrow> state_put \<Rightarrow> string \<Rightarrow> ('s timed, err, 'o) op"
  sv_delete :: "string \<Rightarrow> ('s timed, err, 'o) op"
  sv_exec :: "string \<Rightarrow> exec_post \<Rightarrow> string option \<Rightarrow> ('s timed, err, 'o) op"
  sv_kernel_features :: "('s timed, err, string gomap) op"
  sv_profile_names :: "('s timed, err, string list) op"
  sv_get_volume :: "string \<Rightarrow> string \<Rightarrow> string \<Rightarrow> ('s timed, err, unit) op"
  sv_create_volume :: "string \<Rightarrow> volumes_post \<Rightarrow> ('s timed, err, unit) op"
  sv_delete_volume :: "string \<Rightarrow> string \<Rightarrow> string \<Rightarrow> ('s timed, err, unit) op"
  sv_snapshots :: "string \<Rightarrow> ('s timed, err, snapshot list) op"
  sv_create_snapshot :: "string \<Rightarrow> string \<Rightarrow> ('s timed, err, 'o) op"
  sv_delete_snapshot :: "string \<Rightarrow> string \<Rightarrow> ('s timed, err, 'o) op"
  sv_wait :: "'o \<Rightarrow> ('s timed, err, unit) op"
  sv_await :: "'o \<Rightarrow> 's timed \<Rightarrow> (err + unit) option \<times> 's timed"
  sv_cancel_target :: "'o \<Rightarrow> 's timed \<Rightarrow> 's timed"
  sv_data :: "'o \<Rightarrow> 's timed \<Rightarrow> string option \<times> 's timed"
  sv_metadata :: "'o \<Rightarrow> 's timed \<Rightarrow> meta_value option"
  sv_signal_sent :: "'o \<Rightarrow> 's timed \<Rightarrow> nat option"
  sv_status :: "err \<Rightarrow> int \<Rightarrow> bool"

text \<open>The text of a 404 tells what it is about.\<close>

definition missing_pool :: "err \<Rightarrow> bool" where
  "missing_pool e \<longleftrightarrow> contains_str (err_text e) ''Storage pool not found''"

definition missing_scope :: "err \<Rightarrow> bool" where
  "missing_scope e \<longleftrightarrow> contains_str (err_text e) ''Project not found'' \<or> missing_pool e"

definition canceled :: err where "canceled = Sentinel ErrCanceled"

text \<open>\<open>waitOp\<close> and \<open>waitDelete\<close>.\<close>

definition wait_op :: "('s, 'o, 'g) server \<Rightarrow> 'o \<Rightarrow> ('s timed, err, unit) op" where
  "wait_op sv oper = (\<lambda>t. case sv_await sv oper t of
       (Some r, t1) \<Rightarrow> (r, t1)
     | (None, t1) \<Rightarrow> (Inl canceled, sv_cancel_target sv oper t1))"

definition wait_delete :: "('s, 'o, 'g) server \<Rightarrow> 'o \<Rightarrow> ('s timed, err, unit) op" where
  "wait_delete sv oper = (\<lambda>t. case sv_await sv oper t of
       (Some r, t1) \<Rightarrow> (r, t1)
     | (None, t1) \<Rightarrow> (Inl (Errorf ''%w: %w'' [W canceled, W (Sentinel ErrOutcomeUnknown)]), t1))"

text \<open>The end of the output, or the interruption.\<close>

definition wait_data :: "('s, 'o, 'g) server \<Rightarrow> 'o \<Rightarrow> ('s timed, err, string) op" where
  "wait_data sv oper = (\<lambda>t. case sv_data sv oper t of
       (Some out, t1) \<Rightarrow> (Inr out, t1) | (None, t1) \<Rightarrow> (Inl canceled, t1))"


section \<open>What the API documents\<close>

text \<open>
  \<open>hv\<close> is what the daemon holds under each name, with its etag; \<open>vv\<close> the custom volumes, named
  \<open>pool/name\<close>; \<open>own\<close> the configuration keys the daemon writes for itself (\<open>volatile.*\<close>, \<open>image.*\<close>).
  As in the locale \<open>daemon\<close>, nobody else writes between two calls.
\<close>

abbreviation held :: "('s \<Rightarrow> 'x) \<Rightarrow> 's timed \<Rightarrow> 'x" where
  "held v t \<equiv> v (tw_world t)"

definition same_instance :: "(string \<Rightarrow> bool) \<Rightarrow> instance_put \<Rightarrow> instance_put \<Rightarrow> bool" where
  "same_instance own a b \<longleftrightarrow> same_settings own (or_empty (ip_config a)) (or_empty (ip_config b))
     \<and> or_empty (ip_devices a) = or_empty (ip_devices b)"

locale incus_server =
  fixes sv :: "('s, 'o, 'g) server"
    and hv :: "'s \<Rightarrow> string \<Rightarrow> (instance_full \<times> string) option"
    and vv :: "'s \<Rightarrow> string set"
    and own :: "string \<Rightarrow> bool"
  assumes get_full_reads: "reads_only (held hv) (held vv) (sv_get_full sv n)"
    and get_reads: "reads_only (held hv) (held vv) (sv_get sv n)"
    and sv_list_reads: "reads_only (held hv) (held vv) (sv_list sv)"
    and features_reads: "reads_only (held hv) (held vv) (sv_kernel_features sv)"
    and sv_profiles_reads: "reads_only (held hv) (held vv) (sv_profile_names sv)"
    and get_volume_reads: "reads_only (held hv) (held vv) (sv_get_volume sv p ty v)"
    and sv_snapshots_reads: "reads_only (held hv) (held vv) (sv_snapshots sv n)"
    and snapshot_reads: "reads_only (held hv) (held vv) (bindE (sv_create_snapshot sv n x) (sv_wait sv))"
    and unsnapshot_reads: "reads_only (held hv) (held vv) (bindE (sv_delete_snapshot sv n x) (sv_wait sv))"
    and exec_starts: "reads_only (held hv) (held vv) (sv_exec sv n req stdin)"
    and exec_waits: "sv_exec sv n req stdin t = (Inr oper, t1) \<Longrightarrow>
      reads_only (held hv) (held vv) (sv_wait sv oper) \<and> reads_only (held hv) (held vv) (wait_data sv oper)"
    and sv_create_frame: "only_instance (held hv) (held vv) (po_name post) (bindE (sv_create sv g post) (wait_op sv))"
    and sv_update_frame: "only_instance (held hv) (held vv) n (bindE (sv_update sv n put et) (sv_wait sv))"
    and sv_state_frame: "only_instance (held hv) (held vv) n (bindE (sv_update_state sv n sp et) (sv_wait sv))"
    and sv_delete_frame: "only_instance (held hv) (held vv) n (bindE (sv_delete sv n) (wait_delete sv))"
    and get_full_ok: "sv_get_full sv n t = (Inr (f, tag), t') \<Longrightarrow> held hv t n = Some (f, tag)"
    and get_ok: "sv_get sv n t = (Inr (i, tag), t') \<Longrightarrow> \<exists>f. held hv t n = Some (f, tag) \<and> ai_put i = ai_put f \<and> ip_restore (ai_put i) = []"
    and sv_create_ok: "bindE (sv_create sv g post) (wait_op sv) t = (Inr u, t') \<Longrightarrow>
      held hv t (po_name post) = None
      \<and> (\<exists>f tag. held hv t' (po_name post) = Some (f, tag) \<and> ai_status f = ''Stopped''
           \<and> same_instance own (ai_put f) (po_put post))"
    and sv_create_refused: "held hv t (po_name post) = Some (f, tag) \<Longrightarrow>
      (\<exists>e. fst (bindE (sv_create sv g post) (wait_op sv) t) = Inl e)
      \<and> held hv (snd (bindE (sv_create sv g post) (wait_op sv) t)) = held hv t"
    and sv_started: "bindE (sv_update_state sv n sp et) (sv_wait sv) t = (Inr u, t') \<Longrightarrow> sp_action sp = ''start'' \<Longrightarrow>
      \<exists>f tag. held hv t' n = Some (f, tag) \<and> ai_status f = ''Running''"
    and sv_state_ok: "held hv t n = Some (f, tag) \<Longrightarrow>
      \<exists>f' tag'. held hv (snd (bindE (sv_update_state sv n sp et) (sv_wait sv) t)) n = Some (f', tag')
        \<and> same_instance own (ai_put f') (ai_put f)"
    and sv_delete_ok: "bindE (sv_delete sv n) (wait_delete sv) t = (Inr u, t') \<Longrightarrow> held hv t' n = None"
    and sv_delete_refused: "bindE (sv_delete sv n) (wait_delete sv) t = (Inl e, t') \<Longrightarrow>
      \<not> errors_is e ErrOutcomeUnknown \<Longrightarrow> held hv t' n = held hv t n"
    and sv_update_ok: "bindE (sv_update sv n put et) (sv_wait sv) t = (Inr u, t') \<Longrightarrow> ip_restore put = [] \<Longrightarrow>
      \<exists>f tag f' tag'. held hv t n = Some (f, tag) \<and> (et = [] \<or> et = tag)
        \<and> held hv t' n = Some (f', tag') \<and> same_instance own (ai_put f') put"
    and sv_update_stale: "held hv t n = Some (f, tag) \<Longrightarrow> et \<noteq> [] \<Longrightarrow> et \<noteq> tag \<Longrightarrow>
      \<exists>e t'. sv_update sv n put et t = (Inl e, t') \<and> held hv t' = held hv t"
    and get_volume_ok: "sv_get_volume sv p ''custom'' v t = (Inr u, t') \<Longrightarrow> ref_of p v \<in> held vv t"
    and get_volume_missing: "sv_get_volume sv p ''custom'' v t = (Inl e, t') \<Longrightarrow> sv_status sv e 404 \<Longrightarrow>
      \<not> missing_scope e \<Longrightarrow> ref_of p v \<notin> held vv t"
    and sv_create_volume_frame: "held hv (snd (sv_create_volume sv p vol t)) = held hv t"
    and sv_create_volume_adds: "vp_type vol = ''custom'' \<Longrightarrow>
      held vv t \<subseteq> held vv (snd (sv_create_volume sv p vol t))
      \<and> held vv (snd (sv_create_volume sv p vol t)) \<subseteq> insert (ref_of p (vp_name vol)) (held vv t)"
    and sv_create_volume_ok: "sv_create_volume sv p vol t = (Inr u, t') \<Longrightarrow> vp_type vol = ''custom'' \<Longrightarrow>
      ref_of p (vp_name vol) \<notin> held vv t \<and> ref_of p (vp_name vol) \<in> held vv t'"
    and sv_delete_volume_frame: "held hv (snd (sv_delete_volume sv p ty v t)) = held hv t"
    and sv_delete_volume_removes:
      "held vv t - {ref_of p v} \<subseteq> held vv (snd (sv_delete_volume sv p ''custom'' v t))
       \<and> held vv (snd (sv_delete_volume sv p ''custom'' v t)) \<subseteq> held vv t"
    and sv_delete_volume_ok: "sv_delete_volume sv p ''custom'' v t = (Inr u, t') \<Longrightarrow>
      ref_of p v \<in> held vv t \<and> ref_of p v \<notin> held vv t'"

text \<open>The keys Incus keeps for itself.\<close>

definition daemon_key :: "string \<Rightarrow> bool" where
  "daemon_key k \<longleftrightarrow> has_prefix k ''volatile.'' \<or> has_prefix k ''image.''"

end
