(* ===== verification/Api.thy ===== *)
theory Api
  imports Server
begin

text \<open>
  Models \<open>internal/incus/api.go\<close>: the \<open>Client\<close> that calls the Incus API, operation by operation over
  the record of calls of the theory \<open>Server\<close>. The state of a client is the daemon's world with the
  clock, what it has logged, the images it has resolved, and the terminal of the host: whether it is in
  raw mode, and how many watch its size.
\<close>


section \<open>The client and its state\<close>

datatype log_value = LStr string | LStrs "string list" | LBool bool

type_synonym log_entry = "string \<times> (string \<times> log_value) list"

record ('s, 'g) api_world =
  aw_server :: 's
  aw_log :: "log_entry list"
  aw_images :: "'g gomap"
  aw_raw :: bool
  aw_watchers :: nat

type_synonym ('s, 'g) api_state = "('s, 'g) api_world timed"

text \<open>The host terminal: the failure of raw mode, if it fails, and the size, if it can be read.\<close>

record console =
  co_make_raw :: "err option"
  co_size :: "err + int \<times> int"

record ('s, 'o, 'g) api =
  api_server :: "('s, 'o, 'g) server"
  api_resolve :: "string \<Rightarrow> (('s, 'g) api_state, err, 'g) op"
  api_alias :: "string \<Rightarrow> err + string \<times> string"
  api_console :: console
  api_logger :: bool
  api_duration :: "int \<Rightarrow> string"

definition server_side :: "('s, 'g) api_state \<Rightarrow> 's timed" where
  "server_side t = \<lparr>tw_world = aw_server (tw_world t), tw_now = tw_now t, tw_cancel = tw_cancel t\<rparr>"

definition with_server :: "'s timed \<Rightarrow> ('s, 'g) api_state \<Rightarrow> ('s, 'g) api_state" where
  "with_server u t = t\<lparr>tw_world := (tw_world t)\<lparr>aw_server := tw_world u\<rparr>,
     tw_now := tw_now u, tw_cancel := tw_cancel u\<rparr>"

definition on_server :: "('s timed, 'e, 'a) op \<Rightarrow> (('s, 'g) api_state, 'e, 'a) op" where
  "on_server m = (\<lambda>t. case m (server_side t) of (r, u) \<Rightarrow> (r, with_server u t))"

definition api_log :: "('s, 'o, 'g) api \<Rightarrow> string \<Rightarrow> (string \<times> log_value) list
  \<Rightarrow> (('s, 'g) api_state, err, unit) op" where
  "api_log a what args =
     when_op (api_logger a)
       (modify (\<lambda>t. t\<lparr>tw_world := (tw_world t)\<lparr>aw_log := aw_log (tw_world t) @ [(''incus '' @ what, args)]\<rparr>\<rparr>))"

text \<open>An error wrapped on its way out.\<close>

definition wrap :: "('e \<Rightarrow> 'e) \<Rightarrow> ('s, 'e, 'a) op \<Rightarrow> ('s, 'e, 'a) op" where
  "wrap w m = on_error m (\<lambda>e. fail (w e))"


section \<open>Reading\<close>

definition API_ListInstances :: "('s, 'o, 'g) api \<Rightarrow> (('s, 'g) api_state, err, incus_instance list) op" where
  "API_ListInstances a =
     bindE (wrap (\<lambda>e. Errorf ''list instances: %w'' [W e]) (on_server (sv_list (api_server a)))) (\<lambda>is.
       ret (map (\<lambda>i. \<lparr>ii_name = ai_name i, ii_status = ai_status i, ii_last_used = zero_time,
              ii_profiles = [], ii_config = or_empty (ip_config (ai_put i)), ii_devices = fmempty,
              ii_expanded = fmempty, ii_network = None, ii_etag = []\<rparr>) is))"

definition convert_address :: "api_address \<Rightarrow> network_address" where
  "convert_address x = \<lparr>na_family = aa_family x, na_address = aa_address x, na_scope = aa_scope x\<rparr>"

definition convert_devices :: "device gomap \<Rightarrow> device gomap" where
  "convert_devices m = map_from (sorted_keys m) (\<lambda>k. case fmlookup m k of None \<Rightarrow> fmempty | Some d \<Rightarrow> d)"

definition convert_instance :: "instance_full \<Rightarrow> incus_instance" where
  "convert_instance f =
     \<lparr>ii_name = ai_name f, ii_status = ai_status f, ii_last_used = if_last_used f,
      ii_profiles = (case ip_profiles (ai_put f) of None \<Rightarrow> [] | Some ps \<Rightarrow> ps),
      ii_config = or_empty (ip_config (ai_put f)),
      ii_devices = convert_devices (or_empty (ip_devices (ai_put f))),
      ii_expanded = convert_devices (if_expanded f),
      ii_network = map_option (\<lambda>net. map_from (sorted_keys net) (\<lambda>k.
        case fmlookup net k of None \<Rightarrow> [] | Some as \<Rightarrow> map convert_address as)) (if_state f),
      ii_etag = []\<rparr>"

text \<open>Whether an error of a lookup says that the instance is not there.\<close>

definition says_missing :: "('s, 'o, 'g) api \<Rightarrow> err \<Rightarrow> bool" where
  "says_missing a e \<longleftrightarrow> sv_status (api_server a) e 404 \<and> \<not> missing_scope e"

definition get_error :: "('s, 'o, 'g) api \<Rightarrow> string \<Rightarrow> err \<Rightarrow> err" where
  "get_error a n e =
     (if says_missing a e then not_found n else Errorf ''get instance %s: %w'' [S n, W e])"

definition API_Instance :: "('s, 'o, 'g) api \<Rightarrow> string \<Rightarrow> (('s, 'g) api_state, err, incus_instance) op" where
  "API_Instance a n =
     bindE (wrap (get_error a n) (on_server (sv_get_full (api_server a) n))) (\<lambda>(full, etag).
       ret ((convert_instance full)\<lparr>ii_etag := etag\<rparr>))"

definition API_SupportsIDMappedMounts :: "('s, 'o, 'g) api \<Rightarrow> (('s, 'g) api_state, err, bool) op" where
  "API_SupportsIDMappedMounts a =
     bindE (wrap (\<lambda>e. Errorf ''read the server info: %w'' [W e]) (on_server (sv_kernel_features (api_server a))))
       (\<lambda>features. ret (case fmlookup features ''idmapped_mounts'' of
            None \<Rightarrow> True | Some v \<Rightarrow> v = ''true''))"

definition API_ProfileNames :: "('s, 'o, 'g) api \<Rightarrow> (('s, 'g) api_state, err, string list) op" where
  "API_ProfileNames a =
     wrap (\<lambda>e. Errorf ''list profiles: %w'' [W e]) (on_server (sv_profile_names (api_server a)))"

definition API_CheckImage :: "('s, 'o, 'g) api \<Rightarrow> string \<Rightarrow> (('s, 'g) api_state, err, unit) op" where
  "API_CheckImage a ref = bindE (api_resolve a ref) (\<lambda>_. ret ())"


section \<open>Changing instances\<close>

definition to_api_devices :: "device gomap \<Rightarrow> device gomap" where
  "to_api_devices m = map_from (sorted_keys m) (\<lambda>k. case fmlookup m k of None \<Rightarrow> fmempty | Some d \<Rightarrow> d)"

definition entry_exists :: "string \<Rightarrow> string" where
  "entry_exists table = ''This '' @ CHR 0x22 # table @ CHR 0x22 # '' entry already exists''"

definition create_error :: "string \<Rightarrow> err \<Rightarrow> err" where
  "create_error n e =
     (if contains_str (err_text e) (entry_exists ''instances'')
      then Errorf (''create instance %s: %w; another '' @ [CHR 0x27] @ ''idev up'' @ [CHR 0x27]
             @ '' is creating it, or it was created since this run started'')
             [S n, W (Sentinel ErrInstanceExists)]
      else Errorf ''create instance %s: %w'' [S n, W e])"

text \<open>The request: only the alias goes with it. A list of profiles nobody set is nil.\<close>

definition create_request :: "instance_spec \<Rightarrow> string \<Rightarrow> instances_post" where
  "create_request spec alias =
     \<lparr>po_name = is_name spec,
      po_put = zero_put\<lparr>ip_config := Some (is_config spec), ip_devices := Some (to_api_devices (is_devices spec)),
        ip_profiles := (if is_no_profiles spec then Some []
          else if is_profiles spec = [] then None else Some (is_profiles spec))\<rparr>,
      po_alias = alias\<rparr>"

definition API_CreateInstance :: "('s, 'o, 'g) api \<Rightarrow> instance_spec \<Rightarrow> (('s, 'g) api_state, err, unit) op" where
  "API_CreateInstance a spec =
     bindE (api_resolve a (is_image spec)) (\<lambda>image.
     bindE (lift_result (api_alias a (is_image spec))) (\<lambda>(_, alias).
     thenE (api_log a ''create instance'' [(''name'', LStr (is_name spec)), (''image'', LStr (is_image spec))])
     (bindE (wrap (create_error (is_name spec))
               (on_server (sv_create (api_server a) image (create_request spec alias)))) (\<lambda>oper.
      wrap (create_error (is_name spec)) (on_server (wait_op (api_server a) oper))))))"

definition stop_timeout :: int where "stop_timeout = 30"

definition state_error :: "string \<Rightarrow> string \<Rightarrow> err \<Rightarrow> err" where
  "state_error action n e = Errorf ''%s instance %s: %w'' [S action, S n, W e]"

definition state_request :: "string \<Rightarrow> bool \<Rightarrow> state_put" where
  "state_request action force =
     \<lparr>sp_action = action, sp_force = force,
      sp_timeout = (if action = ''stop'' \<and> \<not> force then stop_timeout else - 1)\<rparr>"

definition change_state :: "('s, 'o, 'g) api \<Rightarrow> string \<Rightarrow> string \<Rightarrow> bool
  \<Rightarrow> (('s, 'g) api_state, err, unit) op" where
  "change_state a n action force =
     bindE get_state (\<lambda>t.
       if cancelled t then fail (state_error action n canceled)
       else
         thenE (api_log a (action @ '' instance'') [(''name'', LStr n), (''force'', LBool force)])
         (bindE (wrap (state_error action n)
                   (on_server (sv_update_state (api_server a) n (state_request action force) []))) (\<lambda>oper.
          wrap (state_error action n) (on_server (sv_wait (api_server a) oper)))))"

definition API_StartInstance :: "('s, 'o, 'g) api \<Rightarrow> string \<Rightarrow> (('s, 'g) api_state, err, unit) op" where
  "API_StartInstance a n = change_state a n ''start'' False"

definition force_stop :: "('s, 'o, 'g) api \<Rightarrow> string \<Rightarrow> (('s, 'g) api_state, err, unit) op" where
  "force_stop a n = change_state a n ''stop'' True"

definition API_StopInstance :: "('s, 'o, 'g) api \<Rightarrow> string \<Rightarrow> (('s, 'g) api_state, err, unit) op" where
  "API_StopInstance a n =
     bindE (API_Instance a n) (\<lambda>i.
       if is_stopped i then ret ()
       else on_error (change_state a n ''stop'' False) (\<lambda>e.
         bindE get_state (\<lambda>t. if cancelled t then fail e else force_stop a n)))"

definition delete_error :: "string \<Rightarrow> err \<Rightarrow> err" where
  "delete_error n e = Errorf ''delete instance %s: %w'' [S n, W e]"

definition API_DeleteInstance :: "('s, 'o, 'g) api \<Rightarrow> string \<Rightarrow> (('s, 'g) api_state, err, unit) op" where
  "API_DeleteInstance a n =
     bindE (API_Instance a n) (\<lambda>i.
     thenE (when_op (\<not> is_stopped i) (force_stop a n))
     (thenE (api_log a ''delete instance'' [(''name'', LStr n)])
     (bindE (wrap (delete_error n) (on_server (sv_delete (api_server a) n))) (\<lambda>oper.
      wrap (delete_error n) (on_server (wait_delete (api_server a) oper))))))"

text \<open>The change of an update, made to the writable part just read. A nil map is made first: writing to
  one panics.\<close>

definition apply_change :: "instance_change \<Rightarrow> instance_put \<Rightarrow> instance_put" where
  "apply_change ch put =
     put\<lparr>ip_config := Some (foldl (\<lambda>m k. fmdrop k m) (or_empty (ip_config put)) (ch_unset_config ch)
           ++\<^sub>f ch_set_config ch),
         ip_devices := Some (foldl (\<lambda>m d. fmdrop d m) (or_empty (ip_devices put)) (ch_remove_devices ch)
           ++\<^sub>f ch_set_devices ch)\<rparr>"

definition update_error :: "('s, 'o, 'g) api \<Rightarrow> string \<Rightarrow> err \<Rightarrow> err" where
  "update_error a n e =
     (if sv_status (api_server a) e 412
      then Errorf ''update instance %s: %w'' [S n, W (Sentinel ErrChanged)]
      else Errorf ''update instance %s: %w'' [S n, W e])"

definition update_instance :: "('s, 'o, 'g) api \<Rightarrow> string \<Rightarrow> string \<Rightarrow> (instance_put \<Rightarrow> instance_put)
  \<Rightarrow> (('s, 'g) api_state, err, unit) op" where
  "update_instance a n etag change =
     bindE (wrap (get_error a n) (on_server (sv_get (api_server a) n))) (\<lambda>(current, fresh).
     let put = (ai_put current)\<lparr>ip_config := Some (or_empty (ip_config (ai_put current)))\<rparr>
     in bindE (wrap (update_error a n) (on_server (sv_update (api_server a) n (change put)
                 (if etag = [] then fresh else etag)))) (\<lambda>oper.
        wrap (\<lambda>e. Errorf ''update instance %s: %w'' [S n, W e]) (on_server (sv_wait (api_server a) oper))))"

definition API_UpdateInstance :: "('s, 'o, 'g) api \<Rightarrow> string \<Rightarrow> instance_change \<Rightarrow> string
  \<Rightarrow> (('s, 'g) api_state, err, unit) op" where
  "API_UpdateInstance a n ch etag =
     (if change_is_empty ch then ret ()
      else
        thenE (when_op (ch_unset_config ch \<noteq> [])
          (api_log a ''unset config'' [(''name'', LStr n), (''keys'', LStrs (ch_unset_config ch))]))
        (thenE (when_op (fmdom (ch_set_config ch) \<noteq> {||})
          (api_log a ''set config'' [(''name'', LStr n), (''keys'', LStrs (sorted_keys (ch_set_config ch)))]))
        (thenE (when_op (ch_remove_devices ch \<noteq> [])
          (api_log a ''remove devices'' [(''name'', LStr n), (''devices'', LStrs (ch_remove_devices ch))]))
        (thenE (when_op (fmdom (ch_set_devices ch) \<noteq> {||})
          (api_log a ''set devices'' [(''name'', LStr n), (''devices'', LStrs (sorted_keys (ch_set_devices ch)))]))
        (update_instance a n etag (apply_change ch))))))"


section \<open>Volumes\<close>

definition storage_volume_type :: string where "storage_volume_type = ''custom''"

definition API_VolumeExists :: "('s, 'o, 'g) api \<Rightarrow> string \<Rightarrow> string \<Rightarrow> (('s, 'g) api_state, err, bool) op" where
  "API_VolumeExists a pool n =
     on_error (bindE (on_server (sv_get_volume (api_server a) pool storage_volume_type n)) (\<lambda>_. ret True)) (\<lambda>e.
       if sv_status (api_server a) e 404 \<and> missing_pool e
       then fail (Errorf ''storage pool %s: %w'' [S pool, W (Sentinel ErrPoolNotFound)])
       else if sv_status (api_server a) e 404 \<and> \<not> missing_scope e then ret False
       else fail (Errorf ''get storage volume %s on %s: %w'' [S n, S pool, W e]))"

definition API_CreateVolume :: "('s, 'o, 'g) api \<Rightarrow> string \<Rightarrow> string \<Rightarrow> string gomap
  \<Rightarrow> (('s, 'g) api_state, err, unit) op" where
  "API_CreateVolume a pool n cfg =
     thenE (api_log a ''create volume'' [(''pool'', LStr pool), (''name'', LStr n)])
       (wrap (\<lambda>e. Errorf ''create storage volume %s on %s: %w'' [S n, S pool, W e])
         (on_server (sv_create_volume (api_server a) pool
            \<lparr>vp_name = n, vp_type = storage_volume_type, vp_config = cfg\<rparr>)))"

definition API_DeleteVolume :: "('s, 'o, 'g) api \<Rightarrow> string \<Rightarrow> string \<Rightarrow> (('s, 'g) api_state, err, unit) op" where
  "API_DeleteVolume a pool n =
     thenE (api_log a ''delete volume'' [(''pool'', LStr pool), (''name'', LStr n)])
       (wrap (\<lambda>e. Errorf ''delete storage volume %s on %s: %w'' [S n, S pool, W e])
         (on_server (sv_delete_volume (api_server a) pool storage_volume_type n)))"


section \<open>Snapshots\<close>

definition snapshot_error :: "string \<Rightarrow> err \<Rightarrow> err" where
  "snapshot_error s e =
     (if contains_str (err_text e) (entry_exists ''instances_snapshots'')
      then Errorf ''create snapshot %s: %w'' [S s, W (Sentinel ErrSnapshotExists)]
      else Errorf ''create snapshot %s: %w'' [S s, W e])"

definition snapshot_args :: "string \<Rightarrow> string \<Rightarrow> (string \<times> log_value) list" where
  "snapshot_args n s = [(''instance'', LStr n), (''snapshot'', LStr s)]"

definition API_CreateSnapshot :: "('s, 'o, 'g) api \<Rightarrow> string \<Rightarrow> string \<Rightarrow> (('s, 'g) api_state, err, unit) op" where
  "API_CreateSnapshot a n s =
     thenE (api_log a ''create snapshot'' (snapshot_args n s))
       (bindE (wrap (snapshot_error s) (on_server (sv_create_snapshot (api_server a) n s))) (\<lambda>oper.
        wrap (snapshot_error s) (on_server (sv_wait (api_server a) oper))))"

text \<open>The name in the form \<open>instance/snapshot\<close>, or alone.\<close>

definition snapshot_name :: "string \<Rightarrow> string" where
  "snapshot_name n = (case cut_at (CHR ''/'') n of (_, snap, found) \<Rightarrow> if found then snap else n)"

definition API_Snapshots :: "('s, 'o, 'g) api \<Rightarrow> string \<Rightarrow> (('s, 'g) api_state, err, snapshot list) op" where
  "API_Snapshots a n =
     bindE (wrap (\<lambda>e. Errorf ''list snapshots of %s: %w'' [S n, W e]) (on_server (sv_snapshots (api_server a) n)))
       (\<lambda>ss. ret (map (\<lambda>s. \<lparr>sn_name = snapshot_name (sn_name s), sn_created = sn_created s\<rparr>) ss))"

definition API_RestoreSnapshot :: "('s, 'o, 'g) api \<Rightarrow> string \<Rightarrow> string \<Rightarrow> (('s, 'g) api_state, err, unit) op" where
  "API_RestoreSnapshot a n s =
     thenE (api_log a ''restore snapshot'' (snapshot_args n s))
       (bindE (wrap (\<lambda>e. Errorf ''restore snapshot %s: %w'' [S s, W e])
                 (on_server (sv_update (api_server a) n (zero_put\<lparr>ip_restore := s\<rparr>) []))) (\<lambda>oper.
        wrap (\<lambda>e. Errorf ''restore snapshot %s: %w'' [S s, W e]) (on_server (sv_wait (api_server a) oper))))"

definition API_DeleteSnapshot :: "('s, 'o, 'g) api \<Rightarrow> string \<Rightarrow> string \<Rightarrow> (('s, 'g) api_state, err, unit) op" where
  "API_DeleteSnapshot a n s =
     thenE (api_log a ''delete snapshot'' (snapshot_args n s))
       (bindE (wrap (\<lambda>e. Errorf ''delete snapshot %s: %w'' [S s, W e])
                 (on_server (sv_delete_snapshot (api_server a) n s))) (\<lambda>oper.
        wrap (\<lambda>e. Errorf ''delete snapshot %s: %w'' [S s, W e]) (on_server (sv_wait (api_server a) oper))))"

end
