(* ===== verification/Api_Exec.thy ===== *)
theory Api_Exec
  imports Api
begin

text \<open>
  Models \<open>API.Exec\<close> and \<open>API.WaitReady\<close> of \<open>internal/incus/api.go\<close> and the terminal side of it,
  \<open>internal/incus/exec_tty.go\<close>: building the request, the host terminal in raw mode and its way back,
  the wait for an interruption to reach the container, and the loop that sends window sizes and the
  interruption over the control connection.
\<close>


section \<open>The request\<close>

definition exec_environment :: "exec_options \<Rightarrow> string gomap" where
  "exec_environment opt =
     (if eo_tty opt \<and> eo_term opt \<noteq> [] then fmupd ''TERM'' (eo_term opt) fmempty else fmempty)
     ++\<^sub>f eo_public_env opt ++\<^sub>f eo_env opt"

text \<open>A uid or gid: none given is 0, and only a number of 32 bits is taken.\<close>

definition exec_id :: "string \<Rightarrow> string \<Rightarrow> err + 32 word" where
  "exec_id f s =
     (if s = [] then Inr 0
      else case parse_uint 32 s of
          None \<Rightarrow> Inl (Errorf f [S s])
        | Some n \<Rightarrow> Inr (of_nat n))"

definition new_exec_request :: "string list \<Rightarrow> exec_options \<Rightarrow> err + exec_post" where
  "new_exec_request argv opt =
     bindR (exec_id ''exec user must be a numeric uid, got %q'' (eo_user opt)) (\<lambda>user.
     bindR (exec_id ''exec group must be a numeric gid, got %q'' (eo_group opt)) (\<lambda>group.
       Inr \<lparr>ep_command = argv, ep_environment = exec_environment opt, ep_wait_for_ws = True,
            ep_cwd = eo_cwd opt, ep_user = user, ep_group = group,
            ep_interactive = False, ep_width = 0, ep_height = 0\<rparr>))"

text \<open>\<open>int\<close> of a \<open>float64\<close> drops the fraction.\<close>

definition truncated :: "rat \<Rightarrow> int" where
  "truncated q = (if q < 0 then - \<lfloor>- q\<rfloor> else \<lfloor>q\<rfloor>)"

definition exit_code_of :: "meta_value option \<Rightarrow> int" where
  "exit_code_of v =
     (case v of
        None \<Rightarrow> 0
      | Some (MFloat q) \<Rightarrow> truncated q
      | Some (MInt n) \<Rightarrow> n
      | Some MOther \<Rightarrow> 0)"

definition program :: "string list \<Rightarrow> string" where
  "program argv = (case argv of [] \<Rightarrow> [] | p # _ \<Rightarrow> p)"


section \<open>Running\<close>

definition exec_error :: "('s, 'o, 'g) api \<Rightarrow> string \<Rightarrow> err \<Rightarrow> err" where
  "exec_error a n e =
     (if says_missing a e then Errorf ''exec in %s: %w'' [S n, W (Sentinel ErrInstanceNotFound)]
      else Errorf ''exec in %s: %w'' [S n, W e])"

text \<open>From the operation started to the exit code and the output.\<close>

definition exec_finish :: "('s, 'o, 'g) api \<Rightarrow> string \<Rightarrow> 'o
  \<Rightarrow> (('s, 'g) api_state, err, int \<times> string) op" where
  "exec_finish a n oper =
     thenE (wrap (\<lambda>e. Errorf ''exec in %s: %w'' [S n, W e]) (on_server (sv_wait (api_server a) oper)))
     (bindE (wrap (\<lambda>e. Errorf ''exec in %s: %w'' [S n, W e]) (on_server (wait_data (api_server a) oper))) (\<lambda>out.
      bindE get_state (\<lambda>t.
        ret (exit_code_of (sv_metadata (api_server a) oper (server_side t)), out))))"

text \<open>The run without the terminal, and the operation if one was started.\<close>

definition exec_streams :: "('s, 'o, 'g) api \<Rightarrow> string \<Rightarrow> exec_post \<Rightarrow> exec_options \<Rightarrow> ('s, 'g) api_state
  \<Rightarrow> (err + int \<times> string) \<times> 'o option \<times> ('s, 'g) api_state" where
  "exec_streams a n req opt t =
     (case thenE (api_log a ''exec'' [(''name'', LStr n), (''program'', LStr (program (ep_command req)))])
         (wrap (exec_error a n) (on_server (sv_exec (api_server a) n req (eo_stdin opt)))) t of
        (Inl e, t1) \<Rightarrow> (Inl e, None, t1)
      | (Inr oper, t1) \<Rightarrow> (case exec_finish a n oper t1 of (r, t2) \<Rightarrow> (r, Some oper, t2)))"

definition set_terminal :: "bool \<Rightarrow> nat \<Rightarrow> ('s, 'g) api_state \<Rightarrow> ('s, 'g) api_state" where
  "set_terminal raw watchers t =
     t\<lparr>tw_world := (tw_world t)\<lparr>aw_raw := raw, aw_watchers := watchers\<rparr>\<rparr>"

text \<open>
  The terminal around a run: raw mode and a subscription to its size before, and after it, in the
  order of the deferred calls, the subscription ended and the mode put back.
\<close>

definition with_terminal ::
  "console \<Rightarrow> (exec_post \<Rightarrow> ('s, 'g) api_state \<Rightarrow> 'r \<times> 'o option \<times> ('s, 'g) api_state)
   \<Rightarrow> (err \<Rightarrow> 'r) \<Rightarrow> exec_post \<Rightarrow> ('s, 'g) api_state \<Rightarrow> 'r \<times> 'o option \<times> ('s, 'g) api_state" where
  "with_terminal co run refused req t =
     (case co_make_raw co of
        Some e \<Rightarrow> (refused (Errorf ''switch terminal to raw mode: %w'' [W e]), None, t)
      | None \<Rightarrow>
          let mode = aw_raw (tw_world t);
              req1 = req\<lparr>ep_interactive := True\<rparr>;
              req2 = (case co_size co of
                  Inl _ \<Rightarrow> req1 | Inr (w, h) \<Rightarrow> req1\<lparr>ep_width := w, ep_height := h\<rparr>)
          in case run req2 (set_terminal True (aw_watchers (tw_world t) + 1) t) of
               (r, started, t1) \<Rightarrow>
                 let t2 = set_terminal (aw_raw (tw_world t1)) (aw_watchers (tw_world t1) - 1) t1
                 in (r, started, set_terminal mode (aw_watchers (tw_world t2)) t2))"

text \<open>\<open>awaitSignalSent\<close>: until the interruption is sent, or two seconds.\<close>

definition signal_grace :: nat where "signal_grace = 2000000000"

definition await_signal_sent :: "nat option \<Rightarrow> ('s, 'g) api_state \<Rightarrow> ('s, 'g) api_state" where
  "await_signal_sent sent t =
     t\<lparr>tw_now := (case sent of
         None \<Rightarrow> tw_now t + signal_grace
       | Some x \<Rightarrow> min (max (tw_now t) x) (tw_now t + signal_grace))\<rparr>"

definition API_Exec :: "('s, 'o, 'g) api \<Rightarrow> string \<Rightarrow> string list \<Rightarrow> exec_options
  \<Rightarrow> (('s, 'g) api_state, err, int \<times> string) op" where
  "API_Exec a n argv opt t =
     (case new_exec_request argv opt of
        Inl e \<Rightarrow> (Inl e, t)
      | Inr req \<Rightarrow>
          (case (if eo_tty opt
              then with_terminal (api_console a) (\<lambda>req. exec_streams a n req opt) Inl req t
              else exec_streams a n req opt t) of
             (r, None, t1) \<Rightarrow> (r, t1)
           | (r, Some oper, t1) \<Rightarrow>
               (r, if cancelled t1
                   then await_signal_sent (sv_signal_sent (api_server a) oper (server_side t1)) t1
                   else t1)))"

text \<open>
  The client as a record of operations. \<open>WaitReady\<close> waits with the client itself; it always returns
  (see \<open>wait_ready_returns\<close>), so the last case is never taken.
\<close>

definition api_client_with ::
  "(string \<Rightarrow> wait_options \<Rightarrow> (('s, 'g) api_state, err, unit) op) \<Rightarrow> ('s, 'o, 'g) api
   \<Rightarrow> ('s, 'g) api_state client" where
  "api_client_with wait a = \<lparr>cl_instance = API_Instance a, cl_list = API_ListInstances a,
     cl_create = API_CreateInstance a, cl_start = API_StartInstance a, cl_stop = API_StopInstance a,
     cl_delete = API_DeleteInstance a, cl_update = API_UpdateInstance a,
     cl_idmapped_mounts = API_SupportsIDMappedMounts a, cl_profile_names = API_ProfileNames a,
     cl_check_image = API_CheckImage a, cl_volume_exists = API_VolumeExists a,
     cl_create_volume = API_CreateVolume a, cl_delete_volume = API_DeleteVolume a,
     cl_create_snapshot = API_CreateSnapshot a, cl_snapshots = API_Snapshots a,
     cl_restore_snapshot = API_RestoreSnapshot a, cl_delete_snapshot = API_DeleteSnapshot a,
     cl_exec = API_Exec a, cl_wait_ready = wait\<rparr>"

definition API_WaitReady :: "('s, 'o, 'g) api \<Rightarrow> string \<Rightarrow> wait_options \<Rightarrow> (('s, 'g) api_state, err, unit) op" where
  "API_WaitReady a n opt t =
     (case wait_ready (api_duration a) (api_client_with (\<lambda>_ _. ret ()) a) n opt t of
        Some r \<Rightarrow> r
      | None \<Rightarrow> (Inl canceled, t))"

definition api_client :: "('s, 'o, 'g) api \<Rightarrow> ('s, 'g) api_state client" where
  "api_client a = api_client_with (API_WaitReady a) a"


section \<open>The control connection\<close>

datatype control_message = Resize int int | Signal int

definition sigterm :: int where "sigterm = 15"

text \<open>What the messages are on the wire: the command, the arguments and the signal.\<close>

definition message_of :: "control_message \<Rightarrow> string \<times> string gomap \<times> int" where
  "message_of m =
     (case m of
        Resize w h \<Rightarrow> (''window-resize'', fmupd ''width'' (itoa w) (fmupd ''height'' (itoa h) fmempty), 0)
      | Signal s \<Rightarrow> (''signal'', fmempty, s))"

text \<open>
  The loop. \<open>ct_cancelled\<close> and \<open>ct_done\<close> say which of the context and the exec are over,
  \<open>ct_watching\<close> whether the size is still followed (the channel is not nil), \<open>ct_pending\<close> whether a
  notification is waiting and \<open>ct_closed\<close> whether the subscription has ended; \<open>ct_sent\<close> are the
  messages that went out, \<open>ct_finished\<close> that the handler has returned, closing \<open>sent\<close>.
\<close>

record control =
  ct_cancelled :: bool
  ct_done :: bool
  ct_watching :: bool
  ct_pending :: bool
  ct_closed :: bool
  ct_sent :: "control_message list"
  ct_finished :: bool

text \<open>Which channel \<open>select\<close> takes, of those that are ready.\<close>

datatype ready = ReadyDone | ReadyContext | ReadyResized | ReadyEnded

fun is_ready :: "control \<Rightarrow> ready \<Rightarrow> bool" where
  "is_ready c ReadyDone = ct_done c"
| "is_ready c ReadyContext = ct_cancelled c"
| "is_ready c ReadyResized = (ct_watching c \<and> ct_pending c)"
| "is_ready c ReadyEnded = (ct_watching c \<and> \<not> ct_pending c \<and> ct_closed c)"

text \<open>Sending a message may fail; the interruption is sent without a look at the outcome.\<close>

definition send_message :: "bool \<Rightarrow> control_message \<Rightarrow> control \<Rightarrow> control" where
  "send_message ok m c = (if ok then c\<lparr>ct_sent := ct_sent c @ [m]\<rparr> else c)"

definition finish :: "control \<Rightarrow> control" where
  "finish c = c\<lparr>ct_finished := True\<rparr>"

text \<open>One turn of the loop, with the size read and the outcome of a send.\<close>

fun handle_turn :: "ready \<Rightarrow> (err + int \<times> int) \<Rightarrow> bool \<Rightarrow> control \<Rightarrow> control" where
  "handle_turn ReadyDone dims ok c =
     finish (if ct_cancelled c then send_message ok (Signal sigterm) c else c)"
| "handle_turn ReadyContext dims ok c = finish (send_message ok (Signal sigterm) c)"
| "handle_turn ReadyEnded dims ok c = c\<lparr>ct_watching := False\<rparr>"
| "handle_turn ReadyResized dims ok c =
     (let c1 = c\<lparr>ct_pending := False\<rparr>
      in case dims of
           Inl e \<Rightarrow> c1
         | Inr (w, h) \<Rightarrow> if ok then send_message True (Resize w h) c1 else finish c1)"

text \<open>
  The loop beside the rest of the program: an interruption, the end of the exec, a change of size and
  the end of the subscription may come at any time. \<open>control_turn\<close> is a turn of the loop whose
  sends succeed.
\<close>

inductive control_turn :: "control \<Rightarrow> control \<Rightarrow> bool" where
  Turn: "\<not> ct_finished c \<Longrightarrow> is_ready c r \<Longrightarrow> control_turn c (handle_turn r dims True c)"

inductive control_step :: "control \<Rightarrow> control \<Rightarrow> bool" where
  Loop: "control_turn c c' \<Longrightarrow> control_step c c'"
| Interrupt: "control_step c (c\<lparr>ct_cancelled := True\<rparr>)"
| ExecOver: "control_step c (c\<lparr>ct_done := True\<rparr>)"
| Resized: "\<not> ct_closed c \<Longrightarrow> control_step c (c\<lparr>ct_pending := True\<rparr>)"
| Unsubscribed: "control_step c (c\<lparr>ct_closed := True\<rparr>)"

text \<open>As the loop starts: with a terminal it follows the size.\<close>

definition control_start :: "bool \<Rightarrow> control" where
  "control_start tty = \<lparr>ct_cancelled = False, ct_done = False, ct_watching = tty, ct_pending = False,
     ct_closed = False, ct_sent = [], ct_finished = False\<rparr>"

inductive control_reach :: "control \<Rightarrow> bool" where
  Start: "control_reach (control_start tty)"
| Step: "control_reach c \<Longrightarrow> control_step c c' \<Longrightarrow> control_reach c'"

inductive_cases control_turnE: "control_turn c c'"
inductive_cases control_stepE: "control_step c c'"


section \<open>The loop ends, and tells of an interruption\<close>

fun is_resize :: "control_message \<Rightarrow> bool" where
  "is_resize (Resize w h) = True"
| "is_resize (Signal s) = False"

text \<open>Nothing but sizes goes out before the loop has ended; after it, at most the interruption, last.\<close>

definition sizes_then_signal :: "control \<Rightarrow> bool" where
  "sizes_then_signal c \<longleftrightarrow>
     list_all is_resize (ct_sent c)
     \<or> ct_finished c \<and> ct_cancelled c \<and> (\<exists>ms. ct_sent c = ms @ [Signal sigterm] \<and> list_all is_resize ms)"

lemmas control_defs = finish_def send_message_def

lemma turn_cases:
  assumes "control_turn c c'"
  obtains (over) "ct_done c \<or> ct_cancelled c" "ct_finished c'" "ct_cancelled c' = ct_cancelled c"
      "ct_sent c' = ct_sent c @ (if ct_cancelled c then [Signal sigterm] else [])" "\<not> ct_finished c"
  | (looped) "ct_finished c' = False" "\<not> ct_finished c" "ct_cancelled c' = ct_cancelled c" "ct_done c' = ct_done c"
      "list_all is_resize (ct_sent c) = list_all is_resize (ct_sent c')"
      "of_bool (ct_pending c') + of_bool (ct_watching c') < (of_bool (ct_pending c) + of_bool (ct_watching c) :: nat)"
  using assms
proof cases
  case (Turn r dims)
  show thesis
    using Turn that
    by (cases r; cases dims; auto simp: control_defs split: if_splits)
qed

lemma turn_sizes: "control_turn c c' \<Longrightarrow> list_all is_resize (ct_sent c) \<Longrightarrow> sizes_then_signal c'"
  by (erule turn_cases) (auto simp: sizes_then_signal_def)

lemma reach_sizes: "control_reach c \<Longrightarrow> sizes_then_signal c"
proof (induction rule: control_reach.induct)
  case (Start tty)
  show ?case by (simp add: sizes_then_signal_def control_start_def)
next
  case (Step c c')
  from Step.hyps(2) show ?case
  proof cases
    case Loop
    then have "list_all is_resize (ct_sent c)"
      using Step.IH by (auto simp: sizes_then_signal_def elim: turn_cases)
    with Loop show ?thesis by (rule turn_sizes)
  qed (use Step.IH in \<open>auto simp: sizes_then_signal_def\<close>)
qed

lemma turn_possible: "ct_cancelled c \<or> ct_done c \<Longrightarrow> \<not> ct_finished c \<Longrightarrow> \<exists>c'. control_turn c c'"
  using control_turn.Turn [of c ReadyContext] control_turn.Turn [of c ReadyDone] by auto

definition turns_left :: "control \<Rightarrow> nat" where
  "turns_left c = (if ct_finished c then 0 else of_bool (ct_pending c) + of_bool (ct_watching c) + 1)"

lemma turn_counts: "control_turn c c' \<Longrightarrow> turns_left c' < turns_left c"
  by (erule turn_cases) (auto simp: turns_left_def)

lemma turns_reach: "(control_turn ^^ k) c c' \<Longrightarrow> control_reach c \<Longrightarrow> control_reach c' \<and> turns_left c' + k \<le> turns_left c
  \<and> (ct_cancelled c \<longrightarrow> ct_cancelled c')"
proof (induction k arbitrary: c')
  case (Suc k)
  then obtain d where d: "(control_turn ^^ k) c d" "control_turn d c'" by auto
  then have IH: "control_reach d" "turns_left d + k \<le> turns_left c" "ct_cancelled c \<longrightarrow> ct_cancelled d"
    using Suc.IH Suc.prems(2) by blast+
  moreover have "control_reach c'" using IH(1) d(2) by (blast intro: control_reach.Step Loop)
  moreover have "ct_cancelled d \<longrightarrow> ct_cancelled c'" using d(2) by (auto elim: turn_cases)
  ultimately show ?case using turn_counts [OF d(2)] by simp
qed simp

lemma cancelled_end:
  assumes "control_reach c" "control_turn c c'" "ct_cancelled c" "ct_finished c'"
  shows "\<exists>ms. ct_sent c' = ms @ [Signal sigterm] \<and> list_all is_resize ms"
proof -
  have "list_all is_resize (ct_sent c)"
    using reach_sizes [OF assms(1)] assms(2) by (auto simp: sizes_then_signal_def elim: turn_cases)
  then show ?thesis using assms(2-4) by (auto elim: turn_cases)
qed


text \<open>A size waiting to be sent, and the run interrupted: the size may still go out, and then the signal.\<close>

definition interrupted_start :: control where
  "interrupted_start = (control_start True)\<lparr>ct_pending := True, ct_cancelled := True\<rparr>"


end
