(* ===== verification/Api_Daemon.thy ===== *)
theory Api_Daemon
  imports Api_Exec App_Up
begin

text \<open>
  The API client is a daemon: for every server with the documented behaviour (\<open>incus_server\<close>) and every
  way to find images that changes nothing, the operations of \<open>api.go\<close> have the laws of the locale
  \<open>daemon\<close>, on which the properties of the command line rest.
\<close>


section \<open>Operations of the server within the client\<close>

definition api_iv :: "('s \<Rightarrow> string \<Rightarrow> (instance_full \<times> string) option) \<Rightarrow> ('s, 'g) api_state
  \<Rightarrow> string \<Rightarrow> incus_instance option" where
  "api_iv hv t n = map_option (\<lambda>(f, e). (convert_instance f)\<lparr>ii_etag := e\<rparr>) (hv (aw_server (tw_world t)) n)"

definition api_vv :: "('s \<Rightarrow> string set) \<Rightarrow> ('s, 'g) api_state \<Rightarrow> string set" where
  "api_vv vv t = vv (aw_server (tw_world t))"

lemma server_side_simps [simp]:
  "tw_world (server_side t) = aw_server (tw_world t)" "server_side (with_server u t) = u"
  "aw_server (tw_world (with_server u t)) = tw_world u" "cancelled (server_side t) = cancelled t"
  by (simp_all add: server_side_def with_server_def cancelled_def split: option.split)

lemma with_server_twice [simp]: "with_server u (with_server v t) = with_server u t"
  by (simp add: with_server_def)

lemma on_server_run: "on_server m t = (fst (m (server_side t)), with_server (snd (m (server_side t))) t)"
  by (simp add: on_server_def split: prod.split)

lemma on_server_bind: "on_server (bindE m f) = bindE (on_server m) (\<lambda>x. on_server (f x))"
  by (rule ext) (auto simp: on_server_def run_bindE split: prod.splits sum.splits)

lemma wrap_run: "wrap w m s = (case m s of (Inl e, s') \<Rightarrow> (Inl (w e), s') | (Inr x, s') \<Rightarrow> (Inr x, s'))"
  by (simp add: wrap_def run_on_error run_fail split: prod.split sum.split)

lemma keeps_wrap [keeps_intros]: "keeps I m \<Longrightarrow> keeps I (wrap w m)"
  unfolding wrap_def by (intro keeps_intros)

text \<open>A call that starts an operation and the wait for it, each wrapping its errors: one operation of the
  server, but for the text of the error.\<close>

lemma staged_run:
  assumes "bindE (wrap v (on_server m)) (\<lambda>oper. wrap w (on_server (f oper))) t = (r, t')"
  obtains r0 u where "bindE m f (server_side t) = (r0, u)" "t' = with_server u t"
    "\<And>x. r = Inr x \<longleftrightarrow> r0 = Inr x" "\<And>e. r = Inl e \<Longrightarrow> \<exists>e0. r0 = Inl e0 \<and> (e = v e0 \<or> e = w e0)"
proof -
  show thesis
  proof (cases "m (server_side t)")
    case (Pair r1 u)
    then show thesis using assms that
      by (cases r1; cases "f (projr r1) u"; cases "fst (f (projr r1) u)")
        (fastforce simp: run_bindE wrap_run on_server_run)+
  qed
qed

lemma staged_keeps:
  assumes "keeps I (on_server (bindE m f))"
  shows "keeps I (bindE (wrap v (on_server m)) (\<lambda>oper. wrap w (on_server (f oper))))"
proof (rule keepsI)
  fix t assume t: "I t"
  obtain r t' where run: "bindE (wrap v (on_server m)) (\<lambda>oper. wrap w (on_server (f oper))) t = (r, t')" by force
  obtain r0 u where "bindE m f (server_side t) = (r0, u)" "t' = with_server u t"
    using staged_run [OF run] by metis
  then show "I (snd (bindE (wrap v (on_server m)) (\<lambda>oper. wrap w (on_server (f oper))) t))"
    using keepsD [OF assms t] run by (simp add: on_server_run)
qed

lemma keeps_api_log:
  "keeps (\<lambda>t. api_iv hv t = x \<and> api_vv vv t = y) (api_log a what args)"
  "keeps (\<lambda>t. (\<forall>k. k \<noteq> n \<longrightarrow> api_iv hv t k = d k) \<and> api_vv vv t = y) (api_log a what args)"
  by (simp_all add: api_log_def keeps_def run_when run_modify api_iv_def [abs_def] api_vv_def)

lemma reads_server:
  assumes "reads_only (held hv) (held vv) m"
  shows "reads_only (api_iv hv) (api_vv vv) (on_server m)"
proof (rule reads_onlyI, rule keepsI)
  fix x y t
  have "hv (tw_world (snd (m (server_side t)))) = hv (aw_server (tw_world t))"
    and "vv (tw_world (snd (m (server_side t)))) = vv (aw_server (tw_world t))"
    using assms unfolding reads_only_def keeps_def by (metis server_side_simps(1))+
  moreover assume "api_iv hv t = x \<and> api_vv vv t = y"
  ultimately show "api_iv hv (snd (on_server m t)) = x \<and> api_vv vv (snd (on_server m t)) = y"
    by (auto simp: on_server_run api_iv_def [abs_def] api_vv_def)
qed

lemma only_server:
  assumes "only_instance (held hv) (held vv) n m"
  shows "only_instance (api_iv hv) (api_vv vv) n (on_server m)"
proof (rule only_instanceI, rule keepsI)
  fix d y t
  let ?w = "snd (m (server_side t))"
  have "keeps (\<lambda>w. (\<forall>k. k \<noteq> n \<longrightarrow> held hv w k = hv (aw_server (tw_world t)) k)
      \<and> held vv w = vv (aw_server (tw_world t))) m"
    using assms unfolding only_instance_def by blast
  from keepsD [OF this, of "server_side t"]
  have "\<forall>k. k \<noteq> n \<longrightarrow> held hv ?w k = hv (aw_server (tw_world t)) k" "held vv ?w = vv (aw_server (tw_world t))"
    by simp_all
  moreover assume "(\<forall>k. k \<noteq> n \<longrightarrow> api_iv hv t k = d k) \<and> api_vv vv t = y"
  ultimately show "(\<forall>k. k \<noteq> n \<longrightarrow> api_iv hv (snd (on_server m t)) k = d k) \<and> api_vv vv (snd (on_server m t)) = y"
    by (simp add: on_server_run api_iv_def api_vv_def)
qed

lemma reads_keeps: "reads_only iv vv m \<Longrightarrow> keeps (\<lambda>w. iv w = x \<and> vv w = y) m"
  by (simp add: reads_only_def)

lemma reads_same: "reads_only iv vv m \<Longrightarrow> iv (snd (m w)) = iv w" "reads_only iv vv m \<Longrightarrow> vv (snd (m w)) = vv w"
  unfolding reads_only_def keeps_def by blast+

lemma reads_keeps_only: "reads_only iv vv m \<Longrightarrow> keeps (\<lambda>w. (\<forall>k. k \<noteq> n \<longrightarrow> iv w k = d k) \<and> vv w = y) m"
  unfolding reads_only_def keeps_def by metis

lemma only_keeps: "only_instance iv vv n m \<Longrightarrow> keeps (\<lambda>w. (\<forall>k. k \<noteq> n \<longrightarrow> iv w k = d k) \<and> vv w = y) m"
  by (simp add: only_instance_def)


section \<open>Waiting changes nothing\<close>

lemma select_done_keeps:
  assumes "select_done deadline interval s = (b, s')" "I s" "\<And>t x. I t \<Longrightarrow> I (t\<lparr>tw_now := x\<rparr>)"
  shows "I s'"
  using assms by (auto simp: select_done_def split: option.splits if_splits)

lemma wait_exec_keeps:
  assumes run: "wait_exec dur c n opt deadline s = Some q" and clock: "\<And>t x. I t \<Longrightarrow> I (t\<lparr>tw_now := x\<rparr>)"
  shows "keeps I (cl_exec c n [''true''] exec_defaults) \<longrightarrow> I s \<longrightarrow> I (snd q)"
proof (rule wait_exec.raw_induct [where P = "\<lambda>_ c n _ _ s q.
    keeps I (cl_exec c n [''true''] exec_defaults) \<longrightarrow> I s \<longrightarrow> I (snd q)", OF _ run])
  fix rec dur c n opt deadline s q
  assume IH: "\<And>dur c n opt deadline s q. rec dur c n opt deadline s = Some q \<Longrightarrow>
      keeps I (cl_exec c n [''true''] exec_defaults) \<longrightarrow> I s \<longrightarrow> I (snd q)"
    and body: "(case cl_exec c n [''true''] exec_defaults s of (outcome, s1) \<Rightarrow>
        if map_sum id fst outcome = Inr 0 then Some (Inr (), s1)
        else case select_done (Some deadline) (nat (wo_interval opt)) s1 of (is_done, s2) \<Rightarrow>
          if is_done then
            Some (if cancelled s2 then Inl (Sentinel ErrCanceled)
                  else Inl (not_ready_error dur n (wo_timeout opt) (map_sum id fst outcome)), s2)
          else rec dur c n opt deadline s2) = Some q"
  show "keeps I (cl_exec c n [''true''] exec_defaults) \<longrightarrow> I s \<longrightarrow> I (snd q)"
  proof (intro impI)
    assume exec: "keeps I (cl_exec c n [''true''] exec_defaults)" and "I s"
    obtain out s1 where s1: "cl_exec c n [''true''] exec_defaults s = (out, s1)" by force
    have I1: "I s1" using keepsD [OF exec \<open>I s\<close>] s1 by simp
    obtain b s2 where s2: "select_done (Some deadline) (nat (wo_interval opt)) s1 = (b, s2)" by force
    show "I (snd q)"
      using body IH [of dur c n opt deadline s2 q] exec I1 select_done_keeps [of _ _ s1 b s2 I, OF s2 I1 clock] s1 s2
      by (auto split: if_splits)
  qed
qed

lemma wait_network_keeps:
  assumes run: "wait_network dur c n opt limit grace s = Some q" and clock: "\<And>t x. I t \<Longrightarrow> I (t\<lparr>tw_now := x\<rparr>)"
  shows "keeps I (cl_instance c n) \<longrightarrow> I s \<longrightarrow> I (snd q)"
proof (rule wait_network.raw_induct [where P = "\<lambda>_ c n _ _ _ s q.
    keeps I (cl_instance c n) \<longrightarrow> I s \<longrightarrow> I (snd q)", OF _ run])
  fix rec dur c n opt limit grace s q
  assume IH: "\<And>dur c n opt limit grace s q. rec dur c n opt limit grace s = Some q \<Longrightarrow>
      keeps I (cl_instance c n) \<longrightarrow> I s \<longrightarrow> I (snd q)"
    and body: "(case cl_instance c n s of
        (Inl e, s1) \<Rightarrow> Some (Inl e, s1)
      | (Inr i, s1) \<Rightarrow>
          (case network_verdict dur n opt limit grace i (tw_now s1) of
             (Some r, _) \<Rightarrow> Some (r, s1)
           | (None, grace') \<Rightarrow>
               (case select_done None (nat (wo_interval opt)) s1 of (is_done, s2) \<Rightarrow>
                  if is_done then Some (Inl (Sentinel ErrCanceled), s2)
                  else rec dur c n opt limit grace' s2))) = Some q"
  show "keeps I (cl_instance c n) \<longrightarrow> I s \<longrightarrow> I (snd q)"
  proof (intro impI)
    assume inst: "keeps I (cl_instance c n)" and "I s"
    obtain r s1 where s1: "cl_instance c n s = (r, s1)" by force
    have I1: "I s1" using keepsD [OF inst \<open>I s\<close>] s1 by simp
    obtain b s2 where s2: "select_done None (nat (wo_interval opt)) s1 = (b, s2)" by force
    show "I (snd q)"
      using body IH [of dur c n opt limit _ s2 q] inst I1 select_done_keeps [of _ _ s1 b s2 I, OF s2 I1 clock] s1 s2
      by (auto split: if_splits option.splits sum.splits prod.splits)
  qed
qed

lemma wait_ready_keeps:
  assumes "wait_ready dur c n opt s = Some q" "I s" "\<And>t x. I t \<Longrightarrow> I (t\<lparr>tw_now := x\<rparr>)"
    and "keeps I (cl_exec c n [''true''] exec_defaults)" "keeps I (cl_instance c n)"
  shows "I (snd q)"
proof -
  let ?o = "wait_defaults opt"
  obtain r1 s1 where one: "wait_exec dur c n ?o (tw_now s + nat (wo_timeout ?o)) s = Some (r1, s1)"
    using assms(1) by (auto simp: wait_ready_def Let_def split: option.splits)
  have I1: "I s1"
    using wait_exec_keeps [of dur c n ?o _ s _ I, OF one assms(3)] assms(2,4) by simp
  show ?thesis
  proof (cases r1)
    case (Inl e)
    then show ?thesis using assms(1) one I1 by (auto simp: wait_ready_def Let_def)
  next
    case (Inr u)
    then have two: "wait_network dur c n ?o (tw_now s1 + nat (wo_network_timeout ?o)) None s1 = Some q"
      using assms(1) one by (simp add: wait_ready_def Let_def)
    show ?thesis using wait_network_keeps [of dur c n ?o _ None s1 q I, OF two assms(3)] assms(5) I1 by simp
  qed
qed


section \<open>The laws\<close>

lemma convert_devices_id [simp]: "convert_devices m = m" "to_api_devices m = m"
  by (rule fmap_ext, simp add: convert_devices_def to_api_devices_def has_key_iff split: option.split)+

lemma foldl_drop: "fmlookup (foldl (\<lambda>m k. fmdrop k m) m ks) k = (if k \<in> set ks then None else fmlookup m k)"
  by (induction ks arbitrary: m) auto

lemma apply_change_put:
  "ip_config (apply_change ch put) = Some (change_config ch (or_empty (ip_config put)))"
  "ip_devices (apply_change ch put) = Some (change_devices ch (or_empty (ip_devices put)))"
  "ip_restore (apply_change ch put) = ip_restore put"
  by (auto simp: apply_change_def change_config_def change_devices_def foldl_drop intro!: fmap_ext
      split: option.split)

locale incus_api = incus_server sv hv vv own
  for sv :: "('s, 'o, 'g) server" and hv :: "'s \<Rightarrow> string \<Rightarrow> (instance_full \<times> string) option"
    and vv :: "'s \<Rightarrow> string set" and own :: "string \<Rightarrow> bool" +
  fixes a :: "('s, 'o, 'g) api"
  assumes uses_server [simp]: "api_server a = sv"
    and resolve_reads: "reads_only (api_iv hv) (api_vv vv) (api_resolve a ref)"
begin

abbreviation iv :: "('s, 'g) api_state \<Rightarrow> string \<Rightarrow> incus_instance option" where "iv \<equiv> api_iv hv"

abbreviation av :: "('s, 'g) api_state \<Rightarrow> string set" where "av \<equiv> api_vv vv"

lemmas read_rules = keeps_intros keeps_api_log(1) staged_keeps reads_keeps

lemma api_instance_reads: "reads_only iv av (API_Instance a n)"
  unfolding API_Instance_def uses_server
  by (rule reads_onlyI, intro read_rules reads_server get_full_reads)

lemma api_list_reads: "reads_only iv av (API_ListInstances a)"
  unfolding API_ListInstances_def uses_server
  by (rule reads_onlyI, intro read_rules reads_server sv_list_reads)

lemma api_host_reads:
  "reads_only iv av (API_SupportsIDMappedMounts a)" "reads_only iv av (API_ProfileNames a)"
  "reads_only iv av (API_CheckImage a ref)" "reads_only iv av (API_VolumeExists a p v)"
  "reads_only iv av (API_Snapshots a n)"
  unfolding API_SupportsIDMappedMounts_def API_ProfileNames_def API_CheckImage_def API_VolumeExists_def
    API_Snapshots_def uses_server
  by (rule reads_onlyI, intro read_rules reads_server features_reads sv_profiles_reads resolve_reads
      get_volume_reads sv_snapshots_reads)+

lemma api_snapshot_reads:
  "reads_only iv av (API_CreateSnapshot a n s)" "reads_only iv av (API_DeleteSnapshot a n s)"
  unfolding API_CreateSnapshot_def API_DeleteSnapshot_def uses_server
  by (rule reads_onlyI, intro keeps_thenE keeps_api_log staged_keeps reads_keeps reads_server
      snapshot_reads unsnapshot_reads)+

text \<open>Running a command: the server keeps what it holds, and the terminal and the clock are not its.\<close>

lemma exec_finish_keeps:
  assumes "sv_exec sv n req stdin u = (Inr oper, u')"
  shows "keeps (\<lambda>t. iv t = x \<and> av t = y) (exec_finish a n oper)"
  using exec_waits [OF assms] unfolding exec_finish_def uses_server
  by (intro keeps_intros reads_keeps reads_server) simp_all

lemma exec_streams_keeps:
  assumes "iv t = x \<and> av t = y" "exec_streams a n req opt t = (r, started, t')"
  shows "iv t' = x \<and> av t' = y"
proof -
  let ?log = "api_log a ''exec'' [(''name'', LStr n), (''program'', LStr (program (ep_command req)))]"
  let ?start = "thenE ?log (wrap (exec_error a n) (on_server (sv_exec sv n req (eo_stdin opt))))"
  obtain r1 t1 where st: "?start t = (r1, t1)" by force
  have "keeps (\<lambda>t. iv t = x \<and> av t = y) ?start"
    by (intro keeps_intros keeps_api_log reads_keeps reads_server exec_starts)
  from keepsD [OF this assms(1)] have I1: "iv t1 = x \<and> av t1 = y" using st by simp
  show ?thesis
  proof (cases r1)
    case (Inl e)
    then show ?thesis using assms(2) st I1 by (simp add: exec_streams_def)
  next
    case (Inr oper)
    then obtain u u' where "sv_exec sv n req (eo_stdin opt) u = (Inr oper, u')"
      using st by (auto simp: run_thenE wrap_run on_server_run split: prod.splits sum.splits) (metis prod.collapse)
    from keepsD [OF exec_finish_keeps [OF this] I1] show ?thesis
      using assms(2) st Inr by (simp add: exec_streams_def split: prod.splits)
  qed
qed

lemma view_set_terminal [simp]: "iv (set_terminal r w t) = iv t" "av (set_terminal r w t) = av t"
  by (simp_all add: set_terminal_def api_iv_def [abs_def] api_vv_def)

lemma view_clock [simp]: "iv (t\<lparr>tw_now := z\<rparr>) = iv t" "av (t\<lparr>tw_now := z\<rparr>) = av t"
  by (simp_all add: api_iv_def [abs_def] api_vv_def)

lemma with_terminal_keeps:
  assumes "\<And>req t r started t'. I t \<Longrightarrow> run req t = (r, started, t') \<Longrightarrow> I t'"
    and "\<And>t b k. I t \<Longrightarrow> I (set_terminal b k t)"
    and "I t" "with_terminal co run refused req t = (r, started, t')"
  shows "I t'"
  using assms(4) assms(1) [OF assms(2) [OF assms(3)]] assms(2,3)
  by (auto simp: with_terminal_def Let_def split: option.splits prod.splits)

lemma api_exec_reads: "reads_only iv av (API_Exec a n argv opt)"
proof (rule reads_onlyI, rule keepsI)
  fix x y t
  let ?I = "\<lambda>t. iv t = x \<and> av t = y"
  assume t: "?I t"
  show "?I (snd (API_Exec a n argv opt t))"
  proof (cases "new_exec_request argv opt")
    case (Inl e)
    then show ?thesis using t by (simp add: API_Exec_def)
  next
    case (Inr req)
    let ?m = "if eo_tty opt
       then with_terminal (api_console a) (\<lambda>req. exec_streams a n req opt) Inl req t
       else exec_streams a n req opt t"
    obtain r started t' where m: "?m = (r, started, t')" by (cases ?m)
    have "?I t'"
    proof (cases "eo_tty opt")
      case True
      then have tt: "with_terminal (api_console a) (\<lambda>req. exec_streams a n req opt) Inl req t = (r, started, t')"
        using m by simp
      show ?thesis
      proof (rule with_terminal_keeps [where I = ?I, OF _ _ t tt])
        fix t :: "('s, 'g) api_state" and b k assume "?I t"
        then show "?I (set_terminal b k t)" by simp
      qed (rule exec_streams_keeps)
    next
      case False
      then show ?thesis using m exec_streams_keeps [OF t] by simp
    qed
    then show ?thesis using Inr m
      by (auto simp: API_Exec_def await_signal_sent_def split: option.split)
  qed
qed

lemma api_wait_ready_reads: "reads_only iv av (API_WaitReady a n opt)"
proof (rule reads_onlyI, rule keepsI)
  fix x y and t :: "('s, 'g) api_state"
  assume t: "iv t = x \<and> av t = y"
  let ?c = "api_client_with (\<lambda>_ _. ret ()) a"
  have "iv (snd q) = x \<and> av (snd q) = y" if "wait_ready (api_duration a) ?c n opt t = Some q" for q
    using wait_ready_keeps [where I = "\<lambda>t. iv t = x \<and> av t = y", OF that t]
      reads_keeps [OF api_exec_reads] reads_keeps [OF api_instance_reads]
    by (simp add: api_client_with_def)
  then show "iv (snd (API_WaitReady a n opt t)) = x \<and> av (snd (API_WaitReady a n opt t)) = y"
    using t by (simp add: API_WaitReady_def split: option.split)
qed

text \<open>Changes touch the instance they name.\<close>

lemma change_state_frame: "only_instance iv av n (change_state a n action force)"
  unfolding change_state_def uses_server
  by (rule only_instanceI, intro keeps_bindE keeps_get keeps_if keeps_fail keeps_thenE keeps_api_log
      staged_keeps only_keeps only_server sv_state_frame)

lemmas change_state_keeps = only_keeps [OF change_state_frame]

lemmas instance_keeps = reads_keeps_only [OF api_instance_reads]

lemma api_start_frame: "only_instance iv av n (API_StartInstance a n)"
  unfolding API_StartInstance_def by (rule change_state_frame)

lemma api_stop_frame: "only_instance iv av n (API_StopInstance a n)"
  unfolding API_StopInstance_def force_stop_def
  by (rule only_instanceI, intro keeps_bindE [OF instance_keeps] keeps_if keeps_ret
      keeps_on_error [OF change_state_keeps] keeps_bindE [OF keeps_get] keeps_fail change_state_keeps)

lemma api_delete_frame: "only_instance iv av n (API_DeleteInstance a n)"
  unfolding API_DeleteInstance_def force_stop_def uses_server
  by (rule only_instanceI, intro keeps_bindE [OF instance_keeps] keeps_thenE keeps_when keeps_api_log
      change_state_keeps staged_keeps only_keeps [OF only_server [OF sv_delete_frame]])

lemma api_create_frame: "only_instance iv av (is_name spec) (API_CreateInstance a spec)"
proof (rule only_instanceI)
  fix d y
  have "only_instance iv av (is_name spec)
      (on_server (bindE (sv_create sv image (create_request spec nm)) (wait_op sv)))" for image nm
    using only_server [OF sv_create_frame, of "create_request spec nm" image] by (simp add: create_request_def)
  note staged = staged_keeps [OF only_keeps [OF this]]
  have start: "keeps (\<lambda>w. (\<forall>k. k \<noteq> is_name spec \<longrightarrow> iv w k = d k) \<and> av w = y)
      (case p of (r, nm) \<Rightarrow>
         thenE (api_log a ''create instance'' [(''name'', LStr (is_name spec)), (''image'', LStr (is_image spec))])
         (bindE (wrap (create_error (is_name spec)) (on_server (sv_create sv image (create_request spec nm))))
           (\<lambda>oper. wrap (create_error (is_name spec)) (on_server (wait_op sv oper)))))" for image p
    by (intro keeps_case_prod keeps_thenE keeps_api_log staged)
  show "keeps (\<lambda>w. (\<forall>k. k \<noteq> is_name spec \<longrightarrow> iv w k = d k) \<and> av w = y) (API_CreateInstance a spec)"
    unfolding API_CreateInstance_def uses_server
    by (rule keeps_bindE [OF reads_keeps_only [OF resolve_reads] keeps_bindE [OF keeps_lift start]])
qed

lemma update_instance_frame: "only_instance iv av n (update_instance a n et f)"
proof (rule only_instanceI)
  fix d y
  have "keeps (\<lambda>w. (\<forall>k. k \<noteq> n \<longrightarrow> iv w k = d k) \<and> av w = y)
      (case p of (current, fresh) \<Rightarrow>
        let put = (ai_put current)\<lparr>ip_config := Some (or_empty (ip_config (ai_put current)))\<rparr>
        in bindE (wrap (update_error a n) (on_server (sv_update sv n (f put) (if et = [] then fresh else et))))
          (\<lambda>oper. wrap (\<lambda>e. Errorf ''update instance %s: %w'' [S n, W e]) (on_server (sv_wait sv oper))))" for p
    unfolding Let_def by (intro keeps_case_prod staged_keeps only_keeps only_server sv_update_frame)
  note rest = this
  show "keeps (\<lambda>w. (\<forall>k. k \<noteq> n \<longrightarrow> iv w k = d k) \<and> av w = y) (update_instance a n et f)"
    unfolding update_instance_def uses_server
    by (rule keeps_bindE [OF keeps_wrap [OF reads_keeps_only [OF reads_server [OF get_reads]]] rest])
qed

lemma api_update_frame: "only_instance iv av n (API_UpdateInstance a n ch et)"
  unfolding API_UpdateInstance_def
  by (rule only_instanceI, intro keeps_if keeps_ret keeps_thenE keeps_when keeps_api_log
      only_keeps [OF update_instance_frame])

lemma api_restore_frame: "only_instance iv av n (API_RestoreSnapshot a n x)"
  unfolding API_RestoreSnapshot_def uses_server
  by (rule only_instanceI, intro keeps_thenE keeps_api_log staged_keeps only_keeps [OF only_server [OF sv_update_frame]])

text \<open>What the operations answer, and what they have done when they succeed.\<close>

lemma held_side: "api_iv hv t n = map_option (\<lambda>(f, e). (convert_instance f)\<lparr>ii_etag := e\<rparr>) (held hv (server_side t) n)"
  by (simp add: api_iv_def)

lemma api_instance_ok: "API_Instance a n t = (Inr i, t') \<Longrightarrow> iv t n = Some i"
  using get_full_ok [of n "server_side t"]
  by (auto simp: API_Instance_def run_bindE wrap_run on_server_run run_ret prod_eq_iff held_side
      split: prod.splits sum.splits)

lemma api_volume_exists_ok: "API_VolumeExists a p v t = (Inr b, t') \<Longrightarrow> b = (ref_of p v \<in> av t)"
  using get_volume_ok [of p v "server_side t"] get_volume_missing [of p v "server_side t"]
  by (auto simp: API_VolumeExists_def storage_volume_type_def run_on_error run_bindE on_server_run run_ret run_fail
      api_vv_def prod_eq_iff split: prod.splits sum.splits if_splits)

lemma api_log_run: "\<exists>t'. api_log a what args t = (Inr (), t') \<and> server_side t' = server_side t"
  by (simp add: api_log_def run_when run_modify server_side_def)

lemma logged_run:
  obtains t' where "thenE (api_log a what args) m t = m t'" "server_side t' = server_side t"
  using api_log_run [of what args t] by (auto simp: run_thenE)

lemma api_create_volume_laws:
  "iv (snd (API_CreateVolume a p v cfg t)) = iv t"
  "av t \<subseteq> av (snd (API_CreateVolume a p v cfg t))
     \<and> av (snd (API_CreateVolume a p v cfg t)) \<subseteq> insert (ref_of p v) (av t)"
  "API_CreateVolume a p v cfg t = (Inr u, t') \<Longrightarrow> ref_of p v \<notin> av t \<and> ref_of p v \<in> av t'"
proof -
  let ?post = "\<lparr>vp_name = v, vp_type = storage_volume_type, vp_config = cfg\<rparr>"
  obtain t1 where run: "API_CreateVolume a p v cfg t = wrap (\<lambda>e. Errorf ''create storage volume %s on %s: %w''
      [S v, S p, W e]) (on_server (sv_create_volume sv p ?post)) t1" and t1: "server_side t1 = server_side t"
    unfolding API_CreateVolume_def uses_server by (rule logged_run)
  note facts = sv_create_volume_frame [of p ?post "server_side t"] sv_create_volume_adds [of ?post "server_side t" p]
    sv_create_volume_ok [of p ?post "server_side t"]
  have world: "snd (API_CreateVolume a p v cfg t) = with_server (snd (sv_create_volume sv p ?post (server_side t))) t1"
    using t1 by (auto simp: run wrap_run on_server_run split: prod.splits sum.splits)
  show "iv (snd (API_CreateVolume a p v cfg t)) = iv t"
    using facts(1) by (simp add: fun_eq_iff world held_side)
  show "av t \<subseteq> av (snd (API_CreateVolume a p v cfg t))
     \<and> av (snd (API_CreateVolume a p v cfg t)) \<subseteq> insert (ref_of p v) (av t)"
    using facts(2) by (simp add: world api_vv_def storage_volume_type_def)
  assume "API_CreateVolume a p v cfg t = (Inr u, t')"
  then show "ref_of p v \<notin> av t \<and> ref_of p v \<in> av t'"
    using facts(3) t1 by (auto simp: run wrap_run on_server_run api_vv_def storage_volume_type_def prod_eq_iff
        split: prod.splits sum.splits)
qed

lemma api_delete_volume_laws:
  "iv (snd (API_DeleteVolume a p v t)) = iv t"
  "av t - {ref_of p v} \<subseteq> av (snd (API_DeleteVolume a p v t)) \<and> av (snd (API_DeleteVolume a p v t)) \<subseteq> av t"
  "API_DeleteVolume a p v t = (Inr u, t') \<Longrightarrow> ref_of p v \<in> av t \<and> ref_of p v \<notin> av t'"
proof -
  obtain t1 where run: "API_DeleteVolume a p v t = wrap (\<lambda>e. Errorf ''delete storage volume %s on %s: %w''
      [S v, S p, W e]) (on_server (sv_delete_volume sv p storage_volume_type v)) t1" and t1: "server_side t1 = server_side t"
    unfolding API_DeleteVolume_def uses_server by (rule logged_run)
  note facts = sv_delete_volume_frame [of p storage_volume_type v "server_side t"]
    sv_delete_volume_removes [of "server_side t" p v] sv_delete_volume_ok [of p v "server_side t"]
  have world: "snd (API_DeleteVolume a p v t)
      = with_server (snd (sv_delete_volume sv p storage_volume_type v (server_side t))) t1"
    using t1 by (auto simp: run wrap_run on_server_run split: prod.splits sum.splits)
  show "iv (snd (API_DeleteVolume a p v t)) = iv t" using facts(1) by (simp add: fun_eq_iff world held_side)
  show "av t - {ref_of p v} \<subseteq> av (snd (API_DeleteVolume a p v t)) \<and> av (snd (API_DeleteVolume a p v t)) \<subseteq> av t"
    using facts(2) by (simp add: world api_vv_def storage_volume_type_def)
  assume "API_DeleteVolume a p v t = (Inr u, t')"
  then show "ref_of p v \<in> av t \<and> ref_of p v \<notin> av t'"
    using facts(3) t1 by (auto simp: run wrap_run on_server_run api_vv_def storage_volume_type_def prod_eq_iff
        split: prod.splits sum.splits)
qed

text \<open>A creation: nothing has happened, or the image was found and the operation of the server has run.\<close>

lemma create_run:
  assumes "API_CreateInstance a spec t = (r, t')"
  obtains (unstarted) e where "r = Inl e" "iv t' = iv t"
  | (run) image nm t1 r0 u where "iv t1 = iv t" "t' = with_server u t1"
      "bindE (sv_create sv image (create_request spec nm)) (wait_op sv) (server_side t1) = (r0, u)"
      "\<And>x. r = Inr x \<longleftrightarrow> r0 = Inr x"
proof -
  obtain r1 t1 where res: "api_resolve a (is_image spec) t = (r1, t1)" by force
  have same: "iv t1 = iv t"
    using keepsD [OF reads_keeps [OF resolve_reads, of "iv t" "av t" "is_image spec"], of t] res by simp
  show thesis
  proof (cases r1)
    case (Inl e)
    then show thesis using assms res same unstarted by (auto simp: API_CreateInstance_def run_bindE)
  next
    case img: (Inr image)
    show thesis
    proof (cases "api_alias a (is_image spec)")
      case (Inl e)
      then show thesis using assms res same img unstarted
        by (auto simp: API_CreateInstance_def run_bindE run_lift)
    next
      case (Inr p)
      obtain rem nm where p: "p = (rem, nm)" by force
      obtain t2 where t2: "bindE (wrap (create_error (is_name spec)) (on_server (sv_create sv image (create_request spec nm))))
          (\<lambda>oper. wrap (create_error (is_name spec)) (on_server (wait_op sv oper))) t2 = (r, t')"
          "server_side t2 = server_side t1"
        using assms res img Inr p
          api_log_run [of "''create instance''" "[(''name'', LStr (is_name spec)), (''image'', LStr (is_image spec))]" t1]
        by (auto simp: API_CreateInstance_def run_bindE run_lift run_thenE)
      have "iv t2 = iv t" using t2(2) same by (simp add: fun_eq_iff held_side del: server_side_simps)
      moreover obtain r0 u where "bindE (sv_create sv image (create_request spec nm)) (wait_op sv) (server_side t2) = (r0, u)"
          "t' = with_server u t2" "\<And>x. r = Inr x \<longleftrightarrow> r0 = Inr x"
        using staged_run [OF t2(1)] by metis
      ultimately show thesis using run by blast
    qed
  qed
qed

lemma api_create_ok:
  assumes "API_CreateInstance a spec t = (Inr u, t')"
  shows "iv t (is_name spec) = None \<and> (\<exists>i. iv t' (is_name spec) = Some i \<and> is_stopped i
    \<and> same_settings own (ii_config i) (is_config spec) \<and> ii_devices i = is_devices spec)"
  using assms
proof (cases rule: create_run)
  case (run image nm t1 r0 w)
  then have "bindE (sv_create sv image (create_request spec nm)) (wait_op sv) (server_side t1) = (Inr u, w)" by simp
  from sv_create_ok [OF this] obtain f e where f: "held hv (server_side t1) (is_name spec) = None"
      "held hv w (is_name spec) = Some (f, e)" "ai_status f = ''Stopped''"
      "same_instance own (ai_put f) (po_put (create_request spec nm))"
    by (auto simp: create_request_def)
  have "iv t (is_name spec) = None" using run(1) f(1) by (metis held_side option.map(1))
  moreover have "iv t' (is_name spec) = Some ((convert_instance f)\<lparr>ii_etag := e\<rparr>)" using run(2) f(2) by (simp add: held_side)
  ultimately show ?thesis using f(3,4)
    by (simp add: convert_instance_def is_stopped_def same_instance_def create_request_def or_empty_def)
qed simp

lemma api_create_refused:
  assumes "iv t (is_name spec) = Some i"
  shows "(\<exists>e. fst (API_CreateInstance a spec t) = Inl e) \<and> iv (snd (API_CreateInstance a spec t)) = iv t"
proof -
  obtain r t' where c: "API_CreateInstance a spec t = (r, t')" by force
  then show ?thesis
  proof (cases rule: create_run)
    case (run image nm t1 r0 w)
    have "iv t1 (is_name spec) = Some i" using run(1) assms by simp
    then obtain f e where "held hv (server_side t1) (po_name (create_request spec nm)) = Some (f, e)"
      by (auto simp: create_request_def held_side)
    from sv_create_refused [OF this, of image] have "\<exists>e. r0 = Inl e" "held hv w = held hv (server_side t1)"
      using run(3) by simp_all
    then have "\<exists>e. r = Inl e" "iv t' = iv t1" using run(2,4) by (cases r; auto simp: fun_eq_iff held_side)+
    then show ?thesis using c run(1) by auto
  qed (simp add: c)
qed

text \<open>Starting and stopping.\<close>

lemma change_state_run:
  assumes "change_state a n action force t = (r, t')"
  obtains (unstarted) e where "r = Inl e" "iv t' = iv t"
  | (run) r0 u t1 where "t' = with_server u t1" "server_side t1 = server_side t"
      "bindE (sv_update_state sv n (state_request action force) []) (sv_wait sv) (server_side t) = (r0, u)"
      "\<And>x. r = Inr x \<longleftrightarrow> r0 = Inr x"
proof (cases "cancelled t")
  case True
  then show thesis using assms unstarted by (auto simp: change_state_def run_bindE run_get run_fail)
next
  case False
  then obtain t1 where t1: "bindE (wrap (state_error action n)
        (on_server (sv_update_state sv n (state_request action force) [])))
      (\<lambda>oper. wrap (state_error action n) (on_server (sv_wait sv oper))) t1 = (r, t')"
      "server_side t1 = server_side t"
    using assms api_log_run [of "action @ '' instance''" "[(''name'', LStr n), (''force'', LBool force)]" t]
    by (auto simp: change_state_def run_bindE run_get run_thenE)
  then show thesis using staged_run [OF t1(1)] run by metis
qed

lemma same_instance_view:
  assumes "same_instance own (ai_put f) (ai_put g)"
  shows "same_settings own (ii_config (convert_instance f)) (ii_config (convert_instance g))"
    "ii_devices (convert_instance f) = ii_devices (convert_instance g)"
  using assms by (simp_all add: same_instance_def convert_instance_def)

text \<open>The instance \<open>n\<close> is as it was, but for its state.\<close>

definition still :: "string \<Rightarrow> incus_instance \<Rightarrow> ('s, 'g) api_state \<Rightarrow> bool" where
  "still n i t \<longleftrightarrow> (\<exists>j. iv t n = Some j \<and> same_settings own (ii_config j) (ii_config i) \<and> ii_devices j = ii_devices i)"

lemma still_now: "iv t n = Some i \<Longrightarrow> still n i t"
  by (auto simp: still_def)

lemma keeps_still_reads: "reads_only iv av m \<Longrightarrow> keeps (still n i) m"
  unfolding reads_only_def keeps_def still_def by metis

lemma keeps_still_change: "keeps (still n i) (change_state a n action force)"
proof (rule keepsI)
  fix t assume t: "still n i t"
  obtain r t' where c: "change_state a n action force t = (r, t')" by force
  have "still n i t'" using c
  proof (cases rule: change_state_run)
    case (unstarted e)
    then show ?thesis using t by (simp add: still_def)
  next
    case (run r0 u t1)
    obtain f e where f: "held hv (server_side t) n = Some (f, e)"
        "same_settings own (ii_config (convert_instance f)) (ii_config i)" "ii_devices (convert_instance f) = ii_devices i"
      using t by (auto simp: still_def held_side)
    obtain g e' where g: "held hv u n = Some (g, e')" "same_instance own (ai_put g) (ai_put f)"
      using sv_state_ok [OF f(1), of "state_request action force" "[]"] run(3) by auto
    have "iv t' n = Some ((convert_instance g)\<lparr>ii_etag := e'\<rparr>)" using g(1) run(1) by (simp add: held_side)
    then show ?thesis using f(2,3) same_instance_view [OF g(2)] same_settings_trans
      unfolding still_def by auto
  qed
  then show "still n i (snd (change_state a n action force t))" using c by simp
qed

lemma api_start_running:
  assumes "API_StartInstance a n t = (Inr u, t')"
  shows "\<exists>j. iv t' n = Some j \<and> is_running j"
  using assms unfolding API_StartInstance_def
proof (cases rule: change_state_run)
  case (run r0 w t1)
  then have "bindE (sv_update_state sv n (state_request ''start'' False) []) (sv_wait sv) (server_side t) = (Inr u, w)"
    by simp
  from sv_started [OF this] obtain f e where "held hv w n = Some (f, e)" "ai_status f = ''Running''"
    by (auto simp: state_request_def)
  then show ?thesis using run(1) by (simp add: held_side convert_instance_def is_running_def)
qed simp

lemma api_start_ok: "keeps (still n i) (API_StartInstance a n)"
  unfolding API_StartInstance_def by (rule keeps_still_change)

lemma api_stop_ok: "keeps (still n i) (API_StopInstance a n)"
  unfolding API_StopInstance_def force_stop_def
  by (intro keeps_bindE [OF keeps_still_reads [OF api_instance_reads]] keeps_if keeps_ret
      keeps_on_error [OF keeps_still_change] keeps_bindE [OF keeps_get] keeps_fail keeps_still_change)

text \<open>Deleting: the instance is as it was, or the operation of the server has run on it.\<close>

lemma delete_run:
  assumes "API_DeleteInstance a n t = (r, t')"
  obtains (unstarted) e where "r = Inl e" "\<And>i. still n i t \<Longrightarrow> still n i t'"
  | (run) r0 u t1 where "\<And>i. still n i t \<Longrightarrow> still n i t1" "t' = with_server u t1"
      "bindE (sv_delete sv n) (wait_delete sv) (server_side t1) = (r0, u)"
      "\<And>x. r = Inr x \<longleftrightarrow> r0 = Inr x" "\<And>e. r = Inl e \<Longrightarrow> \<exists>e0. r0 = Inl e0 \<and> e = delete_error n e0"
proof -
  obtain r1 t1 where read: "API_Instance a n t = (r1, t1)" by force
  have I1: "still n i t \<Longrightarrow> still n i t1" for i
    using keepsD [OF keeps_still_reads [OF api_instance_reads], of n i t n] read by simp
  show thesis
  proof (cases r1)
    case (Inl e)
    then show thesis using assms read I1 unstarted by (auto simp: API_DeleteInstance_def run_bindE)
  next
    case (Inr i)
    obtain r2 t2 where stop: "when_op (\<not> is_stopped i) (force_stop a n) t1 = (r2, t2)" by force
    have I2: "still n j t2" if "still n j t" for j
    proof -
      have "keeps (still n j) (when_op (\<not> is_stopped i) (force_stop a n))"
        unfolding force_stop_def by (intro keeps_when keeps_still_change)
      from keepsD [OF this I1] show ?thesis using stop that by simp
    qed
    show thesis
    proof (cases r2)
      case (Inl e)
      then show thesis using assms read \<open>r1 = Inr i\<close> stop I2 unstarted
        by (auto simp: API_DeleteInstance_def run_bindE run_thenE)
    next
      case (Inr x)
      then obtain t3 where t3: "bindE (wrap (delete_error n) (on_server (sv_delete sv n)))
            (\<lambda>oper. wrap (delete_error n) (on_server (wait_delete sv oper))) t3 = (r, t')"
          "server_side t3 = server_side t2"
        using assms read \<open>r1 = Inr i\<close> stop
          api_log_run [of "''delete instance''" "[(''name'', LStr n)]" t2]
        by (auto simp: API_DeleteInstance_def run_bindE run_thenE)
      have "iv t3 = iv t2" using t3(2) by (simp add: fun_eq_iff held_side del: server_side_simps)
      then have I3: "still n j t \<Longrightarrow> still n j t3" for j using I2 [of j] by (simp add: still_def)
      obtain r0 u where "bindE (sv_delete sv n) (wait_delete sv) (server_side t3) = (r0, u)"
          "t' = with_server u t3" "\<And>x. r = Inr x \<longleftrightarrow> r0 = Inr x"
          "\<And>e. r = Inl e \<Longrightarrow> \<exists>e0. r0 = Inl e0 \<and> e = delete_error n e0"
        using staged_run [OF t3(1)] by metis
      then show thesis using run I3 by blast
    qed
  qed
qed

lemma api_delete_ok:
  assumes "API_DeleteInstance a n t = (Inr u, t')"
  shows "iv t' n = None"
  using assms
proof (cases rule: delete_run)
  case (run r0 w t1)
  then have "bindE (sv_delete sv n) (wait_delete sv) (server_side t1) = (Inr u, w)" by simp
  from sv_delete_ok [OF this] show ?thesis using run(2) by (simp add: held_side)
qed simp

lemma api_delete_refused:
  assumes "API_DeleteInstance a n t = (Inl e, t')" "\<not> errors_is e ErrOutcomeUnknown" "still n i t"
  shows "still n i t'"
  using assms(1)
proof (cases rule: delete_run)
  case (unstarted e)
  then show ?thesis using assms(3) by blast
next
  case (run r0 w t1)
  obtain e0 where e0: "r0 = Inl e0" "e = delete_error n e0" using run(5) by blast
  then have "\<not> errors_is e0 ErrOutcomeUnknown" using assms(2) by (simp add: delete_error_def)
  then have "held hv w n = held hv (server_side t1) n" using sv_delete_refused run(3) e0(1) by blast
  then have "iv t' n = iv t1 n" using run(2) by (simp add: held_side)
  then show ?thesis using run(1) [OF assms(3)] by (simp add: still_def)
qed

text \<open>Updating: nothing was sent, or the update of the server has run on what was just read.\<close>

lemma update_run:
  assumes "API_UpdateInstance a n ch et t = (r, t')" "\<not> change_is_empty ch"
  obtains (unsent) e where "r = Inl e" "iv t' = iv t"
  | (sent) i fresh f t1 r0 u where "iv t1 = iv t" "t' = with_server u t1"
      "held hv (server_side t1) n = Some (f, fresh)" "ai_put (i :: api_instance) = ai_put f" "ip_restore (ai_put i) = []"
      "bindE (sv_update sv n (apply_change ch ((ai_put i)\<lparr>ip_config := Some (or_empty (ip_config (ai_put i)))\<rparr>))
         (if et = [] then fresh else et)) (sv_wait sv) (server_side t1) = (r0, u)"
      "\<And>x. r = Inr x \<longleftrightarrow> r0 = Inr x"
proof -
  have logs: "\<exists>t2. thenE (when_op b (api_log a what args)) m t1 = m t2 \<and> server_side t2 = server_side t1"
    for b what args and m :: "(('s, 'g) api_state, err, unit) op" and t1
    using api_log_run [of what args t1] by (auto simp: run_thenE run_when)
  obtain t1 where t1: "update_instance a n et (apply_change ch) t1 = (r, t')" "server_side t1 = server_side t"
    using assms logs unfolding API_UpdateInstance_def if_not_P [OF assms(2)] by metis
  have same: "iv t1 = iv t" using t1(2) by (simp add: fun_eq_iff held_side del: server_side_simps)
  obtain r1 u1 where get: "sv_get sv n (server_side t1) = (r1, u1)" by force
  have held1: "held hv u1 = held hv (server_side t1)"
    using reads_same(1) [OF get_reads, of n "server_side t1"] get by simp
  let ?t2 = "with_server u1 t1"
  have I2: "iv ?t2 = iv t" using same held1 by (simp add: fun_eq_iff held_side)
  show thesis
  proof (cases r1)
    case (Inl e)
    then have "r = Inl (get_error a n e)" "t' = ?t2"
      using t1(1) get by (simp_all add: update_instance_def run_bindE wrap_run on_server_run)
    then show thesis using unsent I2 by blast
  next
    case (Inr p)
    obtain i fresh where p: "p = (i, fresh)" by force
    let ?put = "(ai_put i)\<lparr>ip_config := Some (or_empty (ip_config (ai_put i)))\<rparr>"
    obtain f where f: "held hv (server_side t1) n = Some (f, fresh)" "ai_put i = ai_put f" "ip_restore (ai_put i) = []"
      using get_ok [of n "server_side t1" i fresh u1] get Inr p by auto
    have st0: "bindE (wrap (update_error a n) (on_server (sv_update sv n (apply_change ch ?put) (if et = [] then fresh else et))))
        (\<lambda>oper. wrap (\<lambda>e. Errorf ''update instance %s: %w'' [S n, W e]) (on_server (sv_wait sv oper))) ?t2 = (r, t')"
      using t1(1) get Inr p by (simp add: update_instance_def run_bindE [of "wrap (get_error a n) _"] wrap_run on_server_run Let_def)
    obtain r0 u where st: "bindE (sv_update sv n (apply_change ch ?put) (if et = [] then fresh else et))
          (sv_wait sv) (server_side ?t2) = (r0, u)"
        "t' = with_server u ?t2" "\<And>x. r = Inr x \<longleftrightarrow> r0 = Inr x"
      by (rule staged_run [OF st0]) (rule that; simp)
    have "held hv (server_side ?t2) n = Some (f, fresh)" using f(1) held1 by simp
    then show thesis by (rule sent [OF I2 st(2) _ f(2,3) st(1,3)])
  qed
qed

lemma api_update_ok:
  assumes "API_UpdateInstance a n ch et t = (Inr u, t')" "\<not> change_is_empty ch"
  shows "\<exists>i j. iv t n = Some i \<and> iv t' n = Some j \<and> (et = [] \<or> et = ii_etag i)
    \<and> same_settings own (ii_config j) (change_config ch (ii_config i)) \<and> ii_devices j = change_devices ch (ii_devices i)"
  using assms
proof (cases rule: update_run)
  case (sent i fresh f t1 r0 w)
  note run = sent
  let ?et = "if et = [] then fresh else et"
  have r0: "r0 = Inr u" using run(7) by simp
  have "ip_restore (apply_change ch ((ai_put i)\<lparr>ip_config := Some (or_empty (ip_config (ai_put i)))\<rparr>)) = []"
    using run(5) by (simp add: apply_change_put)
  from sv_update_ok [OF run(6) [unfolded r0] this]
  obtain g e' where g: "?et = [] \<or> ?et = fresh" "held hv w n = Some (g, e')"
      "same_instance own (ai_put g) (apply_change ch ((ai_put i)\<lparr>ip_config := Some (or_empty (ip_config (ai_put i)))\<rparr>))"
    using run(3) by auto
  have "iv t n = Some ((convert_instance f)\<lparr>ii_etag := fresh\<rparr>)"
    using run(1,3) by (simp add: held_side flip: run(1))
  moreover have "iv t' n = Some ((convert_instance g)\<lparr>ii_etag := e'\<rparr>)" using run(2) g(2) by (simp add: held_side)
  ultimately show ?thesis using g(1,3) run(4)
    by (auto simp: same_instance_def convert_instance_def apply_change_put or_empty_def split: if_splits)
qed simp

lemma api_update_stale:
  assumes "\<not> change_is_empty ch" "iv t n = Some i" "et \<noteq> []" "et \<noteq> ii_etag i"
  shows "(\<exists>e. fst (API_UpdateInstance a n ch et t) = Inl e) \<and> iv (snd (API_UpdateInstance a n ch et t)) = iv t"
proof -
  obtain r t' where up: "API_UpdateInstance a n ch et t = (r, t')" by force
  then show ?thesis using assms(1)
  proof (cases rule: update_run)
    case (sent j fresh f t1 r0 u)
    have "iv t1 n = Some i" using sent(1) assms(2) by simp
    then have stale: "et \<noteq> fresh" using sent(3) assms(4) by (auto simp: held_side)
    let ?put = "apply_change ch ((ai_put j)\<lparr>ip_config := Some (or_empty (ip_config (ai_put j)))\<rparr>)"
    obtain e w where "sv_update sv n ?put et (server_side t1) = (Inl e, w)" "held hv w = held hv (server_side t1)"
      using sv_update_stale [OF sent(3) assms(3) stale, of ?put] by blast
    then have "bindE (sv_update sv n ?put (if et = [] then fresh else et)) (sv_wait sv) (server_side t1) = (Inl e, w)"
      "held hv w = held hv (server_side t1)" using assms(3) by (simp_all add: run_bindE)
    then have "r0 = Inl e" "held hv u = held hv (server_side t1)" using sent(6) by simp_all
    then have "\<exists>e. r = Inl e" "iv t' = iv t1" using sent(2,7) by (cases r; auto simp: fun_eq_iff held_side)+
    then show ?thesis using up sent(1) by simp
  qed (simp add: up)
qed

lemma api_update_empty: "change_is_empty ch \<Longrightarrow> API_UpdateInstance a n ch et t = (Inr (), t)"
  by (simp add: API_UpdateInstance_def run_ret)

lemma api_client_sel [simp]:
  "cl_instance (api_client a) = API_Instance a" "cl_list (api_client a) = API_ListInstances a"
  "cl_create (api_client a) = API_CreateInstance a" "cl_start (api_client a) = API_StartInstance a"
  "cl_stop (api_client a) = API_StopInstance a" "cl_delete (api_client a) = API_DeleteInstance a"
  "cl_update (api_client a) = API_UpdateInstance a"
  "cl_idmapped_mounts (api_client a) = API_SupportsIDMappedMounts a"
  "cl_profile_names (api_client a) = API_ProfileNames a" "cl_check_image (api_client a) = API_CheckImage a"
  "cl_volume_exists (api_client a) = API_VolumeExists a"
  "cl_create_volume (api_client a) = API_CreateVolume a" "cl_delete_volume (api_client a) = API_DeleteVolume a"
  "cl_create_snapshot (api_client a) = API_CreateSnapshot a" "cl_snapshots (api_client a) = API_Snapshots a"
  "cl_restore_snapshot (api_client a) = API_RestoreSnapshot a"
  "cl_delete_snapshot (api_client a) = API_DeleteSnapshot a"
  "cl_exec (api_client a) = API_Exec a" "cl_wait_ready (api_client a) = API_WaitReady a"
  by (simp_all add: api_client_def api_client_with_def)

lemmas api_reads = api_instance_reads api_list_reads api_host_reads api_snapshot_reads api_exec_reads
  api_wait_ready_reads

lemmas api_changes = api_create_frame api_start_frame api_stop_frame api_delete_frame api_update_frame
  api_restore_frame

lemma still_after:
  assumes "keeps (still n i) m" "iv t n = Some i"
  shows "\<exists>j. iv (snd (m t)) n = Some j \<and> same_settings own (ii_config j) (ii_config i) \<and> ii_devices j = ii_devices i"
  using keepsD [OF assms(1) still_now [OF assms(2)]] by (simp add: still_def)

lemma api_delete_refused_view:
  assumes "API_DeleteInstance a n t = (Inl e, t')" "\<not> errors_is e ErrOutcomeUnknown" "iv t n = Some i"
  shows "\<exists>j. iv t' n = Some j \<and> same_settings own (ii_config j) (ii_config i) \<and> ii_devices j = ii_devices i"
  using api_delete_refused [OF assms(1,2) still_now [OF assms(3)]] by (simp add: still_def)

end

text \<open>So the client is a daemon.\<close>

sublocale incus_api < client: daemon "api_client a" "api_iv hv" "api_vv vv" own
proof (unfold_locales, unfold api_client_sel)
qed (fact api_reads api_changes api_create_volume_laws api_delete_volume_laws api_instance_ok api_volume_exists_ok
    api_create_ok api_create_refused api_start_running api_delete_ok api_update_ok api_update_stale
    api_delete_refused_view still_after [OF api_start_ok] still_after [OF api_stop_ok]
  | rule api_instance_ok api_volume_exists_ok api_create_ok api_create_refused api_start_running api_delete_ok
    api_update_ok api_update_stale api_delete_refused_view api_create_volume_laws(3) api_delete_volume_laws(3)
    still_after [OF api_start_ok] still_after [OF api_stop_ok]; assumption
  | simp add: api_update_empty)+

end
