(* ===== verification/Connect.thy ===== *)
theory Connect
  imports Api_Daemon
begin

text \<open>
  Models \<open>internal/incus/connect.go\<close>: connecting to the local Incus, and finding an image once per run.
  The configuration of the \<open>incus\<close> command and the image servers are library code, so they are the
  record \<open>cli_config\<close>: \<open>'i\<close> is an image server and \<open>'m\<close> an image.
\<close>

definition local_remote :: string where "local_remote = ''local''"

record ('s, 'o, 'i, 'm) cli_config =
  cc_instance_server :: "string \<Rightarrow> ('s timed, err, ('s, 'o, 'i \<times> 'm) server) op"
  cc_use_project :: "('s, 'o, 'i \<times> 'm) server \<Rightarrow> string \<Rightarrow> ('s, 'o, 'i \<times> 'm) server"
  cc_image_server :: "string \<Rightarrow> ('s timed, err, 'i) op"
  cc_parse_remote :: "string \<Rightarrow> err + string \<times> string"
  cc_alias_type :: "'i \<Rightarrow> string \<Rightarrow> string \<Rightarrow> ('s timed, err, string option) op"
  cc_get_image :: "'i \<Rightarrow> string \<Rightarrow> ('s timed, err, 'm) op"

text \<open>
  Work done beside a \<open>select\<close> with the end of the context: when the run is interrupted by the time the
  answer is there, the answer is not waited for. The work itself is not stopped.
\<close>

definition interruptible :: "('s timed, err, 'a) op \<Rightarrow> ('s timed, err, 'a) op" where
  "interruptible m = (\<lambda>t. case m t of (r, t1) \<Rightarrow>
     (case tw_cancel t1 of
        None \<Rightarrow> (r, t1)
      | Some c \<Rightarrow> if c \<le> tw_now t1 then (Inl canceled, t1\<lparr>tw_now := max (tw_now t) c\<rparr>) else (r, t1)))"


section \<open>Images\<close>

definition image_name :: "('s, 'o, 'i, 'm) cli_config \<Rightarrow> string \<Rightarrow> err + string \<times> string" where
  "image_name cfg ref =
     (case cc_parse_remote cfg ref of
        Inl e \<Rightarrow> Inl (Errorf ''parse image reference %q: %w'' [S ref, W e])
      | Inr (rem, nm) \<Rightarrow>
          if nm = [] then Inl (Errorf ''image reference %q has no image name'' [S ref]) else Inr (rem, nm))"

text \<open>The alias, or else the name taken for a fingerprint; an alias lookup that failed is told of too.\<close>

definition resolve_image :: "('s, 'o, 'i, 'm) cli_config \<Rightarrow> string \<Rightarrow> ('s timed, err, 'i \<times> 'm) op" where
  "resolve_image cfg ref =
     bindE (lift_result (image_name cfg ref)) (\<lambda>(rem, nm).
     bindE (wrap (\<lambda>e. Errorf ''connect to image server %q: %w'' [S rem, W e]) (cc_image_server cfg rem)) (\<lambda>srv.
     bindE (attempt (cc_alias_type cfg srv ''container'' nm)) (\<lambda>found.
       let fingerprint = (case found of Inr (Some target) \<Rightarrow> target | _ \<Rightarrow> nm)
       in bindE (wrap (\<lambda>e. case found of
              Inl alias_err \<Rightarrow> Errorf ''resolve image %q: %w (alias lookup failed: %w)'' [S ref, W e, W alias_err]
            | Inr _ \<Rightarrow> Errorf ''resolve image %q: %w'' [S ref, W e]) (cc_get_image cfg srv fingerprint))
          (\<lambda>image. ret (srv, image)))))"

definition cached :: "string \<Rightarrow> ('s, 'g) api_state \<Rightarrow> 'g option" where
  "cached ref t = fmlookup (aw_images (tw_world t)) ref"

definition remember :: "string \<Rightarrow> 'g \<Rightarrow> (('s, 'g) api_state, err, unit) op" where
  "remember ref hit = modify (\<lambda>t. t\<lparr>tw_world := (tw_world t)\<lparr>aw_images := fmupd ref hit (aw_images (tw_world t))\<rparr>\<rparr>)"

definition Resolve :: "('s, 'o, 'i, 'm) cli_config \<Rightarrow> string \<Rightarrow> (('s, 'i \<times> 'm) api_state, err, 'i \<times> 'm) op" where
  "Resolve cfg ref =
     bindE get_state (\<lambda>t.
       case cached ref t of
         Some hit \<Rightarrow> ret hit
       | None \<Rightarrow>
           bindE (on_server (interruptible (resolve_image cfg ref))) (\<lambda>hit.
           thenE (remember ref hit) (ret hit)))"

definition Alias :: "('s, 'o, 'i, 'm) cli_config \<Rightarrow> string \<Rightarrow> err + string \<times> string" where
  "Alias cfg ref = image_name cfg ref"


section \<open>Connecting\<close>

text \<open>The client of a connection: the terminal, the logger and the text of a duration are the program's.\<close>

definition api_of :: "('s, 'o, 'i, 'm) cli_config \<Rightarrow> console \<Rightarrow> bool \<Rightarrow> (int \<Rightarrow> string)
  \<Rightarrow> ('s, 'o, 'i \<times> 'm) server \<Rightarrow> ('s, 'o, 'i \<times> 'm) api" where
  "api_of cfg co logger dur sv =
     \<lparr>api_server = sv, api_resolve = Resolve cfg, api_alias = Alias cfg, api_console = co,
      api_logger = logger, api_duration = dur\<rparr>"

definition connect :: "('s, 'o, 'i, 'm) cli_config \<Rightarrow> console \<Rightarrow> bool \<Rightarrow> (int \<Rightarrow> string) \<Rightarrow> string
  \<Rightarrow> ('s timed, err, ('s, 'o, 'i \<times> 'm) api) op" where
  "connect cfg co logger dur project =
     wrap (\<lambda>e. Errorf ''connect to the local incus: %w'' [W e])
       (interruptible
         (bindE (cc_instance_server cfg local_remote) (\<lambda>sv.
            ret (api_of cfg co logger dur (if project \<noteq> [] then cc_use_project cfg sv project else sv)))))"


section \<open>Facts\<close>

lemma interruptible_reads:
  assumes "reads_only (held hv) (held vv) m"
  shows "reads_only (held hv) (held vv) (interruptible m)"
proof (rule reads_onlyI, rule keepsI)
  fix x y s assume "held hv s = x \<and> held vv s = y"
  moreover have "tw_world (snd (interruptible m s)) = tw_world (snd (m s))"
    by (simp add: interruptible_def split: prod.split option.split)
  ultimately show "held hv (snd (interruptible m s)) = x \<and> held vv (snd (interruptible m s)) = y"
    using reads_same [OF assms] by simp
qed

text \<open>What a client needs of the image servers: that asking them changes nothing in Incus.\<close>

locale image_servers = incus_server sv hv vv own
  for sv :: "('s, 'o, 'i \<times> 'm) server" and hv :: "'s \<Rightarrow> string \<Rightarrow> (instance_full \<times> string) option"
    and vv :: "'s \<Rightarrow> string set" and own :: "string \<Rightarrow> bool" +
  fixes cfg :: "('s, 'o, 'i, 'm) cli_config"
    and co :: console and logger :: bool and dur :: "int \<Rightarrow> string"
  assumes image_server_reads: "reads_only (held hv) (held vv) (cc_image_server cfg rem)"
    and alias_reads: "reads_only (held hv) (held vv) (cc_alias_type cfg srv ty nm)"
    and image_reads: "reads_only (held hv) (held vv) (cc_get_image cfg srv fp)"
begin

lemma resolve_image_reads: "reads_only (held hv) (held vv) (resolve_image cfg ref)"
  unfolding resolve_image_def Let_def
  by (rule reads_onlyI, intro keeps_intros reads_keeps image_server_reads alias_reads image_reads)

lemma Resolve_reads: "reads_only (api_iv hv) (api_vv vv) (Resolve cfg ref)"
proof (rule reads_onlyI)
  fix x y
  have "keeps (\<lambda>w. api_iv hv w = x \<and> api_vv vv w = y) (remember ref hit)" for hit
    by (simp add: remember_def keeps_def run_modify api_iv_def [abs_def] api_vv_def)
  then show "keeps (\<lambda>w. api_iv hv w = x \<and> api_vv vv w = y) (Resolve cfg ref)"
    unfolding Resolve_def
    by (intro keeps_bindE [OF keeps_get] keeps_case_option keeps_ret keeps_thenE
        keeps_bindE [OF reads_keeps [OF reads_server [OF interruptible_reads [OF resolve_image_reads]]]])
qed

end

text \<open>A client that resolves images this way is a client of the server.\<close>

sublocale image_servers < connected: incus_api sv hv vv own "api_of cfg co logger dur sv"
  by unfold_locales (simp_all add: api_of_def Resolve_reads)

end
