(* ===== verification/Mem_Server.thy ===== *)
theory Mem_Server
  imports Connect
begin

text \<open>
  An Incus daemon in memory, for the API client to talk to: it has the documented behaviour of the
  locale \<open>incus_server\<close>, so the locale and what follows from it are about something. Operations take
  effect when they are waited for; an interrupted wait leaves all but a creation to be carried out.
  Writes are judged by etags, pools and instances may be missing, the daemon writes configuration keys
  of its own, and any call and any operation may be made to fail. Calls take time.
\<close>


section \<open>The daemon\<close>

record mem =
  me_instances :: "(instance_full \<times> nat) gomap"
  me_next :: nat
  me_volumes :: "bool gomap"
  me_pools :: "string list"
  me_profiles :: "string list"
  me_features :: "string gomap"
  me_snapshots :: "snapshot list gomap"
  me_saved :: "instance_put gomap"
  me_images :: "string gomap"
  me_failing :: "string list"
  me_failing_ops :: "string list"
  me_runs :: "string \<Rightarrow> exec_post \<Rightarrow> int \<times> string"
  me_cost :: nat

datatype mem_op =
    MCreate string instance_put
  | MUpdate string instance_put
  | MState string string
  | MDelete string
  | MSnapshot string string
  | MUnsnapshot string string
  | MExec int string

fun op_name :: "mem_op \<Rightarrow> string" where
  "op_name (MCreate n p) = ''create''"
| "op_name (MUpdate n p) = ''update''"
| "op_name (MState n s) = ''state''"
| "op_name (MDelete n) = ''delete''"
| "op_name (MSnapshot n s) = ''snapshot''"
| "op_name (MUnsnapshot n s) = ''unsnapshot''"
| "op_name (MExec c out) = ''exec''"

definition set_held :: "string \<Rightarrow> instance_full \<Rightarrow> mem \<Rightarrow> mem" where
  "set_held n f w = w\<lparr>me_instances := fmupd n (f, me_next w) (me_instances w), me_next := me_next w + 1\<rparr>"

definition put_key :: "string \<Rightarrow> string \<Rightarrow> instance_put \<Rightarrow> instance_put" where
  "put_key k v put = put\<lparr>ip_config := Some (fmupd k v (or_empty (ip_config put)))\<rparr>"

fun saved_key :: "string \<Rightarrow> string \<Rightarrow> string" where
  "saved_key n s = n @ ''/'' @ s"

definition mem_snapshots :: "mem \<Rightarrow> string \<Rightarrow> snapshot list" where
  "mem_snapshots w n = (case fmlookup (me_snapshots w) n of None \<Rightarrow> [] | Some ss \<Rightarrow> ss)"

text \<open>What an operation does to the daemon. It writes the image and the last state of an instance as keys
  of its own.\<close>

fun effect :: "mem_op \<Rightarrow> mem \<Rightarrow> mem" where
  "effect (MCreate n put) w =
     set_held n \<lparr>ai_name = n, ai_status = ''Stopped'', ai_put = put_key ''image.os'' ''linux'' put,
       if_last_used = zero_time, if_expanded = or_empty (ip_devices put), if_state = None\<rparr> w"
| "effect (MUpdate n put) w =
     (case fmlookup (me_instances w) n of
        None \<Rightarrow> w
      | Some (f, _) \<Rightarrow>
          if ip_restore put = [] then set_held n (f\<lparr>ai_put := put\<rparr>) w
          else (case fmlookup (me_saved w) (saved_key n (ip_restore put)) of
              None \<Rightarrow> w | Some old \<Rightarrow> set_held n (f\<lparr>ai_put := old\<rparr>) w))"
| "effect (MState n s) w =
     (case fmlookup (me_instances w) n of
        None \<Rightarrow> w
      | Some (f, _) \<Rightarrow>
          set_held n (f\<lparr>ai_status := s, ai_put := put_key ''volatile.last_state.power'' s (ai_put f)\<rparr>) w)"
| "effect (MDelete n) w = w\<lparr>me_instances := fmdrop n (me_instances w)\<rparr>"
| "effect (MSnapshot n s) w =
     w\<lparr>me_snapshots := fmupd n (mem_snapshots w n @ [\<lparr>sn_name = saved_key n s, sn_created = zero_time\<rparr>]) (me_snapshots w),
       me_saved := (case fmlookup (me_instances w) n of
           None \<Rightarrow> me_saved w | Some (f, _) \<Rightarrow> fmupd (saved_key n s) (ai_put f) (me_saved w))\<rparr>"
| "effect (MUnsnapshot n s) w =
     w\<lparr>me_snapshots := fmupd n (filter (\<lambda>x. sn_name x \<noteq> saved_key n s) (mem_snapshots w n)) (me_snapshots w)\<rparr>"
| "effect (MExec c out) w = w"


section \<open>Its calls\<close>

definition tick :: "mem timed \<Rightarrow> mem timed" where
  "tick t = t\<lparr>tw_now := tw_now t + me_cost (tw_world t)\<rparr>"

text \<open>Every call takes its time, and may fail.\<close>

definition call_mem :: "string \<Rightarrow> (mem \<Rightarrow> err + 'a) \<Rightarrow> (mem timed, err, 'a) op" where
  "call_mem what f = (\<lambda>t.
     (if List.member (me_failing (tw_world t)) what then Inl (Errorf ''%s failed'' [S what]) else f (tw_world t),
      tick t))"

definition mem_status :: "err \<Rightarrow> int \<Rightarrow> bool" where
  "mem_status e code \<longleftrightarrow>
     (case e of
        Foreign s \<Rightarrow> (code = 404 \<and> contains_str s ''not found'') \<or> (code = 412 \<and> contains_str s ''ETag'')
      | _ \<Rightarrow> False)"

definition no_instance :: err where "no_instance = Foreign ''Instance not found''"
definition no_mem_pool :: err where "no_mem_pool = Foreign ''Storage pool not found''"
definition no_volume :: err where "no_volume = Foreign ''Storage volume not found''"

definition tag_of :: "nat \<Rightarrow> string" where "tag_of v = CHR ''v'' # dec v"

text \<open>What a reading shows: a target to restore is only ever sent.\<close>

definition shown :: "instance_full \<Rightarrow> instance_full" where
  "shown f = f\<lparr>ai_put := (ai_put f)\<lparr>ip_restore := []\<rparr>\<rparr>"

definition mem_held :: "mem \<Rightarrow> string \<Rightarrow> (instance_full \<times> string) option" where
  "mem_held w n = map_option (\<lambda>(f, v). (shown f, tag_of v)) (fmlookup (me_instances w) n)"

definition mem_there :: "mem \<Rightarrow> string \<Rightarrow> bool" where
  "mem_there w r \<longleftrightarrow> fmlookup (me_volumes w) r = Some True"

definition mem_volumes :: "mem \<Rightarrow> string set" where
  "mem_volumes w = {r. mem_there w r}"

definition mem_complete :: "mem_op \<Rightarrow> mem \<Rightarrow> (err + unit) \<times> mem" where
  "mem_complete oper w =
     (if List.member (me_failing_ops w) (op_name oper) then (Inl (Errorf ''operation %s failed'' [S (op_name oper)]), w)
      else (Inr (), effect oper w))"

definition carried_out :: "mem_op \<Rightarrow> mem \<Rightarrow> mem" where
  "carried_out oper w = (case oper of MCreate n put \<Rightarrow> w | _ \<Rightarrow> effect oper w)"

definition mem_await :: "mem_op \<Rightarrow> mem timed \<Rightarrow> (err + unit) option \<times> mem timed" where
  "mem_await oper t =
     (let t1 = tick t
      in if cancelled t1 then (None, t1\<lparr>tw_world := carried_out oper (tw_world t1)\<rparr>)
         else case mem_complete oper (tw_world t1) of (r, w) \<Rightarrow> (Some r, t1\<lparr>tw_world := w\<rparr>))"

definition mem_wait :: "mem_op \<Rightarrow> (mem timed, err, unit) op" where
  "mem_wait oper t = (case mem_await oper t of (Some r, t1) \<Rightarrow> (r, t1) | (None, t1) \<Rightarrow> (Inl canceled, t1))"

definition when_there :: "string \<Rightarrow> mem_op \<Rightarrow> mem \<Rightarrow> err + mem_op" where
  "when_there n oper w = (if has_key (me_instances w) n then Inr oper else Inl no_instance)"

definition start_create :: "instances_post \<Rightarrow> mem \<Rightarrow> err + mem_op" where
  "start_create post w =
     (if has_key (me_instances w) (po_name post)
      then Inl (Foreign (''Add instance info to the database: '' @ entry_exists ''instances''))
      else Inr (MCreate (po_name post) (po_put post)))"

definition start_update :: "string \<Rightarrow> instance_put \<Rightarrow> string \<Rightarrow> mem \<Rightarrow> err + mem_op" where
  "start_update n put et w =
     (case mem_held w n of None \<Rightarrow> Inl no_instance
      | Some (f, tag) \<Rightarrow>
          if et \<noteq> [] \<and> et \<noteq> tag then Inl (Foreign ''ETag mismatch'')
          else if ip_restore put \<noteq> []
            \<and> fmlookup (me_saved w) (saved_key n (ip_restore put)) = None then Inl (Foreign ''Snapshot not found'')
          else Inr (MUpdate n put))"

definition start_state :: "string \<Rightarrow> state_put \<Rightarrow> mem \<Rightarrow> err + mem_op" where
  "start_state n sp = when_there n (MState n (if sp_action sp = ''start'' then ''Running'' else ''Stopped''))"

definition start_snapshot :: "string \<Rightarrow> string \<Rightarrow> mem \<Rightarrow> err + mem_op" where
  "start_snapshot n s w =
     (if list_ex (\<lambda>c. c = CHR ''/'' \<or> c = CHR '' '') s then Inl (Foreign ''Invalid snapshot name'')
      else if list_ex (\<lambda>x. sn_name x = saved_key n s) (mem_snapshots w n)
      then Inl (Foreign (''Insert: '' @ entry_exists ''instances_snapshots''))
      else when_there n (MSnapshot n s) w)"

definition start_unsnapshot :: "string \<Rightarrow> string \<Rightarrow> mem \<Rightarrow> err + mem_op" where
  "start_unsnapshot n s w =
     (if list_ex (\<lambda>x. sn_name x = saved_key n s) (mem_snapshots w n) then Inr (MUnsnapshot n s)
      else Inl (Foreign ''Snapshot not found''))"

lemmas start_defs = start_create_def start_update_def start_state_def start_snapshot_def start_unsnapshot_def when_there_def

definition mem_server :: "(mem, mem_op, string \<times> string) server" where
  "mem_server = \<lparr>
     sv_get_full = (\<lambda>n. call_mem ''get full'' (\<lambda>w. case mem_held w n of None \<Rightarrow> Inl no_instance | Some x \<Rightarrow> Inr x)),
     sv_get = (\<lambda>n. call_mem ''get'' (\<lambda>w. case mem_held w n of None \<Rightarrow> Inl no_instance
        | Some (f, tag) \<Rightarrow> Inr (\<lparr>ai_name = ai_name f, ai_status = ai_status f, ai_put = ai_put f\<rparr>, tag))),
     sv_list = call_mem ''list'' (\<lambda>w. Inr (map (\<lambda>n. case mem_held w n of
          None \<Rightarrow> \<lparr>ai_name = n, ai_status = [], ai_put = zero_put\<rparr>
        | Some (f, _) \<Rightarrow> \<lparr>ai_name = ai_name f, ai_status = ai_status f, ai_put = ai_put f\<rparr>)
          (sorted_keys (me_instances w)))),
     sv_create = (\<lambda>g post. call_mem ''create'' (start_create post)),
     sv_update = (\<lambda>n put et. call_mem ''update'' (start_update n put et)),
     sv_update_state = (\<lambda>n sp et. call_mem ''state'' (start_state n sp)),
     sv_delete = (\<lambda>n. call_mem ''delete'' (when_there n (MDelete n))),
     sv_exec = (\<lambda>n req stdin. call_mem ''exec'' (\<lambda>w. case mem_held w n of None \<Rightarrow> Inl no_instance
        | Some (f, _) \<Rightarrow>
            if ai_status f \<noteq> ''Running'' then Inl (Foreign ''Instance is not running'')
            else case me_runs w n req of (c, out) \<Rightarrow> Inr (MExec c out))),
     sv_kernel_features = call_mem ''server'' (\<lambda>w. Inr (me_features w)),
     sv_profile_names = call_mem ''profiles'' (\<lambda>w. Inr (me_profiles w)),
     sv_get_volume = (\<lambda>p ty v. call_mem ''get volume'' (\<lambda>w.
        if \<not> List.member (me_pools w) p then Inl no_mem_pool
        else if mem_there w (ref_of p v) \<and> ty = ''custom'' then Inr () else Inl no_volume)),
     sv_create_volume = (\<lambda>p vol t. case call_mem ''create volume'' (\<lambda>w.
          if \<not> List.member (me_pools w) p then Inl no_mem_pool
          else if mem_there w (ref_of p (vp_name vol)) then Inl (Foreign ''Volume by that name already exists'')
          else Inr ()) t of
        (Inl e, t1) \<Rightarrow> (Inl e, t1)
      | (Inr u, t1) \<Rightarrow> (Inr u, t1\<lparr>tw_world := (tw_world t1)\<lparr>me_volumes :=
            fmupd (ref_of p (vp_name vol)) True (me_volumes (tw_world t1))\<rparr>\<rparr>)),
     sv_delete_volume = (\<lambda>p ty v t. case call_mem ''delete volume'' (\<lambda>w.
          if mem_there w (ref_of p v) then Inr () else Inl no_volume) t of
        (Inl e, t1) \<Rightarrow> (Inl e, t1)
      | (Inr u, t1) \<Rightarrow> (Inr u, t1\<lparr>tw_world := (tw_world t1)\<lparr>me_volumes :=
            fmdrop (ref_of p v) (me_volumes (tw_world t1))\<rparr>\<rparr>)),
     sv_snapshots = (\<lambda>n. call_mem ''snapshots'' (\<lambda>w. Inr (mem_snapshots w n))),
     sv_create_snapshot = (\<lambda>n s. call_mem ''snapshot'' (start_snapshot n s)),
     sv_delete_snapshot = (\<lambda>n s. call_mem ''unsnapshot'' (start_unsnapshot n s)),
     sv_wait = mem_wait,
     sv_await = mem_await,
     sv_cancel_target = (\<lambda>_ t. t),
     sv_data = (\<lambda>oper t. case oper of
          MExec c out \<Rightarrow> if cancelled t then (None, t) else (Some out, t)
        | _ \<Rightarrow> (None, t)),
     sv_metadata = (\<lambda>oper t. case oper of MExec c out \<Rightarrow> Some (MFloat (rat_of_int c)) | _ \<Rightarrow> None),
     sv_signal_sent = (\<lambda>_ t. Some (tw_now t)),
     sv_status = mem_status\<rparr>"

text \<open>The images it knows, under every remote.\<close>

definition mem_config :: "(mem, mem_op, string, string) cli_config" where
  "mem_config = \<lparr>
     cc_instance_server = (\<lambda>_. call_mem ''connect'' (\<lambda>_. Inr mem_server)),
     cc_use_project = (\<lambda>sv _. sv),
     cc_image_server = (\<lambda>rem. call_mem ''image server'' (\<lambda>_. Inr rem)),
     cc_parse_remote = (\<lambda>ref. case cut_at (CHR '':'') ref of
          (rem, nm, found) \<Rightarrow> Inr (if found then (rem, nm) else (local_remote, ref))),
     cc_alias_type = (\<lambda>srv ty nm. call_mem ''alias'' (\<lambda>w. Inr (fmlookup (me_images w) nm))),
     cc_get_image = (\<lambda>srv fp. call_mem ''image'' (\<lambda>w.
        if list_ex (\<lambda>k. fmlookup (me_images w) k = Some fp) (sorted_keys (me_images w)) then Inr fp
        else Inl (Foreign ''Image not found'')))\<rparr>"

definition no_console :: console where
  "no_console = \<lparr>co_make_raw = None, co_size = Inr (80, 24)\<rparr>"

definition mem_api :: "(mem, mem_op, string \<times> string) api" where
  "mem_api = api_of mem_config no_console True itoa mem_server"


section \<open>It has the documented behaviour\<close>

lemma call_mem_world [simp]: "tw_world (snd (call_mem what f t)) = tw_world t"
  by (simp add: call_mem_def tick_def)

lemma call_mem_run:
  "call_mem what f t = (r, t') \<longleftrightarrow>
     t' = tick t \<and> r = (if List.member (me_failing (tw_world t)) what then Inl (Errorf ''%s failed'' [S what]) else f (tw_world t))"
  by (auto simp: call_mem_def)

lemma tick_world [simp]: "tw_world (tick t) = tw_world t"
  by (simp add: tick_def)

lemma mem_server_waits [simp]:
  "sv_wait mem_server = mem_wait" "sv_await mem_server = mem_await"
  "sv_cancel_target mem_server = (\<lambda>_ t. t)" "sv_status mem_server = mem_status"
  by (simp_all add: mem_server_def)

lemma mem_server_starts [simp]:
  "sv_create mem_server g post = call_mem ''create'' (start_create post)"
  "sv_update mem_server n put et = call_mem ''update'' (start_update n put et)"
  "sv_update_state mem_server n sp et = call_mem ''state'' (start_state n sp)"
  "sv_delete mem_server n = call_mem ''delete'' (when_there n (MDelete n))"
  "sv_create_snapshot mem_server n s = call_mem ''snapshot'' (start_snapshot n s)"
  "sv_delete_snapshot mem_server n s = call_mem ''unsnapshot'' (start_unsnapshot n s)"
  by (simp_all add: mem_server_def)

lemma mem_waits:
  "mem_wait oper t = (case mem_await oper t of (Some r, t1) \<Rightarrow> (r, t1) | (None, t1) \<Rightarrow> (Inl canceled, t1))"
  "wait_op mem_server oper t = (case mem_await oper t of (Some r, t1) \<Rightarrow> (r, t1) | (None, t1) \<Rightarrow> (Inl canceled, t1))"
  "wait_delete mem_server oper t = (case mem_await oper t of (Some r, t1) \<Rightarrow> (r, t1)
     | (None, t1) \<Rightarrow> (Inl (Errorf ''%w: %w'' [W canceled, W (Sentinel ErrOutcomeUnknown)]), t1))"
  by (simp_all add: mem_wait_def wait_op_def wait_delete_def split: prod.split option.split)

lemma call_mem_reads: "reads_only (held hv) (held vv) (call_mem what f)"
  by (intro reads_onlyI keepsI) simp

text \<open>A call that starts an operation, and one of the two ways to wait for it.\<close>

lemma mem_staged:
  assumes "w \<in> {mem_wait, wait_delete mem_server, wait_op mem_server}"
    and "bindE (call_mem what f) w t = (r, t')"
  obtains (refused) e where "r = Inl e" "tw_world t' = tw_world t"
      "List.member (me_failing (tw_world t)) what \<or> (\<exists>e. f (tw_world t) = Inl e)"
  | (failed) oper e where "f (tw_world t) = Inr oper" "r = Inl e" "tw_world t' = tw_world t"
  | (interrupted) oper e where "f (tw_world t) = Inr oper" "r = Inl e" "tw_world t' = carried_out oper (tw_world t)"
      "w = wait_delete mem_server \<longrightarrow> errors_is e ErrOutcomeUnknown"
  | (completed) oper where "f (tw_world t) = Inr oper" "r = Inr ()" "tw_world t' = effect oper (tw_world t)"
proof (cases "call_mem what f t")
  case (Pair r1 t1)
  then have t1: "tw_world t1 = tw_world t" by (simp add: call_mem_run)
  show thesis
  proof (cases r1)
    case (Inl e)
    then have "r = Inl e" "t' = t1" using Pair assms(2) by (simp_all add: run_bindE)
    moreover have "List.member (me_failing (tw_world t)) what \<or> (\<exists>e. f (tw_world t) = Inl e)"
      using Pair Inl unfolding call_mem_run by metis
    ultimately show thesis using refused t1 by blast
  next
    case (Inr oper)
    then have f: "f (tw_world t) = Inr oper" using Pair by (auto simp: call_mem_run split: if_splits)
    have w: "w oper t1 = (r, t')" using Pair Inr assms(2) by (simp add: run_bindE)
    show thesis
    proof (cases "cancelled (tick t1)")
      case True
      then have "tw_world t' = carried_out oper (tw_world t)" "\<exists>e. r = Inl e"
        using w assms(1) t1 by (auto simp: mem_waits mem_await_def Let_def)
      moreover have "\<exists>e. r = Inl e \<and> errors_is e ErrOutcomeUnknown" if "w = wait_delete mem_server"
        using w True that by (auto simp: mem_waits mem_await_def Let_def)
      ultimately show thesis using interrupted [OF f] by (cases "w = wait_delete mem_server") auto
    next
      case False
      then have "(r, tw_world t') = mem_complete oper (tw_world t)"
        using w assms(1) t1
        by (auto simp: mem_waits mem_await_def Let_def split: prod.splits)
      then show thesis using failed [OF f] completed [OF f] by (auto simp: mem_complete_def split: if_splits)
    qed
  qed
qed

lemma shown_simps [simp]:
  "ai_status (shown f) = ai_status f" "ai_name (shown f) = ai_name f"
  "same_instance own (ai_put (shown f)) q = same_instance own (ai_put f) q"
  "same_instance own q (ai_put (shown f)) = same_instance own q (ai_put f)"
  "ip_restore (ai_put (shown f)) = []"
  by (simp_all add: shown_def same_instance_def)

lemma held_effect:
  "mem_held (set_held n f w) = (mem_held w)(n \<mapsto> (shown f, tag_of (me_next w)))"
  "mem_volumes (set_held n f w) = mem_volumes w"
  by (auto simp: set_held_def mem_held_def mem_volumes_def mem_there_def fun_eq_iff)

lemma mem_held_simps [simp]:
  "mem_held (w\<lparr>me_snapshots := x\<rparr>) = mem_held w" "mem_held (w\<lparr>me_saved := y\<rparr>) = mem_held w"
  "mem_volumes (w\<lparr>me_snapshots := x\<rparr>) = mem_volumes w" "mem_volumes (w\<lparr>me_saved := y\<rparr>) = mem_volumes w"
  "mem_held (w\<lparr>me_volumes := z\<rparr>) = mem_held w" "mem_volumes (w\<lparr>me_instances := u\<rparr>) = mem_volumes w"
  "mem_held (w\<lparr>me_instances := fmdrop n (me_instances w)\<rparr>) = (mem_held w)(n := None)"
  by (auto simp: mem_held_def mem_volumes_def mem_there_def fun_eq_iff)

text \<open>An operation changes the instance it names and no volume.\<close>

fun op_target :: "mem_op \<Rightarrow> string option" where
  "op_target (MCreate n p) = Some n"
| "op_target (MUpdate n p) = Some n"
| "op_target (MState n s) = Some n"
| "op_target (MDelete n) = Some n"
| "op_target oper = None"

lemma effect_frame:
  "Some k \<noteq> op_target oper \<Longrightarrow> mem_held (effect oper w) k = mem_held w k"
  "mem_volumes (effect oper w) = mem_volumes w"
  by (cases oper; auto simp: held_effect split: option.splits)+

lemma carried_out_frame:
  "Some k \<noteq> op_target oper \<Longrightarrow> mem_held (carried_out oper w) k = mem_held w k"
  "mem_volumes (carried_out oper w) = mem_volumes w"
  by (cases oper; simp add: carried_out_def effect_frame del: effect.simps)+

text \<open>So a staged call changes what its operation names.\<close>

lemma mem_staged_frame:
  assumes "w \<in> {mem_wait, wait_delete mem_server, wait_op mem_server}"
    and "\<And>x oper. f x = Inr oper \<Longrightarrow> op_target oper \<in> {None, Some n}"
  shows "only_instance (held mem_held) (held mem_volumes) n (bindE (call_mem what f) w)"
proof (rule only_instanceI, rule keepsI)
  fix d y t
  assume I: "(\<forall>k. k \<noteq> n \<longrightarrow> held mem_held t k = d k) \<and> held mem_volumes t = y"
  obtain r t' where run: "bindE (call_mem what f) w t = (r, t')" by force
  have "(\<forall>k. k \<noteq> n \<longrightarrow> held mem_held t' k = held mem_held t k) \<and> held mem_volumes t' = held mem_volumes t"
    using assms(1) run
  proof (cases rule: mem_staged)
    case (interrupted oper e)
    then show ?thesis using assms(2) [OF interrupted(1)] carried_out_frame [where oper = oper] by auto
  next
    case (completed oper)
    then show ?thesis using assms(2) [OF completed(1)] effect_frame [where oper = oper] by auto
  qed simp_all
  then show "(\<forall>k. k \<noteq> n \<longrightarrow> held mem_held (snd (bindE (call_mem what f) w t)) k = d k)
      \<and> held mem_volumes (snd (bindE (call_mem what f) w t)) = y"
    using I run by simp
qed

lemma mem_staged_reads:
  assumes "w \<in> {mem_wait, wait_delete mem_server, wait_op mem_server}"
    and "\<And>x oper. f x = Inr oper \<Longrightarrow> op_target oper = None"
  shows "reads_only (held mem_held) (held mem_volumes) (bindE (call_mem what f) w)"
proof (rule reads_onlyI, rule keepsI)
  fix x y t
  assume I: "held mem_held t = x \<and> held mem_volumes t = y"
  obtain r t' where run: "bindE (call_mem what f) w t = (r, t')" by force
  have "held mem_held t' = held mem_held t \<and> held mem_volumes t' = held mem_volumes t"
    using assms(1) run
  proof (cases rule: mem_staged)
    case (interrupted oper e)
    then show ?thesis using assms(2) [OF interrupted(1)] carried_out_frame [where oper = oper] by (simp add: fun_eq_iff)
  next
    case (completed oper)
    then show ?thesis using assms(2) [OF completed(1)] effect_frame [where oper = oper] by (simp add: fun_eq_iff)
  qed simp_all
  then show "held mem_held (snd (bindE (call_mem what f) w t)) = x
      \<and> held mem_volumes (snd (bindE (call_mem what f) w t)) = y"
    using I run by simp
qed

text \<open>What a staged call has done, by its operation.\<close>

lemma held_has_key: "mem_held w n = None \<longleftrightarrow> \<not> has_key (me_instances w) n"
  by (cases "fmlookup (me_instances w) n") (auto simp: mem_held_def has_key_iff)

lemma same_instance_refl [simp]: "same_instance own p p"
  by (simp add: same_instance_def)

lemma put_key_same: "daemon_key k \<Longrightarrow> same_instance daemon_key (put_key k v put) put"
  by (simp add: same_instance_def put_key_def same_settings_def or_empty_def)

lemma daemon_keys: "daemon_key ''image.os''" "daemon_key ''volatile.last_state.power''"
  by code_simp+

lemma effect_state:
  assumes "mem_held w n = Some (f, tag)"
  shows "\<exists>g tag'. mem_held (effect (MState n s) w) n = Some (g, tag') \<and> ai_status g = s
    \<and> same_instance daemon_key (ai_put g) (ai_put f)"
  using assms put_key_same [OF daemon_keys(2)] by (auto simp: mem_held_def held_effect set_held_def)

lemma mem_create:
  assumes "bindE (call_mem ''create'' (start_create post)) (wait_op mem_server) t = (r, t')"
  shows "r = Inr u \<Longrightarrow> held mem_held t (po_name post) = None
      \<and> (\<exists>f tag. held mem_held t' (po_name post) = Some (f, tag) \<and> ai_status f = ''Stopped''
           \<and> same_instance daemon_key (ai_put f) (po_put post))"
    and "held mem_held t (po_name post) = Some x \<Longrightarrow> (\<exists>e. r = Inl e) \<and> held mem_held t' = held mem_held t"
proof -
  note cases = mem_staged [OF _ assms]
  have did: "\<not> has_key (me_instances (tw_world t)) (po_name post)" "oper = MCreate (po_name post) (po_put post)"
    if "start_create post (tw_world t) = Inr oper" for oper
    using that by (auto simp: start_create_def split: if_splits)
  show "held mem_held t (po_name post) = None
      \<and> (\<exists>f tag. held mem_held t' (po_name post) = Some (f, tag) \<and> ai_status f = ''Stopped''
           \<and> same_instance daemon_key (ai_put f) (po_put post))" if "r = Inr u"
  proof (rule cases)
    fix oper assume c: "start_create post (tw_world t) = Inr oper" "tw_world t' = effect oper (tw_world t)"
    show ?thesis using did(1) [OF c(1)] c(2) unfolding did(2) [OF c(1)]
      by (simp add: held_has_key held_effect put_key_same daemon_keys)
  qed (use that in simp_all)
  show "(\<exists>e. r = Inl e) \<and> held mem_held t' = held mem_held t" if "held mem_held t (po_name post) = Some x"
  proof -
    have "held mem_held t (po_name post) = None" if "start_create post (tw_world t) = Inr oper" for oper
      using did(1) [OF that] held_has_key by metis
    then show ?thesis by (rule_tac cases) (use that in \<open>simp_all; fail\<close>)+
  qed
qed

lemma mem_change_state:
  assumes "bindE (call_mem ''state'' (start_state n sp)) mem_wait t = (r, t')"
  shows "r = Inr u \<Longrightarrow> sp_action sp = ''start'' \<Longrightarrow>
      \<exists>f tag. held mem_held t' n = Some (f, tag) \<and> ai_status f = ''Running''"
    and "held mem_held t n = Some (f, tag) \<Longrightarrow> \<exists>f' tag'. held mem_held t' n = Some (f', tag')
      \<and> same_instance daemon_key (ai_put f') (ai_put f)"
proof -
  let ?s = "if sp_action sp = ''start'' then ''Running'' else ''Stopped''"
  note cases = mem_staged [OF _ assms]
  have there: "\<exists>f tag. held mem_held t n = Some (f, tag)" if "start_state n sp (tw_world t) = Inr oper" for oper
    using that held_has_key [of "tw_world t" n] by (auto simp: start_defs split: if_splits)
  have did: "oper = MState n ?s" if "start_state n sp (tw_world t) = Inr oper" for oper
    using that by (auto simp: start_defs split: if_splits)
  show "\<exists>f tag. held mem_held t' n = Some (f, tag) \<and> ai_status f = ''Running''"
    if "r = Inr u" "sp_action sp = ''start''"
  proof (rule cases)
    fix oper assume c: "start_state n sp (tw_world t) = Inr oper" "r = Inr ()" "tw_world t' = effect oper (tw_world t)"
    obtain f tag where "held mem_held t n = Some (f, tag)" using there [OF c(1)] by blast
    from effect_state [OF this, of ?s] show ?thesis
      using c(3) that(2) unfolding did [OF c(1)] by (auto simp del: effect.simps)
  qed (use that in simp_all)
  show "\<exists>f' tag'. held mem_held t' n = Some (f', tag') \<and> same_instance daemon_key (ai_put f') (ai_put f)"
    if "held mem_held t n = Some (f, tag)"
  proof (rule cases)
    fix oper e assume c: "start_state n sp (tw_world t) = Inr oper" "tw_world t' = carried_out oper (tw_world t)"
    from effect_state [OF that, of ?s] show ?thesis
      using c(2) unfolding did [OF c(1)] by (auto simp: carried_out_def simp del: effect.simps)
  next
    fix oper assume c: "start_state n sp (tw_world t) = Inr oper" "tw_world t' = effect oper (tw_world t)"
    from effect_state [OF that, of ?s] show ?thesis
      using c(2) unfolding did [OF c(1)] by (auto simp del: effect.simps)
  qed (use that in simp_all)
qed

lemma mem_delete:
  assumes "bindE (call_mem ''delete'' (when_there n (MDelete n))) (wait_delete mem_server) t = (r, t')"
  shows "r = Inr u \<Longrightarrow> held mem_held t' n = None"
    and "r = Inl e \<Longrightarrow> \<not> errors_is e ErrOutcomeUnknown \<Longrightarrow> held mem_held t' n = held mem_held t n"
  by (rule mem_staged [OF _ assms]; auto simp: when_there_def split: if_splits)+

lemma mem_update:
  assumes "bindE (call_mem ''update'' (start_update n put et)) mem_wait t = (r, t')" "ip_restore put = []"
  shows "r = Inr u \<Longrightarrow> \<exists>f tag f' tag'. held mem_held t n = Some (f, tag) \<and> (et = [] \<or> et = tag)
    \<and> held mem_held t' n = Some (f', tag') \<and> same_instance daemon_key (ai_put f') put"
  by (rule mem_staged [OF _ assms(1)])
    (auto simp: start_defs assms(2) held_effect mem_held_def set_held_def split: option.splits if_splits)

lemma mem_data: "tw_world (snd (wait_data mem_server oper t)) = tw_world t"
  by (simp add: wait_data_def mem_server_def split: mem_op.split)

lemma mem_exec_waits:
  assumes "sv_exec mem_server n req stdin t = (Inr oper, t1)"
  shows "reads_only (held mem_held) (held mem_volumes) (mem_wait oper)"
    "reads_only (held mem_held) (held mem_volumes) (wait_data mem_server oper)"
proof -
  obtain c out where oper: "oper = MExec c out"
    using assms by (auto simp: mem_server_def call_mem_run split: if_splits option.splits prod.splits)
  have "tw_world (snd (mem_wait oper u)) = tw_world u" for u
    by (simp add: oper mem_waits mem_await_def carried_out_def mem_complete_def Let_def)
  then show "reads_only (held mem_held) (held mem_volumes) (mem_wait oper)"
    by (intro reads_onlyI keepsI) simp
  show "reads_only (held mem_held) (held mem_volumes) (wait_data mem_server oper)"
    by (intro reads_onlyI keepsI) (simp add: mem_data)
qed

lemma mem_volume_laws:
  "held mem_held (snd (sv_create_volume mem_server p vol t)) = held mem_held t"
  "held mem_volumes t \<subseteq> held mem_volumes (snd (sv_create_volume mem_server p vol t))
   \<and> held mem_volumes (snd (sv_create_volume mem_server p vol t)) \<subseteq> insert (ref_of p (vp_name vol)) (held mem_volumes t)"
  "sv_create_volume mem_server p vol t = (Inr u, t') \<Longrightarrow>
     ref_of p (vp_name vol) \<notin> held mem_volumes t \<and> ref_of p (vp_name vol) \<in> held mem_volumes t'"
  "held mem_held (snd (sv_delete_volume mem_server p ty v t)) = held mem_held t"
  "held mem_volumes t - {ref_of p v} \<subseteq> held mem_volumes (snd (sv_delete_volume mem_server p ty v t))
   \<and> held mem_volumes (snd (sv_delete_volume mem_server p ty v t)) \<subseteq> held mem_volumes t"
  "sv_delete_volume mem_server p ty v t = (Inr u, t') \<Longrightarrow>
     ref_of p v \<in> held mem_volumes t \<and> ref_of p v \<notin> held mem_volumes t'"
  by (auto simp: mem_server_def call_mem_def mem_volumes_def mem_there_def split: if_splits sum.splits prod.splits)

lemma mem_get_volume:
  "sv_get_volume mem_server p ''custom'' v t = (Inr u, t') \<Longrightarrow> ref_of p v \<in> held mem_volumes t"
  "sv_get_volume mem_server p ''custom'' v t = (Inl e, t') \<Longrightarrow> mem_status e 404 \<Longrightarrow> \<not> missing_scope e \<Longrightarrow>
     ref_of p v \<notin> held mem_volumes t"
proof -
  have "missing_scope no_mem_pool" by code_simp
  then show "sv_get_volume mem_server p ''custom'' v t = (Inr u, t') \<Longrightarrow> ref_of p v \<in> held mem_volumes t"
    "sv_get_volume mem_server p ''custom'' v t = (Inl e, t') \<Longrightarrow> mem_status e 404 \<Longrightarrow> \<not> missing_scope e \<Longrightarrow>
     ref_of p v \<notin> held mem_volumes t"
    by (auto simp: mem_server_def call_mem_run mem_volumes_def mem_status_def split: if_splits)
qed

lemma mem_get:
  "sv_get_full mem_server n t = (Inr (f, tag), t') \<Longrightarrow> held mem_held t n = Some (f, tag)"
  "sv_get mem_server n t = (Inr (i, tag), t') \<Longrightarrow>
     \<exists>f. held mem_held t n = Some (f, tag) \<and> ai_put i = ai_put f \<and> ip_restore (ai_put i) = []"
  by (auto simp: mem_server_def call_mem_run mem_held_def split: if_splits option.splits)

lemma mem_stale:
  assumes "held mem_held t n = Some (f, tag)" "et \<noteq> []" "et \<noteq> tag"
  shows "\<exists>e t'. call_mem ''update'' (start_update n put et) t = (Inl e, t') \<and> held mem_held t' = held mem_held t"
  using assms by (simp add: call_mem_def start_update_def)

lemma mem_calls_read:
  "reads_only (held mem_held) (held mem_volumes) (sv_get_full mem_server n)"
  "reads_only (held mem_held) (held mem_volumes) (sv_get mem_server n)"
  "reads_only (held mem_held) (held mem_volumes) (sv_list mem_server)"
  "reads_only (held mem_held) (held mem_volumes) (sv_kernel_features mem_server)"
  "reads_only (held mem_held) (held mem_volumes) (sv_profile_names mem_server)"
  "reads_only (held mem_held) (held mem_volumes) (sv_get_volume mem_server p ty v)"
  "reads_only (held mem_held) (held mem_volumes) (sv_snapshots mem_server n)"
  "reads_only (held mem_held) (held mem_volumes) (sv_exec mem_server n req stdin)"
  by (simp_all add: mem_server_def call_mem_reads)

lemma mem_snapshot_reads:
  "reads_only (held mem_held) (held mem_volumes) (bindE (call_mem ''snapshot'' (start_snapshot n s)) mem_wait)"
  "reads_only (held mem_held) (held mem_volumes) (bindE (call_mem ''unsnapshot'' (start_unsnapshot n s)) mem_wait)"
  by (rule mem_staged_reads; auto simp: start_defs split: if_splits)+

lemma mem_frames:
  "only_instance (held mem_held) (held mem_volumes) (po_name post) (bindE (call_mem ''create'' (start_create post)) (wait_op mem_server))"
  "only_instance (held mem_held) (held mem_volumes) n (bindE (call_mem ''update'' (start_update n put et)) mem_wait)"
  "only_instance (held mem_held) (held mem_volumes) n (bindE (call_mem ''state'' (start_state n sp)) mem_wait)"
  "only_instance (held mem_held) (held mem_volumes) n (bindE (call_mem ''delete'' (when_there n (MDelete n))) (wait_delete mem_server))"
  by (rule mem_staged_frame; auto simp: start_defs split: if_splits option.splits)+

lemmas mem_op_laws = mem_create(1) [OF _ refl] mem_create(2) [OF prod.collapse [symmetric]]
  mem_change_state(1) [OF _ refl] mem_change_state(2) [OF prod.collapse [symmetric]]
  mem_delete(1) [OF _ refl] mem_delete(2) [OF _ refl] mem_update [OF _ _ refl]

lemmas mem_laws = mem_calls_read mem_snapshot_reads mem_frames mem_volume_laws mem_get mem_get_volume
  mem_exec_waits mem_stale mem_op_laws

interpretation mem: incus_server mem_server mem_held mem_volumes daemon_key
proof (unfold_locales, unfold mem_server_waits mem_server_starts)
qed (fact mem_laws | rule mem_laws; assumption | (rule conjI; rule mem_exec_waits; assumption))+

text \<open>The client that \<open>connect\<close> makes talks to it, and is a daemon.\<close>

interpretation memory: image_servers mem_server mem_held mem_volumes daemon_key mem_config no_console True itoa
  by unfold_locales (simp_all add: mem_config_def call_mem_reads)

end
