(* ===== verification/Api_Safety.thy ===== *)
theory Api_Safety
  imports Mem_Server
begin

text \<open>
  What holds of the API client whatever the server answers: it is a daemon for the commands, it logs no
  value, it gives the terminal back, and it creates from the image it checked.
\<close>


section \<open>What the calls of the server leave alone\<close>

text \<open>A predicate about the client's own part of the state: the server, the clock and the log do not
  matter to it.\<close>

definition client_side :: "(('s, 'g) api_state \<Rightarrow> bool) \<Rightarrow> bool" where
  "client_side P \<longleftrightarrow>
     (\<forall>t u. P t \<longrightarrow> P (with_server u t)) \<and> (\<forall>t x. P t \<longrightarrow> P (t\<lparr>tw_now := x\<rparr>))
     \<and> (\<forall>t l. P t \<longrightarrow> P (t\<lparr>tw_world := (tw_world t)\<lparr>aw_log := l\<rparr>\<rparr>))"

named_theorems side_intros \<open>rules that an operation of the client keeps its own side\<close>

lemma side_server [side_intros]: "client_side P \<Longrightarrow> keeps P (on_server m)"
  by (simp add: client_side_def keeps_def on_server_run)

lemma side_log [side_intros]: "client_side P \<Longrightarrow> keeps P (api_log a what args)"
  by (auto simp: client_side_def keeps_def api_log_def run_when run_modify)

lemma side_change_state [side_intros]: "client_side P \<Longrightarrow> keeps P (change_state a n action force)"
  unfolding change_state_def by (intro keeps_intros side_intros)

lemma side_instance [side_intros]: "client_side P \<Longrightarrow> keeps P (API_Instance a n)"
  unfolding API_Instance_def by (intro keeps_intros side_intros)

lemma side_update [side_intros]: "client_side P \<Longrightarrow> keeps P (update_instance a n et f)"
  unfolding update_instance_def Let_def by (intro keeps_intros side_intros)

lemma side_exec_finish: "client_side P \<Longrightarrow> keeps P (exec_finish a n oper)"
  unfolding exec_finish_def by (intro keeps_intros side_intros)

lemma side_streams:
  assumes "client_side P" "P t" "exec_streams a n req opt t = (r, started, t')"
  shows "P t'"
proof -
  let ?start = "thenE (api_log a ''exec'' [(''name'', LStr n), (''program'', LStr (program (ep_command req)))])
    (wrap (exec_error a n) (on_server (sv_exec (api_server a) n req (eo_stdin opt))))"
  obtain r1 t1 where st: "?start t = (r1, t1)" by force
  have "keeps P ?start" by (intro keeps_intros side_intros assms(1))
  from keepsD [OF this assms(2)] have "P t1" using st by simp
  then have fin: "P (snd (exec_finish a n oper t1))" for oper
    by (rule keepsD [OF side_exec_finish [OF assms(1)]])
  show ?thesis
  proof (cases r1)
    case (Inl e)
    then show ?thesis using assms(3) st \<open>P t1\<close> by (simp add: exec_streams_def)
  next
    case (Inr oper)
    then show ?thesis using assms(3) st fin [of oper] by (simp add: exec_streams_def split: prod.splits)
  qed
qed

text \<open>The calls of a client, one after the other.\<close>

inductive client_step :: "'w client \<Rightarrow> 'w \<Rightarrow> 'w \<Rightarrow> bool" for c where
  "client_step c w (snd (cl_instance c n w))"
| "client_step c w (snd (cl_list c w))"
| "client_step c w (snd (cl_create c spec w))"
| "client_step c w (snd (cl_start c n w))"
| "client_step c w (snd (cl_stop c n w))"
| "client_step c w (snd (cl_delete c n w))"
| "client_step c w (snd (cl_update c n ch et w))"
| "client_step c w (snd (cl_idmapped_mounts c w))"
| "client_step c w (snd (cl_profile_names c w))"
| "client_step c w (snd (cl_check_image c ref w))"
| "client_step c w (snd (cl_volume_exists c p v w))"
| "client_step c w (snd (cl_create_volume c p v cfg w))"
| "client_step c w (snd (cl_delete_volume c p v w))"
| "client_step c w (snd (cl_create_snapshot c n x w))"
| "client_step c w (snd (cl_snapshots c n w))"
| "client_step c w (snd (cl_restore_snapshot c n x w))"
| "client_step c w (snd (cl_delete_snapshot c n x w))"
| "client_step c w (snd (cl_exec c n argv opt w))"
| "client_step c w (snd (cl_wait_ready c n wo w))"

lemma api_client_ops [simp]:
  "cl_instance (api_client a) = API_Instance a" "cl_list (api_client a) = API_ListInstances a"
  "cl_create (api_client a) = API_CreateInstance a" "cl_start (api_client a) = API_StartInstance a"
  "cl_stop (api_client a) = API_StopInstance a" "cl_delete (api_client a) = API_DeleteInstance a"
  "cl_update (api_client a) = API_UpdateInstance a"
  "cl_idmapped_mounts (api_client a) = API_SupportsIDMappedMounts a"
  "cl_profile_names (api_client a) = API_ProfileNames a" "cl_check_image (api_client a) = API_CheckImage a"
  "cl_volume_exists (api_client a) = API_VolumeExists a"
  "cl_create_volume (api_client a) = API_CreateVolume a" "cl_delete_volume (api_client a) = API_DeleteVolume a"
  "cl_create_snapshot (api_client a) = API_CreateSnapshot a" "cl_snapshots (api_client a) = API_Snapshots a"
  "cl_restore_snapshot (api_client a) = API_RestoreSnapshot a"
  "cl_delete_snapshot (api_client a) = API_DeleteSnapshot a"
  "cl_exec (api_client a) = API_Exec a" "cl_wait_ready (api_client a) = API_WaitReady a"
  by (simp_all add: api_client_def api_client_with_def)

text \<open>A run in the terminal: refused before it starts, or run in raw mode and followed by the old mode.\<close>

lemma set_terminal_twice [simp]: "set_terminal b k (set_terminal b' k' t) = set_terminal b k t"
  by (simp add: set_terminal_def)

lemma set_terminal_simps [simp]:
  "aw_raw (tw_world (set_terminal b k t)) = b" "aw_watchers (tw_world (set_terminal b k t)) = k"
  by (simp_all add: set_terminal_def)

lemma with_terminal_cases:
  assumes "with_terminal co run deny req t = (r, started, t')"
  obtains (refused) e where "co_make_raw co = Some e" "r = deny (Errorf ''switch terminal to raw mode: %w'' [W e])"
      "started = None" "t' = t"
  | (ran) req2 t1 where "co_make_raw co = None" "ep_command req2 = ep_command req"
      "run req2 (set_terminal True (aw_watchers (tw_world t) + 1) t) = (r, started, t1)"
      "t' = set_terminal (aw_raw (tw_world t)) (aw_watchers (tw_world t1) - 1) t1"
proof (cases "co_make_raw co")
  case None
  let ?req2 = "case co_size co of Inl _ \<Rightarrow> req\<lparr>ep_interactive := True\<rparr>
    | Inr (w, h) \<Rightarrow> req\<lparr>ep_interactive := True, ep_width := w, ep_height := h\<rparr>"
  obtain r1 s1 t1 where run: "run ?req2 (set_terminal True (aw_watchers (tw_world t) + 1) t) = (r1, s1, t1)"
    by (cases "run ?req2 (set_terminal True (aw_watchers (tw_world t) + 1) t)")
  have "(r, started, t') = (r1, s1, set_terminal (aw_raw (tw_world t)) (aw_watchers (tw_world t1) - 1) t1)"
    using assms run None by (simp add: with_terminal_def Let_def)
  moreover have "ep_command ?req2 = ep_command req" by (simp split: sum.split prod.split)
  ultimately show thesis using run None by (intro ran) simp_all
next
  case (Some e)
  show thesis by (rule refused [OF Some]) (use assms Some in \<open>simp_all add: with_terminal_def\<close>)
qed

lemma side_exec:
  assumes "client_side P" "\<forall>t b k. P t \<longrightarrow> P (set_terminal b k t)"
  shows "keeps P (API_Exec a n argv opt)"
proof (rule keepsI)
  fix t assume t: "P t"
  show "P (snd (API_Exec a n argv opt t))"
  proof (cases "new_exec_request argv opt")
    case (Inl e)
    then show ?thesis using t by (simp add: API_Exec_def)
  next
    case (Inr req)
    let ?m = "if eo_tty opt
       then with_terminal (api_console a) (\<lambda>req. exec_streams a n req opt) Inl req t
       else exec_streams a n req opt t"
    obtain r started t' where m: "?m = (r, started, t')" by (cases ?m)
    have side: "P t'" if "P t" "exec_streams a n req opt t = (r, started, t')" for t req r started t'
      using side_streams [OF assms(1) that] .
    have "P t'"
    proof (cases "eo_tty opt")
      case True
      then have tt: "with_terminal (api_console a) (\<lambda>req. exec_streams a n req opt) Inl req t = (r, started, t')"
        using m by simp
      then show ?thesis using side t assms(2) by (cases rule: with_terminal_cases) blast+
    next
      case False
      then show ?thesis using m side [OF t] by simp
    qed
    then show ?thesis using Inr m assms(1)
      by (auto simp: API_Exec_def await_signal_sent_def client_side_def split: option.split)
  qed
qed

lemma side_wait_ready:
  assumes "client_side P" "\<forall>t b k. P t \<longrightarrow> P (set_terminal b k t)"
  shows "keeps P (API_WaitReady a n opt)"
proof (rule keepsI)
  fix t assume t: "P t"
  have "P (snd q)" if "wait_ready (api_duration a) (api_client_with (\<lambda>_ _. ret ()) a) n opt t = Some q" for q
  proof -
    have "P (t\<lparr>tw_now := x\<rparr>)" if "P t" for t x using assms(1) that by (simp add: client_side_def)
    from wait_ready_keeps [where I = P, OF that t this] show ?thesis
      using side_exec [OF assms, of a] side_instance [OF assms(1), of a] by (simp add: api_client_with_def)
  qed
  then show "P (snd (API_WaitReady a n opt t))"
    using t by (simp add: API_WaitReady_def split: option.split)
qed

lemma side_steps:
  assumes "client_side P" "\<forall>t b k. P t \<longrightarrow> P (set_terminal b k t)" "\<And>ref. keeps P (api_resolve a ref)"
    and "client_step (api_client a) t t'" "P t"
  shows "P t'"
proof -
  note side = side_intros [OF assms(1)] assms(3) side_exec [OF assms(1,2)] side_wait_ready [OF assms(1,2)]
  have "keeps P (API_ListInstances a)" "keeps P (API_CreateInstance a spec)" "keeps P (API_StartInstance a n)"
    "keeps P (API_StopInstance a n)" "keeps P (API_DeleteInstance a n)" "keeps P (API_UpdateInstance a n ch et)"
    "keeps P (API_SupportsIDMappedMounts a)" "keeps P (API_ProfileNames a)" "keeps P (API_CheckImage a ref)"
    "keeps P (API_VolumeExists a p v)" "keeps P (API_CreateVolume a p v cfg)" "keeps P (API_DeleteVolume a p v)"
    "keeps P (API_CreateSnapshot a n x)" "keeps P (API_Snapshots a n)" "keeps P (API_RestoreSnapshot a n x)"
    "keeps P (API_DeleteSnapshot a n x)" for n spec ch et ref p v cfg x
    unfolding API_ListInstances_def API_CreateInstance_def API_StartInstance_def API_StopInstance_def
      API_DeleteInstance_def API_UpdateInstance_def API_SupportsIDMappedMounts_def API_ProfileNames_def
      API_CheckImage_def API_VolumeExists_def API_CreateVolume_def API_DeleteVolume_def API_CreateSnapshot_def
      API_Snapshots_def API_RestoreSnapshot_def API_DeleteSnapshot_def force_stop_def
    by (intro keeps_intros side)+
  note all = this side_instance [OF assms(1), of a] side_exec [OF assms(1,2), of a] side_wait_ready [OF assms(1,2), of a]
  from assms(4) show ?thesis
    by (cases rule: client_step.cases) (simp_all add: keepsD [where I = P, OF _ assms(5)] all)
qed


section \<open>The terminal\<close>

lemma terminal_side: "client_side (\<lambda>t. aw_raw (tw_world t) = raw \<and> aw_watchers (tw_world t) = k)"
  by (simp add: client_side_def with_server_def)

text \<open>C37: the terminal is given back. Whatever happens in a run, a failure to start it, an interruption
  or a lost connection included, when \<open>Exec\<close> returns the host terminal is in the mode it was in and
  nobody watches its size who did not before.\<close>

theorem exec_restores_terminal:
  "aw_raw (tw_world (snd (API_Exec a n argv opt t))) = aw_raw (tw_world t)
   \<and> aw_watchers (tw_world (snd (API_Exec a n argv opt t))) = aw_watchers (tw_world t)"
proof -
  have run: "aw_raw (tw_world t') = aw_raw (tw_world u) \<and> aw_watchers (tw_world t') = aw_watchers (tw_world u)"
    if "exec_streams a n req opt u = (r, started, t')" for req u r started t'
    using side_streams [OF terminal_side _ that] by simp
  have "aw_raw (tw_world t') = aw_raw (tw_world t) \<and> aw_watchers (tw_world t') = aw_watchers (tw_world t)"
    if "with_terminal (api_console a) (\<lambda>req. exec_streams a n req opt) Inl req t = (r, started, t')" for req r started t'
    using that by (cases rule: with_terminal_cases) (auto dest: run)
  then show ?thesis
    by (auto simp: API_Exec_def await_signal_sent_def split: sum.splits prod.splits option.splits if_splits dest: run)
qed


section \<open>The log\<close>

definition logged :: "('s, 'g) api_state \<Rightarrow> log_entry list" where
  "logged t = aw_log (tw_world t)"

lemma quiet_server: "keeps (\<lambda>t. logged t = l) (on_server m)"
  by (simp add: keeps_def on_server_run with_server_def logged_def)

lemma quiet_update: "keeps (\<lambda>t. logged t = l) (update_instance a n et f)"
  unfolding update_instance_def Let_def by (intro keeps_intros quiet_server)

lemma quiet_finish: "keeps (\<lambda>t. logged t = l) (exec_finish a n oper)"
  unfolding exec_finish_def by (intro keeps_intros quiet_server)

text \<open>An operation that adds these entries, whatever becomes of it.\<close>

definition logs :: "(('s, 'g) api_state, 'e, 'a) op \<Rightarrow> log_entry list \<Rightarrow> bool" where
  "logs m es \<longleftrightarrow> (\<forall>t. logged (snd (m t)) = logged t @ es)"

lemma logs_quiet: "(\<And>l. keeps (\<lambda>t. logged t = l) m) \<Longrightarrow> logs m []"
  by (simp add: logs_def keeps_def)

lemma logs_then:
  "logs m es \<Longrightarrow> logs (thenE (when_op b (api_log a what args)) m)
     ((if b \<and> api_logger a then [(''incus '' @ what, args)] else []) @ es)"
  "logs m es \<Longrightarrow> logs (thenE (api_log a what args) m)
     ((if api_logger a then [(''incus '' @ what, args)] else []) @ es)"
  by (auto simp: logs_def run_thenE run_when api_log_def run_modify logged_def)

lemma logs_same: "logs m es \<Longrightarrow> logs m' es \<Longrightarrow> logged (snd (m t)) = logged (snd (m' t))"
  by (simp add: logs_def)

lemma logs_update:
  assumes "ch_unset_config c1 = ch_unset_config c2" "fmdom (ch_set_config c1) = fmdom (ch_set_config c2)"
    and "ch_remove_devices c1 = ch_remove_devices c2" "fmdom (ch_set_devices c1) = fmdom (ch_set_devices c2)"
  shows "\<exists>es. logs (API_UpdateInstance a n c1 et) es \<and> logs (API_UpdateInstance a n c2 et) es"
proof -
  have keys: "sorted_keys (ch_set_config c1) = sorted_keys (ch_set_config c2)"
    "sorted_keys (ch_set_devices c1) = sorted_keys (ch_set_devices c2)"
    using assms(2,4) by (simp_all add: sorted_keys_def)
  have same: "change_is_empty c1 = change_is_empty c2" using assms by (simp add: change_is_empty_def)
  have quiet: "logs (update_instance a n et f) []" for f by (intro logs_quiet quiet_update)
  show ?thesis
  proof (cases "change_is_empty c2")
    case True
    then have "logs (API_UpdateInstance a n c1 et) []" "logs (API_UpdateInstance a n c2 et) []"
      using same by (simp_all add: API_UpdateInstance_def logs_def run_ret)
    then show ?thesis by blast
  next
    case False
    show ?thesis
      unfolding API_UpdateInstance_def same if_not_P [OF False] assms(1-4) keys
      by (rule exI, rule conjI) (rule logs_then quiet)+
  qed
qed

lemma streams_log:
  assumes "exec_streams a n req opt t = (r, started, t')"
  shows "logged t' = logged t @ (if api_logger a
    then [(''incus exec'', [(''name'', LStr n), (''program'', LStr (program (ep_command req)))])] else [])"
proof -
  let ?start = "thenE (api_log a ''exec'' [(''name'', LStr n), (''program'', LStr (program (ep_command req)))])
    (wrap (exec_error a n) (on_server (sv_exec (api_server a) n req (eo_stdin opt))))"
  obtain r1 t1 where st: "?start t = (r1, t1)" by force
  have "logs (wrap (exec_error a n) (on_server (sv_exec (api_server a) n req (eo_stdin opt)))) []"
    by (intro logs_quiet keeps_wrap quiet_server)
  from logs_then(2) [OF this, of a "''exec''" "[(''name'', LStr n), (''program'', LStr (program (ep_command req)))]"]
  have "logged t1 = logged t @ (if api_logger a
    then [(''incus exec'', [(''name'', LStr n), (''program'', LStr (program (ep_command req)))])] else [])"
    using st unfolding logs_def by (metis append.assoc append_Cons append_Nil append_Nil2 snd_conv)
  moreover have "logged (snd (exec_finish a n oper t1)) = logged t1" for oper
    using keepsD [OF quiet_finish refl] .
  ultimately show ?thesis using assms st
    by (auto simp: exec_streams_def split: sum.splits prod.splits) (metis snd_conv)+
qed


lemma exec_log:
  "logged (snd (API_Exec a n argv opt t)) = logged t @
     (if isl (new_exec_request argv opt) \<or> eo_tty opt \<and> co_make_raw (api_console a) \<noteq> None then []
      else if api_logger a then [(''incus exec'', [(''name'', LStr n), (''program'', LStr (program argv))])] else [])"
proof (cases "new_exec_request argv opt")
  case (Inr req)
  then have prog: "ep_command req = argv"
    by (auto simp: new_exec_request_def bindR_def split: sum.splits)
  let ?es = "if api_logger a then [(''incus exec'', [(''name'', LStr n), (''program'', LStr (program argv))])] else []"
  have run: "logged t' = logged u @ ?es"
    if "exec_streams a n q opt u = (r, started, t')" "ep_command q = ep_command req" for q u r started t'
    using streams_log [OF that(1)] prog that(2) by simp
  have terminal: "logged t' = logged t @ (if co_make_raw (api_console a) \<noteq> None then [] else ?es)"
    if "with_terminal (api_console a) (\<lambda>req. exec_streams a n req opt) Inl req t = (r, started, t')" for r started t'
    using that
  proof (cases rule: with_terminal_cases)
    case (ran req2 t1)
    from run [OF ran(3,2)] ran(1,4) show ?thesis by (simp add: set_terminal_def logged_def)
  qed simp
  obtain r started t' where m: "(if eo_tty opt
      then with_terminal (api_console a) (\<lambda>req. exec_streams a n req opt) Inl req t
      else exec_streams a n req opt t) = (r, started, t')" by (rule prod_cases3)
  have "logged (snd (API_Exec a n argv opt t)) = logged t'"
    using Inr m by (simp add: API_Exec_def await_signal_sent_def logged_def split: option.split)
  then show ?thesis using Inr m run [OF _ refl] terminal by (simp split: if_splits)
qed (simp add: API_Exec_def)

lemma logged_first:
  assumes "\<And>l. keeps (\<lambda>t. logged t = l) m"
  shows "logged (snd (thenE (api_log a what args) m t))
    = logged t @ (if api_logger a then [(''incus '' @ what, args)] else [])"
  using logs_then(2) [OF logs_quiet [of m], of a what args] assms by (simp add: logs_def)

lemma volume_log: "logged (snd (API_CreateVolume a p v cfg1 t)) = logged (snd (API_CreateVolume a p v cfg2 t))"
  by (simp add: API_CreateVolume_def logged_first keeps_wrap quiet_server)

lemma create_log:
  assumes "is_name s1 = is_name s2" "is_image s1 = is_image s2"
  shows "logged (snd (API_CreateInstance a s1 t)) = logged (snd (API_CreateInstance a s2 t))"
  unfolding API_CreateInstance_def assms
  by (simp add: run_bindE [of "api_resolve a ref" for ref] run_bindE [of "lift_result r" for r] run_lift logged_first
      keeps_bindE keeps_wrap quiet_server split: sum.split prod.split)

text \<open>C36: no value reaches the log. What an update, a creation, a new volume or a run adds to the log
  depends on names alone: two updates of the same keys and devices with other values, two creations of
  the same instance from the same image with other settings, two volumes of other sizes, and two runs of
  one program with other arguments, environment and input, log the same.\<close>

theorem api_log_hides_values:
  assumes "ch_unset_config c1 = ch_unset_config c2" "fmdom (ch_set_config c1) = fmdom (ch_set_config c2)"
    and "ch_remove_devices c1 = ch_remove_devices c2" "fmdom (ch_set_devices c1) = fmdom (ch_set_devices c2)"
    and "is_name s1 = is_name s2" "is_image s1 = is_image s2"
    and "program argv1 = program argv2" "eo_tty o1 = eo_tty o2" "eo_user o1 = eo_user o2" "eo_group o1 = eo_group o2"
  shows "logged (snd (API_UpdateInstance a n c1 et t)) = logged (snd (API_UpdateInstance a n c2 et t))
    \<and> logged (snd (API_CreateInstance a s1 t)) = logged (snd (API_CreateInstance a s2 t))
    \<and> logged (snd (API_CreateVolume a p v cfg1 t)) = logged (snd (API_CreateVolume a p v cfg2 t))
    \<and> logged (snd (API_Exec a n argv1 o1 t)) = logged (snd (API_Exec a n argv2 o2 t))"
proof (intro conjI)
  show "logged (snd (API_UpdateInstance a n c1 et t)) = logged (snd (API_UpdateInstance a n c2 et t))"
    using logs_update [OF assms(1-4)] logs_same by blast
  show "logged (snd (API_CreateInstance a s1 t)) = logged (snd (API_CreateInstance a s2 t))"
    using assms(5,6) by (rule create_log)
  show "logged (snd (API_CreateVolume a p v cfg1 t)) = logged (snd (API_CreateVolume a p v cfg2 t))"
    by (rule volume_log)
  have "isl (new_exec_request argv1 o1) = isl (new_exec_request argv2 o2)"
    using assms(9,10) by (auto simp: new_exec_request_def bindR_def split: sum.splits)
  then show "logged (snd (API_Exec a n argv1 o1 t)) = logged (snd (API_Exec a n argv2 o2 t))"
    using assms(7,8) by (simp add: exec_log)
qed


text \<open>A state of the client, and two updates that differ in a secret.\<close>

definition mem_state :: "mem \<Rightarrow> (mem, string \<times> string) api_state" where
  "mem_state w = \<lparr>tw_world = \<lparr>aw_server = w, aw_log = [], aw_images = fmempty, aw_raw = False, aw_watchers = 0\<rparr>,
     tw_now = 0, tw_cancel = None\<rparr>"

definition mem_world :: mem where
  "mem_world = \<lparr>me_instances = fmempty, me_next = 1, me_volumes = fmempty, me_pools = [''default''],
     me_profiles = [''default''], me_features = fmempty, me_snapshots = fmempty, me_saved = fmempty,
     me_images = fmap_of_list [(''debian/12'', ''abcdef'')], me_failing = [], me_failing_ops = [],
     me_runs = (\<lambda>n req. (0, ''ok'')), me_cost = 1\<rparr>"

definition secret_change :: "string \<Rightarrow> instance_change" where
  "secret_change v = empty_change\<lparr>ch_set_config := fmupd ''environment.TOKEN'' v fmempty\<rparr>"

definition secret_spec :: "string \<Rightarrow> instance_spec" where
  "secret_spec v = \<lparr>is_name = ''dev-web'', is_image = ''images:debian/12'', is_profiles = [], is_no_profiles = False,
     is_config = fmupd ''environment.TOKEN'' v fmempty, is_devices = fmempty\<rparr>"

theorem api_log_hides_values_witness:
  "logged (snd (API_UpdateInstance mem_api ''dev-web'' (secret_change ''s3cret'') [] (mem_state mem_world)))
     = logged (snd (API_UpdateInstance mem_api ''dev-web'' (secret_change ''other'') [] (mem_state mem_world)))
   \<and> logged (snd (API_CreateInstance mem_api (secret_spec ''s3cret'') (mem_state mem_world)))
     = logged (snd (API_CreateInstance mem_api (secret_spec ''other'') (mem_state mem_world)))"
  using api_log_hides_values [of "secret_change ''s3cret''" "secret_change ''other''" "secret_spec ''s3cret''"
      "secret_spec ''other''" "[''true'']" "[''true'', ''x'']" exec_defaults "exec_defaults\<lparr>eo_stdin := Some ''pw''\<rparr>"
      mem_api "''dev-web''" "[]" "mem_state mem_world"]
  by (simp add: secret_change_def secret_spec_def empty_change_def program_def)


section \<open>One image per run\<close>

lemma cached_side: "client_side (\<lambda>t. cached ref t = Some hit)"
  by (simp add: client_side_def with_server_def cached_def)

lemma Resolve_keeps_cached: "keeps (\<lambda>t. cached ref t = Some hit) (Resolve cfg ref')"
proof (rule keepsI)
  fix t :: "('a, 'b \<times> 'c) api_state" assume t: "cached ref t = Some hit"
  show "cached ref (snd (Resolve cfg ref' t)) = Some hit"
  proof (cases "cached ref' t")
    case None
    then have other: "ref' \<noteq> ref" using t by auto
    have "keeps (\<lambda>t. cached ref t = Some hit) (thenE (remember ref' x) (ret x))" for x :: "'b \<times> 'c"
      using other by (intro keeps_intros) (simp add: keeps_def remember_def run_modify cached_def)
    then have "keeps (\<lambda>t. cached ref t = Some hit)
        (bindE (on_server (interruptible (resolve_image cfg ref'))) (\<lambda>x. thenE (remember ref' x) (ret x)))"
      by (intro keeps_bindE side_server cached_side)
    from keepsD [OF this t] show ?thesis using None by (simp add: Resolve_def run_bindE [of get_state] run_get)
  qed (use t in \<open>simp add: Resolve_def run_bindE run_get run_ret\<close>)
qed

lemma Resolve_caches:
  assumes "Resolve cfg ref t = (Inr hit, t')"
  shows "cached ref t' = Some hit"
  using assms
  by (auto simp: Resolve_def run_bindE run_thenE run_get run_ret remember_def run_modify cached_def
      split: option.splits sum.splits prod.splits)

lemma Resolve_hit: "cached ref t = Some hit \<Longrightarrow> Resolve cfg ref t = (Inr hit, t)"
  by (simp add: Resolve_def run_bindE run_get run_ret)

text \<open>C35: an image is resolved once per run. When \<open>CheckImage\<close> has found the image a reference names, then
  after any further calls of the client, by whichever server they are answered and however they end, the
  reference still stands for that image, nothing is asked of an image server, and the run's creation is
  made from the image that was checked.\<close>

theorem image_resolved_once:
  assumes "api_resolve a = Resolve cfg" "API_CheckImage a ref t = (Inr (), t1)"
    and "(client_step (api_client a))\<^sup>*\<^sup>* t1 t2" "is_image spec = ref"
  shows "\<exists>image. Resolve cfg ref t = (Inr image, t1) \<and> Resolve cfg ref t2 = (Inr image, t2)
    \<and> API_CreateInstance a spec t2 =
        bindE (lift_result (api_alias a ref)) (\<lambda>(_, alias).
          thenE (api_log a ''create instance'' [(''name'', LStr (is_name spec)), (''image'', LStr ref)])
          (bindE (wrap (create_error (is_name spec))
                    (on_server (sv_create (api_server a) image (create_request spec alias)))) (\<lambda>oper.
           wrap (create_error (is_name spec)) (on_server (wait_op (api_server a) oper))))) t2"
proof -
  obtain image where found: "Resolve cfg ref t = (Inr image, t1)"
    using assms(1,2) by (auto simp: API_CheckImage_def run_bindE run_ret split: sum.splits prod.splits)
  have "cached ref t2 = Some image"
    using assms(3)
  proof (induction rule: rtranclp_induct)
    case (step y z)
    have "keeps (\<lambda>t. cached ref t = Some image) (api_resolve a ref')" for ref'
      unfolding assms(1) by (rule Resolve_keeps_cached)
    moreover have "\<forall>t b k. cached ref t = Some image \<longrightarrow> cached ref (set_terminal b k t) = Some image"
      by (simp add: cached_def set_terminal_def)
    ultimately show ?case using side_steps [OF cached_side _ _ step.hyps(2), of ref image] step.IH by blast
  qed (rule Resolve_caches [OF found])
  from Resolve_hit [OF this] have again: "Resolve cfg ref t2 = (Inr image, t2)" .
  show ?thesis using found again
    by (simp add: API_CreateInstance_def assms(1,4) run_bindE [of "Resolve cfg ref"])
qed


theorem image_resolved_once_witness:
  "let t1 = snd (API_CheckImage mem_api ''images:debian/12'' (mem_state mem_world));
       t2 = snd (API_ListInstances mem_api t1)
   in \<exists>image. Resolve mem_config ''images:debian/12'' (mem_state mem_world) = (Inr image, t1)
     \<and> Resolve mem_config ''images:debian/12'' t2 = (Inr image, t2)"
proof -
  let ?t1 = "snd (API_CheckImage mem_api ''images:debian/12'' (mem_state mem_world))"
  let ?t2 = "snd (API_ListInstances mem_api ?t1)"
  have "fst (API_CheckImage mem_api ''images:debian/12'' (mem_state mem_world)) = Inr ()" by code_simp
  then have found: "API_CheckImage mem_api ''images:debian/12'' (mem_state mem_world) = (Inr (), ?t1)"
    by (simp add: prod_eq_iff)
  have "client_step (api_client mem_api) ?t1 ?t2"
    using client_step.intros(2) [of "api_client mem_api" ?t1] by simp
  then have steps: "(client_step (api_client mem_api))\<^sup>*\<^sup>* ?t1 ?t2" by blast
  have resolve: "api_resolve mem_api = Resolve mem_config" by (simp add: mem_api_def api_of_def)
  have image: "is_image (secret_spec v) = ''images:debian/12''" for v by (simp add: secret_spec_def)
  show ?thesis
    using image_resolved_once [OF resolve found steps image] unfolding Let_def by blast
qed


section \<open>A daemon\<close>

context incus_api begin

lemma client_daemon: "daemon (api_client a) (api_iv hv) (api_vv vv) own"
  by (rule client.daemon_axioms)

end

lemma api_daemon:
  assumes "incus_server (api_server a) hv vv own" "\<forall>ref. reads_only (api_iv hv) (api_vv vv) (api_resolve a ref)"
  shows "daemon (api_client a) (api_iv hv) (api_vv vv) own"
  by (rule incus_api.client_daemon [OF incus_api.intro [OF assms(1) incus_api_axioms.intro [OF refl]]])
    (use assms(2) in blast)

lemma connected_daemon:
  assumes "image_servers sv hv vv own cfg"
  shows "daemon (api_client (api_of cfg co logger dur sv)) (api_iv hv) (api_vv vv) own"
  using image_servers.Resolve_reads [OF assms]
  by (intro api_daemon) (simp_all add: api_of_def image_servers.axioms(1) [OF assms])

text \<open>C3: the API client is an implementation of the contract of clients. Over every server with the
  documented behaviour, and every way to resolve images that changes nothing in Incus, the operations of
  \<open>api.go\<close> keep all the laws of the locale \<open>daemon\<close>, seen through the instances and volumes the server
  holds: reads change nothing, changes touch the named instance only, creations and updates have the
  asked effect when they succeed, a stale update is refused, a volume exists exactly when told so.\<close>

theorem api_is_daemon:
  assumes "incus_server (api_server a) hv vv own" "\<forall>ref. reads_only (api_iv hv) (api_vv vv) (api_resolve a ref)"
  shows "daemon (api_client a) (api_iv hv) (api_vv vv) own"
  using assms by (rule api_daemon)

theorem api_is_daemon_witness: "daemon (api_client mem_api) (api_iv mem_held) (api_vv mem_volumes) daemon_key"
  using api_is_daemon [of mem_api mem_held mem_volumes daemon_key] mem.incus_server_axioms
    image_servers.Resolve_reads [OF memory.image_servers_axioms]
  by (simp add: mem_api_def api_of_def)

end
