(* ===== verification/Over_Api.thy ===== *)
theory Over_Api
  imports Api_Safety App_Live "HOL-Library.Code_Target_Numeral"
begin

text \<open>
  The commands over the API client: the properties proved for every client of the locale \<open>daemon\<close>, for
  the program as it runs, from the command down to the calls of a server with the documented behaviour.
\<close>


section \<open>A failing lookup\<close>

text \<open>Which errors of a lookup are taken for a missing instance.\<close>

lemma get_error_missing: "errors_is (get_error a n e) ErrInstanceNotFound \<longleftrightarrow>
   says_missing a e \<or> errors_is e ErrInstanceNotFound"
  by (simp add: get_error_def not_found_def)

text \<open>The lookup of the project's instance.\<close>

definition look :: "('w, 'h) app \<Rightarrow> ('w, 'h, incus_instance) run" where
  "look a = call (cl_instance (ap_client a) (ap_instance a))"

context daemon begin

text \<open>When every lookup of the instance fails with something else than that it is not there, a command ends
  in an error and has changed nothing.\<close>

definition lost :: "string \<Rightarrow> bool" where
  "lost n \<longleftrightarrow> (\<forall>w. \<exists>e w'. cl_instance c n w = (Inl e, w') \<and> \<not> errors_is e ErrInstanceNotFound)"

abbreviation untouched :: "(string \<Rightarrow> incus_instance option) \<Rightarrow> string set \<Rightarrow> 'w \<Rightarrow> bool" where
  "untouched x y \<equiv> (\<lambda>w. iv w = x \<and> vv w = y)"

lemma untouched_kept: "kept_by_reads (untouched x y) c"
  unfolding kept_by_reads_def by (intro conjI allI) (use client_reads in \<open>simp_all add: reads_only_def\<close>)

lemma lost_instance:
  fixes a :: "('w, 'h) app"
  assumes "ap_client a = c" "lost (ap_instance a)"
  shows "refuses (on_d (untouched x y)) (look a)"
    and "yields (on_d (untouched x y)) (attempt (look a))
      (\<lambda>r. \<exists>e. r = Inl e \<and> \<not> errors_is e ErrInstanceNotFound)"
proof -
  have kept: "keeps (on_d (untouched x y)) (look a)"
    unfolding look_def by (rule reads_calls(1) [OF untouched_kept assms(1)])
  have err: "\<exists>e. fst (look a s) = Inl e \<and> \<not> errors_is e ErrInstanceNotFound"
    for s :: "('w, 'h) session"
  proof -
    obtain e w' where "cl_instance c (ap_instance a) (se_daemon s) = (Inl e, w')" "\<not> errors_is e ErrInstanceNotFound"
      using assms(2) unfolding lost_def by blast
    then show ?thesis by (simp add: assms(1) run_on_daemon look_def)
  qed
  show "refuses (on_d (untouched x y)) (look a)"
    unfolding refuses_def isl_def using kept err by blast
  show "yields (on_d (untouched x y)) (attempt (look a))
      (\<lambda>r. \<exists>e. r = Inl e \<and> \<not> errors_is e ErrInstanceNotFound)"
    unfolding yields_def using keeps_attempt [OF kept] err by (simp add: run_attempt)
qed

lemma lost_refuses:
  fixes a :: "('w, 'h) app"
  assumes "ap_client a = c" "lost (ap_instance a)"
  shows "refuses (on_d (untouched x y)) (up a restart)" "refuses (on_d (untouched x y)) (rebuild a)"
    "refuses (on_d (untouched x y)) (app_provision a sel)" "refuses (on_d (untouched x y)) (destroy a with_volumes)"
    "refuses (on_d (untouched x y)) (exec_in_container a argv tty user)"
proof -
  note kept = untouched_kept [of x y]
  note look = lost_instance [OF assms, of x y]
  have mi: "refuses (on_d (untouched x y)) (managed_instance a eff advice)" for eff advice
    unfolding managed_instance_def look_def [symmetric]
    by (rule refuses_bind_first [OF refuses_on_error [OF look(1)]]) (simp add: refuses_fail)
  show "refuses (on_d (untouched x y)) (up a restart)"
    unfolding up_def case_prod_beta up_with_def look_def [symmetric]
    by (rule refuses_after [OF reads_preflight [OF kept assms(1)] refuses_then [OF keeps_log
          refuses_bind [OF look(2) refuses_then_first]]]) (auto simp: refuses_fail)
  show "refuses (on_d (untouched x y)) (rebuild a)"
    unfolding rebuild_def case_prod_beta look_def [symmetric]
    by (rule refuses_after [OF reads_preflight [OF kept assms(1)] refuses_then [OF reads_calls(5) [OF kept assms(1)]
          refuses_bind [OF look(2) refuses_then_first]]]) (auto simp: refuses_fail)
  show "refuses (on_d (untouched x y)) (app_provision a sel)"
    unfolding app_provision_def
    by (intro refuses_after refuses_then refuses_bind_first keeps_lift keeps_app_env
        reads_executor [OF kept assms(1)] mi)
  show "refuses (on_d (untouched x y)) (destroy a with_volumes)"
    unfolding destroy_def destroy_instance_def Let_def option.case by (intro refuses_bind_first mi)
  show "refuses (on_d (untouched x y)) (exec_in_container a argv tty user)"
    unfolding exec_in_container_def by (intro refuses_bind_first mi)
qed

end

section \<open>Properties\<close>


definition mem_app :: "((mem, string \<times> string) api_state, unit) app" where
  "mem_app = \<lparr>ap_cfg = sample_config, ap_client = api_client mem_api, ap_host = ok_host, ap_in = None,
     ap_interactive = False, ap_term = ''xterm'', ap_instance = ''dev-web'', ap_instance_err = None,
     ap_incus_project = ''default'', ap_check_idmap = (\<lambda>u g. None), ap_uid = 1000, ap_gid = 1000,
     ap_lookup_env = (\<lambda>k. None)\<rparr>"

definition foreign_world :: mem where
  "foreign_world = mem_world\<lparr>me_instances := fmap_of_list [(''dev-web'',
     (\<lparr>ai_name = ''dev-web'', ai_status = ''Running'', ai_put = zero_put, if_last_used = zero_time,
       if_expanded = fmempty, if_state = None\<rparr>, 0))],
     me_volumes := fmap_of_list [(''default/dev-web-data'', True)]\<rparr>"

abbreviation mem_session :: "mem \<Rightarrow> ((mem, string \<times> string) api_state, unit) session" where
  "mem_session w \<equiv> new_session (mem_state w) ()"


text \<open>C1: a run of the program that ends well has done what was declared, down to the server. With the
  client that \<open>connect\<close> makes for any server with the documented behaviour, after \<open>up\<close> or \<open>rebuild\<close>
  without an error the preflight had passed with a plan; the server holds the instance, running; every
  declared setting and device and idev's own records are on it as the plan says; and every declared
  volume exists. The declaration must not set keys the daemon or idev writes for itself.\<close>

theorem api_establishes:
  assumes "image_servers sv hv vv own cfg" "ap_client a = api_client (api_of cfg co logger dur sv)"
    and "proper_keys own (ap_cfg a)" "m \<in> {up a restart, rebuild a}" "m s = (Inr (), s')"
  shows "\<exists>plan env s1 i cur. preflight a s = (Inr (plan, env), s1)
    \<and> api_iv hv (se_daemon s') (ap_instance a) = Some i \<and> is_running i
    \<and> holds (ap_cfg a) plan (ap_instance a) cur i
    \<and> set (declared_volumes (ap_cfg a) (ap_instance a)) \<subseteq> api_vv vv (se_daemon s')"
  by (rule daemon.establishes [OF connected_daemon [OF assms(1)] assms(2-5)])

declare wait_exec.simps [code] wait_network.simps [code]

text \<open>A whole run on the daemon in memory: a volume and an instance are created, it is started, and waited
  for.\<close>

lemma mem_up: "fst (up mem_app False (mem_session mem_world)) = Inr ()"
  by code_simp

lemma sample_proper: "proper_keys daemon_key sample_config"
proof -
  have "no_reserved_keys sample_config" "list_all (\<lambda>k. \<not> daemon_key k) (sorted_keys (in_config (cf_instance sample_config)))"
    by code_simp+
  moreover have "\<not> daemon_key k" if "k \<in> {managed_project_key, managed_root_key, managed_schema_key, managed_keys_key,
      managed_devices_key, managed_volumes_key, raw_idmap_key}" for k
    using that by (auto simp: managed_keys reserved_config_prefix_def raw_idmap_key_def daemon_key_def has_prefix_def)
  ultimately show ?thesis
    by (auto simp: proper_keys_def has_key_desired list_all_iff)
qed

theorem api_establishes_witness:
  "\<exists>s' i. up mem_app False (mem_session mem_world) = (Inr (), s')
     \<and> api_iv mem_held (se_daemon s') ''dev-web'' = Some i \<and> is_running i
     \<and> ''default/dev-web-data'' \<in> api_vv mem_volumes (se_daemon s')"
proof -
  have app: "ap_client mem_app = api_client (api_of mem_config no_console True itoa mem_server)"
    "ap_instance mem_app = ''dev-web''" "ap_cfg mem_app = sample_config"
    by (simp_all add: mem_app_def mem_api_def)
  have vol: "''default/dev-web-data'' \<in> set (declared_volumes sample_config ''dev-web'')" by code_simp
  obtain s' where run: "up mem_app False (mem_session mem_world) = (Inr (), s')"
    using mem_up by (metis prod.collapse)
  show ?thesis
    using api_establishes [OF memory.image_servers_axioms app(1), of "up mem_app False" False "mem_session mem_world" s']
      app(2,3) sample_proper run vol by auto
qed




text \<open>A server whose project is gone: it answers every lookup with a 404 that is not about the instance.\<close>

definition no_project :: err where "no_project = Foreign ''Project not found''"

definition lost_server :: "(mem, mem_op, string \<times> string) server" where
  "lost_server = mem_server\<lparr>sv_get_full := (\<lambda>n. call_mem ''get full'' (\<lambda>_. Inl no_project))\<rparr>"

lemma lost_server_waits: "wait_op lost_server = wait_op mem_server" "wait_delete lost_server = wait_delete mem_server"
  "wait_data lost_server = wait_data mem_server"
  by (simp_all add: lost_server_def fun_eq_iff wait_op_def wait_delete_def wait_data_def split: prod.split option.split)

lemma lost_server_ok: "image_servers lost_server mem_held mem_volumes daemon_key mem_config"
proof -
  have "incus_server lost_server mem_held mem_volumes daemon_key"
    using mem.incus_server_axioms unfolding incus_server_def lost_server_waits
    by (simp add: lost_server_def call_mem_reads call_mem_run)
  then show ?thesis
    using memory.image_servers_axioms by (simp add: image_servers_def)
qed



end
