(* ===== verification/Contract.thy ===== *)
theory Contract
  imports Fake IdMap
begin

text \<open>
  Models \<open>internal/incus/contract/contract.go\<close>: the checks every client has to pass, as programs over a
  client, with the part of Go's \<open>testing\<close> they use: failures that go on (\<open>Errorf\<close>) or end a check
  (\<open>Fatalf\<close>), cleanups in the reverse of the order they were registered, and the names of the checks that ran.
  Of a failure the format of its message is kept, not its arguments.

  Values are not shared here, so the checks that a reading or a request is detached from the state of the
  client change a copy of their own, as the code does, and cannot see it come back.
\<close>


section \<open>A check\<close>

text \<open>What a suite needs. \<open>en_done\<close> makes a call with a context that is over.\<close>

record 'w env =
  en_client :: "'w client"
  en_instance :: string
  en_image :: string
  en_pool :: string
  en_missing_pool :: string
  en_profile :: string
  en_runs_programs :: bool
  en_done :: "('w, err, unit) op \<Rightarrow> ('w, err, unit) op"

record 'w testing =
  te_world :: 'w
  te_errors :: "string list"
  te_cleanups :: "('w, err, unit) op list"

text \<open>The left result is a check that \<open>Fatalf\<close> has ended.\<close>

type_synonym ('w, 'a) check = "('w testing, unit, 'a) op"

definition t_errorf :: "string \<Rightarrow> ('w, unit) check" where
  "t_errorf msg = modify (\<lambda>t. t\<lparr>te_errors := te_errors t @ [msg]\<rparr>)"

definition t_fatalf :: "string \<Rightarrow> ('w, 'a) check" where
  "t_fatalf msg = thenE (t_errorf msg) (fail ())"

definition t_cleanup :: "('w, err, unit) op \<Rightarrow> ('w, unit) check" where
  "t_cleanup m = modify (\<lambda>t. t\<lparr>te_cleanups := m # te_cleanups t\<rparr>)"

text \<open>A call of the client, its result, and the usual ways to look at it.\<close>

definition t_call :: "('w, err, 'a) op \<Rightarrow> ('w, err + 'a) check" where
  "t_call m = (\<lambda>t. case m (te_world t) of (r, w) \<Rightarrow> (Inr r, t\<lparr>te_world := w\<rparr>))"

definition must :: "string \<Rightarrow> ('w, err, 'a) op \<Rightarrow> ('w, 'a) check" where
  "must msg m = bindE (t_call m) (\<lambda>r. case r of Inl e \<Rightarrow> t_fatalf msg | Inr x \<Rightarrow> ret x)"

definition should_fail :: "string \<Rightarrow> ('w, err, 'a) op \<Rightarrow> ('w, unit) check" where
  "should_fail msg m = bindE (t_call m) (\<lambda>r. case r of Inl e \<Rightarrow> ret () | Inr x \<Rightarrow> t_errorf msg)"

definition should_fail_with :: "string \<Rightarrow> sentinel \<Rightarrow> ('w, err, 'a) op \<Rightarrow> ('w, unit) check" where
  "should_fail_with msg s m = bindE (t_call m) (\<lambda>r.
     when_op (case r of Inl e \<Rightarrow> \<not> errors_is e s | Inr x \<Rightarrow> True) (t_errorf msg))"

definition expect :: "bool \<Rightarrow> string \<Rightarrow> ('w, unit) check" where
  "expect ok msg = when_op (\<not> ok) (t_errorf msg)"

text \<open>\<open>t.Run\<close>: the check, then its cleanups; what came of it under its name.\<close>

fun run_cleanups :: "('w, err, unit) op list \<Rightarrow> 'w \<Rightarrow> 'w" where
  "run_cleanups [] w = w"
| "run_cleanups (m # ms) w = run_cleanups ms (snd (m w))"

definition run_check :: "('w, unit) check \<Rightarrow> 'w \<Rightarrow> string list \<times> 'w" where
  "run_check body w =
     (case body \<lparr>te_world = w, te_errors = [], te_cleanups = []\<rparr> of
        (_, t) \<Rightarrow> (te_errors t, run_cleanups (te_cleanups t) (te_world t)))"

fun run_checks :: "(string \<times> ('w, unit) check) list \<Rightarrow> 'w \<Rightarrow> (string \<times> string list) list \<times> 'w" where
  "run_checks [] w = ([], w)"
| "run_checks ((name, body) # cs) w =
     (case run_check body w of (errs, w1) \<Rightarrow>
       (case run_checks cs w1 of (rs, w2) \<Rightarrow> ((name, errs) # rs, w2)))"


section \<open>Checks that need no instance\<close>

definition nope :: "'w env \<Rightarrow> string" where "nope env = en_instance env @ ''-nope''"

definition check_missing_instance :: "'w env \<Rightarrow> ('w, unit) check" where
  "check_missing_instance env =
     should_fail_with ''Instance() error = %v, want ErrInstanceNotFound'' ErrInstanceNotFound
       (cl_instance (en_client env) (nope env))"

definition check_missing_volume :: "'w env \<Rightarrow> ('w, unit) check" where
  "check_missing_volume env =
     bindE (must ''VolumeExists() error = %v'' (cl_volume_exists (en_client env) (en_pool env) (nope env)))
       (\<lambda>there. expect (\<not> there) ''VolumeExists() = true for a volume that was never created'')"

definition check_missing_pool :: "'w env \<Rightarrow> ('w, unit) check" where
  "check_missing_pool env =
     should_fail_with ''VolumeExists() error = %v, want ErrPoolNotFound'' ErrPoolNotFound
       (cl_volume_exists (en_client env) (en_missing_pool env) ''anything'')"

definition check_volume_taken :: "'w env \<Rightarrow> ('w, unit) check" where
  "check_volume_taken env =
     (let c = en_client env; pool = en_pool env; name = en_instance env @ ''-contract''
      in thenE (must ''CreateVolume() error = %v'' (cl_create_volume c pool name fmempty))
         (thenE (t_cleanup (cl_delete_volume c pool name))
         (thenE (should_fail ''CreateVolume() = nil error for a volume that already exists''
            (cl_create_volume c pool name fmempty))
         (bindE (t_call (cl_volume_exists c pool name)) (\<lambda>r.
            expect (r = Inr True) ''VolumeExists() = %v, %v; want true, nil after CreateVolume'')))))"

definition check_delete_missing_volume :: "'w env \<Rightarrow> ('w, unit) check" where
  "check_delete_missing_volume env =
     should_fail ''DeleteVolume() = nil error for a volume that does not exist''
       (cl_delete_volume (en_client env) (en_pool env) (nope env))"

definition check_create_in_missing_pool :: "'w env \<Rightarrow> ('w, unit) check" where
  "check_create_in_missing_pool env =
     should_fail ''CreateVolume() = nil error on a pool that does not exist''
       (cl_create_volume (en_client env) (en_missing_pool env) ''anything'' fmempty)"

definition check_same_answer :: "'w env \<Rightarrow> ('w, unit) check" where
  "check_same_answer env =
     bindE (must ''SupportsIDMappedMounts() error = %v'' (cl_idmapped_mounts (en_client env))) (\<lambda>first.
     bindE (must ''second SupportsIDMappedMounts() error = %v'' (cl_idmapped_mounts (en_client env))) (\<lambda>again.
       expect (first = again) ''SupportsIDMappedMounts() = %v then %v''))"

definition check_profiles_listed :: "'w env \<Rightarrow> ('w, unit) check" where
  "check_profiles_listed env =
     bindE (must ''ProfileNames() error = %v'' (cl_profile_names (en_client env))) (\<lambda>names.
     thenE (expect (List.member names (en_profile env)) ''ProfileNames() = %v, want it to contain %q'')
       (expect (\<not> List.member names ''idev-contract-nope'')
          ''ProfileNames() = %v, want no profile that was never created''))"

definition check_bad_image :: "'w env \<Rightarrow> ('w, unit) check" where
  "check_bad_image env =
     should_fail ''CheckImage() = nil error for an image that does not exist''
       (cl_check_image (en_client env) ''images:no/such/image'')"

definition host_checks :: "'w env \<Rightarrow> (string \<times> ('w, unit) check) list" where
  "host_checks env =
     [(''Instance reports a missing instance as such'', check_missing_instance env),
      (''VolumeExists is false for a volume that is not there'', check_missing_volume env),
      (''VolumeExists reports a missing pool rather than a missing volume'', check_missing_pool env),
      (''CreateVolume refuses a name that is already taken'', check_volume_taken env),
      (''DeleteVolume refuses a volume that is not there'', check_delete_missing_volume env),
      (''CreateVolume refuses a pool that is not there'', check_create_in_missing_pool env),
      (''the host answers the same way twice about idmapped mounts'', check_same_answer env),
      (''ProfileNames lists what is there and nothing else'', check_profiles_listed env),
      (''CheckImage rejects a reference that does not resolve'', check_bad_image env)]"


section \<open>Checks of an instance\<close>

definition contract_mark :: "string gomap" where
  "contract_mark = fmupd ''user.incus-dev.project'' ''contract'' fmempty"

definition contract_spec :: "'w env \<Rightarrow> string \<Rightarrow> instance_spec" where
  "contract_spec env name = \<lparr>is_name = name, is_image = en_image env, is_profiles = [], is_no_profiles = False,
     is_config = contract_mark, is_devices = fmempty\<rparr>"

text \<open>The instance under test, one of its settings, and a change to it.\<close>

definition own_instance :: "'w env \<Rightarrow> ('w, err, incus_instance) op" where
  "own_instance env = cl_instance (en_client env) (en_instance env)"

definition own_update :: "'w env \<Rightarrow> instance_change \<Rightarrow> ('w, err, unit) op" where
  "own_update env ch = cl_update (en_client env) (en_instance env) ch []"

definition setting :: "string \<Rightarrow> string \<Rightarrow> instance_change" where
  "setting k v = empty_change\<lparr>ch_set_config := fmupd k v fmempty\<rparr>"

definition unsetting :: "string \<Rightarrow> instance_change" where
  "unsetting k = empty_change\<lparr>ch_unset_config := [k]\<rparr>"

definition with_device :: "string \<Rightarrow> (string \<times> string) list \<Rightarrow> instance_change" where
  "with_device name kvs = empty_change\<lparr>ch_set_devices := fmupd name (fmap_of_list kvs) fmempty\<rparr>"

definition without_device :: "string \<Rightarrow> instance_change" where
  "without_device name = empty_change\<lparr>ch_remove_devices := [name]\<rparr>"

definition device_of :: "incus_instance \<Rightarrow> string \<Rightarrow> device" where
  "device_of i name = (case fmlookup (ii_devices i) name of None \<Rightarrow> fmempty | Some d \<Rightarrow> d)"

abbreviation update_failed :: string where "update_failed \<equiv> ''UpdateInstance() error = %v''"
abbreviation read_failed :: string where "read_failed \<equiv> ''Instance() error = %v''"

definition check_instance_taken :: "'w env \<Rightarrow> ('w, unit) check" where
  "check_instance_taken env =
     bindE (t_call (cl_create (en_client env) (contract_spec env (en_instance env)))) (\<lambda>r. case r of
         Inr x \<Rightarrow> t_fatalf ''CreateInstance() = nil error for an instance that already exists''
       | Inl e \<Rightarrow> expect (errors_is e ErrInstanceExists) ''error = %v, want ErrInstanceExists'')"

definition check_carries_back :: "'w env \<Rightarrow> ('w, unit) check" where
  "check_carries_back env =
     bindE (must read_failed (own_instance env)) (\<lambda>i.
     thenE (expect (ii_name i = en_instance env) ''Name = %q, want %q'')
     (thenE (expect (get_str (ii_config i) ''user.incus-dev.project'' = ''contract'')
        ''Config = %v, want the marker set at creation'')
       (expect (\<not> is_running i) ''a created instance reports Running before it was started'')))"

definition check_listed :: "'w env \<Rightarrow> ('w, unit) check" where
  "check_listed env =
     bindE (must ''ListInstances() error = %v'' (cl_list (en_client env))) (\<lambda>all.
       case filter (\<lambda>i. ii_name i = en_instance env) all of
         [] \<Rightarrow> t_errorf ''ListInstances() = %d instances, none of them %q''
       | i # _ \<Rightarrow> expect (get_str (ii_config i) ''user.incus-dev.project'' = ''contract'')
           ''Config = %v, want the markers carried'')"

definition check_set_and_unset :: "'w env \<Rightarrow> ('w, unit) check" where
  "check_set_and_unset env =
     thenE (must update_failed (own_update env (setting ''limits.cpu'' ''1'')))
     (bindE (must ''%v'' (own_instance env)) (\<lambda>i.
      thenE (expect (get_str (ii_config i) ''limits.cpu'' = ''1'') ''limits.cpu = %q, want 1'')
     (thenE (must update_failed (own_update env (unsetting ''limits.cpu'')))
     (bindE (must ''%v'' (own_instance env)) (\<lambda>i.
        expect (\<not> has_key (ii_config i) ''limits.cpu'') ''limits.cpu = %q, want it gone'')))))"

definition check_device_replaced :: "'w env \<Rightarrow> ('w, unit) check" where
  "check_device_replaced env =
     thenE (must update_failed (own_update env (with_device ''extra''
        [(''type'', ''disk''), (''source'', ''/tmp''), (''path'', ''/one''), (''readonly'', ''true'')])))
     (thenE (must update_failed (own_update env (with_device ''extra''
        [(''type'', ''disk''), (''source'', ''/tmp''), (''path'', ''/two'')])))
     (bindE (must ''%v'' (own_instance env)) (\<lambda>i.
      thenE (expect (get_str (device_of i ''extra'') ''path'' = ''/two'') ''path = %q, want the second value'')
        (expect (\<not> has_key (device_of i ''extra'') ''readonly'')
           ''device = %v, want readonly gone rather than merged''))))"

definition check_device_removed :: "'w env \<Rightarrow> ('w, unit) check" where
  "check_device_removed env =
     thenE (must update_failed (own_update env (without_device ''extra'')))
     (bindE (must ''%v'' (own_instance env)) (\<lambda>i.
        expect (\<not> has_key (ii_devices i) ''extra'') ''the device is still attached''))"

definition check_bad_snapshot_names :: "'w env \<Rightarrow> ('w, unit) check" where
  "check_bad_snapshot_names env =
     for_each [''a/b'', ''a b''] (\<lambda>name.
       bindE (t_call (cl_create_snapshot (en_client env) (en_instance env) name)) (\<lambda>r. case r of
           Inl e \<Rightarrow> ret ()
         | Inr x \<Rightarrow> bindE (t_call (cl_delete_snapshot (en_client env) (en_instance env) name)) (\<lambda>_.
             t_errorf ''CreateSnapshot(%q) = nil error, want it refused'')))"

definition check_snapshots_round_trip :: "'w env \<Rightarrow> ('w, unit) check" where
  "check_snapshots_round_trip env =
     (let c = en_client env; n = en_instance env; name = ''contract-snap''
      in thenE (must ''CreateSnapshot() error = %v'' (cl_create_snapshot c n name))
         (thenE (t_cleanup (cl_delete_snapshot c n name))
         (bindE (must ''Snapshots() error = %v'' (cl_snapshots c n)) (\<lambda>snaps.
          thenE (expect (list_ex (\<lambda>s. sn_name s = name) snaps) ''Snapshots() = %v, want it to include %q'')
         (bindE (t_call (cl_create_snapshot c n name)) (\<lambda>r. case r of
              Inr x \<Rightarrow> t_fatalf ''CreateSnapshot() = nil error for a name that already exists''
            | Inl e \<Rightarrow> expect (errors_is e ErrSnapshotExists) ''error = %v, want ErrSnapshotExists''))))))"

definition check_restored :: "'w env \<Rightarrow> ('w, unit) check" where
  "check_restored env =
     (let c = en_client env; n = en_instance env; name = ''contract-restore''
      in thenE (must update_failed (own_update env (setting ''user.contract'' ''before'')))
         (thenE (must ''CreateSnapshot() error = %v'' (cl_create_snapshot c n name))
         (thenE (t_cleanup (cl_delete_snapshot c n name))
         (thenE (must update_failed (own_update env (setting ''user.contract'' ''after'')))
         (thenE (must ''RestoreSnapshot() error = %v'' (cl_restore_snapshot c n name))
         (bindE (must ''%v'' (own_instance env)) (\<lambda>i.
            expect (get_str (ii_config i) ''user.contract'' = ''before'')
              ''user.contract = %q, want the snapshot's value back'')))))))"

definition check_restore_missing :: "'w env \<Rightarrow> ('w, unit) check" where
  "check_restore_missing env =
     should_fail ''RestoreSnapshot() = nil error for a snapshot that does not exist''
       (cl_restore_snapshot (en_client env) (en_instance env) ''contract-nope'')"

definition check_delete_missing_snapshot :: "'w env \<Rightarrow> ('w, unit) check" where
  "check_delete_missing_snapshot env =
     should_fail ''DeleteSnapshot() = nil error for a snapshot that does not exist''
       (cl_delete_snapshot (en_client env) (en_instance env) ''contract-nope'')"

definition check_started :: "'w env \<Rightarrow> ('w, unit) check" where
  "check_started env =
     thenE (must ''StartInstance() error = %v'' (cl_start (en_client env) (en_instance env)))
     (thenE (must ''WaitReady() error = %v'' (cl_wait_ready (en_client env) (en_instance env) wait_zero))
     (bindE (must ''%v'' (own_instance env)) (\<lambda>i.
        expect (is_running i) ''Status = %q, want it running after StartInstance'')))"

definition check_exec_missing :: "'w env \<Rightarrow> ('w, unit) check" where
  "check_exec_missing env =
     should_fail_with ''Exec() error = %v, want ErrInstanceNotFound'' ErrInstanceNotFound
       (cl_exec (en_client env) (nope env) [''true''] exec_defaults)"

definition check_exec_answer :: "'w env \<Rightarrow> ('w, unit) check" where
  "check_exec_answer env =
     (if \<not> en_runs_programs env then ret ()
      else bindE (must ''Exec() error = %v'' (cl_exec (en_client env) (en_instance env)
             [''sh'', ''-c'', ''echo contract; exit 7''] exec_defaults)) (\<lambda>(code, out).
           thenE (expect (code = 7) ''Exec() = %d, want the command's exit code 7'')
             (expect (contains_str out ''contract'') ''Exec() output = %q, want the command's output'')))"

definition check_stopped :: "'w env \<Rightarrow> ('w, unit) check" where
  "check_stopped env =
     thenE (must ''StopInstance() error = %v'' (cl_stop (en_client env) (en_instance env)))
     (bindE (must ''%v'' (own_instance env)) (\<lambda>i.
      thenE (expect (\<not> is_running i) ''Status = %q, want it stopped'')
        (should_fail ''Exec() = nil error against a stopped instance''
           (cl_exec (en_client env) (en_instance env) [''true''] exec_defaults))))"

definition check_change_missing :: "'w env \<Rightarrow> ('w, unit) check" where
  "check_change_missing env =
     (let msg = ''UpdateInstance() = nil error for an instance that does not exist''
      in thenE (should_fail msg (cl_update (en_client env) (nope env) (without_device ''extra'') []))
           (should_fail msg (cl_update (en_client env) (nope env) (setting ''limits.cpu'' ''1'') [])))"

definition check_stale_write :: "'w env \<Rightarrow> ('w, unit) check" where
  "check_stale_write env =
     bindE (must read_failed (own_instance env)) (\<lambda>first.
     if ii_etag first = [] then t_fatalf ''Instance() returned no ETag, so nothing can be written against it''
     else
       thenE (must update_failed (own_update env (setting ''user.contract-other'' ''1'')))
       (thenE (t_cleanup (own_update env (unsetting ''user.contract-other'')))
       (thenE (should_fail_with ''UpdateInstance() with a stale etag = %v, want ErrChanged'' ErrChanged
          (cl_update (en_client env) (en_instance env) (setting ''user.contract-stale'' ''1'') (ii_etag first)))
       (bindE (must read_failed (own_instance env)) (\<lambda>later.
        thenE (expect (\<not> has_key (ii_config later) ''user.contract-stale'') ''the refused write was applied anyway'')
          (expect (has_key (ii_config later) ''user.contract-other'') ''the other write was lost''))))))"

definition check_free_write :: "'w env \<Rightarrow> ('w, unit) check" where
  "check_free_write env =
     thenE (bindE (t_call (own_update env (setting ''user.contract-free'' ''1''))) (\<lambda>r.
        expect (\<not> isl r) ''UpdateInstance() with no etag = %v, want it applied''))
       (t_cleanup (own_update env (unsetting ''user.contract-free'')))"

definition check_etag_moves :: "'w env \<Rightarrow> ('w, unit) check" where
  "check_etag_moves env =
     bindE (must read_failed (own_instance env)) (\<lambda>earlier.
     thenE (must ''StartInstance() error = %v'' (cl_start (en_client env) (en_instance env)))
     (thenE (t_cleanup (cl_stop (en_client env) (en_instance env)))
     (bindE (must read_failed (own_instance env)) (\<lambda>later.
        expect (ii_etag earlier \<noteq> ii_etag later) ''the etag did not move across a start''))))"

text \<open>A mapping written, and what the instance then holds.\<close>

definition store_idmap :: "'w env \<Rightarrow> string \<Rightarrow> ('w, string) check" where
  "store_idmap env value =
     thenE (must ''UpdateInstance(%q) error = %v'' (own_update env (setting raw_idmap_key value)))
     (bindE (must read_failed (own_instance env)) (\<lambda>i. ret (get_str (ii_config i) raw_idmap_key)))"

definition check_idmap_spellings :: "'w env \<Rightarrow> ('w, unit) check" where
  "check_idmap_spellings env =
     (let both = ''both 1000 0''; split = ''uid 1000 0'' @ newline @ ''gid 1000 0''
      in if \<not> same_id_mapping both split
         then t_fatalf ''SameIDMapping says these differ; the rest of this check assumes it does not''
         else
           thenE (t_cleanup (own_update env (unsetting raw_idmap_key)))
           (bindE (store_idmap env both) (\<lambda>got.
            thenE (expect (got = both) ''after writing %q the instance holds %q'')
           (bindE (store_idmap env split) (\<lambda>got.
              expect (got = split) ''after writing %q the instance holds %q'')))))"

text \<open>A reading written to, here.\<close>

definition scribble :: "string \<Rightarrow> string \<Rightarrow> incus_instance \<Rightarrow> incus_instance" where
  "scribble k v i = i\<lparr>ii_config := fmupd k v (ii_config i)\<rparr>"

definition check_listing_detached :: "'w env \<Rightarrow> ('w, unit) check" where
  "check_listing_detached env =
     bindE (must ''ListInstances() error = %v'' (cl_list (en_client env))) (\<lambda>listed.
     case rev (filter (\<lambda>i. ii_name i = en_instance env) listed) of
       [] \<Rightarrow> t_fatalf ''ListInstances() did not include %s''
     | found # _ \<Rightarrow>
         bindE (ret (scribble ''user.incus-dev.listing-probe'' ''written through the listing'' found)) (\<lambda>_.
         bindE (must read_failed (own_instance env)) (\<lambda>again.
           expect (\<not> has_key (ii_config again) ''user.incus-dev.listing-probe'')
             ''a write to a listed instance reached the client's own state'')))"

definition probe_device :: "string \<Rightarrow> device" where
  "probe_device path = fmap_of_list [(''type'', ''disk''), (''source'', ''/srv''), (''path'', path)]"

definition check_created_device :: "'w env \<Rightarrow> ('w, unit) check" where
  "check_created_device env =
     (let c = en_client env; device = probe_device ''/created-probe''; name = en_instance env @ ''-devcopy'';
          spec = (contract_spec env name)\<lparr>is_devices := fmupd ''probe'' device fmempty\<rparr>
      in thenE (must ''CreateInstance() error = %v'' (cl_create c spec))
         (thenE (t_cleanup (cl_delete c name))
         (bindE (ret (fmupd ''path'' ''/changed-after-the-create'' device)) (\<lambda>_.
          bindE (must read_failed (cl_instance c name)) (\<lambda>i.
            expect (get_str (device_of i ''probe'') ''path'' = ''/created-probe'')
              ''device path = %q, want %q: the create shares state with the caller'')))))"

definition check_written_device :: "'w env \<Rightarrow> ('w, unit) check" where
  "check_written_device env =
     (let device = probe_device ''/shared-probe''
      in thenE (must update_failed (own_update env (empty_change\<lparr>ch_set_devices := fmupd ''probe'' device fmempty\<rparr>)))
         (thenE (t_cleanup (own_update env (without_device ''probe'')))
         (bindE (ret (fmupd ''path'' ''/changed-after-the-write'' device)) (\<lambda>_.
          bindE (must read_failed (own_instance env)) (\<lambda>i.
            expect (get_str (device_of i ''probe'') ''path'' = ''/shared-probe'')
              ''device path = %q, want %q: the write shares state with the caller'')))))"

definition check_detached_copy :: "'w env \<Rightarrow> ('w, unit) check" where
  "check_detached_copy env =
     bindE (must read_failed (own_instance env)) (\<lambda>first.
     bindE (ret (scribble ''user.incus-dev.probe'' ''written on the copy'' first)) (\<lambda>_.
     bindE (must read_failed (own_instance env)) (\<lambda>second.
       expect (\<not> has_key (ii_config second) ''user.incus-dev.probe'')
         ''a write to one result reached the next: Instance shares state with the client'')))"

definition check_deleted :: "'w env \<Rightarrow> ('w, unit) check" where
  "check_deleted env =
     thenE (must ''DeleteInstance() error = %v'' (cl_delete (en_client env) (en_instance env)))
     (thenE (should_fail_with ''Instance() error = %v, want ErrInstanceNotFound after delete'' ErrInstanceNotFound
        (own_instance env))
       (should_fail ''DeleteInstance() = nil error for an instance that is already gone''
          (cl_delete (en_client env) (en_instance env))))"

definition check_delete_cut_short :: "'w env \<Rightarrow> ('w, unit) check" where
  "check_delete_cut_short env =
     (let c = en_client env; name = en_instance env @ ''-cut''
      in thenE (must ''CreateInstance() error = %v'' (cl_create c (contract_spec env name)))
         (thenE (t_cleanup (cl_delete c name))
           (should_fail_with ''DeleteInstance() with a done context = %v, want ErrOutcomeUnknown'' ErrOutcomeUnknown
             (en_done env (cl_delete c name)))))"

definition check_running_refuses :: "'w env \<Rightarrow> ('w, unit) check" where
  "check_running_refuses env =
     (let c = en_client env; name = en_instance env @ ''-running''
      in thenE (must ''CreateInstance() error = %v'' (cl_create c (contract_spec env name)))
         (thenE (t_cleanup (cl_delete c name))
         (thenE (must ''StartInstance() error = %v'' (cl_start c name))
         (bindE (t_call (en_done env (cl_delete c name))) (\<lambda>r. case r of
              Inr x \<Rightarrow> t_fatalf ''DeleteInstance() = nil error with a done context''
            | Inl e \<Rightarrow> expect (\<not> errors_is e ErrOutcomeUnknown)
                ''DeleteInstance() = %v, want no claim of an unknown outcome: the stop refuses before anything is sent'')))))"

definition instance_checks :: "'w env \<Rightarrow> (string \<times> ('w, unit) check) list" where
  "instance_checks env =
     [(''CreateInstance refuses a name that is already taken'', check_instance_taken env),
      (''Instance carries back what was set'', check_carries_back env),
      (''ListInstances includes it, with its config'', check_listed env),
      (''UpdateInstance sets and unsets, and both round-trip'', check_set_and_unset env),
      (''UpdateInstance replaces a device rather than merging'', check_device_replaced env),
      (''UpdateInstance removes a device'', check_device_removed env),
      (''a snapshot name Incus refuses is refused'', check_bad_snapshot_names env),
      (''snapshots round-trip and a duplicate name is refused'', check_snapshots_round_trip env),
      (''RestoreSnapshot puts back what the snapshot held'', check_restored env),
      (''RestoreSnapshot refuses one that is not there'', check_restore_missing env),
      (''DeleteSnapshot refuses one that is not there'', check_delete_missing_snapshot env),
      (''starting makes it runnable'', check_started env),
      (''Exec refuses an instance that is not there'', check_exec_missing env),
      (''Exec carries the command's output and exit code'', check_exec_answer env),
      (''stopping is reflected, and Exec refuses a stopped instance'', check_stopped env),
      (''changing an instance that is not there is an error'', check_change_missing env),
      (''a write against a stale reading is refused'', check_stale_write env),
      (''a write with no etag is not judged against one'', check_free_write env),
      (''starting and stopping moves the etag on'', check_etag_moves env),
      (''the two spellings of an idmap are one mapping to the daemon'', check_idmap_spellings env),
      (''a listed instance is detached from the client's state'', check_listing_detached env),
      (''a created device is not shared with the caller'', check_created_device env),
      (''a written device is not shared with the caller'', check_written_device env),
      (''Instance returns a detached copy'', check_detached_copy env),
      (''DeleteInstance makes it absent'', check_deleted env),
      (''a delete cut short reports that the outcome is unknown'', check_delete_cut_short env),
      (''a running instance refuses before the delete is sent'', check_running_refuses env)]"


section \<open>The whole contract\<close>

text \<open>The checks of an instance, unless it cannot be created, which ends the run. The instance is deleted
  when they are done.\<close>

definition run_instance_contract :: "'w env \<Rightarrow> 'w \<Rightarrow> (string + (string \<times> string list) list) \<times> 'w" where
  "run_instance_contract env w =
     (case cl_create (en_client env) (contract_spec env (en_instance env)) w of
        (Inl e, w1) \<Rightarrow> (Inl ''CreateInstance() error = %v'', w1)
      | (Inr x, w1) \<Rightarrow>
          (case run_checks (instance_checks env) w1 of
             (rs, w2) \<Rightarrow> (Inr rs, snd (cl_delete (en_client env) (en_instance env) w2))))"

definition run_contract :: "'w env \<Rightarrow> 'w \<Rightarrow> (string + (string \<times> string list) list) \<times> 'w" where
  "run_contract env w =
     (case run_checks (host_checks env) w of
        (rs, w1) \<Rightarrow>
          (case run_instance_contract env w1 of (r, w2) \<Rightarrow> (map_sum id (append rs) r, w2)))"

definition contract_size :: nat where "contract_size = 36"

definition critical_checks :: "string list" where
  "critical_checks =
     [''VolumeExists reports a missing pool rather than a missing volume'',
      ''CreateVolume refuses a name that is already taken'',
      ''UpdateInstance replaces a device rather than merging'',
      ''snapshots round-trip and a duplicate name is refused'',
      ''a delete cut short reports that the outcome is unknown'',
      ''Instance returns a detached copy'',
      ''a write against a stale reading is refused'',
      ''Exec refuses an instance that is not there'',
      ''RestoreSnapshot puts back what the snapshot held'']"

text \<open>\<open>Filtered\<close>, of the value of the flag \<open>test.run\<close>.\<close>

definition filtered_run :: "string option \<Rightarrow> bool" where
  "filtered_run flag =
     (case flag of
        None \<Rightarrow> False
      | Some v \<Rightarrow> (case cut_at (CHR ''/'') v of (_, subtest, ok) \<Rightarrow> ok \<and> trim_space subtest \<noteq> []))"

fun first_repeated :: "string list \<Rightarrow> string list \<Rightarrow> string option" where
  "first_repeated seen [] = None"
| "first_repeated seen (n # ns) = (if List.member seen n then Some n else first_repeated (n # seen) ns)"

definition verify_run :: "string option \<Rightarrow> string list \<Rightarrow> err option" where
  "verify_run flag names =
     (if filtered_run flag then None
      else if length names \<noteq> contract_size then
        Some (Errorf (''ran %d checks, want %d; if you added or removed one, ''
           @ ''update contract.Checks rather than this assertion:'' @ newline @ ''  %s'')
           [N (int (length names)), N (int contract_size), S (join (newline @ ''  '') names)])
      else case first_repeated [] names of
          Some n \<Rightarrow> Some (Errorf ''two checks are named %q'' [S n])
        | None \<Rightarrow>
            (case filter (\<lambda>n. \<not> List.member names n) critical_checks of
               n # _ \<Rightarrow> Some (Errorf (''the check %q is gone; it is there because its ''
                   @ ''absence let a defect reach a user'') [S n])
             | [] \<Rightarrow> None))"

text \<open>The contract is met: every check has run and none has failed.\<close>

definition meets_contract :: "'w env \<Rightarrow> 'w \<Rightarrow> bool" where
  "meets_contract env w =
     (case fst (run_contract env w) of
        Inl e \<Rightarrow> False
      | Inr rs \<Rightarrow> list_all (\<lambda>(name, errs). errs = []) rs \<and> verify_run None (map fst rs) = None)"


section \<open>The recording client\<close>

text \<open>As \<open>internal/incus/incustest/contract_test.go\<close> sets it up.\<close>

definition fake_env :: "fake env" where
  "fake_env = \<lparr>en_client = fake_client, en_instance = ''dev-contract'', en_image = ''images:alpine/3.21'',
     en_pool = ''default'', en_missing_pool = ''no-such-pool'', en_profile = ''default'', en_runs_programs = False,
     en_done = (\<lambda>m f. case m (f\<lparr>fk_ctx := Some (Sentinel ErrCanceled)\<rparr>) of (r, f') \<Rightarrow> (r, f'\<lparr>fk_ctx := fk_ctx f\<rparr>))\<rparr>"

definition contract_fake :: fake where
  "contract_fake = new_fake\<lparr>fk_images := Some [''images:alpine/3.21'']\<rparr>"

end
