(* ===== verification/Contract_Laws.thy ===== *)
theory Contract_Laws
  imports Contract
begin

text \<open>
  The contract's suite runs whole, and what its checks of updates can report: for every client with the
  laws of \<open>daemon\<close> they report failed calls and nothing else, by rules of a logic of reports.
\<close>


section \<open>The suite runs whole\<close>

lemma run_checks_names: "map fst (fst (run_checks cs w)) = map fst cs"
proof (induction cs arbitrary: w)
  case (Cons nb cs)
  then show ?case by (cases nb) (simp add: case_prod_beta)
qed simp

lemma check_names: "verify_run None (map fst (host_checks env @ instance_checks env)) = None"
  by (simp add: verify_run_def filtered_run_def host_checks_def instance_checks_def contract_size_def critical_checks_def)

text \<open>The suite cannot pass by not running. For every client and every world, a run of the contract is
  ended early only by a failure to create the instance under test; otherwise all 36 checks ran, each once,
  the critical ones among them, and \<open>Verify\<close> has nothing to say, filtered or not.\<close>

theorem contract_runs_whole:
  "case fst (run_contract env w) of
     Inl e \<Rightarrow> isl (fst (cl_create (en_client env) (contract_spec env (en_instance env)) (snd (run_checks (host_checks env) w))))
   | Inr rs \<Rightarrow> verify_run flag (map fst rs) = None"
proof -
  have named: "verify_run flag (map fst (fst (run_checks (host_checks env) w)) @ map fst (fst (run_checks (instance_checks env) v))) = None" for v
  proof -
    have "verify_run None (map fst (host_checks env) @ map fst (instance_checks env)) = None"
      using check_names [of env] by simp
    then show ?thesis unfolding run_checks_names by (simp add: verify_run_def filtered_run_def)
  qed
  show ?thesis
  proof (cases "fst (cl_create (en_client env) (contract_spec env (en_instance env)) (snd (run_checks (host_checks env) w)))")
    case (Inr x)
    then show ?thesis using named
      by (simp add: run_contract_def run_instance_contract_def case_prod_beta del: map_append flip: map_append)
  qed (simp add: run_contract_def run_instance_contract_def case_prod_beta)
qed


section \<open>What the reports can be\<close>

text \<open>From a world with \<open>P\<close> a check reports nothing but messages of \<open>M\<close>, and when it goes on, \<open>Q\<close> holds of
  its value and the world.\<close>

definition reports :: "string set \<Rightarrow> ('w \<Rightarrow> bool) \<Rightarrow> ('w, 'a) check \<Rightarrow> ('a \<Rightarrow> 'w \<Rightarrow> bool) \<Rightarrow> bool" where
  "reports M P m Q \<longleftrightarrow> (\<forall>t. set (te_errors t) \<subseteq> M \<longrightarrow> P (te_world t) \<longrightarrow>
     set (te_errors (snd (m t))) \<subseteq> M \<and> (\<forall>x. fst (m t) = Inr x \<longrightarrow> Q x (te_world (snd (m t)))))"

lemma reports_bind: "reports M P m Q \<Longrightarrow> (\<And>x. reports M (Q x) (f x) R) \<Longrightarrow> reports M P (bindE m f) R"
proof -
  assume m: "reports M P m Q" and f: "\<And>x. reports M (Q x) (f x) R"
  have "set (te_errors (snd (bindE m f t))) \<subseteq> M \<and> (\<forall>y. fst (bindE m f t) = Inr y \<longrightarrow> R y (te_world (snd (bindE m f t))))"
    if t: "set (te_errors t) \<subseteq> M" "P (te_world t)" for t
  proof (cases "m t")
    case (Pair r t')
    then have "set (te_errors t') \<subseteq> M" "\<And>x. r = Inr x \<Longrightarrow> Q x (te_world t')"
      using m t unfolding reports_def by (metis fst_conv snd_conv)+
    then show ?thesis using f Pair unfolding reports_def by (cases r) (simp_all add: run_bindE)
  qed
  then show ?thesis by (simp add: reports_def)
qed

lemma reports_then: "reports M P m (\<lambda>_. Q) \<Longrightarrow> reports M Q n R \<Longrightarrow> reports M P (thenE m n) R"
  unfolding thenE_def by (rule reports_bind)

lemma reports_ret: "(\<And>w. P w \<Longrightarrow> Q x w) \<Longrightarrow> reports M P (ret x) Q"
  by (simp add: reports_def run_ret)

lemma reports_value: "reports M P (ret x) (\<lambda>_. P)"
  by (rule reports_ret)

lemma reports_cleanup: "reports M P (t_cleanup m) (\<lambda>_. P)"
  by (simp add: reports_def t_cleanup_def run_modify)

lemma reports_expect: "(\<And>w. P w \<Longrightarrow> ok) \<Longrightarrow> reports M P (expect ok msg) (\<lambda>_. P)"
  by (simp add: reports_def expect_def run_when)

lemma reports_last: "(\<And>w. P w \<Longrightarrow> ok) \<Longrightarrow> reports M P (expect ok msg) (\<lambda>_ _. True)"
  by (simp add: reports_def expect_def run_when)

lemma reports_must:
  assumes "msg \<in> M" "\<And>w x w'. P w \<Longrightarrow> m w = (Inr x, w') \<Longrightarrow> Q x w'"
  shows "reports M P (must msg m) Q"
proof -
  have "set (te_errors (snd (must msg m t))) \<subseteq> M \<and> (\<forall>x. fst (must msg m t) = Inr x \<longrightarrow> Q x (te_world (snd (must msg m t))))"
    if "set (te_errors t) \<subseteq> M" "P (te_world t)" for t
  proof (cases "m (te_world t)")
    case (Pair r w')
    then show ?thesis using that assms
      by (cases r) (auto simp: must_def t_call_def run_bindE t_fatalf_def t_errorf_def run_thenE run_modify run_fail run_ret)
  qed
  then show ?thesis by (simp add: reports_def)
qed

lemma reports_run:
  assumes "reports M P m Q" "P w"
  shows "set (fst (run_check m w)) \<subseteq> M"
proof -
  let ?t = "\<lparr>te_world = w, te_errors = [], te_cleanups = []\<rparr>"
  have "set (te_errors (snd (m ?t))) \<subseteq> M" using assms unfolding reports_def by force
  then show ?thesis by (simp add: run_check_def case_prod_beta)
qed



text \<open>What a change leaves on an instance, but for the keys the daemon writes.\<close>

definition leaves :: "(string \<Rightarrow> bool) \<Rightarrow> instance_change \<Rightarrow> incus_instance \<Rightarrow> bool" where
  "leaves own ch i \<longleftrightarrow> (\<exists>j :: incus_instance. same_settings own (ii_config i) (change_config ch (ii_config j))
     \<and> ii_devices i = change_devices ch (ii_devices j))"

lemma get_str_of_list: "get_str (fmap_of_list xs) k = (case map_of xs k of None \<Rightarrow> [] | Some v \<Rightarrow> v)"
  by (simp add: get_str_def fmlookup_of_list)

lemma has_key_of_list: "has_key (fmap_of_list xs) k \<longleftrightarrow> map_of xs k \<noteq> None"
  by (simp add: has_key_iff fmlookup_of_list)

lemma leaves_setting: "leaves own (setting k v) i \<Longrightarrow> \<not> own k \<Longrightarrow> get_str (ii_config i) k = v"
  by (auto simp: leaves_def same_settings_def setting_def empty_change_def change_config_def get_str_def)

lemma leaves_unsetting: "leaves own (unsetting k) i \<Longrightarrow> \<not> own k \<Longrightarrow> \<not> has_key (ii_config i) k"
  by (auto simp: leaves_def same_settings_def unsetting_def empty_change_def change_config_def has_key_iff)

lemma leaves_device: "leaves own (empty_change\<lparr>ch_set_devices := fmupd k d fmempty\<rparr>) i \<Longrightarrow> device_of i k = d"
  by (auto simp: leaves_def empty_change_def change_devices_def device_of_def)

lemma leaves_without: "leaves own (without_device k) i \<Longrightarrow> \<not> has_key (ii_devices i) k"
  by (auto simp: leaves_def without_device_def empty_change_def change_devices_def has_key_iff)

lemma changes_not_empty:
  "\<not> change_is_empty (setting k v)" "\<not> change_is_empty (unsetting k)" "\<not> change_is_empty (without_device k)"
  "\<not> change_is_empty (empty_change\<lparr>ch_set_devices := fmupd k d fmempty\<rparr>)"
  by (simp_all add: change_is_empty_def setting_def unsetting_def without_device_def empty_change_def)

lemma spellings_same: "\<not> \<not> same_id_mapping ''both 1000 0'' (''uid 1000 0'' @ newline @ ''gid 1000 0'')"
proof -
  have "itoa 1000 = ''1000''" "itoa 0 = ''0''" by code_simp+
  then show ?thesis
    using both_is_uid_and_gid_witness by (auto simp: raw_idmap_def same_id_mapping_def)
qed

text \<open>The messages of a call that failed.\<close>

definition failed_calls :: "string set" where
  "failed_calls = {update_failed, read_failed, ''%v'', ''UpdateInstance(%q) error = %v'',
     ''CreateInstance() error = %v'', ''CreateVolume() error = %v'',
     ''VolumeExists() = %v, %v; want true, nil after CreateVolume''}"

definition passes :: "string set \<Rightarrow> ('w, unit) check \<Rightarrow> bool" where
  "passes M m \<longleftrightarrow> (\<forall>w. set (fst (run_check m w)) \<subseteq> M)"

lemma passesI: "reports M (\<lambda>_. True) m (\<lambda>_ _. True) \<Longrightarrow> passes M m"
  by (simp add: passes_def reports_run)

context daemon begin

definition there :: "string \<Rightarrow> (incus_instance \<Rightarrow> bool) \<Rightarrow> 'w \<Rightarrow> bool" where
  "there n R w \<longleftrightarrow> (\<exists>i. iv w n = Some i \<and> R i)"

lemma reports_update:
  assumes "en_client env = c" "msg \<in> M" "\<not> change_is_empty ch"
  shows "reports M P (must msg (own_update env ch)) (\<lambda>_. there (en_instance env) (leaves own ch))"
proof (rule reports_must [OF assms(2)])
  fix w x w' assume "own_update env ch w = (Inr x, w')"
  then have "cl_update c (en_instance env) ch [] w = (Inr x, w')" by (simp add: own_update_def assms(1))
  from update_ok [OF this assms(3)] show "there (en_instance env) (leaves own ch) w'"
    unfolding there_def leaves_def by blast
qed

lemma reports_read:
  assumes "cl = c" "msg \<in> M" "k = n"
  shows "reports M (there k R) (must msg (cl_instance cl n)) (\<lambda>i w. R i)"
proof (rule reports_must [OF assms(2)])
  fix w i w' assume "there k R w" "cl_instance cl n w = (Inr i, w')"
  then show "R i" using instance_ok [of n w i w'] by (simp add: there_def assms(1,3))
qed

lemmas reports_rules = reports_then reports_bind reports_expect reports_last reports_cleanup reports_value reports_ret reports_update reports_read

lemma reports_store:
  assumes "en_client env = c" "\<not> own raw_idmap_key"
  shows "reports failed_calls P (store_idmap env v) (\<lambda>got w. got = v)"
  unfolding store_idmap_def own_instance_def
  by (rule reports_rules | simp add: assms failed_calls_def changes_not_empty leaves_setting; fail)+

lemma reports_created:
  assumes "cl = c" "msg \<in> M"
  shows "reports M P (must msg (cl_create cl s)) (\<lambda>_. there (is_name s) (\<lambda>i. ii_devices i = is_devices s))"
proof (rule reports_must [OF assms(2)])
  fix w x w' assume "cl_create cl s w = (Inr x, w')"
  then show "there (is_name s) (\<lambda>i. ii_devices i = is_devices s) w'"
    using create_ok [of s w x w'] unfolding there_def assms(1) by blast
qed

lemma update_checks_pass:
  assumes "en_client env = c" "\<not> own ''limits.cpu''" "\<not> own raw_idmap_key"
  shows "passes failed_calls (check_set_and_unset env)" "passes failed_calls (check_device_replaced env)"
    "passes failed_calls (check_device_removed env)" "passes failed_calls (check_written_device env)"
    "passes failed_calls (check_idmap_spellings env)" "passes failed_calls (check_created_device env)"
proof -
  note hints = assms failed_calls_def changes_not_empty leaves_setting leaves_unsetting leaves_device leaves_without
    with_device_def get_str_of_list has_key_of_list probe_device_def
    contract_spec_def
  show "passes failed_calls (check_set_and_unset env)" "passes failed_calls (check_device_replaced env)"
    "passes failed_calls (check_device_removed env)" "passes failed_calls (check_written_device env)"
    "passes failed_calls (check_idmap_spellings env)" "passes failed_calls (check_created_device env)"
    unfolding check_set_and_unset_def check_device_replaced_def check_device_removed_def check_written_device_def
      check_idmap_spellings_def check_created_device_def own_instance_def with_device_def Let_def if_not_P [OF spellings_same]
    by (rule passesI reports_rules reports_store reports_created | (simp add: hints; fail)
      | (drule leaves_device, simp add: probe_device_def get_str_def has_key_iff fmlookup_of_list; fail)
      | (simp add: device_of_def probe_device_def get_str_def fmlookup_of_list; fail))+
qed

end

end
