(* ===== verification/Contract_Api.thy ===== *)
theory Contract_Api
  imports Contract_Laws Over_Api
begin

text \<open>
  The contract held against both clients: the recording client meets it whole, and over any server with
  the documented behaviour the checks of updates can find nothing wrong with the API client.
\<close>


text \<open>The contract finds nothing wrong with the API client's updates. Over any server with the
  documented behaviour, the checks that settings and devices are set, unset, replaced rather than merged,
  removed, created and stored as written report at most that a call failed, never that a call which
  succeeded had another effect.\<close>

theorem api_passes_update_checks:
  assumes "image_servers sv hv vv own cfg" "en_client env = api_client (api_of cfg co logger dur sv)"
    and "\<not> own ''limits.cpu''" "\<not> own raw_idmap_key"
    and "check \<in> {check_set_and_unset env, check_device_replaced env, check_device_removed env,
      check_written_device env, check_idmap_spellings env, check_created_device env}"
  shows "set (fst (run_check check w)) \<subseteq> failed_calls"
  using daemon.update_checks_pass [OF connected_daemon [OF assms(1)] assms(2-4)] assms(5)
  by (auto simp: passes_def)

definition mem_env :: "(mem, string \<times> string) api_state env" where
  "mem_env = \<lparr>en_client = api_client mem_api, en_instance = ''dev-contract'', en_image = ''images:debian/12'',
     en_pool = ''default'', en_missing_pool = ''no-such-pool'', en_profile = ''default'', en_runs_programs = True,
     en_done = (\<lambda>m t. case m (t\<lparr>tw_cancel := Some (tw_now t)\<rparr>) of (r, t') \<Rightarrow> (r, t'\<lparr>tw_cancel := tw_cancel t\<rparr>))\<rparr>"

theorem api_passes_update_checks_witness:
  "set (fst (run_check (check_device_replaced mem_env) (mem_state mem_world))) \<subseteq> failed_calls
   \<and> ''device = %v, want readonly gone rather than merged'' \<notin> failed_calls"
proof -
  have env: "en_client mem_env = api_client (api_of mem_config no_console True itoa mem_server)"
    by (simp add: mem_env_def mem_api_def)
  have "\<not> daemon_key ''limits.cpu''" "\<not> daemon_key raw_idmap_key" by code_simp+
  with api_passes_update_checks [OF memory.image_servers_axioms env, of "check_device_replaced mem_env"]
  show ?thesis by (simp add: failed_calls_def)
qed

end
