(* ===== verification/Accepted.thy ===== *)
theory Accepted
  imports Parse App_Up
begin

text \<open>
  What the rest of the program can rely on in a declaration that \<open>Parse\<close> of \<open>internal/config/parse.go\<close>
  let through, stated on the declaration itself and not on the checks of \<open>internal/config/validate.go\<close>:
  the names and keys it uses, its devices, the container paths of its disks, and its identity mapping.
\<close>


section \<open>A well-formed declaration\<close>

definition mount_targets :: "config \<Rightarrow> string list" where
  "mount_targets c = map (\<lambda>(n, m). mo_target m) (entries (mounts c))"

definition volume_paths :: "config \<Rightarrow> string list" where
  "volume_paths c = map (\<lambda>(n, v). vo_path v) (entries (cf_volumes c))"

definition disk_paths :: "config \<Rightarrow> string list" where
  "disk_paths c = map (\<lambda>(n, d). get_str d ''path'')
     (filter (\<lambda>(n, d). get_str d ''type'' = ''disk'') (entries (in_devices (cf_instance c))))"

text \<open>Where the disks of the instance are mounted, a path a declared device gives as relative left to Incus.\<close>

definition places :: "string list \<Rightarrow> string list" where
  "places ps = map clean (filter is_abs ps)"

definition disk_places :: "config \<Rightarrow> string list" where
  "disk_places c = places (mount_targets c @ volume_paths c @ disk_paths c)"

text \<open>What a record of names joined by commas, and an argument of the form \<open>key=value\<close>, can carry.\<close>

definition plain_key :: "string \<Rightarrow> bool" where
  "plain_key k \<longleftrightarrow> no_comma k \<and> CHR ''='' \<notin> set k \<and> \<not> has_prefix k dash"

definition owner_fits :: "config \<Rightarrow> bool" where
  "owner_fits c \<longleftrightarrow> (let w = workspace_or_default c in
     0 \<le> ro_uid (wm_owner w) \<and> 0 \<le> ro_gid (wm_owner w) \<and> wm_idmap w \<noteq> IDMapShift \<and> wm_idmap w \<noteq> IDMapNone)"

definition well_formed :: "config \<Rightarrow> bool" where
  "well_formed c \<longleftrightarrow>
     no_reserved_keys c
     \<and> list_all plain_key (sorted_keys (in_config (cf_instance c)))
     \<and> list_all no_comma (managed_device_names c) \<and> distinct (managed_device_names c)
     \<and> list_all is_abs (mount_targets c @ volume_paths c)
     \<and> ''/'' \<notin> set (places (mount_targets c @ volume_paths c)) \<and> distinct (disk_places c)
     \<and> List.member idmap_modes (wm_idmap (workspace_or_default c))
     \<and> (case cf_workspace c of Some w \<Rightarrow> (case ws_owner w of Some ow \<Rightarrow> owner_fits c | None \<Rightarrow> True) | None \<Rightarrow> True)
     \<and> (if in_profiles (cf_instance c) = Some [] then has_root_disk (in_devices (cf_instance c)) else True)
     \<and> list_all (\<lambda>(n, s). (se_env s = []) \<noteq> (se_file s = [])) (entries (cf_secrets c))"


section \<open>From the checks to the declaration\<close>

lemma list_all_entries: "list_all P (entries m) \<longleftrightarrow> (\<forall>k v. fmlookup m k = Some v \<longrightarrow> P (k, v))"
proof -
  have "list_all P (entries m) \<longleftrightarrow> (\<forall>k. has_key m k \<longrightarrow> P (k, the (fmlookup m k)))"
    by (auto simp: entries_def list_all_iff)
  then show ?thesis by (auto simp: has_key_iff)
qed

lemma checked_entries:
  "(\<forall>k\<in>fmdom' (m :: 'v gomap). (case fmlookup m k of None \<Rightarrow> [] | Some v \<Rightarrow> f k v) = [])
   \<longleftrightarrow> (\<forall>k v. fmlookup m k = Some v \<longrightarrow> f k v = [])"
proof -
  have "(case fmlookup m k of None \<Rightarrow> [] | Some v \<Rightarrow> f k v) = [] \<longleftrightarrow> (\<forall>v. fmlookup m k = Some v \<longrightarrow> f k v = [])" for k
    by (cases "fmlookup m k") simp_all
  then have "(\<forall>k\<in>fmdom' m. (case fmlookup m k of None \<Rightarrow> [] | Some v \<Rightarrow> f k v) = [])
      \<longleftrightarrow> (\<forall>k v. has_key m k \<longrightarrow> fmlookup m k = Some v \<longrightarrow> f k v = [])"
    unfolding Ball_def in_dom_iff by blast
  then show ?thesis by (simp add: has_key_iff) blast
qed

lemma guard_Nil: "(if b then p # ps else qs) = [] \<longleftrightarrow> \<not> b \<and> qs = []"
  by simp

lemma option_Nil: "(case x of None \<Rightarrow> [] | Some v \<Rightarrow> p # ps) = [] \<longleftrightarrow> x = None"
  by (cases x) simp_all

lemma check_key_shape_Nil: "check_key_shape p k = [] \<longleftrightarrow> plain_key k"
  by (auto simp: check_key_shape_def plain_key_def list_separator_def)

lemma validate_semantics_parts:
  assumes "validate_semantics stat c raw = []"
  shows "validate_instance c = []" "validate_volumes c = []" "validate_secrets c = []"
    "validate_workspace c = []" "validate_mount_paths c = []"
  using assms by (simp_all add: validate_semantics_def)

lemma mounts_lookup: "has_key (mounts c) n \<longleftrightarrow> n = main_mount_name \<or> (\<exists>m. workspace_mount_of (cf_workspace c) n = Some m)"
  by (auto simp: mounts_def Let_def workspace_mount_of_def has_key_iff split: option.splits)


subsection \<open>Names\<close>

lemma valid_mount:
  assumes "validate_workspace c = []" "fmlookup (mounts c) n = Some m"
  shows "is_abs (mo_target m)" "clean (mo_target m) \<noteq> ''/''"
    "n \<noteq> main_mount_name \<Longrightarrow> n \<noteq> workspace_device_name \<and> no_comma n \<and> \<not> has_key (in_devices (cf_instance c)) n"
proof -
  have "validate_mount c n m = []" using assms by (simp add: validate_workspace_def checked_entries)
  then show "is_abs (mo_target m)" "clean (mo_target m) \<noteq> ''/''"
    "n \<noteq> main_mount_name \<Longrightarrow> n \<noteq> workspace_device_name \<and> no_comma n \<and> \<not> has_key (in_devices (cf_instance c)) n"
    by (simp_all add: validate_mount_def validate_mount_name_def Let_def is_container_root_def list_separator_def
        guard_Nil)
qed

lemma valid_volume:
  assumes "validate_volumes c = []" "fmlookup (cf_volumes c) n = Some v"
  shows "is_abs (vo_path v)" "n \<noteq> workspace_device_name" "no_comma n" "\<not> has_key (in_devices (cf_instance c)) n"
    "workspace_mount_of (cf_workspace c) n = None"
proof -
  have "validate_volumes c = [] \<longleftrightarrow> (\<forall>n v. fmlookup (cf_volumes c) n = Some v \<longrightarrow>
      is_abs (vo_path v) \<and> n \<noteq> workspace_device_name \<and> no_comma n \<and> slash \<notin> set n
      \<and> \<not> has_key (in_devices (cf_instance c)) n \<and> workspace_mount_of (cf_workspace c) n = None)"
    by (simp add: validate_volumes_def checked_entries Let_def list_separator_def guard_Nil
        conj_assoc option_Nil)
  then show "is_abs (vo_path v)" "n \<noteq> workspace_device_name" "no_comma n" "\<not> has_key (in_devices (cf_instance c)) n"
    "workspace_mount_of (cf_workspace c) n = None"
    using assms by blast+
qed

lemma valid_instance:
  assumes "validate_instance c = []"
  shows "no_reserved_keys c" "list_all plain_key (sorted_keys (in_config (cf_instance c)))"
    "has_key (in_devices (cf_instance c)) n \<Longrightarrow> no_comma n" "\<not> has_key (in_devices (cf_instance c)) workspace_device_name"
    "in_profiles (cf_instance c) = Some [] \<Longrightarrow> has_root_disk (in_devices (cf_instance c))"
proof -
  have parts: "concat (map (\<lambda>k. check_key_shape (''instance.config.'' @ k) k) (sorted_keys (in_config (cf_instance c)))) = []"
    "validate_device_shapes (cf_instance c) = []"
    using assms by (simp_all only: validate_instance_def Let_def append_is_Nil_conv)
  show "no_reserved_keys c" "\<not> has_key (in_devices (cf_instance c)) workspace_device_name"
    "in_profiles (cf_instance c) = Some [] \<Longrightarrow> has_root_disk (in_devices (cf_instance c))"
    using assms by (simp_all add: validate_instance_def Let_def guard_Nil no_reserved_keys_def list_all_iff
        del: if_image_distrib)
  show "list_all plain_key (sorted_keys (in_config (cf_instance c)))"
    using parts(1) by (simp add: check_key_shape_Nil list_all_iff)
  show "has_key (in_devices (cf_instance c)) n \<Longrightarrow> no_comma n"
    using parts(2) by (auto simp: validate_device_shapes_def checked_entries guard_Nil list_separator_def has_key_iff)
qed

lemma names_apart:
  assumes "validate_instance c = []" "validate_volumes c = []" "validate_workspace c = []"
  shows "list_all no_comma (managed_device_names c)" "distinct (managed_device_names c)"
proof -
  have m: "n \<noteq> workspace_device_name \<and> no_comma n \<and> \<not> has_key (in_devices (cf_instance c)) n"
    if "has_key (mounts c) n" "n \<noteq> main_mount_name" for n
    using that valid_mount(3) [OF assms(3)] by (auto simp: has_key_iff)
  have v: "n \<noteq> workspace_device_name \<and> no_comma n \<and> \<not> has_key (in_devices (cf_instance c)) n
      \<and> (n = main_mount_name \<or> \<not> has_key (mounts c) n)" if "has_key (cf_volumes c) n" for n
    using that valid_volume [OF assms(2)] mounts_lookup [of c n] by (auto simp: has_key_iff)
  note d = valid_instance(3,4) [OF assms(1)]
  have w: "no_comma workspace_device_name" by (simp add: workspace_device_name_def)
  show "list_all no_comma (managed_device_names c)"
    using m v d w by (auto simp: managed_device_names_def list_all_iff mount_device_name_def)
  have "inj_on mount_device_name (set (sorted_keys (mounts c)))"
    using m by (auto simp: inj_on_def mount_device_name_def)
  then show "distinct (managed_device_names c)"
    using d(2) by (auto simp: managed_device_names_def distinct_map mount_device_name_def dest: m v)
qed


subsection \<open>Paths\<close>

text \<open>A pass over the claims that takes the given paths: without a new problem it takes each once, and none
  that was taken, and \<open>G\<close> holds.\<close>

definition takes :: "(claims \<Rightarrow> claims) \<Rightarrow> string list \<Rightarrow> bool \<Rightarrow> bool" where
  "takes h ps G \<longleftrightarrow> (\<forall>cp. snd (h cp) = [] \<longrightarrow> snd cp = [] \<and> distinct ps \<and> G
     \<and> fmdom' (fst (h cp)) = fmdom' (fst cp) \<union> set ps \<and> set ps \<inter> fmdom' (fst cp) = {})"

lemma takes_nothing: "takes (\<lambda>cp. cp) [] True"
  by (simp add: takes_def)

lemma takes_after: "takes g ps G \<Longrightarrow> takes h qs H \<Longrightarrow> takes (\<lambda>cp. h (g cp)) (ps @ qs) (G \<and> H)"
proof -
  assume g: "takes g ps G" and h: "takes h qs H"
  have "snd cp = [] \<and> distinct (ps @ qs) \<and> (G \<and> H)
      \<and> fmdom' (fst (h (g cp))) = fmdom' (fst cp) \<union> set (ps @ qs) \<and> set (ps @ qs) \<inter> fmdom' (fst cp) = {}"
    if "snd (h (g cp)) = []" for cp
  proof -
    have 2: "snd (g cp) = []" "distinct qs" H "fmdom' (fst (h (g cp))) = fmdom' (fst (g cp)) \<union> set qs"
      "set qs \<inter> fmdom' (fst (g cp)) = {}"
      using h that unfolding takes_def by blast+
    have 1: "snd cp = []" "distinct ps" G "fmdom' (fst (g cp)) = fmdom' (fst cp) \<union> set ps"
      "set ps \<inter> fmdom' (fst cp) = {}"
      using g 2(1) unfolding takes_def by blast+
    show ?thesis using 1 2(2-) by (simp add: Int_Un_distrib Int_Un_distrib2 Un_assoc Int_commute)
  qed
  then show "takes (\<lambda>cp. h (g cp)) (ps @ qs) (G \<and> H)" unfolding takes_def by blast
qed

lemma takes_claim: "takes (claim fld p) (places [p]) True"
  by (auto simp: takes_def claim_def places_def has_key_iff split: prod.splits option.splits if_splits)

lemma takes_fold:
  "(\<And>k. k \<in> set ks \<Longrightarrow> takes (h k) (f k) (G k)) \<Longrightarrow> takes (fold h ks) (concat (map f ks)) (\<forall>k\<in>set ks. G k)"
proof (induction ks)
  case Nil
  then show ?case using takes_nothing by (simp add: id_def)
next
  case (Cons k ks)
  then have "takes (\<lambda>cp. fold h ks (h k cp)) (f k @ concat (map f ks)) (G k \<and> (\<forall>k\<in>set ks. G k))"
    by (intro takes_after) simp_all
  then show ?case by (simp add: comp_def)
qed

lemma places_append: "places (ps @ qs) = places ps @ places qs"
  by (simp add: places_def)

lemma places_map: "places (map f xs) = concat (map (\<lambda>x. places [f x]) xs)"
  by (induction xs) (simp_all add: places_def)

lemma takes_mounts: "takes (fold (claim_mount c) (sorted_keys (mounts c))) (places (mount_targets c)) True"
proof -
  have "takes (fold (claim_mount c) (sorted_keys (mounts c)))
      (concat (map (\<lambda>n. places [mo_target (the (fmlookup (mounts c) n))]) (sorted_keys (mounts c))))
      (\<forall>n\<in>set (sorted_keys (mounts c)). True)"
    by (rule takes_fold) (auto simp: claim_mount_def [abs_def] has_key_iff takes_claim)
  then show ?thesis by (simp add: mount_targets_def entries_def places_map comp_def)
qed

lemma takes_volumes:
  "takes (fold (claim_volume c) (sorted_keys (cf_volumes c))) (places (volume_paths c))
     (\<forall>n v. fmlookup (cf_volumes c) n = Some v \<longrightarrow> is_abs (vo_path v) \<longrightarrow> clean (vo_path v) \<noteq> ''/'')"
proof -
  let ?ok = "\<lambda>p. is_abs p \<longrightarrow> clean p \<noteq> ''/''"
  have one: "takes (\<lambda>cp. if is_abs p \<and> is_container_root p then (fst cp, snd cp @ [q]) else claim fld p cp)
      (places [p]) (?ok p)" for p q fld
    using takes_claim [of fld p] by (auto simp: takes_def is_container_root_def)
  have "takes (fold (claim_volume c) (sorted_keys (cf_volumes c)))
      (concat (map (\<lambda>n. places [vo_path (the (fmlookup (cf_volumes c) n))]) (sorted_keys (cf_volumes c))))
      (\<forall>n\<in>set (sorted_keys (cf_volumes c)). ?ok (vo_path (the (fmlookup (cf_volumes c) n))))"
    by (rule takes_fold) (auto simp: claim_volume_def [abs_def] has_key_iff one)
  moreover have "(\<forall>n\<in>set (sorted_keys (cf_volumes c)). ?ok (vo_path (the (fmlookup (cf_volumes c) n))))
      \<longleftrightarrow> (\<forall>n v. fmlookup (cf_volumes c) n = Some v \<longrightarrow> is_abs (vo_path v) \<longrightarrow> clean (vo_path v) \<noteq> ''/'')"
    unfolding Ball_def set_sorted_keys in_dom_iff has_key_iff by fastforce
  ultimately show ?thesis by (simp add: volume_paths_def entries_def places_map comp_def del: set_sorted_keys)
qed

lemma takes_devices:
  "takes (fold (claim_device c) (sorted_keys (in_devices (cf_instance c)))) (places (disk_paths c)) True"
proof -
  let ?d = "in_devices (cf_instance c)"
  have "takes (fold (claim_device c) (sorted_keys ?d))
      (concat (map (\<lambda>n. if get_str (the (fmlookup ?d n)) ''type'' = ''disk''
         then places [get_str (the (fmlookup ?d n)) ''path''] else []) (sorted_keys ?d)))
      (\<forall>n\<in>set (sorted_keys ?d). True)"
    by (rule takes_fold) (auto simp: claim_device_def [abs_def] has_key_iff takes_claim takes_nothing)
  moreover have eq: "concat (map (\<lambda>n. if get_str (g n) ''type'' = ''disk'' then places [get_str (g n) ''path''] else []) ks)
      = places (map (\<lambda>(n, d). get_str d ''path'')
          (filter (\<lambda>(n, d). get_str d ''type'' = ''disk'') (map (\<lambda>n. (n, g n)) ks)))" for g ks
    by (induction ks) (simp_all add: places_def)
  ultimately show ?thesis
    unfolding disk_paths_def entries_def eq [of "\<lambda>n. the (fmlookup ?d n)" "sorted_keys ?d", symmetric] by simp
qed

lemma valid_paths:
  assumes "validate_mount_paths c = []"
  shows "distinct (disk_places c)"
    "fmlookup (cf_volumes c) n = Some v \<Longrightarrow> is_abs (vo_path v) \<Longrightarrow> clean (vo_path v) \<noteq> ''/''"
  using assms takes_after [OF takes_after [OF takes_mounts takes_volumes] takes_devices, of c c c]
  by (auto simp: takes_def validate_mount_paths_def disk_places_def places_append)


lemma valid_mode: "validate_workspace c = [] \<Longrightarrow> List.member idmap_modes (wm_idmap (workspace_or_default c))"
  by (simp add: validate_workspace_def Let_def guard_Nil)

lemma valid_owner:
  assumes "validate_workspace c = []" "cf_workspace c = Some w" "ws_owner w = Some ow"
  shows "owner_fits c"
proof -
  have "validate_owner c = []" using assms(1) by (simp add: validate_workspace_def)
  then show ?thesis using assms(2,3) by (auto simp: validate_owner_def owner_fits_def Let_def guard_Nil split: if_splits)
qed

lemma valid_secrets:
  "validate_secrets c = [] \<Longrightarrow> fmlookup (cf_secrets c) n = Some s \<Longrightarrow> (se_env s = []) \<noteq> (se_file s = [])"
  by (auto simp: validate_secrets_def checked_entries Let_def guard_Nil split: if_splits)


section \<open>The devices of an accepted declaration\<close>

text \<open>Each disk with the name of its device.\<close>

definition placed :: "config \<Rightarrow> (string \<times> string) list" where
  "placed c = filter (is_abs \<circ> snd)
     (map (\<lambda>(n, m). (mount_device_name n, mo_target m)) (entries (mounts c))
      @ map (\<lambda>(n, v). (n, vo_path v)) (entries (cf_volumes c))
      @ map (\<lambda>(n, d). (n, get_str d ''path''))
          (filter (\<lambda>(n, d). get_str d ''type'' = ''disk'') (entries (in_devices (cf_instance c)))))"

lemma placed_places: "map (clean \<circ> snd) (placed c) = disk_places c"
proof -
  have "map (clean \<circ> snd) (filter (is_abs \<circ> snd) xs) = places (map snd xs)" for xs :: "(string \<times> string) list"
    by (induction xs) (simp_all add: places_def)
  then show ?thesis
    by (simp add: placed_def disk_places_def mount_targets_def volume_paths_def disk_paths_def comp_def case_prod_unfold
        del: filter_append)
qed

lemma put_entries_from:
  "fmlookup (put_entries nm f es m) a = Some d \<Longrightarrow>
   (\<exists>k v. (k, v) \<in> set es \<and> nm k = a \<and> d = f k v) \<or> fmlookup m a = Some d"
  by (induction nm f es m rule: put_entries.induct) (fastforce split: if_splits)+

lemma put_entries_keeps:
  "a \<notin> nm ` fst ` set es \<Longrightarrow> fmlookup (put_entries nm f es m) a = fmlookup m a"
  by (induction nm f es m rule: put_entries.induct) auto

lemma put_entries_lookup:
  "distinct (map (nm \<circ> fst) es) \<Longrightarrow> (k, v) \<in> set es \<Longrightarrow> fmlookup (put_entries nm f es m) (nm k) = Some (f k v)"
proof (induction nm f es m rule: put_entries.induct)
  case (2 nm f k' v' es m)
  then show ?case by (cases "(k, v) = (k', v')") (auto simp: put_entries_keeps image_image)
qed simp

lemma shift_keeps: "k \<noteq> ''shift'' \<Longrightarrow> get_str (apply_shift d plan) k = get_str d k"
  by (simp add: apply_shift_def get_str_def)

lemma declared_keeps:
  "k \<noteq> ''shift'' \<Longrightarrow> k \<noteq> ''source'' \<Longrightarrow> get_str (declared_device c plan d) k = get_str d k"
  by (simp add: declared_device_def shift_keeps) (simp add: get_str_def)

lemma mount_device_path: "get_str (mount_device c plan m) ''path'' = mo_target m"
  by (simp add: mount_device_def shift_keeps) (simp add: get_str_def fmlookup_of_list)

lemma volume_device_path: "get_str (volume_device n k v) ''path'' = vo_path v"
  by (simp add: volume_device_def get_str_def fmlookup_of_list)

lemma desired_placed:
  assumes "fmlookup (desired_devices c plan n) a = Some d" "device_type d = ''disk''" "is_abs (get_str d ''path'')"
  shows "(a, get_str d ''path'') \<in> set (placed c)"
proof -
  consider (mount) k m where "(k, m) \<in> set (entries (mounts c))" "a = mount_device_name k" "d = mount_device c plan m"
    | (volume) v where "(a, v) \<in> set (entries (cf_volumes c))" "d = volume_device n a v"
    | (device) e where "(a, e) \<in> set (entries (in_devices (cf_instance c)))" "d = declared_device c plan e"
    using assms(1) unfolding desired_devices_def by (fastforce dest!: put_entries_from)
  then show ?thesis
  proof cases
    case mount
    then show ?thesis using assms(3) by (force simp: placed_def mount_device_path)
  next
    case volume
    then show ?thesis using assms(3) by (force simp: placed_def volume_device_path)
  next
    case device
    then show ?thesis using assms(2,3) by (force simp: placed_def device_type_def declared_keeps)
  qed
qed


text \<open>Under distinct names every declared device is among the desired ones, as itself.\<close>

definition all_kept :: "config \<Rightarrow> idmap_plan \<Rightarrow> string \<Rightarrow> bool" where
  "all_kept c plan n \<longleftrightarrow> (let devices = desired_devices c plan n in
     list_all (\<lambda>(k, m). fmlookup devices (mount_device_name k) = Some (mount_device c plan m)) (entries (mounts c))
     \<and> list_all (\<lambda>(k, v). fmlookup devices k = Some (volume_device n k v)) (entries (cf_volumes c))
     \<and> list_all (\<lambda>(k, d). fmlookup devices k = Some (declared_device c plan d)) (entries (in_devices (cf_instance c))))"

lemma distinct_names_keep:
  assumes "distinct (managed_device_names c)"
  shows "all_kept c plan n"
proof -
  let ?ms = "entries (mounts c)" and ?vs = "entries (cf_volumes c)" and ?ds = "entries (in_devices (cf_instance c))"
  have "mset (managed_device_names c) = mset (map (mount_device_name \<circ> fst) ?ms @ map fst ?ds @ map fst ?vs)"
    unfolding map_map [symmetric] entries_keys managed_device_names_def by simp
  then have d: "distinct (map (mount_device_name \<circ> fst) ?ms @ map fst ?ds @ map fst ?vs)"
    using assms by (metis mset_eq_imp_distinct_iff)
  then have sep: "distinct (map (mount_device_name \<circ> fst) ?ms)" "distinct (map ((\<lambda>k. k) \<circ> fst) ?ds)"
      "distinct (map ((\<lambda>k. k) \<circ> fst) ?vs)"
    by (simp_all add: comp_def)
  have disj: "set (map (mount_device_name \<circ> fst) ?ms) \<inter> (set (map fst ?ds) \<union> set (map fst ?vs)) = {}"
      "set (map fst ?ds) \<inter> set (map fst ?vs) = {}"
    using d unfolding distinct_append by simp_all
  have apart: "k \<notin> mount_device_name ` fst ` set ?ms" if "(k, x) \<in> set ?vs" for k x
    using disj(1) that unfolding set_map image_comp by (metis IntI UnI2 empty_iff fst_conv image_eqI)
  have apart': "k \<notin> mount_device_name ` fst ` set ?ms \<and> k \<notin> fst ` set ?vs" if "(k, x) \<in> set ?ds" for k x
    using disj that unfolding set_map image_comp by (metis IntI UnI1 empty_iff fst_conv image_eqI)
  show ?thesis
    unfolding all_kept_def desired_devices_def Let_def list_all_iff
    using put_entries_lookup [OF sep(1)] put_entries_lookup [OF sep(2)] put_entries_lookup [OF sep(3)] apart apart'
    by (auto simp: put_entries_keeps image_image)
qed


text \<open>The container paths of the disks among some devices.\<close>

definition container_paths :: "device gomap \<Rightarrow> string list" where
  "container_paths devs = map (\<lambda>(n, d). clean (get_str d ''path''))
     (filter (\<lambda>(n, d). device_type d = ''disk'' \<and> is_abs (get_str d ''path'')) (entries devs))"

lemma disks_apart:
  assumes "distinct (disk_places c)"
  shows "distinct (container_paths (desired_devices c plan n))"
proof -
  let ?devs = "desired_devices c plan n"
  let ?disks = "filter (\<lambda>(n, d). device_type d = ''disk'' \<and> is_abs (get_str d ''path'')) (entries ?devs)"
  have inj: "inj_on (clean \<circ> snd) (set (placed c))"
    using assms unfolding placed_places [symmetric] distinct_map by blast
  have there: "fmlookup ?devs a = Some d" if "(a, d) \<in> set (entries ?devs)" for a d
    using that by (auto simp: entries_def has_key_iff)
  have placed: "(a, get_str d ''path'') \<in> set (placed c)" if "(a, d) \<in> set ?disks" for a d
    using that there desired_placed [of c plan n a d] by auto
  have "inj_on (\<lambda>(n, d). clean (get_str d ''path'')) (set ?disks)"
  proof (rule inj_onI, clarify)
    fix a d b e assume x: "(a, d) \<in> set ?disks" "(b, e) \<in> set ?disks" "clean (get_str d ''path'') = clean (get_str e ''path'')"
    then have "(a, get_str d ''path'') = (b, get_str e ''path'')"
      using inj_onD [OF inj _ placed [OF x(1)] placed [OF x(2)]] by simp
    moreover have "fmlookup ?devs a = Some d" "fmlookup ?devs b = Some e" using x(1,2) there by auto
    ultimately show "a = b \<and> d = e" by simp
  qed
  moreover have "distinct (entries ?devs)" by (simp add: entries_def distinct_map inj_on_def)
  ultimately show ?thesis by (simp add: container_paths_def distinct_map)
qed


section \<open>All of it\<close>

lemma checked_well_formed:
  assumes "validate_semantics stat c raw = []"
  shows "well_formed c"
proof -
  note v = validate_semantics_parts [OF assms]
  have "list_all is_abs (mount_targets c @ volume_paths c)"
    using valid_mount(1) [OF v(4)] valid_volume(1) [OF v(2)]
    by (simp add: mount_targets_def volume_paths_def list_all_entries list.pred_map comp_def case_prod_unfold)
  moreover have "list_all (\<lambda>p. clean p \<noteq> ''/'') (mount_targets c @ volume_paths c)"
    using valid_mount(2) [OF v(4)] valid_paths(2) [OF v(5)] valid_volume(1) [OF v(2)]
    by (simp add: mount_targets_def volume_paths_def list_all_entries list.pred_map comp_def case_prod_unfold)
  then have "''/'' \<notin> set (places (mount_targets c @ volume_paths c))"
    by (auto simp: places_def list_all_iff)
  moreover have "list_all (\<lambda>(n, s). (se_env s = []) \<noteq> (se_file s = [])) (entries (cf_secrets c))"
    using valid_secrets [OF v(3)] by (simp add: list_all_entries)
  ultimately show ?thesis
    unfolding well_formed_def
    using valid_instance [OF v(1)] names_apart [OF v(1,2,4)] valid_paths(1) [OF v(5)] valid_mode [OF v(4)] valid_owner [OF v(4)]
    by (simp split: option.splits)
qed


section \<open>A declaration let through\<close>

text \<open>One mount, one volume and one declared disk, and a library that reads it from any text.\<close>

definition sample_document :: "(string, json) fmap" where
  "sample_document = fmap_of_list
     [(''schema'', JNum ''1''), (''project'', JObj (fmap_of_list [(''name'', JStr ''web'')])),
      (''instance'', JObj (fmap_of_list [(''image'', JStr ''images:debian/12''),
         (''config'', JObj (fmap_of_list [(''limits.cpu'', JStr ''2'')])),
         (''devices'', JObj (fmap_of_list [(''cache'', JObj (fmap_of_list
            [(''type'', JStr ''disk''), (''pool'', JStr ''default''), (''source'', JStr ''cache''), (''path'', JStr ''/cache'')]))]))])),
      (''volumes'', JObj (fmap_of_list [(''data'', JObj (fmap_of_list [(''path'', JStr ''/data'')]))]))]"

definition sample_yaml :: yaml_lib where
  "sample_yaml = \<lparr>yl_documents = (\<lambda>_. Some [True]), yl_json = (\<lambda>_. Inr (JObj sample_document)), yl_schema = (\<lambda>_. None)\<rparr>"

definition any_dir :: stat_fun where
  "any_dir = (\<lambda>_. Inr \<lparr>fi_dir = True, fi_regular = False\<rparr>)"

definition sample_accepted :: config where
  "sample_accepted = (case parse sample_yaml any_dir ''/src'' [] of Inr c \<Rightarrow> c | Inl e \<Rightarrow> plain_config [] [] [])"

lemma sample_parses: "parse sample_yaml any_dir ''/src'' [] = Inr sample_accepted"
proof -
  have "\<not> isl (parse sample_yaml any_dir ''/src'' [])" by code_simp
  then show ?thesis by (simp add: sample_accepted_def isl_def split: sum.splits)
qed


section \<open>Properties\<close>

text \<open>C6: a declaration that parsing lets through is well-formed, whatever the schema's library says.
  No setting is one of idev's own and every key can be recorded and passed on; the names of all devices
  (mounts, volumes and declared ones) differ and can be recorded; every mount and volume has an absolute
  container path that is not the root, and no two disks claim one container path; the mapping method is one
  of the known, an owner goes only with a method that has a target to choose; an instance with no
  profile has a root disk; and every secret has exactly one source.\<close>

theorem accepted_well_formed:
  assumes "parse lib stat root text = Inr c"
  shows "well_formed c"
  using parse_Inr [OF assms] checked_well_formed by blast

theorem accepted_well_formed_witness: "well_formed sample_accepted \<and> managed_device_names sample_accepted = [''cache'', ''data'', ''workspace'']"
proof -
  have "managed_device_names sample_accepted = [''cache'', ''data'', ''workspace'']" by code_simp
  then show ?thesis using accepted_well_formed [OF sample_parses] by blast
qed

text \<open>C7: what up builds from an accepted declaration loses nothing of it, and Incus cannot refuse it for its
  paths: every mount, volume and device declared is among the desired devices under its own name and as
  declared, and the container paths of those that are disks, where they are absolute, all differ.\<close>

theorem accepted_devices_apart:
  assumes "parse lib stat root text = Inr c"
  shows "all_kept c plan n \<and> distinct (container_paths (desired_devices c plan n))"
  using parse_Inr [OF assms] checked_well_formed distinct_names_keep disks_apart unfolding well_formed_def by blast

theorem accepted_devices_apart_witness:
  "distinct (container_paths (desired_devices sample_accepted sample_plan ''dev-web''))
   \<and> container_paths (desired_devices sample_accepted sample_plan ''dev-web'') = [''/cache'', ''/data'', ''/workspace'']"
proof -
  have "container_paths (desired_devices sample_accepted sample_plan ''dev-web'') = [''/cache'', ''/data'', ''/workspace'']"
    by code_simp
  then show ?thesis using accepted_devices_apart [OF sample_parses, of sample_plan "''dev-web''"] by blast
qed

end
