(* ===== verification/Signals.thy ===== *)
theory Signals
  imports Api_Exec
begin

text \<open>
  Models the two goroutines beside a run: \<open>exitOnNextSignal\<close> of \<open>cmd/idev/main.go\<close>, which ends the process
  on the second interrupt, and the one that \<open>osConsole.Resized\<close> of \<open>internal/incus/exec_tty.go\<close> starts, which
  turns window-change signals into notifications. Each is a step relation over its channels and what
  happens around it. A channel of capacity one is what it holds, a send that would block is dropped by
  the signal package and by \<open>select\<close> with a default alike.
\<close>


section \<open>The second interrupt\<close>

datatype os_signal = Syscall nat | OtherSignal

definition signal_exit_code :: "os_signal \<Rightarrow> int" where
  "signal_exit_code sig = (case sig of Syscall n \<Rightarrow> 128 + int n | OtherSignal \<Rightarrow> 1)"

text \<open>Where the goroutine is: at its first \<open>select\<close>, past it, at the second, or gone.\<close>

datatype watch_place = AtFirst | Between | AtSecond | Left

text \<open>
  \<open>wx_cancelled\<close> is the context being over, by the first signal or by \<open>stop\<close>; \<open>wx_next\<close> the channel \<open>next\<close>;
  \<open>wx_done\<close> the channel \<open>done\<close>, closed as \<open>run\<close> returns; \<open>wx_seen\<close> the signals the process got so far;
  \<open>wx_exit\<close> the code the goroutine has ended the process with.
\<close>

record watch =
  wx_place :: watch_place
  wx_cancelled :: bool
  wx_next :: "os_signal option"
  wx_done :: bool
  wx_seen :: "os_signal list"
  wx_exit :: "int option"

definition watch_start :: watch where
  "watch_start = \<lparr>wx_place = AtFirst, wx_cancelled = False, wx_next = None, wx_done = False, wx_seen = [], wx_exit = None\<rparr>"

text \<open>A signal: the context is cancelled, and the goroutine hears of it only once it listens.\<close>

definition signal_arrives :: "os_signal \<Rightarrow> watch \<Rightarrow> watch" where
  "signal_arrives sig w =
     w\<lparr>wx_cancelled := True, wx_seen := wx_seen w @ [sig],
       wx_next := (if wx_place w = AtSecond \<and> wx_next w = None then Some sig else wx_next w)\<rparr>"

text \<open>A turn of the goroutine. Of the cases of a \<open>select\<close> that are ready any may be taken.\<close>

inductive watch_turn :: "watch \<Rightarrow> watch \<Rightarrow> bool" where
  DoneFirst: "wx_place w = AtFirst \<Longrightarrow> wx_done w \<Longrightarrow> watch_turn w (w\<lparr>wx_place := Left\<rparr>)"
| ContextOver: "wx_place w = AtFirst \<Longrightarrow> wx_cancelled w \<Longrightarrow> watch_turn w (w\<lparr>wx_place := Between\<rparr>)"
| Listen: "wx_place w = Between \<Longrightarrow> watch_turn w (w\<lparr>wx_place := AtSecond, wx_next := None\<rparr>)"
| SecondSignal: "wx_place w = AtSecond \<Longrightarrow> wx_next w = Some sig \<Longrightarrow>
    watch_turn w (w\<lparr>wx_place := Left, wx_next := None, wx_exit := Some (signal_exit_code sig)\<rparr>)"
| DoneSecond: "wx_place w = AtSecond \<Longrightarrow> wx_done w \<Longrightarrow> watch_turn w (w\<lparr>wx_place := Left, wx_next := None\<rparr>)"

text \<open>Beside it signals arrive, the run returns, closing \<open>done\<close>, and then \<open>stop\<close> ends the context.\<close>

inductive watch_step :: "watch \<Rightarrow> watch \<Rightarrow> bool" where
  Goroutine: "watch_turn w w' \<Longrightarrow> watch_step w w'"
| Arrives: "watch_step w (signal_arrives sig w)"
| Returns: "watch_step w (w\<lparr>wx_done := True\<rparr>)"
| Stops: "wx_done w \<Longrightarrow> watch_step w (w\<lparr>wx_cancelled := True\<rparr>)"

text \<open>Nothing happens in a process that has ended.\<close>

inductive watch_reach :: "watch \<Rightarrow> bool" where
  Begin: "watch_reach watch_start"
| Next: "watch_reach w \<Longrightarrow> wx_exit w = None \<Longrightarrow> watch_step w w' \<Longrightarrow> watch_reach w'"

inductive_cases watch_turnE: "watch_turn w w'"
inductive_cases watch_stepE: "watch_step w w'"

text \<open>What is waiting for the goroutine is not the first signal, unless the run has returned.\<close>

definition later_signal :: "watch \<Rightarrow> os_signal \<Rightarrow> bool" where
  "later_signal w sig \<longleftrightarrow> sig \<in> set (if wx_done w then wx_seen w else tl (wx_seen w))"

definition watch_ok :: "watch \<Rightarrow> bool" where
  "watch_ok w \<longleftrightarrow>
     (wx_place w \<noteq> AtFirst \<and> wx_place w \<noteq> Left \<longrightarrow> wx_cancelled w)
     \<and> (wx_cancelled w \<and> \<not> wx_done w \<longrightarrow> wx_seen w \<noteq> [])
     \<and> (wx_place w = Left \<longrightarrow> wx_done w \<or> wx_exit w \<noteq> None)
     \<and> (wx_place w \<noteq> AtSecond \<longrightarrow> wx_next w = None)
     \<and> (\<forall>sig. wx_next w = Some sig \<longrightarrow> later_signal w sig)
     \<and> (\<forall>code. wx_exit w = Some code \<longrightarrow> wx_cancelled w \<and> (\<exists>sig. later_signal w sig \<and> code = signal_exit_code sig))"

lemma later_more: "later_signal w sig \<Longrightarrow> later_signal (signal_arrives s w) sig"
  by (cases "wx_done w"; cases "wx_seen w") (auto simp: later_signal_def signal_arrives_def)

lemma later_new: "wx_seen w \<noteq> [] \<or> wx_done w \<Longrightarrow> later_signal (signal_arrives sig w) sig"
  by (cases "wx_done w"; cases "wx_seen w") (auto simp: later_signal_def signal_arrives_def)

lemma later_done: "later_signal w sig \<Longrightarrow> later_signal (w\<lparr>wx_done := True\<rparr>) sig"
  by (cases "wx_done w"; cases "wx_seen w") (simp_all add: later_signal_def)

lemma watch_turn_ok: "watch_turn w w' \<Longrightarrow> watch_ok w \<Longrightarrow> watch_ok w'"
  by (erule watch_turnE) (fastforce simp: watch_ok_def later_signal_def)+

lemma watch_step_ok:
  assumes "watch_step w w'" "wx_exit w = None" "watch_ok w"
  shows "watch_ok w'"
  using assms(1)
proof cases
  case Goroutine
  then show ?thesis using assms(3) watch_turn_ok by blast
next
  case (Arrives sig)
  have "wx_next w' = Some s \<Longrightarrow> later_signal w' s" for s
    using assms(3) later_more [of w s sig] later_new [of w sig]
    by (auto simp: Arrives watch_ok_def signal_arrives_def split: if_splits)
  then show ?thesis using assms(2,3) by (simp add: watch_ok_def Arrives) (simp add: signal_arrives_def)
next
  case Returns
  have "wx_next w' = Some s \<Longrightarrow> later_signal w' s" for s
    using assms(3) later_done [of w s] by (simp add: Returns watch_ok_def)
  then show ?thesis using assms(2,3) by (simp add: watch_ok_def Returns)
next
  case Stops
  have "later_signal w' s = later_signal w s" for s by (simp add: Stops later_signal_def)
  then show ?thesis using assms(2,3) Stops by (simp add: watch_ok_def)
qed

lemma watch_reach_ok: "watch_reach w \<Longrightarrow> watch_ok w"
proof (induction rule: watch_reach.induct)
  case (Next w w')
  then show ?case using watch_step_ok by blast
qed (simp add: watch_ok_def watch_start_def)

text \<open>From the first signal on the goroutine listens after at most two turns, whichever it takes.\<close>

definition turns_to_listen :: "watch \<Rightarrow> nat" where
  "turns_to_listen w = (case wx_place w of AtFirst \<Rightarrow> 2 | Between \<Rightarrow> 1 | _ \<Rightarrow> 0)"

lemma turn_to_listen:
  assumes "wx_cancelled w" "\<not> wx_done w" "wx_place w \<in> {AtFirst, Between}"
  shows "\<exists>w'. watch_turn w w'"
    "watch_turn w w' \<Longrightarrow> turns_to_listen w' < turns_to_listen w \<and> wx_place w' \<noteq> Left \<and> wx_exit w' = wx_exit w"
proof -
  show "\<exists>w'. watch_turn w w'" using assms ContextOver [of w] Listen [of w] by auto
  show "watch_turn w w' \<Longrightarrow> turns_to_listen w' < turns_to_listen w \<and> wx_place w' \<noteq> Left \<and> wx_exit w' = wx_exit w"
    using assms by (elim watch_turnE) (auto simp: turns_to_listen_def)
qed


section \<open>Changes of the window's size\<close>

text \<open>
  \<open>rz_signals\<close> and \<open>rz_resized\<close> are whether the two channels hold something; \<open>rz_handling\<close> that the
  goroutine took a signal and has not passed it on; \<open>rz_reading\<close> that the receiver took a
  notification and has not read the size; \<open>rz_stale\<close> that the size has changed since it was read last.
\<close>

record resizing =
  rz_signals :: bool
  rz_handling :: bool
  rz_resized :: bool
  rz_reading :: bool
  rz_stopped :: bool
  rz_closed :: bool
  rz_stale :: bool

definition resizing_start :: resizing where
  "resizing_start = \<lparr>rz_signals = False, rz_handling = False, rz_resized = False, rz_reading = False,
     rz_stopped = False, rz_closed = False, rz_stale = False\<rparr>"

inductive resizing_step :: "resizing \<Rightarrow> resizing \<Rightarrow> bool" where
  Winch: "resizing_step z (z\<lparr>rz_stale := True, rz_signals := (rz_signals z \<or> \<not> rz_stopped z)\<rparr>)"
| Take: "rz_signals z \<Longrightarrow> \<not> rz_handling z \<Longrightarrow> \<not> rz_closed z \<Longrightarrow>
    resizing_step z (z\<lparr>rz_signals := False, rz_handling := True\<rparr>)"
| PassOn: "rz_handling z \<Longrightarrow> resizing_step z (z\<lparr>rz_handling := False, rz_resized := True\<rparr>)"
| Quit: "rz_stopped z \<Longrightarrow> \<not> rz_handling z \<Longrightarrow> \<not> rz_closed z \<Longrightarrow> resizing_step z (z\<lparr>rz_closed := True\<rparr>)"
| Receive: "rz_resized z \<Longrightarrow> \<not> rz_reading z \<Longrightarrow> resizing_step z (z\<lparr>rz_resized := False, rz_reading := True\<rparr>)"
| ReadSize: "rz_reading z \<Longrightarrow> resizing_step z (z\<lparr>rz_reading := False, rz_stale := False\<rparr>)"
| StopWatching: "\<not> rz_stopped z \<Longrightarrow> resizing_step z (z\<lparr>rz_stopped := True\<rparr>)"

inductive resizing_reach :: "resizing \<Rightarrow> bool" where
  ResizeStart: "resizing_reach resizing_start"
| ResizeStep: "resizing_reach z \<Longrightarrow> resizing_step z z' \<Longrightarrow> resizing_reach z'"

inductive_cases resizing_stepE: "resizing_step z z'"

definition resizing_ok :: "resizing \<Rightarrow> bool" where
  "resizing_ok z \<longleftrightarrow>
     (rz_stale z \<and> \<not> rz_stopped z \<longrightarrow> rz_signals z \<or> rz_handling z \<or> rz_resized z \<or> rz_reading z)
     \<and> (rz_closed z \<longrightarrow> rz_stopped z \<and> \<not> rz_handling z)"

lemma resizing_reach_ok: "resizing_reach z \<Longrightarrow> resizing_ok z"
proof (induction rule: resizing_reach.induct)
  case (ResizeStep z z')
  from ResizeStep.hyps(2) ResizeStep.IH show ?case
    by (elim resizing_stepE) (auto simp: resizing_ok_def)
qed (simp add: resizing_ok_def resizing_start_def)

text \<open>How far what was signalled is from being read, and a step on the way.\<close>

definition steps_to_read :: "resizing \<Rightarrow> nat" where
  "steps_to_read z = (if rz_reading z then 1 else if rz_resized z then 2 else if rz_handling z then 3 else 4)"

lemma closer_to_read:
  assumes "resizing_ok z" "rz_stale z" "\<not> rz_stopped z"
  shows "\<exists>z'. resizing_step z z' \<and> \<not> rz_stopped z' \<and> (rz_stale z' \<longrightarrow> steps_to_read z' < steps_to_read z)"
proof -
  consider "rz_reading z" | "\<not> rz_reading z" "rz_resized z" | "\<not> rz_reading z" "\<not> rz_resized z" "rz_handling z"
    | "\<not> rz_reading z" "\<not> rz_resized z" "\<not> rz_handling z" "rz_signals z" "\<not> rz_closed z"
    using assms by (auto simp: resizing_ok_def)
  then show ?thesis
  proof cases
    case 1
    then show ?thesis using ReadSize [OF 1] assms(3)
      by (intro exI [of _ "z\<lparr>rz_reading := False, rz_stale := False\<rparr>"]) simp
  next
    case 2
    then show ?thesis using Receive [OF 2(2,1)] assms(3)
      by (intro exI [of _ "z\<lparr>rz_resized := False, rz_reading := True\<rparr>"]) (simp add: steps_to_read_def)
  next
    case 3
    then show ?thesis using PassOn [OF 3(3)] assms(3)
      by (intro exI [of _ "z\<lparr>rz_handling := False, rz_resized := True\<rparr>"]) (simp add: steps_to_read_def)
  next
    case 4
    then show ?thesis using Take [OF 4(4,3,5)] assms(3)
      by (intro exI [of _ "z\<lparr>rz_signals := False, rz_handling := True\<rparr>"]) (simp add: steps_to_read_def)
  qed
qed

lemma read_at_last:
  "resizing_reach z \<Longrightarrow> \<not> rz_stopped z \<Longrightarrow> rz_stale z \<Longrightarrow>
   \<exists>k z'. k \<le> steps_to_read z \<and> (resizing_step ^^ k) z z' \<and> \<not> rz_stale z' \<and> \<not> rz_stopped z'"
proof (induction "steps_to_read z" arbitrary: z rule: less_induct)
  case less
  obtain y where y: "resizing_step z y" "\<not> rz_stopped y" "rz_stale y \<longrightarrow> steps_to_read y < steps_to_read z"
    using closer_to_read [OF resizing_reach_ok] less.prems by blast
  show ?case
  proof (cases "rz_stale y")
    case True
    then obtain k z' where "k \<le> steps_to_read y" "(resizing_step ^^ k) y z'" "\<not> rz_stale z'" "\<not> rz_stopped z'"
      using less.hyps [of y] y ResizeStep [OF less.prems(1) y(1)] by blast
    then show ?thesis using y(1,3) True relpowp_Suc_I2 [of resizing_step z y k z']
      by (intro exI [of _ "Suc k"] exI [of _ z']) simp
  next
    case False
    then show ?thesis using y(1,2)
      by (intro exI [of _ 1] exI [of _ y]) (auto simp: steps_to_read_def)
  qed
qed


section \<open>Properties\<close>

text \<open>A run that got its first interrupt and is listening for the next.\<close>

definition listening :: watch where
  "listening = (signal_arrives (Syscall 2) watch_start)\<lparr>wx_place := AtSecond\<rparr>"

lemma listening_reach: "watch_reach listening"
proof -
  let ?a = "signal_arrives (Syscall 2) watch_start"
  have "watch_reach ?a" by (rule Next [OF Begin _ Arrives]) (simp add: watch_start_def)
  then have "watch_reach (?a\<lparr>wx_place := Between\<rparr>)"
    by (rule Next [OF _ _ Goroutine [OF ContextOver]]) (simp_all add: signal_arrives_def watch_start_def)
  then have "watch_reach (?a\<lparr>wx_place := Between\<rparr>\<lparr>wx_place := AtSecond, wx_next := None\<rparr>)"
    by (rule Next [OF _ _ Goroutine [OF Listen]]) (simp_all add: signal_arrives_def watch_start_def)
  then show ?thesis by (simp add: listening_def signal_arrives_def watch_start_def)
qed

text \<open>C40: the second interrupt ends the process, the first never does. While a run that was interrupted has not
  returned: if the process was ended, a signal after the first did it, and the exit code is the one a shell
  reports for that signal; if not, the goroutine is never stuck on its way to listen again, which takes at
  most two turns, and once it listens, any turn it takes after a signal ends the process so.\<close>

theorem second_interrupt_ends:
  assumes "watch_reach w" "wx_cancelled w" "\<not> wx_done w"
  shows "case wx_exit w of
      Some code \<Rightarrow> (\<exists>s\<in>set (tl (wx_seen w)). code = signal_exit_code s)
    | None \<Rightarrow>
        if wx_place w = AtSecond
        then (\<exists>w'. watch_turn (signal_arrives sig w) w')
          \<and> (\<forall>w'. watch_turn (signal_arrives sig w) w' \<longrightarrow>
              (\<exists>s\<in>set (tl (wx_seen w @ [sig])). wx_exit w' = Some (signal_exit_code s)))
        else turns_to_listen w \<in> {1, 2} \<and> (\<exists>w'. watch_turn w w')
          \<and> (\<forall>w'. watch_turn w w' \<longrightarrow> turns_to_listen w' < turns_to_listen w \<and> wx_exit w' = None)"
proof (cases "wx_exit w")
  case (Some code)
  then show ?thesis using watch_reach_ok [OF assms(1)] assms(3) by (auto simp: watch_ok_def later_signal_def)
next
  case None
  show ?thesis
  proof (cases "wx_place w = AtSecond")
    case True
    let ?v = "signal_arrives sig w"
    have "watch_reach ?v" by (rule Next [OF assms(1) None Arrives])
    then have ok: "wx_next ?v = Some s \<Longrightarrow> s \<in> set (tl (wx_seen w @ [sig]))" for s
      using watch_reach_ok [of ?v] assms(3) by (auto simp: watch_ok_def later_signal_def signal_arrives_def)
    obtain s where s: "wx_next ?v = Some s" using True by (cases "wx_next w") (auto simp: signal_arrives_def)
    have place: "wx_place ?v = AtSecond" "\<not> wx_done ?v" using True assms(3) by (simp_all add: signal_arrives_def)
    have "\<exists>w'. watch_turn ?v w'" using SecondSignal [OF place(1) s] by blast
    moreover have "watch_turn ?v w' \<Longrightarrow> wx_exit w' = Some (signal_exit_code s)" for w'
      using place s by (elim watch_turnE) auto
    ultimately show ?thesis using None True ok [OF s] by auto
  next
    case False
    then have "wx_place w \<in> {AtFirst, Between}"
      using watch_reach_ok [OF assms(1)] None assms(3) by (cases "wx_place w") (auto simp: watch_ok_def)
    with turn_to_listen [OF assms(2,3) this] None False show ?thesis
      by (auto simp: turns_to_listen_def)
  qed
qed

theorem second_interrupt_ends_witness:
  "\<exists>w'. watch_turn (signal_arrives (Syscall 15) listening) w' \<and> wx_exit w' = Some 143"
  using second_interrupt_ends [OF listening_reach, of "Syscall 15"]
  by (auto simp: listening_def signal_arrives_def watch_start_def signal_exit_code_def)

text \<open>No change of the window is lost. While the subscription stands, whatever signals, notifications and
  readings have come in whichever order, a size that changed since it was last read is read again within
  four steps of the goroutine and the receiver.\<close>

theorem no_resize_lost:
  assumes "resizing_reach z" "rz_stale z" "\<not> rz_stopped z"
  shows "\<exists>k z'. k \<le> 4 \<and> (resizing_step ^^ k) z z' \<and> \<not> rz_stale z' \<and> \<not> rz_stopped z'"
proof -
  have "steps_to_read z \<le> 4" by (simp add: steps_to_read_def)
  then show ?thesis using read_at_last [OF assms(1,3,2)] by (meson order_trans)
qed

theorem no_resize_lost_witness:
  "\<exists>k z'. k \<le> 4 \<and> (resizing_step ^^ k) (resizing_start\<lparr>rz_stale := True, rz_signals := True\<rparr>) z' \<and> \<not> rz_stale z'"
proof -
  have "resizing_step resizing_start (resizing_start\<lparr>rz_stale := True, rz_signals := True\<rparr>)"
    using Winch [of resizing_start] by (simp add: resizing_start_def)
  from no_resize_lost [OF ResizeStep [OF ResizeStart this]] show ?thesis by (auto simp: resizing_start_def)
qed

end
