(* ===== verification/Commands.thy ===== *)
theory Commands
  imports Root
begin

text \<open>
  Models the command tree that \<open>internal/cli/root.go\<close> hands to cobra: the commands, their flags, how many
  arguments each takes and which flags exclude each other, as data; the values the bodies read from what
  cobra has parsed; and \<open>Execute\<close>, with cobra as a parameter. What cobra documents of a command line it
  lets through is the predicate \<open>obeys\<close>.
\<close>


section \<open>Declarations\<close>

datatype flag_kind = BoolFlag | StringFlag | StringArrayFlag

record flag_decl =
  fd_name :: string
  fd_short :: string
  fd_kind :: flag_kind
  fd_usage :: string

datatype arity = NoArgs | MaximumArgs nat | ExactArgs nat | AnyArgs | CheckedArgs "string list \<Rightarrow> err option"

text \<open>\<open>cd_path\<close> are the words that name the command, none for the root; a command that does not run is a
  group.\<close>

record command_decl =
  cd_path :: "string list"
  cd_use :: string
  cd_short :: string
  cd_long :: string
  cd_args :: arity
  cd_flags :: "flag_decl list"
  cd_exclusive :: "string list list"
  cd_interspersed :: bool
  cd_runs :: bool

definition flag :: "flag_kind \<Rightarrow> string \<Rightarrow> string \<Rightarrow> string \<Rightarrow> flag_decl" where
  "flag k name short usage = \<lparr>fd_name = name, fd_short = short, fd_kind = k, fd_usage = usage\<rparr>"

definition subcommand :: "string list \<Rightarrow> string \<Rightarrow> string \<Rightarrow> arity \<Rightarrow> flag_decl list \<Rightarrow> command_decl" where
  "subcommand path use short args flags =
     \<lparr>cd_path = path, cd_use = use, cd_short = short, cd_long = [], cd_args = args, cd_flags = flags,
      cd_exclusive = [], cd_interspersed = True, cd_runs = True\<rparr>"

definition global_flag_decls :: "flag_decl list" where
  "global_flag_decls =
     [flag BoolFlag ''verbose'' ''v'' ''print detailed output'',
      flag StringFlag ''directory'' ''C''
        ''directory to start looking for .incus-dev/dev.yml in (default: current directory)'',
      flag StringFlag ''incus-project'' []
        (''Incus project (defaults to incus.project in dev.yml, then '' @ quote ''default'' @ '')'')]"

definition root_decl :: command_decl where
  "root_decl = (subcommand [] ''idev'' ''Manage per-project development environments with Incus'' AnyArgs global_flag_decls)
     \<lparr>cd_runs := False,
      cd_long := ''idev prepares an Incus instance as declared in .incus-dev/dev.yml'' @ newline
        @ ''and runs the provisioning steps declared there.''\<rparr>"

definition up_decl :: command_decl where
  "up_decl = (subcommand [''up''] ''up'' ''Create the instance, then run bootstrap and provisioning'' NoArgs
       [flag BoolFlag ''dry-run'' [] ''show the planned operations without changing anything in Incus'',
        flag BoolFlag ''restart'' [] ''restart the instance if a change needs it to take effect''])
     \<lparr>cd_exclusive := [[''dry-run'', ''restart'']]\<rparr>"

definition provision_decl :: command_decl where
  "provision_decl = (subcommand [''provision''] ''provision'' ''Re-run provisioning without recreating the instance'' NoArgs
       [flag StringArrayFlag ''step'' [] ''run only the given steps (name or number; may be repeated)'',
        flag StringFlag ''from'' [] ''run from the given step onwards (name or number)'',
        flag BoolFlag ''list'' [] ''list the provisioning steps (does not touch Incus)''])
     \<lparr>cd_exclusive := [[''step'', ''from''], [''step'', ''list''], [''from'', ''list'']]\<rparr>"

definition user_flag :: flag_decl where
  "user_flag = flag StringFlag ''user'' []
     ''user to run as, overriding shell.user for this run (a name or a uid)''"

definition shell_decl_of :: command_decl where
  "shell_decl_of = (subcommand [''shell''] ''shell [-- command...]'' ''Open a shell in the container, or run the given command''
       AnyArgs [user_flag])\<lparr>cd_interspersed := False\<rparr>"

definition exec_args :: "string list \<Rightarrow> err option" where
  "exec_args args =
     (if args = [] then Some (Errorf ''exec requires a command; use 'idev shell' for an interactive shell'' []) else None)"

definition exec_decl :: command_decl where
  "exec_decl = (subcommand [''exec''] ''exec -- <command>'' ''Run a command in the container without allocating a terminal''
       (CheckedArgs exec_args) [user_flag])\<lparr>cd_interspersed := False\<rparr>"

definition status_decl :: command_decl where
  "status_decl = subcommand [''status''] ''status'' ''Show the state of the instance'' NoArgs
     [flag BoolFlag ''json'' [] ''print machine-readable JSON'']"

definition ip_decl :: command_decl where
  "ip_decl = (subcommand [''ip''] ''ip'' ''Print the address to reach the instance on'' NoArgs [])
     \<lparr>cd_long := ''Print the address to reach the instance on, and nothing else, so it ''
        @ ''can be substituted into a command:'' @ newline @ newline @ ''  ssh user@$(idev ip)'' @ newline @ newline
        @ ''IPv4 is preferred over IPv6, and an instance with several interfaces ''
        @ ''answers with the same one every run. Use 'idev status --json' for all '' @ ''of its addresses.''\<rparr>"

definition force_flag :: flag_decl where
  "force_flag = flag BoolFlag ''force'' ''f'' ''skip the confirmation prompt''"

definition destroy_decl :: command_decl where
  "destroy_decl = subcommand [''destroy''] ''destroy'' ''Delete the instance (the sources on the host are left alone)'' NoArgs
     [force_flag, flag BoolFlag ''volumes'' [] ''delete the persistent volumes as well'']"

definition rebuild_decl :: command_decl where
  "rebuild_decl = subcommand [''rebuild''] ''rebuild'' ''Destroy the instance and create it again'' NoArgs [force_flag]"

definition validate_decl :: command_decl where
  "validate_decl = subcommand [''validate''] ''validate'' ''Validate dev.yml (makes no change to Incus at all)'' NoArgs []"

definition snapshot_decls :: "command_decl list" where
  "snapshot_decls =
     [(subcommand [''snapshot''] ''snapshot'' ''Manage snapshots of the instance'' AnyArgs [])\<lparr>cd_runs := False\<rparr>,
      subcommand [''snapshot'', ''create''] ''create [name]''
        ''Create a snapshot (named after the current time if omitted)'' (MaximumArgs 1) [],
      subcommand [''snapshot'', ''list''] ''list'' ''List the snapshots'' NoArgs [],
      subcommand [''snapshot'', ''restore''] ''restore <name>''
        ''Roll the instance back to a snapshot (its current state is lost)'' (ExactArgs 1) [force_flag],
      subcommand [''snapshot'', ''delete''] ''delete <name>'' ''Delete a snapshot'' (ExactArgs 1) [force_flag]]"

definition command_tree :: "command_decl list" where
  "command_tree =
     [root_decl, up_decl, provision_decl, shell_decl_of, exec_decl, status_decl, ip_decl, destroy_decl, rebuild_decl,
      validate_decl] @ snapshot_decls"


section \<open>What cobra hands to a command\<close>

datatype flag_value = FlagBool bool | FlagString string | FlagStrings "string list"

record invocation =
  ca_path :: "string list"
  ca_given :: "(string \<times> flag_value) list"
  ca_args :: "string list"

text \<open>The variables the flags are bound to, with their defaults.\<close>

definition bool_flag :: "invocation \<Rightarrow> string \<Rightarrow> bool" where
  "bool_flag ca n = (case map_of (ca_given ca) n of Some (FlagBool b) \<Rightarrow> b | _ \<Rightarrow> False)"

definition string_flag :: "invocation \<Rightarrow> string \<Rightarrow> string" where
  "string_flag ca n = (case map_of (ca_given ca) n of Some (FlagString s) \<Rightarrow> s | _ \<Rightarrow> [])"

definition strings_flag :: "invocation \<Rightarrow> string \<Rightarrow> string list" where
  "strings_flag ca n = (case map_of (ca_given ca) n of Some (FlagStrings xs) \<Rightarrow> xs | _ \<Rightarrow> [])"

definition globals_of :: "invocation \<Rightarrow> global_flags" where
  "globals_of ca = \<lparr>gf_verbose = bool_flag ca ''verbose'', gf_directory = string_flag ca ''directory'',
     gf_incus_project = string_flag ca ''incus-project''\<rparr>"

text \<open>The body that runs, with what it reads. A name that an argument rule demands is there.\<close>

definition command_of :: "invocation \<Rightarrow> command_line option" where
  "command_of ca =
     (let path = ca_path ca; args = ca_args ca; force = bool_flag ca ''force''
      in if path = [''up''] then Some (CmdUp (bool_flag ca ''dry-run'') (bool_flag ca ''restart''))
         else if path = [''provision''] then
           Some (CmdProvision (bool_flag ca ''list'')
             \<lparr>sl_only = strings_flag ca ''step'', sl_from = string_flag ca ''from''\<rparr>)
         else if path = [''shell''] then Some (CmdShell args (string_flag ca ''user''))
         else if path = [''exec''] then Some (CmdExec args (string_flag ca ''user''))
         else if path = [''status''] then Some (CmdStatus (bool_flag ca ''json''))
         else if path = [''ip''] then Some CmdIP
         else if path = [''destroy''] then Some (CmdDestroy force (bool_flag ca ''volumes''))
         else if path = [''rebuild''] then Some (CmdRebuild force)
         else if path = [''validate''] then Some CmdValidate
         else if path = [''snapshot'', ''create''] then Some (CmdSnapshotCreate args)
         else if path = [''snapshot'', ''list''] then Some CmdSnapshotList
         else if path = [''snapshot'', ''restore''] then
           (case args of n # _ \<Rightarrow> Some (CmdSnapshotRestore force n) | [] \<Rightarrow> None)
         else if path = [''snapshot'', ''delete''] then
           (case args of n # _ \<Rightarrow> Some (CmdSnapshotDelete force n) | [] \<Rightarrow> None)
         else None)"

text \<open>cobra answers a command line with an error, a text it shows (help, the version), or a command to run.\<close>

datatype cobra_answer = Shows string | Runs invocation

type_synonym cobra = "string \<Rightarrow> command_decl list \<Rightarrow> string list \<Rightarrow> err + cobra_answer"

definition execute_line ::
  "cobra \<Rightarrow> ('d, 'h) surroundings \<Rightarrow> string \<Rightarrow> string list \<Rightarrow> ('d, 'h, unit) run" where
  "execute_line cobra su version args =
     (case cobra version command_tree args of
        Inl e \<Rightarrow> fail e
      | Inr (Shows text) \<Rightarrow> write_out text
      | Inr (Runs ca) \<Rightarrow>
          (case command_of ca of None \<Rightarrow> ret () | Some cmd \<Rightarrow> execute su (globals_of ca) cmd))"

text \<open>\<open>run\<close> of \<open>main.go\<close>: the exit code of the process.\<close>

definition run_line :: "cobra \<Rightarrow> ('d, 'h) surroundings \<Rightarrow> string \<Rightarrow> string list \<Rightarrow> ('d, 'h) session
   \<Rightarrow> int \<times> ('d, 'h) session" where
  "run_line cobra su version args s =
     (case execute_line cobra su version args s of (r, s') \<Rightarrow>
        (case report (case r of Inl e \<Rightarrow> Some e | Inr _ \<Rightarrow> None) of
           (text, code) \<Rightarrow> (code, if text = [] then s' else s'\<lparr>se_err := se_err s' @ [text]\<rparr>)))"


section \<open>The tree is one cobra takes\<close>

text \<open>cobra panics at a flag defined twice for a command, be it by name or by shorthand, its own and the global
  ones together, and at a group of exclusive flags that are not the command's. No two commands have one
  path, and every command but the root stands in a group.\<close>

definition sound_command :: "command_decl list \<Rightarrow> command_decl \<Rightarrow> bool" where
  "sound_command tree d \<longleftrightarrow>
     (let flags = (if cd_path d = [] then [] else global_flag_decls) @ cd_flags d in
       distinct (map fd_name flags) \<and> distinct (filter (\<lambda>k. k \<noteq> []) (map fd_short flags))
       \<and> list_all (list_all (\<lambda>n. List.member (map fd_name (cd_flags d)) n)) (cd_exclusive d)
       \<and> (if cd_path d = [] then True
           else list_ex (\<lambda>g. cd_path g = butlast (cd_path d) \<and> \<not> cd_runs g) tree))"

lemma tree_sound: "distinct (map cd_path command_tree) \<and> list_all (sound_command command_tree) command_tree"
  by code_simp


section \<open>What cobra documents of the command lines it lets through\<close>

fun arity_ok :: "arity \<Rightarrow> string list \<Rightarrow> bool" where
  "arity_ok NoArgs args = (args = [])"
| "arity_ok (MaximumArgs n) args = (length args \<le> n)"
| "arity_ok (ExactArgs n) args = (length args = n)"
| "arity_ok AnyArgs args = True"
| "arity_ok (CheckedArgs f) args = (f args = None)"

definition given :: "invocation \<Rightarrow> string \<Rightarrow> bool" where
  "given ca n \<longleftrightarrow> map_of (ca_given ca) n \<noteq> None"

text \<open>The arguments fit the command's rule, and of a group of exclusive flags at most one was given.\<close>

definition obeys :: "command_decl list \<Rightarrow> invocation \<Rightarrow> bool" where
  "obeys tree ca \<longleftrightarrow> list_ex (\<lambda>d. cd_path d = ca_path ca \<and> cd_runs d \<and> arity_ok (cd_args d) (ca_args ca)
     \<and> list_all (\<lambda>group. length (filter (given ca) group) \<le> 1) (cd_exclusive d)) tree"

text \<open>What the bodies rely on.\<close>

fun sensible :: "command_line \<Rightarrow> bool" where
  "sensible (CmdUp dry_run restart) = (\<not> (dry_run \<and> restart))"
| "sensible (CmdProvision list_only sel) =
     ((if list_only then sl_only sel = [] \<and> sl_from sel = [] else True) \<and> (sl_only sel = [] \<or> sl_from sel = []))"
| "sensible (CmdExec args user) = (args \<noteq> [])"
| "sensible (CmdSnapshotCreate args) = (length args \<le> 1)"
| "sensible _ = True"

lemma not_given: "\<not> given ca n \<Longrightarrow> \<not> bool_flag ca n \<and> string_flag ca n = [] \<and> strings_flag ca n = []"
  by (simp add: given_def bool_flag_def string_flag_def strings_flag_def)

text \<open>A command by its path: what runs, and what its declaration asks.\<close>

lemma declared_once:
  assumes "d \<in> set command_tree" "e \<in> set command_tree" "cd_path d = cd_path e"
  shows "d = e"
  using assms tree_sound by (metis distinct_map inj_onD)

lemma asked_of:
  assumes "obeys command_tree ca" "e \<in> set command_tree" "cd_path e = ca_path ca"
  shows "cd_runs e \<and> arity_ok (cd_args e) (ca_args ca) \<and> list_all (\<lambda>group. length (filter (given ca) group) \<le> 1) (cd_exclusive e)"
proof -
  obtain d where d: "d \<in> set command_tree" "cd_path d = ca_path ca" "cd_runs d" "arity_ok (cd_args d) (ca_args ca)"
    "list_all (\<lambda>group. length (filter (given ca) group) \<le> 1) (cd_exclusive d)"
    using assms(1) unfolding obeys_def list_ex_iff by blast
  then have "e = d" using declared_once [OF assms(2) d(1)] assms(3) by simp
  then show ?thesis using d by simp
qed

definition runnable :: "command_decl list" where
  "runnable = filter cd_runs command_tree"

lemma obeys_runnable: "obeys command_tree ca \<Longrightarrow> ca_path ca \<in> set (map cd_path runnable)"
  by (force simp: obeys_def list_ex_iff runnable_def)

lemma runnable_paths: "map cd_path runnable =
    [[''up''], [''provision''], [''shell''], [''exec''], [''status''], [''ip''], [''destroy''], [''rebuild''], [''validate''],
     [''snapshot'', ''create''], [''snapshot'', ''list''], [''snapshot'', ''restore''], [''snapshot'', ''delete'']]"
  by code_simp

lemma asked_up: "up_decl \<in> set command_tree \<and> cd_path up_decl = [''up''] \<and> cd_exclusive up_decl = [[''dry-run'', ''restart'']]"
  by (simp add: command_tree_def up_decl_def subcommand_def)

lemma asked_provision: "provision_decl \<in> set command_tree \<and> cd_path provision_decl = [''provision'']
    \<and> cd_exclusive provision_decl = [[''step'', ''from''], [''step'', ''list''], [''from'', ''list'']]"
  by (simp add: command_tree_def provision_decl_def subcommand_def)

lemma asked_exec: "exec_decl \<in> set command_tree \<and> cd_path exec_decl = [''exec''] \<and> cd_args exec_decl = CheckedArgs exec_args"
  by (simp add: command_tree_def exec_decl_def subcommand_def)

lemma asked_snapshot:
  "\<exists>d\<in>set command_tree. cd_path d = [''snapshot'', ''create''] \<and> cd_args d = MaximumArgs 1"
  "\<exists>d\<in>set command_tree. cd_path d = [''snapshot'', ''restore''] \<and> cd_args d = ExactArgs 1"
  "\<exists>d\<in>set command_tree. cd_path d = [''snapshot'', ''delete''] \<and> cd_args d = ExactArgs 1"
  by (simp_all add: command_tree_def snapshot_decls_def subcommand_def root_decl_def up_decl_def provision_decl_def
      shell_decl_of_def exec_decl_def status_decl_def ip_decl_def destroy_decl_def rebuild_decl_def validate_decl_def)

text \<open>Every command line that cobra lets through is one of the program's commands, with a name where one is
  needed, a command where \<open>exec\<close> needs one, and never two of the flags that contradict each other.\<close>

theorem command_line_sensible:
  assumes "obeys command_tree ca"
  shows "\<exists>cmd. command_of ca = Some cmd \<and> sensible cmd"
proof -
  note asked = asked_of [OF assms]
  have one: "\<exists>n. ca_args ca = [n]" if "\<exists>d\<in>set command_tree. cd_path d = ca_path ca \<and> cd_args d = ExactArgs 1"
    using that asked by (fastforce simp: length_Suc_conv)
  consider (up) "ca_path ca = [''up'']" | (provision) "ca_path ca = [''provision'']" | (exec) "ca_path ca = [''exec'']"
    | (create) "ca_path ca = [''snapshot'', ''create'']"
    | (named) "ca_path ca = [''snapshot'', ''restore''] \<or> ca_path ca = [''snapshot'', ''delete'']"
    | (other) "ca_path ca \<in> {[''shell''], [''status''], [''ip''], [''destroy''], [''rebuild''], [''validate''], [''snapshot'', ''list'']}"
    using obeys_runnable [OF assms] unfolding runnable_paths by auto
  then show ?thesis
  proof cases
    case up
    then have "\<not> given ca ''dry-run'' \<or> \<not> given ca ''restart''"
      using asked [of up_decl] asked_up by (auto split: if_splits)
    then show ?thesis using up not_given by (auto simp: command_of_def)
  next
    case provision
    then have "\<not> given ca ''step'' \<or> \<not> given ca ''from''" "\<not> given ca ''step'' \<or> \<not> given ca ''list''"
      "\<not> given ca ''from'' \<or> \<not> given ca ''list''"
      using asked [of provision_decl] asked_provision by (auto split: if_splits)
    then show ?thesis using provision not_given by (auto simp: command_of_def)
  next
    case exec
    then have "exec_args (ca_args ca) = None" using asked asked_exec by (metis arity_ok.simps(5))
    then show ?thesis using exec by (auto simp: command_of_def exec_args_def split: if_splits)
  next
    case create
    then have "length (ca_args ca) \<le> 1" using asked asked_snapshot(1) by (metis arity_ok.simps(2))
    then show ?thesis using create by (simp add: command_of_def)
  next
    case named
    then obtain n where "ca_args ca = [n]" using one asked_snapshot(2,3) by metis
    then show ?thesis using named by (auto simp: command_of_def)
  next
    case other
    then show ?thesis by (auto simp: command_of_def)
  qed
qed

end
