(* ===== verification/Spec2Isabelle.thy ===== *)
theory Spec2Isabelle
  imports Prelude Go_Strings Go_Path Go_Time Errors Steps Config Workspace_Section Validate Parse Sha256
    Runner Naming Client Daemon Fake IdMap Plan Restart Session Provision Volumes App App_Frame
    App_Safety App_Up App_Live Dryrun Status Snapshot Wait Discover Root Server Api Api_Exec Api_Daemon
    Connect Mem_Server Api_Safety Over_Api Contract
    Contract_Laws Contract_Api Accepted Signals Commands
begin

text \<open>
  A verification library for idev, the command line that builds development environments on Incus
  from a declaration in \<open>dev.yml\<close>. The Go code is under \<open>src/internal\<close>; definitions keep its names,
  written with underscores.

  The parts, and the theories that model them, each resting on the ones before it.

  \<^item> \<open>Prelude\<close>: maps (\<open>gomap\<close>, visited in the order of their keys as the code does), operations as
    functions from a state to a result or an error and the next state, and the predicates they keep.
  \<^item> \<open>Go_Strings\<close>, \<open>Go_Path\<close>, \<open>Go_Time\<close>, \<open>Errors\<close>: what the code uses of the Go standard library, on
    strings of bytes: trimming, splitting, numbers, \<open>path.Clean\<close>, RFC 3339 times, wrapped errors with
    \<open>errors.Is\<close> and \<open>errors.As\<close>, formatted messages.
  \<^item> \<open>Steps\<close>, \<open>Config\<close>, \<open>Workspace_Section\<close>, \<open>Validate\<close>, \<open>Parse\<close>: \<open>internal/config\<close>, the declaration, its
    decoding from JSON values, every check with its messages, and the way from a file to a checked
    declaration. The YAML decoder, the strict decoder and the JSON schema validator are third-party
    code: parameters.
  \<^item> \<open>Sha256\<close>, \<open>Naming\<close>: \<open>internal/incus/name.go\<close> and \<open>internal/cli/naming.go\<close>.
  \<^item> \<open>Runner\<close>: \<open>internal/runner\<close>, commands on the host, redaction of secrets, errors with exit codes.
  \<^item> \<open>Client\<close>, \<open>Daemon\<close>, \<open>Fake\<close>: \<open>internal/incus/client.go\<close> as records and a record of operations; the
    laws the commands rely on as the locale \<open>daemon\<close>; and the in-memory client of
    \<open>internal/incus/incustest\<close>, on which the locale is interpreted, with injected faults.
  \<^item> \<open>IdMap\<close>, \<open>Plan\<close>, \<open>Restart\<close>: what the declaration asks of an instance (\<open>internal/cli/plan.go\<close>,
    \<open>idmap.go\<close>, \<open>idmap_mode.go\<close>, \<open>restart.go\<close>): configuration, devices, the records idev keeps in the
    instance's own configuration, and which boot-time settings still wait for a restart.
  \<^item> \<open>Session\<close>, \<open>Provision\<close>, \<open>Volumes\<close>, \<open>App\<close>: a run of the program (the daemon's world, the host's,
    the log and the output), the steps of \<open>internal/provision\<close>, and the commands of
    \<open>internal/cli/app.go\<close>, \<open>volumes.go\<close>, \<open>secrets.go\<close> and \<open>log.go\<close>.
  \<^item> \<open>Dryrun\<close>, \<open>Status\<close>, \<open>Snapshot\<close>: \<open>internal/cli/dryrun.go\<close>, \<open>status.go\<close> and \<open>snapshot.go\<close>: what a
    run would do, what there is (as a table and as JSON), and the four snapshot commands.
  \<^item> \<open>Wait\<close>, \<open>Discover\<close>: \<open>internal/incus/wait.go\<close>, the two waiting loops over a clock, and
    \<open>internal/project/discover.go\<close>, the search for the project root.
  \<^item> \<open>Root\<close>: \<open>internal/cli/root.go\<close> and \<open>cmd/idev/main.go\<close>: the body of every command of the command
    line, the confirmation, the report of an error and the exit code.
  \<^item> \<open>App_Frame\<close>, \<open>App_Safety\<close>, \<open>App_Up\<close>, \<open>App_Live\<close>: what the commands leave alone, when they
    refuse, what they have done when they succeed and when they do, proved for every client with the
    laws of \<open>daemon\<close> and stated for the in-memory one.

  \<^item> \<open>Server\<close>, \<open>Api\<close>, \<open>Api_Exec\<close>, \<open>Connect\<close>: the client that calls the Incus API (\<open>api.go\<close>,
    \<open>exec_tty.go\<close>, \<open>connect.go\<close>), over a record of the calls of a server; what the REST API documents
    of them is the locale \<open>incus_server\<close>, and what image servers must keep the locale \<open>image_servers\<close>.
    The control connection of a run is a step relation.
  \<^item> \<open>Api_Daemon\<close>: the client has the laws of \<open>daemon\<close> over every such server (a sublocale).
    \<open>Mem_Server\<close> is a server in memory, with operations that take effect when waited for, etags, keys of
    its own, costs and faults, on which both locales are interpreted.
  \<^item> \<open>Api_Safety\<close>, \<open>Over_Api\<close>: what holds of the client whatever the server answers, and the commands
    over it: the composition of the command line, the client and the server.

  \<^item> \<open>Contract\<close>, \<open>Contract_Laws\<close>, \<open>Contract_Api\<close>: \<open>internal/incus/contract/contract.go\<close>, the checks every
    client has to pass, as programs over a client, with the part of Go's \<open>testing\<close> they use. The suite
    runs whole for every client; the in-memory client passes all of it, by evaluation; and a small logic
    of what a check can report shows, from the laws of \<open>daemon\<close>, what it can find in the API client.
  \<^item> \<open>Accepted\<close>: what a declaration that was let through guarantees to everything above: names, keys, paths
    and devices, stated on the declaration and proved from the checks.

  \<^item> \<open>Commands\<close>: the command tree of \<open>root.go\<close> as data, what its commands read from a command line that cobra has
    parsed, and a run from the arguments of the process to its exit code, with cobra as a parameter.
  \<^item> \<open>Signals\<close>: the two goroutines beside a run as step relations: the watch of \<open>main.go\<close> that ends the process
    on the second interrupt, and the one of \<open>exec_tty.go\<close> that follows the size of the window.

  A command is an operation on a session. An error of the Go code is the left result with the state
  reached so far, so partial effects are visible. A context that is cancelled is a fault of the
  in-memory client. Randomness, the clock and the environment enter as arguments.

  The lemmas of each theory give the functional behaviour of its operations on every branch; the
  properties, marked \<open>C\<close> and a number, are the claims a reader should start from. They say that a
  foreign instance is refused, that commands touch their own instance only, that volumes are deleted
  only when recorded and after the instance, that \<open>up\<close> converges, that a restart stays owed until it
  happens, that names are always valid, that secrets are not shown, how steps are selected and run, and
  that what parsing lets through is well-formed and mounts no two disks at one place.

  Bounds. Subordinate ids are compared in 64-bit arithmetic with wrap-around written out; SHA-256 is
  over 32-bit words. No model needs fuel: the loops over data are bounded by it, the search for the
  project root by a measure, and the waiting loops, which for an arbitrary interval may not end, are
  partial functions shown to return with the defaults \<open>waitReady\<close> fills in.

  Not modelled: the Incus library behind the record \<open>server\<close>, the image servers and the
  configuration file of the \<open>incus\<close> command; raw mode and reading the size of a terminal; cobra, which
  parses the command line; starting a process; and the embedded schema with its validator. Each is a
  parameter. Of the contract's checks the arguments of the failure messages are not kept, and as values
  are not shared in the model, its checks that a reading is a detached copy hold by construction.
\<close>

end
